(* ===== verification/Prelude.thy ===== *)
theory Prelude
  imports Complex_Main "HOL-Library.Sublist" "HOL-Library.Code_Target_Numeral"
begin

text \<open>
  Shared vocabulary of the development: the Python built-ins on \<open>str\<close> that the
  repository's code calls (\<open>str.lower\<close>, \<open>str.strip\<close>, the \<open>in\<close> operator on
  strings, \<open>str.isspace\<close>), the truncating \<open>int(float)\<close> conversion, and the
  threshold at which CPython refuses to convert an \<open>int\<close> to a \<open>float\<close>.
  Python strings are modelled as \<open>string\<close>, a list of 8-bit characters, that is
  code points 0--255 (the Latin-1 block); code points above 255 are not modelled.
  The collection \<open>py_defs\<close> gathers the unfolding rules of these built-ins so that
  component proofs and concrete evaluations can say \<open>simp add: py_defs\<close>.
\<close>

named_theorems py_defs "unfolding rules of the modelled Python built-ins"

type_synonym seconds = real

section \<open>Characters\<close>

text \<open>\<open>str.isspace\<close> / the regex class \<open>\s\<close> on code points below 256:
  TAB..CR, the four information separators 0x1C--0x1F, SPACE, NEL (0x85) and NBSP (0xA0).\<close>

definition py_isspace :: "char \<Rightarrow> bool" where
  "py_isspace c \<longleftrightarrow>
     (let n = (of_char c :: nat) in (9 \<le> n \<and> n \<le> 13) \<or> (28 \<le> n \<and> n \<le> 32) \<or> n = 133 \<or> n = 160)"

text \<open>\<open>str.lower\<close> on code points below 256: ASCII capitals and the Latin-1 capitals
  0xC0--0xDE except the multiplication sign 0xD7 move up by 32.\<close>

definition py_is_upper :: "nat \<Rightarrow> bool" where
  "py_is_upper n \<longleftrightarrow> (65 \<le> n \<and> n \<le> 90) \<or> (192 \<le> n \<and> n \<le> 222 \<and> n \<noteq> 215)"

definition py_lower_char :: "char \<Rightarrow> char" where
  "py_lower_char c = (let n = (of_char c :: nat) in if py_is_upper n then char_of (n + 32) else c)"

definition py_lower :: "string \<Rightarrow> string" where
  "py_lower s = map py_lower_char s"

definition py_strip :: "string \<Rightarrow> string" where
  "py_strip s = rev (dropWhile py_isspace (rev (dropWhile py_isspace s)))"

definition is_ascii_digit :: "char \<Rightarrow> bool" where
  "is_ascii_digit c \<longleftrightarrow> (let n = (of_char c :: nat) in 48 \<le> n \<and> n \<le> 57)"

definition digit_value :: "char \<Rightarrow> nat" where
  "digit_value c = of_char c - 48"

declare py_isspace_def [py_defs] py_is_upper_def [py_defs] py_lower_char_def [py_defs]
  py_lower_def [py_defs] py_strip_def [py_defs] is_ascii_digit_def [py_defs] digit_value_def [py_defs]

text \<open>An f-string replacement field of type \<open>Optional[str]\<close>: \<open>None\<close> prints as \<open>None\<close>.\<close>

definition py_str_opt :: "string option \<Rightarrow> string" where
  "py_str_opt x = (case x of None \<Rightarrow> ''None'' | Some s \<Rightarrow> s)"

text \<open>Slices \<open>s[:k]\<close> and \<open>s[k:]\<close>: a negative bound counts from the end and is clamped at 0.\<close>

definition py_slice_to :: "'a list \<Rightarrow> int \<Rightarrow> 'a list" where
  "py_slice_to s k = take (if k < 0 then nat (int (length s) + k) else nat k) s"

definition py_slice_from :: "'a list \<Rightarrow> int \<Rightarrow> 'a list" where
  "py_slice_from s k = drop (if k < 0 then nat (int (length s) + k) else nat k) s"

section \<open>Substring test\<close>

text \<open>\<open>needle in hay\<close> for two strings, as a scan over the start positions.\<close>

fun py_contains :: "string \<Rightarrow> string \<Rightarrow> bool" where
  "py_contains p [] \<longleftrightarrow> p = []"
| "py_contains p (c # cs) \<longleftrightarrow> prefix p (c # cs) \<or> py_contains p cs"

section \<open>Numbers\<close>

text \<open>\<open>int(x)\<close> for a float \<open>x\<close> truncates towards zero.\<close>

definition py_int_of_float :: "real \<Rightarrow> int" where
  "py_int_of_float x = (if 0 \<le> x then \<lfloor>x\<rfloor> else \<lceil>x\<rceil>)"

text \<open>
  CPython converts an \<open>int\<close> to the nearest double and raises \<open>OverflowError\<close> when
  the rounded value is \<open>2^1024\<close> or more in magnitude; with round-half-even this happens
  exactly from \<open>2^1024 - 2^970\<close> on (the midpoint between the largest finite double
  \<open>2^1024 - 2^971\<close> and \<open>2^1024\<close>).
\<close>

definition float_max_int_bound :: int where
  "float_max_int_bound = 2 ^ 1024 - 2 ^ 970"

definition float_int_overflows :: "int \<Rightarrow> bool" where
  "float_int_overflows n \<longleftrightarrow> float_max_int_bound \<le> \<bar>n\<bar>"

declare py_int_of_float_def [py_defs] float_int_overflows_def [py_defs] float_max_int_bound_def [py_defs]

section \<open>Generic lemmas\<close>

lemma triple_collapse: "x = (fst x, fst (snd x), snd (snd x))"
  by simp

lemma find_Some_mem: "find P xs = Some x \<Longrightarrow> x \<in> set xs \<and> P x"
  by (induction xs) (auto split: if_splits)

lemma py_contains_iff_sublist: "py_contains p s \<longleftrightarrow> sublist p s"
  by (induction s) (auto simp: sublist_Cons_right)

lemma py_lower_char_idem [simp]: "py_lower_char (py_lower_char c) = py_lower_char c"
proof -
  have "\<not> py_is_upper ((of_char c + 32) mod 256)" if "py_is_upper (of_char c)"
    using that nat_of_char_less_256 [of c] by (auto simp: py_is_upper_def)
  then show ?thesis
    by (auto simp: py_lower_char_def Let_def)
qed

lemma char_eq_char_of_iff [simp]:
  "c = char_of n \<longleftrightarrow> (of_char c :: nat) = n mod 256"
  "char_of n = c \<longleftrightarrow> (of_char c :: nat) = n mod 256"
  by (metis of_char_eq_iff of_char_of)+

lemma py_lower_idem [simp]: "py_lower (py_lower s) = py_lower s"
  by (simp add: py_lower_def comp_def)

lemma length_py_lower [simp]: "length (py_lower s) = length s"
  by (simp add: py_lower_def)

lemma py_int_of_float_nonneg [simp]: "0 \<le> x \<Longrightarrow> py_int_of_float x = \<lfloor>x\<rfloor>"
  by (simp add: py_int_of_float_def)

lemma power2_le_float_bound_iff: "float_int_overflows (2 ^ k) \<longleftrightarrow> 1024 \<le> k"
proof
  assume "float_int_overflows (2 ^ k)"
  then have "(2::int) ^ 1024 - 2 ^ 970 \<le> 2 ^ k"
    by (simp add: float_int_overflows_def float_max_int_bound_def)
  moreover have "(2::int) ^ k \<le> 2 ^ 1023" if "k \<le> 1023"
    using power_increasing [OF that, of "2::int"] by simp
  ultimately show "1024 \<le> k" by force
next
  assume "1024 \<le> k"
  then have "(2::int) ^ 1024 \<le> 2 ^ k" by (rule power_increasing) simp
  then show "float_int_overflows (2 ^ k)"
    by (simp add: float_int_overflows_def float_max_int_bound_def)
qed

end
