(* ===== verification/PyInt.thy ===== *)
theory PyInt
  imports Prelude
begin

text \<open>
  CPython's \<open>int(s)\<close> for a \<open>str\<close> in base 10, as the rate limiter calls it on the
  captured reset timestamp (\<open>src/AIAgentWorkshop-New/utils/rate_limiter.py\<close>, line 51)
  and the configuration calls it on \<open>MAX_TOKENS\<close>: surrounding whitespace is stripped,
  one optional sign is read, then decimal digits in which single underscores may separate
  two digits; any other text raises \<open>ValueError\<close>, modelled as \<open>None\<close>. CPython 3.11
  and later also refuse more than 4300 digits (\<open>sys.int_info.default_max_str_digits\<close>),
  again with \<open>ValueError\<close>. \<open>py_str_int\<close> is \<open>str(n)\<close> for an \<open>int\<close>, and the
  round trip \<open>int(str(n)) = n\<close> is proved for every \<open>n\<close> with at most 4300 digits.
  \<open>py_float\<close> is \<open>float(s)\<close> for a \<open>str\<close>, as both configuration modules call it on
  \<open>TEMPERATURE\<close>: after stripping and an optional sign, the case-insensitive words
  \<open>inf\<close>, \<open>infinity\<close> and \<open>nan\<close>, or a decimal literal with optional fraction and
  exponent (digit groups may use single underscores); anything else raises \<open>ValueError\<close>.
  A finite literal keeps its exact decimal value (sign, digits, exponent). The rounding to the
  nearest double is not modelled, nor is the overflow to infinity past the double range;
  the repository only stores and compares such values.
\<close>

fun py_digit_run :: "string \<Rightarrow> nat list option" where
  "py_digit_run [] = Some []"
| "py_digit_run (c # cs) =
     (if is_ascii_digit c then map_option (Cons (digit_value c)) (py_digit_run cs)
      else if c = CHR ''_'' then
        (case cs of
           d # ds \<Rightarrow> if is_ascii_digit d then map_option (Cons (digit_value d)) (py_digit_run ds) else None
         | [] \<Rightarrow> None)
      else None)"

definition py_int_digits :: "string \<Rightarrow> nat list option" where
  "py_int_digits s = (case s of c # _ \<Rightarrow> if is_ascii_digit c then py_digit_run s else None | [] \<Rightarrow> None)"

definition digits_to_nat :: "nat list \<Rightarrow> nat" where
  "digits_to_nat ds = foldl (\<lambda>acc d. 10 * acc + d) 0 ds"

definition py_int_max_str_digits :: nat where
  "py_int_max_str_digits = 4300"

definition py_sign_split :: "string \<Rightarrow> int \<times> string" where
  "py_sign_split t =
     (case t of
        c # r \<Rightarrow> if c = CHR ''-'' then (-1, r) else if c = CHR ''+'' then (1, r) else (1, t)
      | [] \<Rightarrow> (1, t))"

definition py_int :: "string \<Rightarrow> int option" where
  "py_int s =
     (let (sign, body) = py_sign_split (py_strip s) in
      case py_int_digits body of
        None \<Rightarrow> None
      | Some ds \<Rightarrow> if py_int_max_str_digits < length ds then None
                  else Some (sign * int (digits_to_nat ds)))"

subsection \<open>\<open>str(n)\<close>\<close>

fun nat_to_digits :: "nat \<Rightarrow> nat list" where
  "nat_to_digits n = (if n < 10 then [n] else nat_to_digits (n div 10) @ [n mod 10])"

declare nat_to_digits.simps [simp del]

definition digit_char :: "nat \<Rightarrow> char" where
  "digit_char d = char_of (48 + d)"

definition py_str_int :: "int \<Rightarrow> string" where
  "py_str_int i =
     (if i < 0 then CHR ''-'' # map digit_char (nat_to_digits (nat (- i)))
      else map digit_char (nat_to_digits (nat i)))"

subsection \<open>\<open>float(s)\<close>\<close>

text \<open>A float: a finite value \<open>Finite neg m e\<close> is \<open>(-1)^neg * m * 10^e\<close> (so \<open>-0.0\<close> is kept
  apart from \<open>0.0\<close>), or a signed infinity, or NaN.\<close>

datatype py_float = Finite bool nat int | Infinity bool | NaN

text \<open>Splits at the first character satisfying \<open>P\<close>, dropping it; \<open>None\<close> when there is none.\<close>

definition split_first :: "(char \<Rightarrow> bool) \<Rightarrow> string \<Rightarrow> string \<times> string option" where
  "split_first P s = (takeWhile (\<lambda>c. \<not> P c) s, case dropWhile (\<lambda>c. \<not> P c) s of [] \<Rightarrow> None | _ # r \<Rightarrow> Some r)"

definition scale10 :: "int \<Rightarrow> real" where
  "scale10 k = (if 0 \<le> k then 10 ^ nat k else 1 / 10 ^ nat (- k))"

definition float_value :: "bool \<Rightarrow> nat \<Rightarrow> int \<Rightarrow> real" where
  "float_value neg m e = (if neg then -1 else 1) * real m * scale10 e"

definition py_float_decimal :: "string \<Rightarrow> (nat \<times> int) option" where
  "py_float_decimal b =
     (let (mant, ex) = split_first (\<lambda>c. c = CHR ''e'' \<or> c = CHR ''E'') b;
          (ip, fp) = split_first (\<lambda>c. c = CHR ''.'') mant;
          idig = (if ip = [] then Some [] else py_int_digits ip);
          fdig = (case fp of None \<Rightarrow> Some [] | Some f \<Rightarrow> if f = [] then Some [] else py_int_digits f);
          edig = (case ex of None \<Rightarrow> Some 0
                  | Some e \<Rightarrow> (let (sg, eb) = py_sign_split e in
                               map_option (\<lambda>ds. sg * int (digits_to_nat ds)) (py_int_digits eb)))
      in case (idig, fdig, edig) of
           (Some i, Some f, Some k) \<Rightarrow>
             if i = [] \<and> f = [] then None
             else Some (digits_to_nat (i @ f), k - int (length f))
         | _ \<Rightarrow> None)"

definition py_float :: "string \<Rightarrow> py_float option" where
  "py_float s =
     (let (sign, body) = py_sign_split (py_strip s); w = py_lower body in
      if w = ''inf'' \<or> w = ''infinity'' then Some (Infinity (sign < 0))
      else if w = ''nan'' then Some NaN
      else map_option (\<lambda>(m, e). Finite (sign < 0) m e) (py_float_decimal body))"

subsection \<open>Lemmas\<close>

lemma nat_to_digits_nonempty [simp]: "nat_to_digits n \<noteq> []"
  by (subst nat_to_digits.simps) simp

lemma py_str_int_nonempty [simp]: "py_str_int i \<noteq> []"
  by (simp add: py_str_int_def)

lemma nat_to_digits_lt10: "d \<in> set (nat_to_digits n) \<Longrightarrow> d < 10"
proof (induction n rule: nat_to_digits.induct)
  case (1 n)
  then show ?case
    by (cases "n < 10") (auto simp: nat_to_digits.simps [of n])
qed

lemma digits_to_nat_snoc: "digits_to_nat (ds @ [d]) = 10 * digits_to_nat ds + d"
  by (simp add: digits_to_nat_def)

lemma digits_to_nat_nat_to_digits [simp]: "digits_to_nat (nat_to_digits n) = n"
proof (induction n rule: nat_to_digits.induct)
  case (1 n)
  then show ?case
    by (cases "n < 10") (auto simp: nat_to_digits.simps [of n] digits_to_nat_snoc digits_to_nat_def)
qed

lemma digit_char_props:
  assumes "d < 10"
  shows "is_ascii_digit (digit_char d)" and "digit_value (digit_char d) = d"
    and "\<not> py_isspace (digit_char d)" and "digit_char d \<noteq> CHR ''-''" and "digit_char d \<noteq> CHR ''+''"
proof -
  have o: "(of_char (digit_char d) :: nat) = 48 + d"
    using assms by (simp add: digit_char_def)
  show "is_ascii_digit (digit_char d)" and "digit_value (digit_char d) = d"
    and "\<not> py_isspace (digit_char d)"
    using assms by (simp_all add: o py_defs)
  show "digit_char d \<noteq> CHR ''-''" and "digit_char d \<noteq> CHR ''+''"
    using o assms by (auto dest: arg_cong [where f = "of_char :: char \<Rightarrow> nat"])
qed

lemma py_digit_run_digits: "\<forall>d \<in> set ds. d < 10 \<Longrightarrow> py_digit_run (map digit_char ds) = Some ds"
  by (induction ds) (simp_all add: digit_char_props)

lemma py_strip_no_space_ends:
  assumes "s \<noteq> []" "\<not> py_isspace (hd s)" "\<not> py_isspace (last s)"
  shows "py_strip s = s"
proof -
  have "dropWhile py_isspace s = s"
    using assms by (cases s) simp_all
  moreover have "dropWhile py_isspace (rev s) = rev s"
    using assms by (cases "rev s") (simp_all add: hd_rev [symmetric])
  ultimately show ?thesis by (simp add: py_strip_def)
qed

lemma py_int_digit_string:
  assumes "\<forall>d \<in> set ds. d < 10" "ds \<noteq> []"
  shows "py_int_digits (map digit_char ds) = Some ds"
  using assms by (cases ds) (simp_all add: py_int_digits_def digit_char_props py_digit_run_digits)

lemma py_str_int_shape:
  "py_str_int i \<noteq> [] \<and> \<not> py_isspace (hd (py_str_int i)) \<and> \<not> py_isspace (last (py_str_int i))"
proof -
  let ?ds = "nat_to_digits (nat \<bar>i\<bar>)"
  have lt: "\<forall>d \<in> set ?ds. d < 10" using nat_to_digits_lt10 by blast
  have "\<not> py_isspace (digit_char (last ?ds))" and "\<not> py_isspace (digit_char (hd ?ds))"
    using lt by (simp_all add: digit_char_props)
  moreover have "\<not> py_isspace (CHR ''-'')" by (simp add: py_defs)
  ultimately show ?thesis
    by (auto simp: py_str_int_def last_map hd_map)
qed

lemma py_int_py_str_int:
  assumes "length (nat_to_digits (nat \<bar>i\<bar>)) \<le> py_int_max_str_digits"
  shows "py_int (py_str_int i) = Some i"
proof -
  let ?ds = "nat_to_digits (nat \<bar>i\<bar>)"
  have lt: "\<forall>d \<in> set ?ds. d < 10" using nat_to_digits_lt10 by blast
  have strip: "py_strip (py_str_int i) = py_str_int i"
    using py_str_int_shape [of i] by (simp add: py_strip_no_space_ends)
  have digits: "py_int_digits (map digit_char ?ds) = Some ?ds"
    using lt by (simp add: py_int_digit_string)
  have hd_ok: "hd (map digit_char ?ds) \<noteq> CHR ''-'' \<and> hd (map digit_char ?ds) \<noteq> CHR ''+''"
    using lt by (simp add: hd_map digit_char_props)
  have unf: "py_int (py_str_int i) =
      (let (sign, body) = py_sign_split (py_str_int i) in
       case py_int_digits body of
         None \<Rightarrow> None
       | Some ds \<Rightarrow> if py_int_max_str_digits < length ds then None
                   else Some (sign * int (digits_to_nat ds)))"
    by (simp only: py_int_def strip)
  show ?thesis
  proof (cases "i < 0")
    case True
    then show ?thesis
      unfolding unf using assms digits by (simp add: py_str_int_def py_sign_split_def)
  next
    case False
    then have "py_sign_split (map digit_char ?ds) = (1, map digit_char ?ds)"
      using hd_ok by (cases "map digit_char ?ds") (simp_all add: py_sign_split_def)
    then show ?thesis
      unfolding unf using False assms digits by (simp add: py_str_int_def)
  qed
qed

end
