(* ===== verification/RateLimiter.thy ===== *)
theory RateLimiter
  imports PyInt
begin

text \<open>
  The retry executor of \<open>src/AIAgentWorkshop-New/utils/rate_limiter.py\<close>: class
  \<open>RateLimiter\<close> (lines 13--127) and the module-level default instance (lines 154--164).
  The object's fields are the record \<open>rate_limiter\<close>. What the code reads from or does to
  the outside world is the record \<open>world\<close>: the clock read by \<open>time.time()\<close> and
  advanced by \<open>time.sleep\<close>, the stream of \<open>random.random()\<close> draws, the times at
  which the wrapped operation was started, the sleeps performed and the log records emitted.
  The wrapped operation is a function from the attempt index to its outcome (an error
  \<open>Inl e\<close> or a result \<open>Inr r\<close>) and the time it took; \<open>str(e)\<close> is a parameter
  \<open>str_of\<close>. Floats are modelled as reals: rounding and infinities are not modelled, the
  float-conversion \<open>OverflowError\<close>s of CPython are.
\<close>

section \<open>State, world and errors\<close>

record rate_limiter =
  max_retries :: int
  base_delay :: real
  max_delay :: real
  last_request_time :: real
  request_count :: int

text \<open>Log records of \<open>call_with_retry\<close> (lines 102, 111, 116, 121).\<close>

datatype log_entry =
    Info_recovered nat
  | Error_non_rate_limit string
  | Error_exhausted int string
  | Warning_retry nat int real string

record world =
  clock :: real
  rand :: "nat \<Rightarrow> real"
  draws :: nat
  invocations :: "real list"
  sleeps :: "real list"
  log :: "log_entry list"

text \<open>Errors a call can end with: the wrapped operation's own error object, re-raised
  unchanged, or an error raised by the executor's own code.\<close>

datatype runtime_error = TypeError_raise_None | OverflowError_int_to_float

datatype 'e exc = Raised 'e | Runtime runtime_error

definition rate_limiter_init :: "int \<Rightarrow> real \<Rightarrow> real \<Rightarrow> rate_limiter" where
  "rate_limiter_init mr bd md =
     \<lparr>max_retries = mr, base_delay = bd, max_delay = md, last_request_time = 0, request_count = 0\<rparr>"

section \<open>The world's operations\<close>

definition time_sleep :: "real \<Rightarrow> world \<Rightarrow> world" where
  "time_sleep d w = w\<lparr>clock := clock w + d, sleeps := sleeps w @ [d]\<rparr>"

definition random_random :: "world \<Rightarrow> real \<times> world" where
  "random_random w = (rand w (draws w), w\<lparr>draws := Suc (draws w)\<rparr>)"

definition emit :: "log_entry \<Rightarrow> world \<Rightarrow> world" where
  "emit e w = w\<lparr>log := log w @ [e]\<rparr>"

text \<open>A well-formed world draws \<open>random.random()\<close> values from \<open>[0, 1)\<close>.\<close>

definition rand_ok :: "world \<Rightarrow> bool" where
  "rand_ok w \<longleftrightarrow> (\<forall>n. 0 \<le> rand w n \<and> rand w n < 1)"

section \<open>Failure classification (\<open>_is_rate_limit_error\<close>, lines 60--65)\<close>

definition rate_limit_keywords :: "string list" where
  "rate_limit_keywords = [''rate limit'', ''429'', ''too many requests'', ''quota exceeded'']"

definition is_rate_limit_error :: "string \<Rightarrow> bool" where
  "is_rate_limit_error msg \<longleftrightarrow> list_ex (\<lambda>k. py_contains k (py_lower msg)) rate_limit_keywords"

section \<open>Reset-hint extraction (\<open>_extract_retry_after\<close>, lines 43--58)\<close>

text \<open>
  The pattern \<^verbatim>\<open>X-RateLimit-Reset["']:\s*["']([^"']+)["']\<close> at one start position.
  The match is deterministic: after the greedy \<open>\s*\<close> a quote must follow, and after the
  greedy group \<open>[^"']+\<close> a quote must follow, so giving back characters never helps.
\<close>

definition is_quote :: "char \<Rightarrow> bool" where
  "is_quote c \<longleftrightarrow> c = CHR 0x22 \<or> c = CHR 0x27"

definition reset_header :: string where
  "reset_header = ''X-RateLimit-Reset''"

definition reset_match_at :: "string \<Rightarrow> string option" where
  "reset_match_at s =
     (if prefix reset_header s then
        (case drop (length reset_header) s of
           q # c # r \<Rightarrow>
             if is_quote q \<and> c = CHR '':'' then
               (case dropWhile py_isspace r of
                  q' # r' \<Rightarrow>
                    if is_quote q' then
                      (let g = takeWhile (\<lambda>x. \<not> is_quote x) r' in
                       if g \<noteq> [] \<and> length g < length r' then Some g else None)
                    else None
                | [] \<Rightarrow> None)
             else None
         | _ \<Rightarrow> None)
      else None)"

text \<open>\<open>re.search\<close>: the leftmost start position at which the pattern matches.\<close>

fun reset_search :: "string \<Rightarrow> string option" where
  "reset_search [] = None"
| "reset_search (c # cs) =
     (case reset_match_at (c # cs) of Some g \<Rightarrow> Some g | None \<Rightarrow> reset_search cs)"

text \<open>
  \<open>int(group)\<close> raising \<open>ValueError\<close> is caught (line 55); the division
  \<open>(reset_timestamp - current_time) / 1000.0\<close> converts the \<open>int\<close> difference to a
  float first and raises \<open>OverflowError\<close> for a difference beyond the float range, which
  the \<open>except (ValueError, IndexError)\<close> clause does not catch.
\<close>

definition extract_retry_after :: "string \<Rightarrow> seconds \<Rightarrow> runtime_error + seconds option" where
  "extract_retry_after msg now =
     (case reset_search msg of
        None \<Rightarrow> Inr None
      | Some g \<Rightarrow>
          (case py_int g of
             None \<Rightarrow> Inr None
           | Some reset_timestamp \<Rightarrow>
               (let current_time = py_int_of_float (now * 1000) in
                if current_time < reset_timestamp then
                  (if float_int_overflows (reset_timestamp - current_time)
                   then Inl OverflowError_int_to_float
                   else Inr (Some (real_of_int (reset_timestamp - current_time) / 1000)))
                else Inr None)))"

section \<open>Backoff (\<open>_calculate_delay\<close>, lines 23--41)\<close>

text \<open>The base of the delay: the hint when it is truthy, otherwise
  \<open>base_delay * 2 ** attempt\<close>, whose \<open>int\<close> factor is converted to a float.\<close>

definition backoff_base :: "rate_limiter \<Rightarrow> nat \<Rightarrow> seconds option \<Rightarrow> runtime_error + seconds" where
  "backoff_base rl attempt retry_after =
     (case retry_after of
        Some d \<Rightarrow> if d \<noteq> 0 then Inr d
                  else if float_int_overflows (2 ^ attempt) then Inl OverflowError_int_to_float
                  else Inr (base_delay rl * 2 ^ attempt)
      | None \<Rightarrow> if float_int_overflows (2 ^ attempt) then Inl OverflowError_int_to_float
                else Inr (base_delay rl * 2 ^ attempt))"

text \<open>Jitter of \<open>delay * 0.25 * (u * 2 - 1)\<close> for the draw \<open>u\<close>, then the cap
  \<open>min(delay, max_delay)\<close> and the floor \<open>max(delay, 0.1)\<close>.\<close>

definition jittered :: "seconds \<Rightarrow> real \<Rightarrow> seconds" where
  "jittered delay u = delay + delay * 0.25 * (u * 2 - 1)"

definition clamp_delay :: "rate_limiter \<Rightarrow> seconds \<Rightarrow> seconds" where
  "clamp_delay rl d = max (min d (max_delay rl)) 0.1"

definition calculate_delay ::
  "rate_limiter \<Rightarrow> nat \<Rightarrow> string \<Rightarrow> world \<Rightarrow> (runtime_error + seconds) \<times> world" where
  "calculate_delay rl attempt msg w =
     (case extract_retry_after msg (clock w) of
        Inl err \<Rightarrow> (Inl err, w)
      | Inr retry_after \<Rightarrow>
          (case backoff_base rl attempt retry_after of
             Inl err \<Rightarrow> (Inl err, w)
           | Inr delay \<Rightarrow>
               (let (u, w') = random_random w in (Inr (clamp_delay rl (jittered delay u)), w'))))"

section \<open>The retry loop (\<open>call_with_retry\<close>, lines 67--127)\<close>

definition min_interval :: seconds where
  "min_interval = 0.2"

text \<open>Pacing (lines 87--92): sleep until \<open>min_interval\<close> has passed since the last start.\<close>

definition pace :: "rate_limiter \<Rightarrow> world \<Rightarrow> world" where
  "pace rl w =
     (let time_since_last = clock w - last_request_time rl in
      if time_since_last < min_interval then time_sleep (min_interval - time_since_last) w else w)"

text \<open>Lines 94--95: record the start time and count the attempt.\<close>

definition start_attempt :: "rate_limiter \<Rightarrow> world \<Rightarrow> rate_limiter" where
  "start_attempt rl w = rl\<lparr>last_request_time := clock w, request_count := request_count rl + 1\<rparr>"

text \<open>Line 98: the operation starts at the current time and takes \<open>dur\<close> seconds.\<close>

definition invoke :: "seconds \<Rightarrow> world \<Rightarrow> world" where
  "invoke dur w = w\<lparr>invocations := invocations w @ [clock w], clock := clock w + dur\<rparr>"

text \<open>One iteration of the \<open>for\<close> loop either ends the call (a \<open>return\<close> or a
  \<open>raise\<close>) or goes on to the next attempt after the backoff sleep.\<close>

datatype ('e, 'a) step_result =
    Done "'e exc + 'a" rate_limiter world
  | Retry 'e rate_limiter world

definition attempt_step ::
  "('e \<Rightarrow> string) \<Rightarrow> (nat \<Rightarrow> ('e + 'a) \<times> seconds) \<Rightarrow> nat \<Rightarrow> rate_limiter \<Rightarrow> world \<Rightarrow> ('e, 'a) step_result" where
  "attempt_step str_of func attempt rl w =
     (let w1 = pace rl w;
          rl1 = start_attempt rl w1;
          (outcome, dur) = func attempt;
          w2 = invoke dur w1
      in case outcome of
           Inr result \<Rightarrow> Done (Inr result) rl1 (if 0 < attempt then emit (Info_recovered attempt) w2 else w2)
         | Inl e \<Rightarrow>
             if \<not> is_rate_limit_error (str_of e) then
               Done (Inl (Raised e)) rl1 (emit (Error_non_rate_limit (str_of e)) w2)
             else if int attempt = max_retries rl1 then
               Done (Inl (Raised e)) rl1 (emit (Error_exhausted (max_retries rl1) (str_of e)) w2)
             else
               (case calculate_delay rl1 attempt (str_of e) w2 of
                  (Inl err, w3) \<Rightarrow> Done (Inl (Runtime err)) rl1 w3
                | (Inr delay, w3) \<Rightarrow>
                    Retry e rl1 (time_sleep delay
                      (emit (Warning_retry (Suc attempt) (max_retries rl1 + 1) delay (str_of e)) w3))))"

text \<open>The loop over \<open>range(self.max_retries + 1)\<close>, with the number of iterations
  left as the recursion argument; falling out of the loop raises \<open>last_exception\<close>
  (line 127), which is \<open>None\<close> when the range was empty, and \<open>raise None\<close> is a
  \<open>TypeError\<close>.\<close>

fun retry_loop ::
  "('e \<Rightarrow> string) \<Rightarrow> (nat \<Rightarrow> ('e + 'a) \<times> seconds) \<Rightarrow> nat \<Rightarrow> nat \<Rightarrow> 'e option \<Rightarrow> rate_limiter \<Rightarrow> world
   \<Rightarrow> ('e exc + 'a) \<times> rate_limiter \<times> world" where
  "retry_loop str_of func attempt 0 last_exception rl w =
     ((case last_exception of
         None \<Rightarrow> Inl (Runtime TypeError_raise_None)
       | Some e \<Rightarrow> Inl (Raised e)), rl, w)"
| "retry_loop str_of func attempt (Suc n) last_exception rl w =
     (case attempt_step str_of func attempt rl w of
        Done r rl' w' \<Rightarrow> (r, rl', w')
      | Retry e rl' w' \<Rightarrow> retry_loop str_of func (Suc attempt) n (Some e) rl' w')"

definition call_with_retry ::
  "('e \<Rightarrow> string) \<Rightarrow> (nat \<Rightarrow> ('e + 'a) \<times> seconds) \<Rightarrow> rate_limiter \<Rightarrow> world
   \<Rightarrow> ('e exc + 'a) \<times> rate_limiter \<times> world" where
  "call_with_retry str_of func rl w = retry_loop str_of func 0 (nat (max_retries rl + 1)) None rl w"

section \<open>The module-level default instance (lines 154--164)\<close>

definition default_rate_limiter :: rate_limiter where
  "default_rate_limiter = rate_limiter_init 3 1 60"

definition get_rate_limiter :: "rate_limiter \<Rightarrow> rate_limiter" where
  "get_rate_limiter global = global"

definition set_global_rate_limits :: "int \<Rightarrow> real \<Rightarrow> real \<Rightarrow> rate_limiter \<Rightarrow> rate_limiter" where
  "set_global_rate_limits mr bd md global = rate_limiter_init mr bd md"

section \<open>The abstract retry automaton\<close>

text \<open>
  What the executor promises, stated without time, logs or randomness: attempt \<open>i\<close>
  with \<open>n\<close> retries left ends the call with a success, with a non-retriable error, or
  with a retriable error when no retry is left; otherwise attempt \<open>i + 1\<close> follows.
  The second component is the number of attempts made.
\<close>

fun retry_spec :: "('e \<Rightarrow> bool) \<Rightarrow> (nat \<Rightarrow> 'e + 'a) \<Rightarrow> nat \<Rightarrow> nat \<Rightarrow> ('e + 'a) \<times> nat" where
  "retry_spec retriable outcome i 0 = (outcome i, Suc i)"
| "retry_spec retriable outcome i (Suc n) =
     (case outcome i of
        Inr a \<Rightarrow> (Inr a, Suc i)
      | Inl e \<Rightarrow> if retriable e then retry_spec retriable outcome (Suc i) n else (Inl e, Suc i))"

text \<open>The retry automaton instantiated with the executor's classification.\<close>

abbreviation spec_of :: "('e \<Rightarrow> string) \<Rightarrow> (nat \<Rightarrow> ('e + 'a) \<times> seconds) \<Rightarrow> nat \<Rightarrow> nat \<Rightarrow> ('e + 'a) \<times> nat" where
  "spec_of str_of func \<equiv> retry_spec (\<lambda>e. is_rate_limit_error (str_of e)) (\<lambda>j. fst (func j))"

text \<open>A sequence of start times is paced after \<open>t\<close> when each start is at least
  \<open>min_interval\<close> after the one before.\<close>

fun paced :: "real \<Rightarrow> real list \<Rightarrow> bool" where
  "paced t [] = True"
| "paced t (x # xs) \<longleftrightarrow> t + min_interval \<le> x \<and> paced x xs"

text \<open>A retriable error whose message carries no reset hint.\<close>

definition retriable_hint_free :: "('e \<Rightarrow> string) \<Rightarrow> ('e + 'a) \<Rightarrow> bool" where
  "retriable_hint_free str_of r \<longleftrightarrow>
     (case r of Inl e \<Rightarrow> is_rate_limit_error (str_of e) \<and> reset_search (str_of e) = None | Inr _ \<Rightarrow> False)"

text \<open>A JSON rendering of the reset header, as a provider's error body carries it.\<close>

definition reset_hint_json :: "int \<Rightarrow> string" where
  "reset_hint_json ts =
     CHR 0x22 # reset_header @ CHR 0x22 # CHR '':'' # CHR '' '' # CHR 0x22 # py_str_int ts @ [CHR 0x22]"

subsection \<open>Fixtures: the scenarios of the specification\<close>

definition scenario_world :: world where
  "scenario_world = \<lparr>clock = 1700000000, rand = (\<lambda>_. 0.5), draws = 0, invocations = [], sleeps = [], log = []\<rparr>"

definition scenario_A_op :: "nat \<Rightarrow> (string + string) \<times> seconds" where
  "scenario_A_op i = (if i < 3 then (Inl ''429 Too Many Requests'', 0.5) else (Inr ''ok'', 0.5))"

definition scenario_B_op :: "nat \<Rightarrow> (string + string) \<times> seconds" where
  "scenario_B_op i = (Inl ''Invalid API key'', 0.5)"

definition scenario_C_op :: "nat \<Rightarrow> (string + string) \<times> seconds" where
  "scenario_C_op i = (Inl ''rate limit exceeded'', 0.5)"

definition huge_reset_timestamp :: int where
  "huge_reset_timestamp = 10 ^ 400"

section \<open>Lemmas: the world's operations\<close>

lemma world_op_fields [simp]:
  "clock (time_sleep d w) = clock w + d" "sleeps (time_sleep d w) = sleeps w @ [d]"
  "invocations (time_sleep d w) = invocations w" "draws (time_sleep d w) = draws w"
  "rand (time_sleep d w) = rand w" "log (time_sleep d w) = log w"
  "clock (emit e w) = clock w" "sleeps (emit e w) = sleeps w" "invocations (emit e w) = invocations w"
  "draws (emit e w) = draws w" "rand (emit e w) = rand w" "log (emit e w) = log w @ [e]"
  "clock (invoke t w) = clock w + t" "sleeps (invoke t w) = sleeps w"
  "invocations (invoke t w) = invocations w @ [clock w]" "draws (invoke t w) = draws w"
  "rand (invoke t w) = rand w" "log (invoke t w) = log w"
  by (simp_all add: time_sleep_def emit_def invoke_def)

lemma start_attempt_fields [simp]:
  "max_retries (start_attempt rl w) = max_retries rl" "base_delay (start_attempt rl w) = base_delay rl"
  "max_delay (start_attempt rl w) = max_delay rl" "last_request_time (start_attempt rl w) = clock w"
  "request_count (start_attempt rl w) = request_count rl + 1"
  by (simp_all add: start_attempt_def)

text \<open>Pacing only sleeps, by a positive amount, and ends at least \<open>min_interval\<close>
  after the last start.\<close>

lemma pace_cases:
  "pace rl w = w \<and> last_request_time rl + min_interval \<le> clock w
   \<or> pace rl w = time_sleep (min_interval - (clock w - last_request_time rl)) w
     \<and> 0 < min_interval - (clock w - last_request_time rl)
     \<and> clock (pace rl w) = last_request_time rl + min_interval"
  by (auto simp: pace_def Let_def)

lemma pace_fields [simp]:
  "invocations (pace rl w) = invocations w" "draws (pace rl w) = draws w"
  "rand (pace rl w) = rand w" "log (pace rl w) = log w"
  by (simp_all add: pace_def Let_def)

lemma pace_clock: "last_request_time rl + min_interval \<le> clock (pace rl w)"
  using pace_cases [of rl w] by auto

lemma pace_sleeps: "\<exists>ds. sleeps (pace rl w) = sleeps w @ ds \<and> (\<forall>d \<in> set ds. 0 < d)"
  using pace_cases [of rl w] by (metis append.right_neutral empty_iff empty_set set_ConsD world_op_fields(2))

section \<open>Lemmas: backoff\<close>

lemma clamp_delay_bounds: "0.1 \<le> clamp_delay rl d \<and> clamp_delay rl d \<le> max (max_delay rl) 0.1"
  by (simp add: clamp_delay_def)

text \<open>The jitter is symmetric: the draws \<open>u\<close> and \<open>1 - u\<close> move the delay by opposite
  amounts, so a uniform draw centres the jittered delay on the base; and it stays within
  \<open>25%\<close> of the base for draws in \<open>[0, 1)\<close>.\<close>

lemma jittered_symmetric: "jittered d u + jittered d (1 - u) = 2 * d"
  by (simp add: jittered_def algebra_simps)

lemma jittered_band:
  assumes "0 \<le> d" "0 \<le> u" "u < 1"
  shows "0.75 * d \<le> jittered d u \<and> jittered d u \<le> 1.25 * d"
proof -
  have "d * (-1) \<le> d * (u * 2 - 1)" by (rule mult_left_mono) (use assms in auto)
  moreover have "d * (u * 2 - 1) \<le> d * 1" by (rule mult_left_mono) (use assms in auto)
  ultimately show ?thesis by (simp add: jittered_def)
qed

lemma extract_retry_after_pos: "extract_retry_after msg now = Inr (Some d) \<Longrightarrow> 0 < d"
  by (auto simp: extract_retry_after_def Let_def split: option.splits if_splits)

lemma calculate_delay_Inl:
  "calculate_delay rl a msg w = (Inl err, w') \<Longrightarrow> w' = w \<and> err = OverflowError_int_to_float"
  by (auto simp: calculate_delay_def extract_retry_after_def backoff_base_def Let_def random_random_def
      split: option.splits if_splits sum.splits prod.splits)

lemma calculate_delay_Inr:
  assumes "calculate_delay rl a msg w = (Inr d, w')"
  shows "\<exists>ra base. extract_retry_after msg (clock w) = Inr ra \<and> backoff_base rl a ra = Inr base
     \<and> d = clamp_delay rl (jittered base (rand w (draws w))) \<and> w' = w\<lparr>draws := Suc (draws w)\<rparr>"
  using assms by (auto simp: calculate_delay_def random_random_def split: sum.splits prod.splits)

lemma calculate_delay_bounds:
  "calculate_delay rl a msg w = (Inr d, w') \<Longrightarrow> 0.1 \<le> d \<and> d \<le> max (max_delay rl) 0.1"
  by (metis calculate_delay_Inr clamp_delay_bounds)

text \<open>Without a usable hint the delay is the jittered, clamped exponential backoff;
  with a future hint it is the jittered, clamped hint.\<close>

lemma calculate_delay_no_hint:
  assumes "extract_retry_after msg (clock w) = Inr None" "a < 1024"
  shows "calculate_delay rl a msg w =
           (Inr (clamp_delay rl (jittered (base_delay rl * 2 ^ a) (rand w (draws w)))),
            w\<lparr>draws := Suc (draws w)\<rparr>)"
proof -
  have "\<not> float_int_overflows (2 ^ a)" using assms(2) power2_le_float_bound_iff by simp
  then show ?thesis
    using assms(1) by (simp add: calculate_delay_def backoff_base_def random_random_def)
qed

lemma calculate_delay_hint:
  assumes "extract_retry_after msg (clock w) = Inr (Some d)"
  shows "calculate_delay rl a msg w =
           (Inr (clamp_delay rl (jittered d (rand w (draws w)))), w\<lparr>draws := Suc (draws w)\<rparr>)"
  using assms extract_retry_after_pos [OF assms]
  by (simp add: calculate_delay_def backoff_base_def random_random_def)

section \<open>Lemmas: one attempt\<close>

lemma calculate_delay_Inr_facts:
  assumes "calculate_delay rl a msg w = (Inr d, w')"
  shows "sleeps w' = sleeps w \<and> invocations w' = invocations w \<and> log w' = log w
    \<and> 0.1 \<le> d \<and> d \<le> max (max_delay rl) 0.1"
  using calculate_delay_Inr [OF assms] calculate_delay_bounds [OF assms] by auto

lemma attempt_step_Done:
  assumes "attempt_step str_of func i rl w = Done r rl' w'"
  shows "rl' = start_attempt rl (pace rl w)
    \<and> invocations w' = invocations w @ [clock (pace rl w)] \<and> sleeps w' = sleeps (pace rl w)
    \<and> (r = Inl (Runtime OverflowError_int_to_float)
       \<or> r = map_sum Raised id (fst (func i))
         \<and> (\<forall>e. fst (func i) = Inl e \<longrightarrow> \<not> is_rate_limit_error (str_of e) \<or> int i = max_retries rl))"
  using assms
  by (auto simp: attempt_step_def Let_def split: prod.splits sum.splits if_splits dest: calculate_delay_Inl)

lemma attempt_step_Retry:
  assumes "attempt_step str_of func i rl w = Retry e rl' w'"
  shows "rl' = start_attempt rl (pace rl w)
    \<and> invocations w' = invocations w @ [clock (pace rl w)]
    \<and> (\<exists>d. sleeps w' = sleeps (pace rl w) @ [d] \<and> 0.1 \<le> d \<and> d \<le> max (max_delay rl) 0.1)
    \<and> fst (func i) = Inl e \<and> is_rate_limit_error (str_of e) \<and> int i \<noteq> max_retries rl"
  using assms
  by (auto simp: attempt_step_def Let_def split: prod.splits sum.splits if_splits dest!: calculate_delay_Inr_facts)
lemma attempt_step_Runtime:
  assumes "attempt_step str_of func i rl w = Done (Inl (Runtime err)) rl' w'"
  shows "\<exists>e dur. func i = (Inl e, dur) \<and> is_rate_limit_error (str_of e) \<and> int i \<noteq> max_retries rl
    \<and> fst (calculate_delay (start_attempt rl (pace rl w)) i (str_of e) (invoke dur (pace rl w))) = Inl err"
  using assms by (auto simp: attempt_step_def Let_def split: prod.splits sum.splits if_splits)

section \<open>Lemmas: the abstract automaton\<close>

lemma retry_spec_count: "Suc i \<le> snd (retry_spec P outc i n) \<and> snd (retry_spec P outc i n) \<le> Suc (i + n)"
proof (induction n arbitrary: i)
  case (Suc n)
  have "Suc (Suc i) \<le> snd (retry_spec P outc (Suc i) n)" "snd (retry_spec P outc (Suc i) n) \<le> Suc (Suc i + n)"
    using Suc.IH [of "Suc i"] by simp_all
  then show ?case by (auto split: sum.splits)
qed simp


section \<open>Lemmas: the loop\<close>

lemma retry_loop_refines:
  "retry_loop str_of func i (Suc n) le rl w = (res, rl', w') \<Longrightarrow> int i + int n = max_retries rl
   \<Longrightarrow> res \<noteq> Inl (Runtime OverflowError_int_to_float)
   \<Longrightarrow> res = map_sum Raised id (fst (spec_of str_of func i n))
     \<and> length (invocations w') + i = length (invocations w) + snd (spec_of str_of func i n)"
proof (induction n arbitrary: i le rl w)
  case 0
  show ?case
  proof (cases "attempt_step str_of func i rl w")
    case (Done r rl1 w1)
    with "0.prems" attempt_step_Done [OF Done] show ?thesis by (auto simp: id_def)
  next
    case (Retry e rl1 w1)
    with "0.prems" attempt_step_Retry [OF Retry] show ?thesis by simp
  qed
next
  case (Suc m)
  show ?case
  proof (cases "attempt_step str_of func i rl w")
    case (Done r rl1 w1)
    with Suc.prems attempt_step_Done [OF Done] show ?thesis
      by (auto split: sum.splits)
  next
    case (Retry e rl1 w1)
    note step = attempt_step_Retry [OF Retry]
    from Suc.prems(1) Retry have loop: "retry_loop str_of func (Suc i) (Suc m) (Some e) rl1 w1 = (res, rl', w')"
      by simp
    have budget: "int (Suc i) + int m = max_retries rl1" using Suc.prems(2) step by simp
    from Suc.IH [OF loop budget Suc.prems(3)] step retry_spec_count [of "Suc i"]
    show ?thesis by auto
  qed
qed
lemma retry_loop_trace:
  "retry_loop str_of func i n le rl w = (res, rl', w') \<Longrightarrow>
   \<exists>new ds. invocations w' = invocations w @ new \<and> sleeps w' = sleeps w @ ds \<and> length new \<le> n
     \<and> paced (last_request_time rl) new \<and> (\<forall>d \<in> set ds. 0 < d)
     \<and> request_count rl' = request_count rl + int (length new)
     \<and> max_retries rl' = max_retries rl \<and> base_delay rl' = base_delay rl \<and> max_delay rl' = max_delay rl
     \<and> last_request_time rl' = (if new = [] then last_request_time rl else last new)"
proof (induction n arbitrary: i le rl w)
  case 0
  then show ?case by auto
next
  case (Suc n)
  obtain ds0 where ds0: "sleeps (pace rl w) = sleeps w @ ds0" "\<forall>d \<in> set ds0. 0 < d"
    using pace_sleeps by blast
  have gap: "last_request_time rl + min_interval \<le> clock (pace rl w)" by (rule pace_clock)
  show ?case
  proof (cases "attempt_step str_of func i rl w")
    case (Done r rl1 w1)
    with Suc.prems have "rl' = rl1" "w' = w1" by simp_all
    with attempt_step_Done [OF Done] ds0 gap show ?thesis
      by (intro exI [of _ "[clock (pace rl w)]"] exI [of _ ds0]) auto
  next
    case (Retry e rl1 w1)
    note step = attempt_step_Retry [OF Retry]
    from Suc.prems Retry have "retry_loop str_of func (Suc i) n (Some e) rl1 w1 = (res, rl', w')" by simp
    from Suc.IH [OF this] obtain new ds where ih:
      "invocations w' = invocations w1 @ new" "sleeps w' = sleeps w1 @ ds" "length new \<le> n"
      "paced (last_request_time rl1) new" "\<forall>d \<in> set ds. 0 < d"
      "request_count rl' = request_count rl1 + int (length new)"
      "max_retries rl' = max_retries rl1" "base_delay rl' = base_delay rl1" "max_delay rl' = max_delay rl1"
      "last_request_time rl' = (if new = [] then last_request_time rl1 else last new)"
      by blast
    from step obtain d where d: "sleeps w1 = sleeps (pace rl w) @ [d]" "0.1 \<le> d" by blast
    show ?thesis
      using ih step ds0 gap d
      by (intro exI [of _ "clock (pace rl w) # new"] exI [of _ "ds0 @ [d] @ ds"]) auto
  qed
qed

lemma retry_loop_no_overflow:
  "retry_loop str_of func i (Suc n) le rl w = (res, rl', w') \<Longrightarrow> int i + int n = max_retries rl
   \<Longrightarrow> max_retries rl \<le> 1024
   \<Longrightarrow> (\<forall>j e. j < i + n \<longrightarrow> fst (func j) = Inl e \<longrightarrow> reset_search (str_of e) = None)
   \<Longrightarrow> res \<noteq> Inl (Runtime OverflowError_int_to_float)"
proof (induction n arbitrary: i le rl w)
  case 0
  show ?case
  proof (cases "attempt_step str_of func i rl w")
    case (Done r rl1 w1)
    with "0.prems" attempt_step_Runtime [of str_of func i rl w OverflowError_int_to_float rl1 w1]
    show ?thesis by auto
  next
    case (Retry e rl1 w1)
    with "0.prems" attempt_step_Retry [OF Retry] show ?thesis by simp
  qed
next
  case (Suc m)
  show ?case
  proof (cases "attempt_step str_of func i rl w")
    case (Done r rl1 w1)
    show ?thesis
    proof
      assume ov: "res = Inl (Runtime OverflowError_int_to_float)"
      with Suc.prems(1) Done obtain e dur where f: "func i = (Inl e, dur)" "int i \<noteq> max_retries rl"
        and cd: "fst (calculate_delay (start_attempt rl (pace rl w)) i (str_of e) (invoke dur (pace rl w)))
                 = Inl OverflowError_int_to_float"
        using attempt_step_Runtime by fastforce
      have "fst (func i) = Inl e" using f by simp
      then have "reset_search (str_of e) = None" using Suc.prems(4) [rule_format, of i e] by simp
      then have "extract_retry_after (str_of e) t = Inr None" for t
        by (simp add: extract_retry_after_def)
      moreover have "i < 1024" using Suc.prems(2,3) by linarith
      ultimately show False using cd by (simp add: calculate_delay_no_hint)
    qed
  next
    case (Retry e rl1 w1)
    note step = attempt_step_Retry [OF Retry]
    from Suc.prems(1) Retry have "retry_loop str_of func (Suc i) (Suc m) (Some e) rl1 w1 = (res, rl', w')" by simp
    moreover have "int (Suc i) + int m = max_retries rl1" using Suc.prems(2) step by simp
    moreover have "max_retries rl1 \<le> 1024" using Suc.prems(3) step by simp
    moreover have "\<forall>j e. j < Suc i + m \<longrightarrow> fst (func j) = Inl e \<longrightarrow> reset_search (str_of e) = None"
      using Suc.prems(4) by simp
    ultimately show ?thesis by (rule Suc.IH)
  qed
qed
section \<open>Lemmas: one attempt, continued\<close>

lemma attempt_step_final:
  assumes "fst (func i) = Inl e" "\<not> is_rate_limit_error (str_of e) \<or> int i = max_retries rl"
  shows "\<exists>w'. attempt_step str_of func i rl w = Done (Inl (Raised e)) (start_attempt rl (pace rl w)) w'
    \<and> invocations w' = invocations w @ [clock (pace rl w)]"
  using assms by (cases "func i") (auto simp: attempt_step_def Let_def)

lemma attempt_step_success:
  assumes "fst (func i) = Inr a"
  shows "\<exists>w'. attempt_step str_of func i rl w = Done (Inr a) (start_attempt rl (pace rl w)) w'
    \<and> invocations w' = invocations w @ [clock (pace rl w)]"
  using assms by (cases "func i") (auto simp: attempt_step_def Let_def)

lemma attempt_step_retriable:
  assumes "fst (func i) = Inl e" "is_rate_limit_error (str_of e)" "int i \<noteq> max_retries rl"
    "reset_search (str_of e) = None" "i < 1024"
  shows "\<exists>w'. attempt_step str_of func i rl w = Retry e (start_attempt rl (pace rl w)) w'
    \<and> invocations w' = invocations w @ [clock (pace rl w)]"
proof -
  have "extract_retry_after (str_of e) t = Inr None" for t
    using assms(4) by (simp add: extract_retry_after_def)
  then show ?thesis
    using assms by (cases "func i") (auto simp: attempt_step_def Let_def calculate_delay_no_hint)
qed

text \<open>From attempt 1024 on, the factor \<open>2 ** attempt\<close> no longer converts to a float.\<close>

lemma calculate_delay_backoff_overflow:
  assumes "extract_retry_after msg (clock w) = Inr None" "1024 \<le> a"
  shows "calculate_delay rl a msg w = (Inl OverflowError_int_to_float, w)"
proof -
  have "float_int_overflows (2 ^ a)" using assms(2) power2_le_float_bound_iff by simp
  then show ?thesis using assms(1) by (simp add: calculate_delay_def backoff_base_def)
qed

lemma attempt_step_backoff_overflow:
  assumes "fst (func i) = Inl e" "is_rate_limit_error (str_of e)" "int i \<noteq> max_retries rl"
    "reset_search (str_of e) = None" "1024 \<le> i"
  shows "\<exists>w'. attempt_step str_of func i rl w
      = Done (Inl (Runtime OverflowError_int_to_float)) (start_attempt rl (pace rl w)) w'
    \<and> invocations w' = invocations w @ [clock (pace rl w)]"
proof -
  have "extract_retry_after (str_of e) t = Inr None" for t
    using assms(4) by (simp add: extract_retry_after_def)
  then show ?thesis
    using assms by (cases "func i") (auto simp: attempt_step_def Let_def calculate_delay_backoff_overflow)
qed

text \<open>A call that re-raises the operation's error has just logged it: as not retriable
  (line 111) or as the last retriable failure (line 116).\<close>

lemma attempt_step_Done_Raised:
  "attempt_step str_of func i rl w = Done (Inl (Raised e)) rl' w' \<Longrightarrow>
   log w' \<noteq> [] \<and> last (log w') = (if is_rate_limit_error (str_of e) then Error_exhausted (max_retries rl) (str_of e)
                                   else Error_non_rate_limit (str_of e))"
  by (auto simp: attempt_step_def Let_def split: prod.splits sum.splits if_splits)

lemma attempt_step_delay_error:
  assumes "fst (func i) = Inl e" "is_rate_limit_error (str_of e)" "int i \<noteq> max_retries rl"
    "extract_retry_after (str_of e) (clock (pace rl w) + snd (func i)) = Inl err"
  shows "\<exists>w'. attempt_step str_of func i rl w = Done (Inl (Runtime err)) (start_attempt rl (pace rl w)) w'"
  using assms by (cases "func i") (auto simp: attempt_step_def Let_def calculate_delay_def)

section \<open>Lemmas: the automaton and the loop, continued\<close>

lemma retry_spec_skip:
  "(\<forall>j. i \<le> j \<longrightarrow> j < i + m \<longrightarrow> (\<exists>e. outc j = Inl e \<and> P e)) \<Longrightarrow> m \<le> n
   \<Longrightarrow> retry_spec P outc i n = retry_spec P outc (i + m) (n - m)"
proof (induction m arbitrary: i n)
  case (Suc m)
  then obtain n' where n: "n = Suc n'" by (cases n) auto
  from Suc.prems obtain e where "outc i = Inl e" "P e" by auto
  moreover have "retry_spec P outc (Suc i) n' = retry_spec P outc (Suc i + m) (n' - m)"
    using Suc.prems n by (intro Suc.IH) auto
  ultimately show ?case using n by simp
qed simp

lemma retry_loop_skip:
  "(\<forall>j. i \<le> j \<longrightarrow> j < i + m \<longrightarrow> retriable_hint_free str_of (fst (func j)))
   \<Longrightarrow> int i + int n = max_retries rl \<Longrightarrow> i + m \<le> 1024 \<Longrightarrow> m \<le> n
   \<Longrightarrow> \<exists>le' rl1 w1. retry_loop str_of func i (Suc n) le rl w = retry_loop str_of func (i + m) (Suc (n - m)) le' rl1 w1
        \<and> length (invocations w1) = length (invocations w) + m \<and> max_retries rl1 = max_retries rl"
proof (induction m arbitrary: i n le rl w)
  case 0
  then show ?case by auto
next
  case (Suc m)
  then obtain n' where n: "n = Suc n'" by (cases n) auto
  have "retriable_hint_free str_of (fst (func i))" using Suc.prems(1) by simp
  then obtain e where e: "fst (func i) = Inl e" "is_rate_limit_error (str_of e)"
    "reset_search (str_of e) = None"
    by (cases "fst (func i)") (auto simp: retriable_hint_free_def)
  have "int i \<noteq> max_retries rl" "i < 1024" using Suc.prems(2,3) n by linarith+
  from attempt_step_retriable [of func i e str_of rl, OF e(1,2) this(1) e(3) this(2)] obtain w' where
    step: "attempt_step str_of func i rl w = Retry e (start_attempt rl (pace rl w)) w'"
      "invocations w' = invocations w @ [clock (pace rl w)]" by blast
  have "\<exists>le' rl1 w1. retry_loop str_of func (Suc i) (Suc n') (Some e) (start_attempt rl (pace rl w)) w'
      = retry_loop str_of func (Suc i + m) (Suc (n' - m)) le' rl1 w1
      \<and> length (invocations w1) = length (invocations w') + m
      \<and> max_retries rl1 = max_retries (start_attempt rl (pace rl w))"
    using Suc.prems n by (intro Suc.IH) auto
  then show ?case using step n by auto
qed

lemma call_with_retry_unfold:
  "0 \<le> max_retries rl \<Longrightarrow>
   call_with_retry str_of func rl w = retry_loop str_of func 0 (Suc (nat (max_retries rl))) None rl w"
  by (simp add: call_with_retry_def nat_add_distrib)

lemma call_with_retry_first_final:
  assumes "0 \<le> max_retries rl" "fst (func 0) = Inl e" "\<not> is_rate_limit_error (str_of e) \<or> max_retries rl = 0"
  shows "fst (call_with_retry str_of func rl w) = Inl (Raised e)
    \<and> length (invocations (snd (snd (call_with_retry str_of func rl w)))) = Suc (length (invocations w))"
proof -
  obtain w' where "attempt_step str_of func 0 rl w = Done (Inl (Raised e)) (start_attempt rl (pace rl w)) w'"
    "invocations w' = invocations w @ [clock (pace rl w)]"
    using attempt_step_final [of func 0 e str_of rl w] assms(2,3) by auto
  then show ?thesis using assms(1) by (simp add: call_with_retry_unfold)
qed

lemma retry_loop_raise_logged:
  "int i + int n = max_retries rl \<Longrightarrow> retry_loop str_of func i (Suc n) le rl w = (res, rl', w') \<Longrightarrow>
   res \<noteq> Inl (Runtime TypeError_raise_None)
   \<and> (\<forall>e. res = Inl (Raised e) \<longrightarrow> log w' \<noteq> [] \<and> last (log w') =
        (if is_rate_limit_error (str_of e) then Error_exhausted (max_retries rl) (str_of e) else Error_non_rate_limit (str_of e)))"
proof (induction n arbitrary: i le rl w)
  case 0
  show ?case
  proof (cases "attempt_step str_of func i rl w")
    case (Done r rl1 w1)
    then show ?thesis using "0.prems" attempt_step_Done [OF Done] attempt_step_Done_Raised [of str_of func i rl w]
      by (cases "fst (func i)") auto
  next
    case (Retry e rl1 w1)
    then show ?thesis using "0.prems" attempt_step_Retry [OF Retry] by simp
  qed
next
  case (Suc m)
  show ?case
  proof (cases "attempt_step str_of func i rl w")
    case (Done r rl1 w1)
    then show ?thesis using Suc.prems attempt_step_Done [OF Done] attempt_step_Done_Raised [of str_of func i rl w]
      by (cases "fst (func i)") auto
  next
    case (Retry e rl1 w1)
    note step = attempt_step_Retry [OF Retry]
    have budget: "int (Suc i) + int m = max_retries rl1" using Suc.prems step by simp
    have "retry_loop str_of func i (Suc (Suc m)) le rl w = retry_loop str_of func (Suc i) (Suc m) (Some e) rl1 w1"
      using Retry by simp
    then have loop: "retry_loop str_of func (Suc i) (Suc m) (Some e) rl1 w1 = (res, rl', w')"
      using Suc.prems(2) by (simp only:)
    from Suc.IH [OF budget loop] step show ?thesis by (simp del: retry_loop.simps)
  qed
qed

section \<open>Lemmas: the reset hint\<close>

lemma reset_match_at_needs_X: "reset_match_at s \<noteq> None \<Longrightarrow> s \<noteq> [] \<and> hd s = CHR ''X''"
  by (cases s) (auto simp: reset_match_at_def reset_header_def split: if_splits)

lemma reset_search_append_no_X: "CHR ''X'' \<notin> set xs \<Longrightarrow> reset_search (xs @ ys) = reset_search ys"
proof (induction xs)
  case (Cons c cs)
  then have "reset_match_at (c # cs @ ys) = None" using reset_match_at_needs_X by fastforce
  with Cons show ?case by simp
qed simp

lemma reset_search_match: "reset_match_at s = Some g \<Longrightarrow> reset_search s = Some g"
  by (cases s) (auto simp: reset_match_at_def reset_header_def)

lemma py_str_int_chars: "c \<in> set (py_str_int i) \<Longrightarrow> c = CHR ''-'' \<or> (\<exists>d<10. c = digit_char d)"
  using nat_to_digits_lt10 by (auto simp: py_str_int_def split: if_splits)

lemma py_str_int_no_quote: "c \<in> set (py_str_int i) \<Longrightarrow> \<not> is_quote c \<and> c \<noteq> CHR ''X''"
proof -
  assume "c \<in> set (py_str_int i)"
  then consider "c = CHR ''-''" | d where "d < 10" "c = digit_char d" using py_str_int_chars by blast
  then show ?thesis
  proof cases
    case 2
    then have "(of_char c :: nat) = 48 + d" by (simp add: digit_char_def)
    with 2 show ?thesis by (auto simp: is_quote_def)
  qed (simp add: is_quote_def)
qed

lemma reset_match_at_hint:
  "reset_match_at (reset_header @ CHR 0x22 # CHR '':'' # CHR '' '' # CHR 0x22 # py_str_int ts @ CHR 0x22 # rest)
   = Some (py_str_int ts)"
proof -
  have tw: "takeWhile (\<lambda>x. \<not> is_quote x) (py_str_int ts @ CHR 0x22 # rest) = py_str_int ts"
    using py_str_int_no_quote by (simp add: takeWhile_append2 is_quote_def)
  have sp: "py_isspace (CHR '' '')" "\<not> py_isspace (CHR 0x22)" "is_quote (CHR 0x22)"
    by (simp_all add: py_defs is_quote_def)
  show ?thesis
    by (simp add: reset_match_at_def tw sp Let_def)
qed

lemma reset_search_hint: "reset_search (reset_hint_json ts @ rest) = Some (py_str_int ts)"
proof -
  have "reset_search (reset_hint_json ts @ rest)
      = reset_search (reset_header @ CHR 0x22 # CHR '':'' # CHR '' '' # CHR 0x22 # py_str_int ts @ CHR 0x22 # rest)"
    using reset_search_append_no_X [of "[CHR 0x22]"] by (simp add: reset_hint_json_def)
  also have "\<dots> = Some (py_str_int ts)" by (rule reset_search_match [OF reset_match_at_hint])
  finally show ?thesis .
qed

lemma is_rate_limit_error_429: "is_rate_limit_error (''429'' @ s)"
proof -
  have "py_lower (''429'' @ s) = ''429'' @ py_lower s" by (simp add: py_defs)
  then show ?thesis
    by (simp add: is_rate_limit_error_def rate_limit_keywords_def py_contains_iff_sublist)
qed

lemma pace_idle: "last_request_time rl + min_interval \<le> clock w \<Longrightarrow> pace rl w = w"
  by (simp add: pace_def Let_def)

lemma length_nat_to_digits_le: "n < 10 ^ k \<Longrightarrow> length (nat_to_digits n) \<le> max 1 k"
proof (induction n arbitrary: k rule: nat_to_digits.induct)
  case (1 n)
  show ?case
  proof (cases "n < 10")
    case True
    then show ?thesis by (simp add: nat_to_digits.simps [of n])
  next
    case False
    then obtain k' where k: "k = Suc k'" using "1.prems" by (cases k) auto
    then have lt: "n div 10 < 10 ^ k'" using "1.prems" by simp
    have "k' \<noteq> 0" using lt False by (intro notI) simp
    with "1.IH" [OF False lt] False k show ?thesis by (simp add: nat_to_digits.simps [of n])
  qed
qed

section \<open>Lemmas: the scenario fixtures\<close>

lemma scenario_messages:
  "is_rate_limit_error ''429 Too Many Requests''" "reset_search ''429 Too Many Requests'' = None"
  "\<not> is_rate_limit_error ''Invalid API key''"
  "is_rate_limit_error ''rate limit exceeded''" "reset_search ''rate limit exceeded'' = None"
  by code_simp+

lemma huge_reset_timestamp_facts:
  "length (nat_to_digits (nat \<bar>huge_reset_timestamp\<bar>)) \<le> py_int_max_str_digits"
  "py_int_of_float (1700000000 * 1000) < huge_reset_timestamp"
  "float_int_overflows (huge_reset_timestamp - py_int_of_float (1700000000 * 1000))"
proof -
  have "nat \<bar>huge_reset_timestamp\<bar> < 10 ^ 401" by (simp add: huge_reset_timestamp_def)
  from length_nat_to_digits_le [OF this]
  show "length (nat_to_digits (nat \<bar>huge_reset_timestamp\<bar>)) \<le> py_int_max_str_digits"
    by (simp add: py_int_max_str_digits_def)
  show "py_int_of_float (1700000000 * 1000) < huge_reset_timestamp"
    by (simp add: huge_reset_timestamp_def py_defs)
  show "float_int_overflows (huge_reset_timestamp - py_int_of_float (1700000000 * 1000))"
    by (simp add: huge_reset_timestamp_def py_defs)
qed

lemma scenario_delay:
  "calculate_delay (rate_limiter_init mr bd md) a ''429 Too Many Requests'' scenario_world
   = (Inr (clamp_delay (rate_limiter_init mr bd md) (bd * 2 ^ a)), scenario_world\<lparr>draws := 1\<rparr>)" if "a < 1024"
proof -
  have "extract_retry_after ''429 Too Many Requests'' t = Inr None" for t
    by (simp add: extract_retry_after_def scenario_messages del: reset_search.simps)
  then show ?thesis using that
    by (simp add: calculate_delay_no_hint jittered_def rate_limiter_init_def scenario_world_def)
qed

lemma scenario_B_first:
  "fst (call_with_retry id scenario_B_op (rate_limiter_init 2 1 60) scenario_world) = Inl (Raised ''Invalid API key'')
   \<and> length (invocations (snd (snd (call_with_retry id scenario_B_op (rate_limiter_init 2 1 60) scenario_world)))) = 1"
  using call_with_retry_first_final [of "rate_limiter_init 2 1 60" scenario_B_op "''Invalid API key''" id scenario_world]
  by (simp add: scenario_B_op_def rate_limiter_init_def scenario_messages scenario_world_def)

lemma scenario_C_run:
  "fst (call_with_retry id scenario_C_op (rate_limiter_init 1 1 2) scenario_world) = Inl (Raised ''rate limit exceeded'')"
proof -
  let ?rl = "rate_limiter_init 1 1 2"
  let ?e = "''rate limit exceeded''"
  obtain w1 where s0: "attempt_step id scenario_C_op 0 ?rl scenario_world = Retry ?e (start_attempt ?rl (pace ?rl scenario_world)) w1"
    using attempt_step_retriable [of scenario_C_op 0 ?e id ?rl scenario_world]
    by (auto simp: scenario_C_op_def scenario_messages rate_limiter_init_def simp del: reset_search.simps)
  let ?rl1 = "start_attempt ?rl (pace ?rl scenario_world)"
  obtain w2 where s1: "attempt_step id scenario_C_op 1 ?rl1 w1 = Done (Inl (Raised ?e)) (start_attempt ?rl1 (pace ?rl1 w1)) w2"
    using attempt_step_final [of scenario_C_op 1 ?e id ?rl1 w1]
    by (auto simp: scenario_C_op_def rate_limiter_init_def)
  have "call_with_retry id scenario_C_op ?rl scenario_world = retry_loop id scenario_C_op 0 (Suc (Suc 0)) None ?rl scenario_world"
    using call_with_retry_unfold [of ?rl id scenario_C_op scenario_world] by (simp add: rate_limiter_init_def)
  then show ?thesis using s0 s1 by simp
qed

section \<open>Properties of the executor\<close>

text \<open>C1. The executor refines the abstract retry automaton: whenever its own delay computation does not overflow and the budget is not negative, the call ends with the outcome the automaton prescribes (the wrapped error object re-raised unchanged, or the result), after exactly as many invocations as the automaton makes attempts.\<close>

theorem call_with_retry_refines:
  assumes "0 \<le> max_retries rl" "call_with_retry str_of func rl w = (res, rl', w')"
    "res \<noteq> Inl (Runtime OverflowError_int_to_float)"
  shows "res = map_sum Raised id (fst (spec_of str_of func 0 (nat (max_retries rl))))
    \<and> length (invocations w') = length (invocations w) + snd (spec_of str_of func 0 (nat (max_retries rl)))"
  using retry_loop_refines [of str_of func 0 "nat (max_retries rl)" None rl w res rl' w'] assms
  by (simp add: call_with_retry_unfold)

theorem call_with_retry_refines_witness:
  "0 \<le> max_retries (rate_limiter_init 2 1 60)
   \<and> fst (call_with_retry id scenario_B_op (rate_limiter_init 2 1 60) scenario_world)
       = map_sum Raised id (fst (spec_of id scenario_B_op 0 2))
   \<and> length (invocations (snd (snd (call_with_retry id scenario_B_op (rate_limiter_init 2 1 60) scenario_world))))
       = snd (spec_of id scenario_B_op 0 2)"
proof -
  have h0: "0 \<le> max_retries (rate_limiter_init 2 1 60)" by (simp add: rate_limiter_init_def)
  have h2: "fst (call_with_retry id scenario_B_op (rate_limiter_init 2 1 60) scenario_world)
      \<noteq> Inl (Runtime OverflowError_int_to_float)" using scenario_B_first by simp
  from call_with_retry_refines [OF h0 triple_collapse h2]
  show ?thesis using h0 by (simp add: rate_limiter_init_def scenario_world_def)
qed

text \<open>C2. A call never invokes the wrapped operation more than max(0, max_retries + 1) times.\<close>

theorem call_with_retry_attempt_bound:
  "length (invocations (snd (snd (call_with_retry str_of func rl w)))) \<le> length (invocations w) + nat (max_retries rl + 1)"
  using retry_loop_trace [of str_of func 0 "nat (max_retries rl + 1)" None rl w, OF triple_collapse]
  unfolding call_with_retry_def by (auto simp del: retry_loop.simps)

text \<open>C3. Fast fail (P2): when the first invocation raises an error that is not classified as a rate limit, the operation is invoked exactly once and that same error is re-raised.\<close>

theorem call_with_retry_fast_fail:
  assumes "0 \<le> max_retries rl" "fst (func 0) = Inl e" "\<not> is_rate_limit_error (str_of e)"
  shows "fst (call_with_retry str_of func rl w) = Inl (Raised e)
    \<and> length (invocations (snd (snd (call_with_retry str_of func rl w)))) = Suc (length (invocations w))"
  using call_with_retry_first_final [of rl func e str_of w] assms by blast

theorem call_with_retry_fast_fail_witness:
  "fst (call_with_retry id scenario_B_op (rate_limiter_init 2 1 60) scenario_world) = Inl (Raised ''Invalid API key'')
   \<and> length (invocations (snd (snd (call_with_retry id scenario_B_op (rate_limiter_init 2 1 60) scenario_world)))) = 1"
  using call_with_retry_fast_fail [of "rate_limiter_init 2 1 60" scenario_B_op "''Invalid API key''" id scenario_world]
  by (simp add: scenario_B_op_def rate_limiter_init_def scenario_messages scenario_world_def)

text \<open>C4. Success short-circuit (P3): for a budget of at most 1024 retries, when attempts 0..i-1 fail with hint-free rate-limit errors and attempt i (within the budget) succeeds, the result is returned after exactly i + 1 invocations.\<close>

theorem call_with_retry_success:
  assumes "0 \<le> max_retries rl" "max_retries rl \<le> 1024" "int i \<le> max_retries rl"
    "\<forall>j<i. retriable_hint_free str_of (fst (func j))" "fst (func i) = Inr a"
  shows "fst (call_with_retry str_of func rl w) = Inr a
    \<and> length (invocations (snd (snd (call_with_retry str_of func rl w)))) = length (invocations w) + Suc i"
proof -
  let ?n = "nat (max_retries rl)"
  have "\<exists>le' rl1 w1. retry_loop str_of func 0 (Suc ?n) None rl w = retry_loop str_of func (0 + i) (Suc (?n - i)) le' rl1 w1
      \<and> length (invocations w1) = length (invocations w) + i \<and> max_retries rl1 = max_retries rl"
    by (rule retry_loop_skip) (use assms in auto)
  then obtain le' rl1 w1 where skip:
    "retry_loop str_of func 0 (Suc ?n) None rl w = retry_loop str_of func i (Suc (?n - i)) le' rl1 w1"
    "length (invocations w1) = length (invocations w) + i"
    by auto
  obtain w' where "attempt_step str_of func i rl1 w1 = Done (Inr a) (start_attempt rl1 (pace rl1 w1)) w'"
    "invocations w' = invocations w1 @ [clock (pace rl1 w1)]"
    using attempt_step_success [of func i a str_of rl1 w1, OF assms(5)] by blast
  then show ?thesis using skip assms(1) by (simp add: call_with_retry_unfold)
qed

theorem call_with_retry_success_witness:
  "fst (call_with_retry id scenario_A_op (rate_limiter_init 3 1 60) scenario_world) = Inr ''ok''
   \<and> length (invocations (snd (snd (call_with_retry id scenario_A_op (rate_limiter_init 3 1 60) scenario_world)))) = 4"
proof -
  have "\<forall>j<3. retriable_hint_free id (fst (scenario_A_op j))"
    by (simp add: scenario_A_op_def retriable_hint_free_def scenario_messages del: reset_search.simps)
  moreover have "fst (scenario_A_op 3) = Inr ''ok''" by (simp add: scenario_A_op_def)
  ultimately show ?thesis
    using call_with_retry_success [of "rate_limiter_init 3 1 60" 3 id scenario_A_op "''ok''" scenario_world]
    by (simp add: rate_limiter_init_def scenario_world_def)
qed

text \<open>C5. Attempt bound (P1): for a budget of at most 1024 retries, when every attempt fails with a hint-free rate-limit error, the operation is invoked exactly max_retries + 1 times and the last error is re-raised unchanged.\<close>

theorem call_with_retry_exhausted:
  assumes "0 \<le> max_retries rl" "max_retries rl \<le> 1024"
    "\<forall>j \<le> nat (max_retries rl). retriable_hint_free str_of (fst (func j))"
  shows "\<exists>e. fst (func (nat (max_retries rl))) = Inl e \<and> fst (call_with_retry str_of func rl w) = Inl (Raised e)
    \<and> length (invocations (snd (snd (call_with_retry str_of func rl w)))) = length (invocations w) + Suc (nat (max_retries rl))"
proof -
  let ?n = "nat (max_retries rl)"
  have "\<exists>le' rl1 w1. retry_loop str_of func 0 (Suc ?n) None rl w = retry_loop str_of func (0 + ?n) (Suc (?n - ?n)) le' rl1 w1
      \<and> length (invocations w1) = length (invocations w) + ?n \<and> max_retries rl1 = max_retries rl"
    by (rule retry_loop_skip) (use assms in auto)
  then obtain le' rl1 w1 where skip:
    "retry_loop str_of func 0 (Suc ?n) None rl w = retry_loop str_of func ?n (Suc 0) le' rl1 w1"
    "length (invocations w1) = length (invocations w) + ?n" "max_retries rl1 = max_retries rl"
    by auto
  have "retriable_hint_free str_of (fst (func ?n))" using assms(3) by simp
  then obtain e where e: "fst (func ?n) = Inl e" "is_rate_limit_error (str_of e)"
    by (cases "fst (func ?n)") (auto simp: retriable_hint_free_def)
  have "int ?n = max_retries rl1" using assms(1) skip(3) by simp
  then obtain w' where "attempt_step str_of func ?n rl1 w1 = Done (Inl (Raised e)) (start_attempt rl1 (pace rl1 w1)) w'"
    "invocations w' = invocations w1 @ [clock (pace rl1 w1)]"
    using attempt_step_final [of func ?n e str_of rl1 w1] e by auto
  then show ?thesis using skip e assms(1) by (simp add: call_with_retry_unfold)
qed

theorem call_with_retry_exhausted_witness:
  "fst (call_with_retry id scenario_C_op (rate_limiter_init 1 1 2) scenario_world) = Inl (Raised ''rate limit exceeded'')
   \<and> length (invocations (snd (snd (call_with_retry id scenario_C_op (rate_limiter_init 1 1 2) scenario_world)))) = 2"
proof -
  have h: "\<forall>j \<le> nat (max_retries (rate_limiter_init 1 1 2)). retriable_hint_free id (fst (scenario_C_op j))"
    by (simp add: scenario_C_op_def retriable_hint_free_def scenario_messages del: reset_search.simps)
  from call_with_retry_exhausted [of "rate_limiter_init 1 1 2" id scenario_C_op scenario_world, OF _ _ h]
  show ?thesis by (simp add: scenario_C_op_def rate_limiter_init_def scenario_world_def)
qed

text \<open>C6. Delay bounds (P4): a delay computation that succeeds draws exactly one random
  number and changes nothing else in the world, and the delay it returns lies between 0.1 s
  and max_delay when max_delay is at least 0.1 s; when max_delay is below 0.1 s the delay is
  0.1 s, above max_delay, because the floor max(delay, 0.1) is applied after the cap.\<close>

theorem backoff_delay_bounds:
  assumes "calculate_delay rl a msg w = (Inr d, w')"
  shows "w' = w\<lparr>draws := Suc (draws w)\<rparr>
    \<and> (0.1 \<le> max_delay rl \<longrightarrow> 0.1 \<le> d \<and> d \<le> max_delay rl)
    \<and> (max_delay rl < 0.1 \<longrightarrow> d = 0.1)"
proof -
  obtain ra base where "d = clamp_delay rl (jittered base (rand w (draws w)))" "w' = w\<lparr>draws := Suc (draws w)\<rparr>"
    using calculate_delay_Inr [OF assms] by blast
  then show ?thesis by (auto simp: clamp_delay_def)
qed

theorem backoff_delay_bounds_witness:
  "calculate_delay (rate_limiter_init 3 1 60) 0 ''429 Too Many Requests'' scenario_world = (Inr 1, scenario_world\<lparr>draws := 1\<rparr>)
   \<and> 0.1 \<le> (1::real) \<and> (1::real) \<le> max_delay (rate_limiter_init 3 1 60)
   \<and> calculate_delay (rate_limiter_init 3 1 0.05) 0 ''429 Too Many Requests'' scenario_world
       = (Inr 0.1, scenario_world\<lparr>draws := 1\<rparr>)
   \<and> max_delay (rate_limiter_init 3 1 0.05) < 0.1"
proof -
  have c1: "calculate_delay (rate_limiter_init 3 1 60) 0 ''429 Too Many Requests'' scenario_world
      = (Inr 1, scenario_world\<lparr>draws := 1\<rparr>)"
    using scenario_delay [of 0 3 1 60] by (simp add: clamp_delay_def rate_limiter_init_def)
  have c2: "calculate_delay (rate_limiter_init 3 1 0.05) 0 ''429 Too Many Requests'' scenario_world
      = (Inr 0.1, scenario_world\<lparr>draws := 1\<rparr>)"
    using scenario_delay [of 0 3 1 "0.05"] by (simp add: clamp_delay_def rate_limiter_init_def)
  show ?thesis
    using backoff_delay_bounds [OF c1] backoff_delay_bounds [OF c2] c1 c2
    by (simp add: rate_limiter_init_def scenario_world_def)
qed

text \<open>C7. Without a reset hint the delay is base_delay * 2^attempt with a jitter of at most 25% either way, symmetric in the draw, then clamped (P4, P5).\<close>

theorem exponential_backoff_delay:
  assumes "reset_search msg = None" "a < 1024" "0 \<le> base_delay rl" "rand_ok w"
  shows "fst (calculate_delay rl a msg w) = Inr (clamp_delay rl (jittered (base_delay rl * 2 ^ a) (rand w (draws w))))
    \<and> 0.75 * (base_delay rl * 2 ^ a) \<le> jittered (base_delay rl * 2 ^ a) (rand w (draws w))
    \<and> jittered (base_delay rl * 2 ^ a) (rand w (draws w)) \<le> 1.25 * (base_delay rl * 2 ^ a)
    \<and> jittered (base_delay rl * 2 ^ a) u + jittered (base_delay rl * 2 ^ a) (1 - u) = 2 * (base_delay rl * 2 ^ a)"
proof -
  have "extract_retry_after msg (clock w) = Inr None" using assms(1) by (simp add: extract_retry_after_def)
  moreover have "0 \<le> base_delay rl * 2 ^ a" using assms(3) by simp
  moreover have "0 \<le> rand w (draws w)" "rand w (draws w) < 1" using assms(4) by (simp_all add: rand_ok_def)
  ultimately show ?thesis
    using assms(2) jittered_band jittered_symmetric by (simp add: calculate_delay_no_hint)
qed

theorem exponential_backoff_delay_witness:
  "fst (calculate_delay (rate_limiter_init 3 1 60) 2 ''429 Too Many Requests'' scenario_world) = Inr 4"
proof -
  have "rand_ok scenario_world" by (simp add: rand_ok_def scenario_world_def)
  from exponential_backoff_delay [OF scenario_messages(2) _ _ this, of 2 "rate_limiter_init 3 1 60"]
  show ?thesis by (simp add: rate_limiter_init_def scenario_world_def jittered_def clamp_delay_def)
qed

text \<open>C8. Server hint precedence (P6): with a future reset timestamp in the message the delay is derived from the hint, not from the exponential formula.\<close>

theorem hint_precedence:
  assumes "reset_search msg = Some g" "py_int g = Some ts" "py_int_of_float (clock w * 1000) < ts"
    "\<not> float_int_overflows (ts - py_int_of_float (clock w * 1000))"
  shows "fst (calculate_delay rl a msg w)
    = Inr (clamp_delay rl (jittered (real_of_int (ts - py_int_of_float (clock w * 1000)) / 1000) (rand w (draws w))))"
proof -
  have "extract_retry_after msg (clock w)
      = Inr (Some (real_of_int (ts - py_int_of_float (clock w * 1000)) / 1000))"
    using assms by (simp add: extract_retry_after_def Let_def)
  from calculate_delay_hint [OF this] show ?thesis by simp
qed

theorem hint_precedence_witness:
  "fst (calculate_delay (rate_limiter_init 3 1 60) 0 (reset_hint_json 1700000005000 @ ''}'') scenario_world) = Inr 5"
proof -
  have len: "length (nat_to_digits (nat \<bar>1700000005000\<bar>)) \<le> py_int_max_str_digits"
    using length_nat_to_digits_le [of 1700000005000 13] by (simp add: py_int_max_str_digits_def)
  have "fst (calculate_delay (rate_limiter_init 3 1 60) 0 (reset_hint_json 1700000005000 @ ''}'') scenario_world)
      = Inr (clamp_delay (rate_limiter_init 3 1 60)
          (jittered (real_of_int (1700000005000 - py_int_of_float (clock scenario_world * 1000)) / 1000)
                    (rand scenario_world (draws scenario_world))))"
    by (rule hint_precedence [OF reset_search_hint py_int_py_str_int [OF len]])
       (simp_all add: scenario_world_def py_defs)
  then show ?thesis
    by (simp add: scenario_world_def clamp_delay_def jittered_def rate_limiter_init_def py_defs)
qed

text \<open>C9. Pacing: the starts of successive invocations are at least min_interval = 0.2 s apart, the first one 0.2 s after the previous request of the executor.\<close>

theorem call_with_retry_paced:
  "\<exists>new. invocations (snd (snd (call_with_retry str_of func rl w))) = invocations w @ new
     \<and> paced (last_request_time rl) new"
  using retry_loop_trace [of str_of func 0 "nat (max_retries rl + 1)" None rl w, OF triple_collapse]
  unfolding call_with_retry_def by blast

text \<open>C10. Every sleep the executor performs (pacing or backoff) is by a positive amount, so time.sleep never receives a negative argument.\<close>

theorem call_with_retry_sleeps_positive:
  "\<exists>ds. sleeps (snd (snd (call_with_retry str_of func rl w))) = sleeps w @ ds \<and> (\<forall>d \<in> set ds. 0 < d)"
  using retry_loop_trace [of str_of func 0 "nat (max_retries rl + 1)" None rl w, OF triple_collapse]
  unfolding call_with_retry_def by blast

theorem call_with_retry_sleeps_positive_witness:
  "\<exists>ds. sleeps (snd (snd (call_with_retry id scenario_A_op (rate_limiter_init 3 1 60) scenario_world))) = ds
     \<and> (\<forall>d \<in> set ds. 0 < d)"
  using call_with_retry_sleeps_positive [of id scenario_A_op "rate_limiter_init 3 1 60" scenario_world]
  by (simp add: scenario_world_def)

text \<open>C11. request_count grows by exactly the number of invocations, last_request_time is the start of the last invocation, and the configuration is unchanged.\<close>

theorem call_with_retry_accounting:
  "\<exists>new. invocations (snd (snd (call_with_retry str_of func rl w))) = invocations w @ new
     \<and> request_count (fst (snd (call_with_retry str_of func rl w))) = request_count rl + int (length new)
     \<and> last_request_time (fst (snd (call_with_retry str_of func rl w)))
         = (if new = [] then last_request_time rl else last new)
     \<and> max_retries (fst (snd (call_with_retry str_of func rl w))) = max_retries rl
     \<and> base_delay (fst (snd (call_with_retry str_of func rl w))) = base_delay rl
     \<and> max_delay (fst (snd (call_with_retry str_of func rl w))) = max_delay rl"
  using retry_loop_trace [of str_of func 0 "nat (max_retries rl + 1)" None rl w, OF triple_collapse]
  unfolding call_with_retry_def by blast

text \<open>C12. Backoff overflow: with a budget of more than 1024 retries, an operation that keeps
  failing with hint-free rate-limit errors is invoked 1025 times, and then the call raises
  OverflowError: at attempt 1024 the factor 2 ** attempt of the backoff no longer converts to
  a float, so neither the cap max_delay nor a re-raise of the operation's error is reached.\<close>

theorem call_with_retry_backoff_overflow:
  assumes "1024 < max_retries rl" "\<forall>j \<le> 1024. retriable_hint_free str_of (fst (func j))"
  shows "fst (call_with_retry str_of func rl w) = Inl (Runtime OverflowError_int_to_float)
    \<and> length (invocations (snd (snd (call_with_retry str_of func rl w)))) = length (invocations w) + 1025"
proof -
  let ?n = "nat (max_retries rl)"
  have "\<exists>le' rl1 w1. retry_loop str_of func 0 (Suc ?n) None rl w = retry_loop str_of func (0 + 1024) (Suc (?n - 1024)) le' rl1 w1
      \<and> length (invocations w1) = length (invocations w) + 1024 \<and> max_retries rl1 = max_retries rl"
    by (rule retry_loop_skip) (use assms in auto)
  then obtain le' rl1 w1 where skip:
    "retry_loop str_of func 0 (Suc ?n) None rl w = retry_loop str_of func 1024 (Suc (?n - 1024)) le' rl1 w1"
    "length (invocations w1) = length (invocations w) + 1024" "max_retries rl1 = max_retries rl"
    by auto
  have "retriable_hint_free str_of (fst (func 1024))" using assms(2) by simp
  then obtain e where e: "fst (func 1024) = Inl e" "is_rate_limit_error (str_of e)" "reset_search (str_of e) = None"
    by (cases "fst (func 1024)") (auto simp: retriable_hint_free_def)
  have "int 1024 \<noteq> max_retries rl1" using assms(1) skip(3) by simp
  then obtain w' where "attempt_step str_of func 1024 rl1 w1
      = Done (Inl (Runtime OverflowError_int_to_float)) (start_attempt rl1 (pace rl1 w1)) w'"
    "invocations w' = invocations w1 @ [clock (pace rl1 w1)]"
    using attempt_step_backoff_overflow [of func 1024 e str_of rl1 w1] e by auto
  then show ?thesis using skip assms(1) by (simp add: call_with_retry_unfold)
qed

theorem call_with_retry_backoff_overflow_witness:
  "1024 < max_retries (rate_limiter_init 1025 1 60)
   \<and> fst (call_with_retry id scenario_C_op (rate_limiter_init 1025 1 60) scenario_world)
       = Inl (Runtime OverflowError_int_to_float)
   \<and> length (invocations (snd (snd (call_with_retry id scenario_C_op (rate_limiter_init 1025 1 60) scenario_world)))) = 1025"
proof -
  have h: "\<forall>j \<le> 1024. retriable_hint_free id (fst (scenario_C_op j))"
    by (simp add: scenario_C_op_def retriable_hint_free_def scenario_messages del: reset_search.simps)
  from call_with_retry_backoff_overflow [of "rate_limiter_init 1025 1 60" id scenario_C_op scenario_world, OF _ h]
  show ?thesis by (simp add: rate_limiter_init_def scenario_world_def)
qed

text \<open>C13. A reset header rendered as JSON ("X-RateLimit-Reset": "<ts>") is parsed back to its timestamp, giving (ts - now_ms)/1000 seconds when ts lies in the future.\<close>

theorem reset_hint_roundtrip:
  assumes "length (nat_to_digits (nat \<bar>ts\<bar>)) \<le> py_int_max_str_digits"
  shows "extract_retry_after (reset_hint_json ts @ rest) now =
    (let current_time = py_int_of_float (now * 1000) in
     if current_time < ts then
       (if float_int_overflows (ts - current_time) then Inl OverflowError_int_to_float
        else Inr (Some (real_of_int (ts - current_time) / 1000)))
     else Inr None)"
  using assms by (simp add: extract_retry_after_def reset_search_hint py_int_py_str_int)

theorem reset_hint_roundtrip_witness:
  "length (nat_to_digits (nat \<bar>1700000005000\<bar>)) \<le> py_int_max_str_digits
   \<and> extract_retry_after (reset_hint_json 1700000005000 @ ''}'') 1700000000 = Inr (Some 5)"
proof -
  have len: "length (nat_to_digits (nat \<bar>1700000005000\<bar>)) \<le> py_int_max_str_digits"
    using length_nat_to_digits_le [of 1700000005000 13] by (simp add: py_int_max_str_digits_def)
  show ?thesis using len reset_hint_roundtrip [OF len, of "''}''" 1700000000] by (simp add: py_defs)
qed

text \<open>The hint in the form the specification gives (X-RateLimit-Reset: "<ts>", without a quote after the header name) is never recognised by the code's pattern.\<close>

theorem spec_hint_form_ignored:
  "extract_retry_after (reset_header @ CHR '':'' # CHR '' '' # CHR 0x22 # py_str_int ts @ [CHR 0x22]) now = Inr None"
proof -
  let ?tail = "''-RateLimit-Reset'' @ CHR '':'' # CHR '' '' # CHR 0x22 # py_str_int ts @ [CHR 0x22]"
  have hdr: "reset_header @ CHR '':'' # CHR '' '' # CHR 0x22 # py_str_int ts @ [CHR 0x22] = CHR ''X'' # ?tail"
    by (simp add: reset_header_def)
  have m: "reset_match_at (CHR ''X'' # ?tail) = None"
    by (simp add: reset_match_at_def reset_header_def is_quote_def)
  have "reset_search ?tail = None"
    using reset_search_append_no_X [of ?tail "[]"] py_str_int_no_quote by auto
  with m have "reset_search (CHR ''X'' # ?tail) = None" by simp
  then show ?thesis unfolding hdr by (simp add: extract_retry_after_def)
qed

text \<open>C15. With a negative max_retries the loop does not run and the final raise of None produces a TypeError, without invoking the operation.\<close>

theorem call_with_retry_negative_budget:
  "max_retries rl < 0 \<Longrightarrow> call_with_retry str_of func rl w = (Inl (Runtime TypeError_raise_None), rl, w)"
  by (simp add: call_with_retry_def)

theorem call_with_retry_negative_budget_witness:
  "max_retries (rate_limiter_init (-1) 1 60) < 0
   \<and> call_with_retry id scenario_A_op (rate_limiter_init (-1) 1 60) scenario_world
     = (Inl (Runtime TypeError_raise_None), rate_limiter_init (-1) 1 60, scenario_world)"
proof -
  have h: "max_retries (rate_limiter_init (-1) 1 60) < 0" by (simp add: rate_limiter_init_def)
  show ?thesis using h call_with_retry_negative_budget [OF h] by simp
qed

text \<open>C16. With max_retries >= 0 the fall-through raise after the loop (line 127) is
  unreachable: a call never ends in the TypeError of raise None, and whenever it re-raises the
  operation's error it has just logged that error, as not retriable (line 111) or as the
  failure of the last allowed attempt (line 116), never after a retry warning and backoff
  sleep.\<close>

theorem call_with_retry_raise_logged:
  assumes "0 \<le> max_retries rl" "call_with_retry str_of func rl w = (res, rl', w')"
  shows "res \<noteq> Inl (Runtime TypeError_raise_None)
    \<and> (\<forall>e. res = Inl (Raised e) \<longrightarrow> log w' \<noteq> [] \<and> last (log w') =
         (if is_rate_limit_error (str_of e) then Error_exhausted (max_retries rl) (str_of e)
          else Error_non_rate_limit (str_of e)))"
  using retry_loop_raise_logged [of 0 "nat (max_retries rl)" rl str_of func None w res rl' w'] assms
  by (simp add: call_with_retry_unfold)

theorem call_with_retry_raise_logged_witness:
  "0 \<le> max_retries (rate_limiter_init 1 1 2)
   \<and> fst (call_with_retry id scenario_C_op (rate_limiter_init 1 1 2) scenario_world) = Inl (Raised ''rate limit exceeded'')
   \<and> last (log (snd (snd (call_with_retry id scenario_C_op (rate_limiter_init 1 1 2) scenario_world))))
       = Error_exhausted 1 ''rate limit exceeded''"
proof -
  have h: "0 \<le> max_retries (rate_limiter_init 1 1 2)" by (simp add: rate_limiter_init_def)
  have r: "fst (call_with_retry id scenario_C_op (rate_limiter_init 1 1 2) scenario_world) = Inl (Raised ''rate limit exceeded'')"
    by (simp add: scenario_C_run)
  from call_with_retry_raise_logged [where str_of=id and func=scenario_C_op and w=scenario_world, OF h triple_collapse] r h show ?thesis
    by (simp add: scenario_messages rate_limiter_init_def)
qed

text \<open>C17. A rate-limit error whose reset timestamp is beyond the float range makes the call raise OverflowError from the delay computation instead of re-raising the operation's error.\<close>

theorem call_with_retry_hint_overflow:
  "fst (call_with_retry id (\<lambda>_. (Inl (''429 '' @ reset_hint_json huge_reset_timestamp) :: string + string, 0))
         (rate_limiter_init 1 1 60) scenario_world)
   = Inl (Runtime OverflowError_int_to_float)"
proof -
  let ?msg = "''429 '' @ reset_hint_json huge_reset_timestamp"
  let ?func = "\<lambda>_::nat. (Inl ?msg :: string + string, 0::real)"
  let ?rl = "rate_limiter_init 1 1 60"
  have rl_err: "is_rate_limit_error (id ?msg)"
    using is_rate_limit_error_429 [of "'' '' @ reset_hint_json huge_reset_timestamp"] by simp
  have "reset_search ?msg = reset_search (reset_hint_json huge_reset_timestamp)"
    by (rule reset_search_append_no_X) simp
  then have "reset_search ?msg = Some (py_str_int huge_reset_timestamp)"
    by (simp only: reset_search_hint [of _ "[]", simplified])
  then have ex: "extract_retry_after ?msg 1700000000 = Inl OverflowError_int_to_float"
    using py_int_py_str_int [OF huge_reset_timestamp_facts(1)] huge_reset_timestamp_facts(2,3)
    by (simp add: extract_retry_after_def Let_def)
  have idle: "pace ?rl scenario_world = scenario_world"
    by (rule pace_idle) (simp add: rate_limiter_init_def scenario_world_def min_interval_def)
  have clk: "clock (pace ?rl scenario_world) + snd (?func 0) = 1700000000"
    by (simp add: idle) (simp add: scenario_world_def)
  have f0: "fst (?func 0) = Inl ?msg" by simp
  have ne: "int 0 \<noteq> max_retries ?rl" by (simp add: rate_limiter_init_def)
  have ex': "extract_retry_after (id ?msg) (clock (pace ?rl scenario_world) + snd (?func 0))
      = Inl OverflowError_int_to_float"
    unfolding clk id_apply by (rule ex)
  from attempt_step_delay_error [of ?func 0 ?msg id ?rl scenario_world OverflowError_int_to_float, OF f0 rl_err ne ex']
  have "\<exists>w'. attempt_step id ?func 0 ?rl scenario_world
      = Done (Inl (Runtime OverflowError_int_to_float)) (start_attempt ?rl (pace ?rl scenario_world)) w'" .
  then have "fst (retry_loop id ?func 0 (Suc 1) None ?rl scenario_world) = Inl (Runtime OverflowError_int_to_float)"
    by auto
  moreover have "call_with_retry id ?func ?rl scenario_world = retry_loop id ?func 0 (Suc 1) None ?rl scenario_world"
    using call_with_retry_unfold [of ?rl id ?func scenario_world] by (simp add: rate_limiter_init_def)
  ultimately show ?thesis by (simp del: retry_loop.simps)
qed

end
