(* ===== verification/PyValue.thy ===== *)
theory PyValue
  imports PyInt
begin

text \<open>
  Python values as the workshop's dictionaries hold them (configuration dicts, workflow
  states, agent contexts): \<open>None\<close>, \<open>bool\<close>, \<open>int\<close>, \<open>float\<close>, \<open>str\<close>, \<open>list\<close> and
  \<open>dict\<close>, a dict being the association list of its items in insertion order. On top of
  them, the built-in operations the helpers use:
  \<^item> key equality: \<open>1 == True == 1.0\<close>, so these are one key;
  \<^item> the hashability of keys;
  \<^item> \<open>d.get\<close>, \<open>d[k] = v\<close> and \<open>d.update\<close>, which keeps the first key object of an equal key;
  \<^item> subscription \<open>x[k]\<close>, with \<open>KeyError\<close>, \<open>IndexError\<close> and \<open>TypeError\<close>;
  \<^item> truthiness and \<open>len\<close>;
  \<^item> \<open>repr\<close>/\<open>str\<close>.

  The \<open>repr\<close> of a float is CPython's shortest round-trip form. It is modelled exactly for
  finite decimals of at most 15 significant digits (with exponent between -300 and 300),
  which a double represents uniquely. The \<open>repr\<close> of any other float is \<open>None\<close>, i.e. not
  modelled. Identity-based dict lookup of NaN keys and tuples are not modelled.
\<close>

datatype pyval =
    PNone
  | PBool bool
  | PInt int
  | PFloat py_float
  | PStr string
  | PList "pyval list"
  | PDict "(pyval \<times> pyval) list"

text \<open>The exceptions the modelled code raises: built-in ones, and the \<open>OpenAIError\<close> of the
  \<open>openai\<close> client library, which its constructor raises when no API key is available.\<close>

datatype pyerr = KeyError | IndexError | TypeError | ValueError | OverflowError | AttributeError | ZeroDivisionError
  | OpenAIError

section \<open>Keys\<close>

definition py_hashable :: "pyval \<Rightarrow> bool" where
  "py_hashable v = (case v of PList _ \<Rightarrow> False | PDict _ \<Rightarrow> False | _ \<Rightarrow> True)"

fun strip_tens :: "nat \<Rightarrow> int \<Rightarrow> nat \<times> int" where
  "strip_tens m e = (if 0 < m \<and> m mod 10 = 0 then strip_tens (m div 10) (e + 1) else (m, e))"

declare strip_tens.simps [simp del]

text \<open>The numeric value of a \<open>bool\<close>, \<open>int\<close> or finite \<open>float\<close> as a normalised decimal
  (sign, significand without trailing zeros, exponent; zero is unsigned), so that numeric
  equality is equality of the normal forms.\<close>

definition dec_norm :: "bool \<Rightarrow> nat \<Rightarrow> int \<Rightarrow> bool \<times> nat \<times> int" where
  "dec_norm neg m e = (if m = 0 then (False, 0, 0) else (neg, strip_tens m e))"

definition py_num :: "pyval \<Rightarrow> (bool \<times> nat \<times> int) option" where
  "py_num v = (case v of PBool b \<Rightarrow> Some (dec_norm False (if b then 1 else 0) 0)
     | PInt i \<Rightarrow> Some (dec_norm (i < 0) (nat \<bar>i\<bar>) 0)
     | PFloat (Finite neg m e) \<Rightarrow> Some (dec_norm neg m e) | _ \<Rightarrow> None)"

text \<open>The hash class of a key: equal keys (\<open>==\<close>) have equal classes. Lists and dicts are
  unhashable and NaN equals nothing, so they have none.\<close>

datatype pykey = KNum bool nat int | KNone | KStr string | KInf bool

definition py_key :: "pyval \<Rightarrow> pykey option" where
  "py_key v = (case v of
       PNone \<Rightarrow> Some KNone
     | PFloat (Infinity n) \<Rightarrow> Some (KInf n)
     | PStr s \<Rightarrow> Some (KStr s)
     | PList _ \<Rightarrow> None
     | PDict _ \<Rightarrow> None
     | _ \<Rightarrow> map_option (\<lambda>(n, m, e). KNum n m e) (py_num v))"

definition py_key_eq :: "pyval \<Rightarrow> pyval \<Rightarrow> bool" where
  "py_key_eq a b \<longleftrightarrow> py_key a \<noteq> None \<and> py_key a = py_key b"

section \<open>Dictionaries\<close>

type_synonym pydict = "(pyval \<times> pyval) list"

definition dict_lookup :: "pydict \<Rightarrow> pyval \<Rightarrow> pyval option" where
  "dict_lookup d k = map_option snd (find (\<lambda>(k', v). py_key_eq k' k) d)"

text \<open>\<open>k in d\<close> for a hashable \<open>k\<close>.\<close>

definition dict_in :: "pyval \<Rightarrow> pydict \<Rightarrow> bool" where
  "dict_in k d \<longleftrightarrow> dict_lookup d k \<noteq> None"

text \<open>\<open>d.get(k, default)\<close>.\<close>

definition dict_get :: "pydict \<Rightarrow> pyval \<Rightarrow> pyval \<Rightarrow> pyval" where
  "dict_get d k dflt = (case dict_lookup d k of Some v \<Rightarrow> v | None \<Rightarrow> dflt)"

text \<open>\<open>d[k] = v\<close>: an equal key keeps its place and its original key object.\<close>

fun dict_set :: "pydict \<Rightarrow> pyval \<Rightarrow> pyval \<Rightarrow> pydict" where
  "dict_set [] k v = [(k, v)]"
| "dict_set ((k', v') # d) k v = (if py_key_eq k' k then (k', v) # d else (k', v') # dict_set d k v)"

text \<open>\<open>d.setdefault(k, v)\<close>, the value returned being unused by the repository.\<close>

definition dict_setdefault :: "pydict \<Rightarrow> pyval \<Rightarrow> pyval \<Rightarrow> pydict" where
  "dict_setdefault d k v = (if dict_in k d then d else dict_set d k v)"

text \<open>\<open>d.update(e)\<close>: the items of \<open>e\<close> are set one by one, in order.\<close>

definition dict_update :: "pydict \<Rightarrow> pydict \<Rightarrow> pydict" where
  "dict_update d e = foldl (\<lambda>acc (k, v). dict_set acc k v) d e"

text \<open>A dict built by the interpreter has hashable, pairwise unequal keys.\<close>

definition dict_wf :: "pydict \<Rightarrow> bool" where
  "dict_wf d \<longleftrightarrow> (\<forall>k \<in> set (map fst d). py_hashable k) \<and> sorted_wrt (\<lambda>a b. \<not> py_key_eq a b) (map fst d)"

section \<open>Subscription, truth and length\<close>

text \<open>A sequence index \<open>i\<close> of a sequence of length \<open>n\<close>: \<open>-n \<le> i < n\<close>, negative indices
  counting from the end.\<close>

definition py_index :: "nat \<Rightarrow> int \<Rightarrow> nat option" where
  "py_index n i = (if 0 \<le> i \<and> i < int n then Some (nat i) else if - int n \<le> i \<and> i < 0 then Some (nat (int n + i)) else None)"

definition py_int_index :: "pyval \<Rightarrow> int option" where
  "py_int_index k = (case k of PInt i \<Rightarrow> Some i | PBool b \<Rightarrow> Some (if b then 1 else 0) | _ \<Rightarrow> None)"

definition py_getitem :: "pyval \<Rightarrow> pyval \<Rightarrow> pyerr + pyval" where
  "py_getitem x k =
     (case x of
        PDict d \<Rightarrow> if \<not> py_hashable k then Inl TypeError
                  else (case dict_lookup d k of None \<Rightarrow> Inl KeyError | Some v \<Rightarrow> Inr v)
      | PList xs \<Rightarrow> (case py_int_index k of None \<Rightarrow> Inl TypeError
                     | Some i \<Rightarrow> (case py_index (length xs) i of None \<Rightarrow> Inl IndexError | Some j \<Rightarrow> Inr (xs ! j)))
      | PStr s \<Rightarrow> (case py_int_index k of None \<Rightarrow> Inl TypeError
                     | Some i \<Rightarrow> (case py_index (length s) i of None \<Rightarrow> Inl IndexError | Some j \<Rightarrow> Inr (PStr [s ! j])))
      | _ \<Rightarrow> Inl TypeError)"

definition py_truthy :: "pyval \<Rightarrow> bool" where
  "py_truthy v = (case v of PNone \<Rightarrow> False | PBool b \<Rightarrow> b | PInt i \<Rightarrow> i \<noteq> 0
     | PFloat (Finite neg m e) \<Rightarrow> m \<noteq> 0 | PFloat _ \<Rightarrow> True
     | PStr s \<Rightarrow> s \<noteq> [] | PList xs \<Rightarrow> xs \<noteq> [] | PDict d \<Rightarrow> d \<noteq> [])"

definition py_len :: "pyval \<Rightarrow> pyerr + nat" where
  "py_len v = (case v of PStr s \<Rightarrow> Inr (length s) | PList xs \<Rightarrow> Inr (length xs) | PDict d \<Rightarrow> Inr (length d)
     | _ \<Rightarrow> Inl TypeError)"

section \<open>\<open>repr\<close> and \<open>str\<close>\<close>

text \<open>Characters \<open>str.isprintable\<close> rejects below 256: controls, DEL..NBSP and the soft hyphen.\<close>

definition py_printable :: "char \<Rightarrow> bool" where
  "py_printable c \<longleftrightarrow> (let n = (of_char c :: nat) in \<not> (n < 32 \<or> (127 \<le> n \<and> n \<le> 160) \<or> n = 173))"

definition hex_digit :: "nat \<Rightarrow> char" where
  "hex_digit d = (if d < 10 then char_of (48 + d) else char_of (87 + d))"

definition py_escape_char :: "char \<Rightarrow> char \<Rightarrow> string" where
  "py_escape_char q c =
     (if c = q \<or> c = CHR 0x5C then [CHR 0x5C, c]
      else if c = CHR 0x09 then [CHR 0x5C, CHR ''t'']
      else if c = CHR 0x0A then [CHR 0x5C, CHR ''n'']
      else if c = CHR 0x0D then [CHR 0x5C, CHR ''r'']
      else if \<not> py_printable c then [CHR 0x5C, CHR ''x'', hex_digit (of_char c div 16), hex_digit (of_char c mod 16)]
      else [c])"

text \<open>\<open>repr\<close> of a \<open>str\<close>: single quotes, unless the text has a single quote and no double quote.\<close>

definition py_str_repr :: "string \<Rightarrow> string" where
  "py_str_repr s =
     (let q = (if CHR 0x27 \<in> set s \<and> CHR 0x22 \<notin> set s then CHR 0x22 else CHR 0x27) in
      q # concat (map (py_escape_char q) s) @ [q])"

definition digit_string :: "nat \<Rightarrow> string" where
  "digit_string m = map digit_char (nat_to_digits m)"

text \<open>CPython's \<open>repr\<close> of the double nearest to \<open>r\<close>, for decimals of at most 15 significant
  digits: positional between \<open>1e-4\<close> and \<open>1e16\<close> (always with a fractional part),
  scientific otherwise with at least two exponent digits.\<close>

definition float_repr_digits :: "nat \<Rightarrow> int \<Rightarrow> string" where
  "float_repr_digits m e =
     (let ds = digit_string m; x = int (length ds) - 1 + e in
      if -4 \<le> x \<and> x < 16 then
        (if 0 \<le> e then ds @ replicate (nat e) CHR ''0'' @ ''.0''
         else let p = int (length ds) + e in
           if 0 < p then take (nat p) ds @ ''.'' @ drop (nat p) ds
           else ''0.'' @ replicate (nat (- p)) CHR ''0'' @ ds)
      else
        (hd ds # (if tl ds = [] then [] else CHR ''.'' # tl ds)) @ ''e''
        @ (if x < 0 then ''-'' else ''+'')
        @ (let xs = digit_string (nat \<bar>x\<bar>) in if length xs < 2 then CHR ''0'' # xs else xs))"

definition py_float_repr :: "py_float \<Rightarrow> string option" where
  "py_float_repr f =
     (case f of
        NaN \<Rightarrow> Some ''nan''
      | Infinity neg \<Rightarrow> Some (if neg then ''-inf'' else ''inf'')
      | Finite neg m e \<Rightarrow>
          map_option ((@) (if neg then ''-'' else []))
            (if m = 0 then Some ''0.0''
             else let (m', e') = strip_tens m e; n = length (digit_string m'); x = int n - 1 + e' in
               if 15 < n \<or> x < -300 \<or> 300 < x then None else Some (float_repr_digits m' e')))"

text \<open>\<open>sep.join(xs)\<close>.\<close>

fun py_join :: "string \<Rightarrow> string list \<Rightarrow> string" where
  "py_join sep [] = []"
| "py_join sep [x] = x"
| "py_join sep (x # y # zs) = x @ sep @ py_join sep (y # zs)"

fun py_repr :: "pyval \<Rightarrow> string option" where
  "py_repr PNone = Some ''None''"
| "py_repr (PBool b) = Some (if b then ''True'' else ''False'')"
| "py_repr (PInt i) = Some (py_str_int i)"
| "py_repr (PFloat f) = py_float_repr f"
| "py_repr (PStr s) = Some (py_str_repr s)"
| "py_repr (PList xs) = map_option (\<lambda>rs. ''['' @ py_join '', '' rs @ '']'') (those (map py_repr xs))"
| "py_repr (PDict d) =
     map_option (\<lambda>rs. ''{'' @ py_join '', '' rs @ ''}'')
       (those (map (\<lambda>(k, v). case (py_repr k, py_repr v) of (Some a, Some b) \<Rightarrow> Some (a @ '': '' @ b) | _ \<Rightarrow> None) d))"

definition py_str :: "pyval \<Rightarrow> string option" where
  "py_str v = (case v of PStr s \<Rightarrow> Some s | _ \<Rightarrow> py_repr v)"

section \<open>Lemmas\<close>

lemma py_key_eq_sym: "py_key_eq a b \<longleftrightarrow> py_key_eq b a"
  unfolding py_key_eq_def by metis

lemma py_key_eq_trans: "py_key_eq a b \<Longrightarrow> py_key_eq b c \<Longrightarrow> py_key_eq a c"
  unfolding py_key_eq_def by metis

lemma py_key_eq_refl: "py_key_eq k k \<longleftrightarrow> py_key k \<noteq> None"
  by (simp add: py_key_eq_def)

lemma py_key_hashable: "py_key k \<noteq> None \<Longrightarrow> py_hashable k"
  by (auto simp: py_key_def py_hashable_def split: pyval.splits)

lemma py_key_PStr [simp]: "py_key (PStr s) = Some (KStr s)"
  by (simp add: py_key_def)

lemma py_key_eq_PStr [simp]: "py_key_eq (PStr s) (PStr t) \<longleftrightarrow> s = t"
  by (simp add: py_key_eq_def)

lemma dict_lookup_Nil [simp]: "dict_lookup [] k = None"
  by (simp add: dict_lookup_def)

lemma dict_lookup_Cons:
  "dict_lookup ((k', v) # d) k = (if py_key_eq k' k then Some v else dict_lookup d k)"
  by (simp add: dict_lookup_def)

lemma dict_lookup_set:
  assumes "py_key k \<noteq> None"
  shows "dict_lookup (dict_set d k v) k' = (if py_key_eq k k' then Some v else dict_lookup d k')"
proof (induction d)
  case Nil
  then show ?case by (simp add: dict_lookup_Cons)
next
  case (Cons p d)
  obtain k0 v0 where p: "p = (k0, v0)" by fastforce
  show ?case
  proof (cases "py_key_eq k0 k")
    case True
    then have "py_key_eq k0 k' \<longleftrightarrow> py_key_eq k k'"
      by (auto simp: py_key_eq_def)
    with True show ?thesis by (simp add: p dict_lookup_Cons)
  next
    case False
    then have "py_key_eq k0 k' \<Longrightarrow> \<not> py_key_eq k k'"
      by (auto simp: py_key_eq_def)
    with False Cons.IH show ?thesis by (auto simp: p dict_lookup_Cons)
  qed
qed

lemma dict_lookup_update:
  assumes "\<forall>k \<in> fst ` set e. py_key k \<noteq> None"
  shows "dict_lookup (dict_update d e) k =
           (case dict_lookup (rev e) k of Some v \<Rightarrow> Some v | None \<Rightarrow> dict_lookup d k)"
  using assms
proof (induction e rule: rev_induct)
  case Nil
  then show ?case by (simp add: dict_update_def)
next
  case (snoc p e)
  obtain k1 v1 where p: "p = (k1, v1)" by fastforce
  have "py_key k1 \<noteq> None" using snoc.prems p by auto
  then show ?case
    using snoc.IH snoc.prems
    by (simp add: dict_update_def p dict_lookup_set dict_lookup_Cons py_key_eq_sym [of k])
qed

lemma dict_set_keys:
  "map fst (dict_set d k v) = (if \<exists>k' \<in> set (map fst d). py_key_eq k' k then map fst d else map fst d @ [k])"
  by (induction d) force+

lemma dict_wf_set:
  assumes "dict_wf d" "py_key k \<noteq> None"
  shows "dict_wf (dict_set d k v)"
  using assms py_key_hashable [OF assms(2)]
  by (auto simp: dict_wf_def dict_set_keys sorted_wrt_append)

lemma dict_wf_update:
  "dict_wf d \<Longrightarrow> \<forall>k \<in> fst ` set e. py_key k \<noteq> None \<Longrightarrow> dict_wf (dict_update d e)"
proof (induction e arbitrary: d)
  case Nil
  then show ?case by (simp add: dict_update_def)
next
  case (Cons p e)
  then show ?case
    by (cases p) (simp add: dict_update_def dict_wf_set)
qed

end
