(* ===== verification/Binary64.thy ===== *)
theory Binary64
  imports PyValue
begin

text \<open>
  Python's \<open>float\<close> as IEEE 754 binary64, as far as \<open>create_progress_indicator\<close> of
  \<open>utils/helpers.py\<close> needs it: true division of two \<open>int\<close>s, \<open>float * int\<close> and \<open>int(float)\<close>.
  A finite double is \<open>B64 m e\<close>, the value \<open>m * 2^e\<close>. Each operation computes its exact
  rational result and rounds it to nearest, ties to even, with 53 significant bits
  (\<open>b64_round\<close>): the exponent is chosen so that the significand lies in \<open>[2^52, 2^53)\<close>, and
  it is at least \<open>-1074\<close>, which gives the subnormals their fixed spacing. A rounded value of
  \<open>2^1024\<close> or more is an infinity. CPython raises \<open>OverflowError\<close> where the \<open>int\<close> operations
  (\<open>int / int\<close>, \<open>float(int)\<close>) would give an infinity, and \<open>int()\<close> of an infinity; \<open>float *
  float\<close> gives the infinity.

  The lemmas bound the rounding error: in the normal range the rounded value is within
  \<open>2^-53\<close> of the exact one, relatively, and an exact result stays exact.
\<close>

section \<open>Rounding a rational to binary64\<close>

datatype b64 = B64 int int | B64_inf bool | B64_nan

text \<open>The number of binary digits of \<open>n\<close>.\<close>

fun bit_length :: "nat \<Rightarrow> nat" where
  "bit_length n = (if n = 0 then 0 else Suc (bit_length (n div 2)))"

declare bit_length.simps [simp del]

text \<open>\<open>2^k \<le> a / b\<close> for \<open>b > 0\<close>, in integers.\<close>

definition pow2_le_ratio :: "int \<Rightarrow> nat \<Rightarrow> nat \<Rightarrow> bool" where
  "pow2_le_ratio k a b \<longleftrightarrow> (if 0 \<le> k then b * 2 ^ nat k \<le> a else b \<le> a * 2 ^ nat (- k))"

text \<open>The binade of \<open>a / b\<close> for \<open>a, b > 0\<close>: the \<open>E\<close> with \<open>2^E \<le> a / b < 2^(E+1)\<close>.\<close>

definition binade :: "nat \<Rightarrow> nat \<Rightarrow> int" where
  "binade a b = (let k = int (bit_length a) - int (bit_length b) in if pow2_le_ratio k a b then k else k - 1)"

text \<open>The exponent of the last significant bit: 52 below the binade, at least \<open>-1074\<close>.\<close>

definition b64_exponent :: "nat \<Rightarrow> nat \<Rightarrow> int" where
  "b64_exponent a b = max (-1074) (binade a b - 52)"

text \<open>\<open>n / d\<close> rounded to the nearest integer, ties to even.\<close>

definition round_half_even :: "nat \<Rightarrow> nat \<Rightarrow> nat" where
  "round_half_even n d =
     (let q = n div d; r = n mod d in
      if d < 2 * r then q + 1 else if 2 * r < d then q else if even q then q else q + 1)"

text \<open>\<open>p / q\<close> for \<open>q > 0\<close>, rounded to binary64.\<close>

definition b64_round :: "int \<Rightarrow> int \<Rightarrow> b64" where
  "b64_round p q =
     (if p = 0 then B64 0 0
      else let a = nat \<bar>p\<bar>; b = nat q; e = b64_exponent a b;
               m = round_half_even (a * 2 ^ nat (- e)) (b * 2 ^ nat e)
           in if 0 \<le> e \<and> 2 ^ 1024 \<le> m * 2 ^ nat e then B64_inf (p < 0)
              else B64 (sgn p * int m) e)"

definition b64_val :: "b64 \<Rightarrow> real" where
  "b64_val x = (case x of B64 m e \<Rightarrow> of_int m * 2 powi e | _ \<Rightarrow> 0)"

section \<open>The operations\<close>

text \<open>\<open>a / b\<close> on two \<open>int\<close>s: correctly rounded; \<open>OverflowError\<close> when the result is too large
  for a float.\<close>

definition b64_div_int :: "int \<Rightarrow> int \<Rightarrow> pyerr + b64" where
  "b64_div_int a b =
     (if b = 0 then Inl ZeroDivisionError
      else case b64_round (sgn b * a) \<bar>b\<bar> of B64_inf _ \<Rightarrow> Inl OverflowError | x \<Rightarrow> Inr x)"

text \<open>\<open>float(n)\<close>.\<close>

definition b64_of_int :: "int \<Rightarrow> pyerr + b64" where
  "b64_of_int n = (case b64_round n 1 of B64_inf _ \<Rightarrow> Inl OverflowError | x \<Rightarrow> Inr x)"

text \<open>\<open>x * y\<close> on two floats.\<close>

fun b64_mul :: "b64 \<Rightarrow> b64 \<Rightarrow> b64" where
  "b64_mul (B64 m1 e1) (B64 m2 e2) =
     b64_round (m1 * m2 * 2 ^ nat (e1 + e2)) (2 ^ nat (- (e1 + e2)))"
| "b64_mul B64_nan y = B64_nan"
| "b64_mul x B64_nan = B64_nan"
| "b64_mul (B64_inf s) (B64 m e) = (if m = 0 then B64_nan else B64_inf (s \<noteq> (m < 0)))"
| "b64_mul (B64 m e) (B64_inf s) = (if m = 0 then B64_nan else B64_inf (s \<noteq> (m < 0)))"
| "b64_mul (B64_inf s) (B64_inf t) = B64_inf (s \<noteq> t)"

text \<open>\<open>x * n\<close> for a float and an \<open>int\<close>: the \<open>int\<close> is converted first.\<close>

definition b64_mul_int :: "b64 \<Rightarrow> int \<Rightarrow> pyerr + b64" where
  "b64_mul_int x n = (case b64_of_int n of Inl e \<Rightarrow> Inl e | Inr y \<Rightarrow> Inr (b64_mul x y))"

text \<open>\<open>int(x)\<close>: truncation towards zero.\<close>

definition b64_to_int :: "b64 \<Rightarrow> pyerr + int" where
  "b64_to_int x =
     (case x of
        B64 m e \<Rightarrow> Inr (if 0 \<le> e then m * 2 ^ nat e else sgn m * (\<bar>m\<bar> div 2 ^ nat (- e)))
      | B64_inf _ \<Rightarrow> Inl OverflowError
      | B64_nan \<Rightarrow> Inl ValueError)"

section \<open>Lemmas on the rounding\<close>

lemma bit_length_bounds:
  "0 < n \<Longrightarrow> 2 ^ (bit_length n - 1) \<le> n \<and> n < 2 ^ bit_length n"
proof (induction n rule: bit_length.induct)
  case (1 n)
  show ?case
  proof (cases "n div 2 = 0")
    case True
    with "1.prems" have "n = 1" by auto
    then show ?thesis by (simp add: bit_length.simps)
  next
    case False
    then have ih: "2 ^ (bit_length (n div 2) - 1) \<le> n div 2 \<and> n div 2 < 2 ^ bit_length (n div 2)"
      using "1.IH" "1.prems" by simp
    have pos: "0 < bit_length (n div 2)"
      using False by (simp add: bit_length.simps)
    have "bit_length n = Suc (bit_length (n div 2))"
      using "1.prems" by (simp add: bit_length.simps)
    with ih pos show ?thesis
      by (cases "bit_length (n div 2)") auto
  qed
qed

lemma pow2_le_ratio_iff:
  "0 < b \<Longrightarrow> pow2_le_ratio k a b \<longleftrightarrow> 2 powi k \<le> real a / real b"
proof (cases "0 \<le> k")
  case True
  assume b: "0 < b"
  have "2 powi k = (2::real) ^ nat k" using True by (metis nat_0_le power_int_of_nat)
  moreover have "b * 2 ^ nat k \<le> a \<longleftrightarrow> real b * 2 ^ nat k \<le> real a"
    by (metis of_nat_le_iff of_nat_mult of_nat_numeral of_nat_power)
  ultimately show ?thesis
    using True b by (simp add: pow2_le_ratio_def pos_le_divide_eq mult.commute)
next
  case False
  assume b: "0 < b"
  define P where "P = (2::real) ^ nat (- k)"
  have "2 powi k = 1 / P"
    using False unfolding P_def
    by (metis add.inverse_inverse inverse_eq_divide le_cases neg_0_le_iff_le nat_0_le power_int_minus power_int_of_nat)
  moreover have "1 / P \<le> real a / real b \<longleftrightarrow> real b \<le> real a * P"
    using b by (simp add: P_def field_simps)
  moreover have "b \<le> a * 2 ^ nat (- k) \<longleftrightarrow> real b \<le> real a * P"
    unfolding P_def by (metis of_nat_le_iff of_nat_mult of_nat_numeral of_nat_power)
  ultimately show ?thesis
    using False by (simp add: pow2_le_ratio_def)
qed

lemma pow2_int_diff: "(2::real) powi (int m - int n) = 2 ^ m / 2 ^ n"
  by (simp add: power_int_diff)

lemma binade_bounds:
  assumes a: "0 < a" and b: "0 < b"
  shows "2 powi binade a b \<le> real a / real b \<and> real a / real b < 2 powi (binade a b + 1)"
proof -
  define la where "la = bit_length a"
  define lb where "lb = bit_length b"
  define k where "k = int la - int lb"
  have ba: "2 ^ (la - 1) \<le> a" "a < 2 ^ la" using bit_length_bounds [OF a] by (simp_all add: la_def)
  have bb: "2 ^ (lb - 1) \<le> b" "b < 2 ^ lb" using bit_length_bounds [OF b] by (simp_all add: lb_def)
  have la1: "1 \<le> la" using ba(2) a by (cases la) auto
  have lb1: "1 \<le> lb" using bb(2) b by (cases lb) auto
  have ra: "(2::real) ^ (la - 1) \<le> real a" "real a < 2 ^ la"
    using ba by (metis of_nat_le_iff of_nat_numeral of_nat_power, metis of_nat_less_iff of_nat_numeral of_nat_power)
  have rb: "(2::real) ^ (lb - 1) \<le> real b" "real b < 2 ^ lb"
    using bb by (metis of_nat_le_iff of_nat_numeral of_nat_power, metis of_nat_less_iff of_nat_numeral of_nat_power)
  have up: "real a / real b < 2 powi (k + 1)"
  proof -
    have "k + 1 = int la - int (lb - 1)" using lb1 by (simp add: k_def)
    then have "2 powi (k + 1) = (2::real) ^ la / 2 ^ (lb - 1)" by (simp add: pow2_int_diff)
    moreover have "real a / real b < 2 ^ la / 2 ^ (lb - 1)"
      by (rule frac_less) (use ra rb in auto)
    ultimately show ?thesis by simp
  qed
  have lo: "2 powi (k - 1) < real a / real b"
  proof -
    have "k - 1 = int (la - 1) - int lb" using la1 by (simp add: k_def)
    then have "2 powi (k - 1) = (2::real) ^ (la - 1) / 2 ^ lb" by (simp add: pow2_int_diff)
    moreover have "(2::real) ^ (la - 1) / 2 ^ lb < real a / real b"
      by (rule frac_less2) (use ra rb b in auto)
    ultimately show ?thesis by simp
  qed
  show ?thesis
  proof (cases "pow2_le_ratio k a b")
    case True
    then show ?thesis using up pow2_le_ratio_iff [OF b]
      by (simp add: binade_def Let_def k_def la_def lb_def)
  next
    case False
    then show ?thesis using lo pow2_le_ratio_iff [OF b]
      by (simp add: binade_def Let_def k_def la_def lb_def)
  qed
qed

lemma round_half_even_err:
  assumes "0 < d"
  shows "\<bar>real (round_half_even n d) - real n / real d\<bar> \<le> 1 / 2"
proof -
  define q where "q = n div d"
  define r where "r = n mod d"
  have n: "real n / real d = real q + real r / real d"
    using assms by (simp add: q_def r_def field_simps flip: of_nat_mult of_nat_add)
  have rd: "r < d" using assms by (simp add: r_def)
  show ?thesis
  proof (cases "d < 2 * r")
    case True
    then have "real d < 2 * real r" by linarith
    then show ?thesis using n rd assms
      by (simp add: round_half_even_def Let_def q_def [symmetric] r_def [symmetric] True field_simps)
  next
    case False
    then have "2 * real r \<le> real d" by linarith
    then show ?thesis using n rd assms False
      by (auto simp add: round_half_even_def Let_def q_def [symmetric] r_def [symmetric] field_simps)
  qed
qed

text \<open>\<open>round_half_even\<close> is a nearest integer: no integer is closer to \<open>n / d\<close>; on a tie it
  is the even one.\<close>

lemma round_half_even_closest:
  assumes d: "0 < d"
  shows "\<bar>real (round_half_even n d) - real n / real d\<bar> \<le> \<bar>real_of_int k - real n / real d\<bar>"
proof -
  define q where "q = n div d"
  define r where "r = n mod d"
  have x: "real n / real d = real q + real r / real d"
    using d by (simp add: q_def r_def field_simps flip: of_nat_mult of_nat_add)
  have rd: "real r < real d" using d by (simp add: r_def)
  have r0: "0 \<le> real r / real d" by simp
  have r1: "real r / real d < 1" using rd d by simp
  have dist: "real r / real d \<le> \<bar>real_of_int k - real n / real d\<bar> \<or> 1 - real r / real d \<le> \<bar>real_of_int k - real n / real d\<bar>"
  proof (cases "k \<le> int q")
    case True
    then have "real_of_int k \<le> real q" by (metis of_int_le_iff of_int_of_nat_eq)
    then show ?thesis using x r0 by auto
  next
    case False
    then have "real q + 1 \<le> real_of_int k" by (metis add.commute int_le_real_less not_le of_int_of_nat_eq)
    then show ?thesis using x r1 by auto
  qed
  have both: "real r / real d \<le> 1 - real r / real d \<longleftrightarrow> 2 * r \<le> d"
  proof -
    have "real r * 2 \<le> real d \<longleftrightarrow> r * 2 \<le> d" by (metis of_nat_le_iff of_nat_mult of_nat_numeral)
    then show ?thesis using d by (simp add: field_simps)
  qed
  show ?thesis
  proof (cases "d < 2 * r")
    case True
    then have "round_half_even n d = q + 1" by (simp add: round_half_even_def q_def r_def Let_def)
    then have "\<bar>real (round_half_even n d) - real n / real d\<bar> = 1 - real r / real d" using x r1 by simp
    with dist both True show ?thesis by auto
  next
    case False
    show ?thesis
    proof (cases "2 * r < d")
      case True
      then have "round_half_even n d = q" using False by (simp add: round_half_even_def q_def r_def Let_def)
      moreover have "real r / real d \<le> 1 - real r / real d" using both True by simp
      ultimately show ?thesis using dist x r0 by auto
    next
      case tie: False
      with False have "2 * r = d" by simp
      then have half: "real r / real d = 1 / 2" using d by (simp add: field_simps flip: of_nat_mult)
      have "round_half_even n d = q \<or> round_half_even n d = q + 1"
        by (simp add: round_half_even_def q_def r_def Let_def)
      then have "\<bar>real (round_half_even n d) - real n / real d\<bar> = 1 / 2" using x half by auto
      with dist half show ?thesis by auto
    qed
  qed
qed

lemma round_half_even_tie_even:
  "0 < d \<Longrightarrow> 2 * (n mod d) = d \<Longrightarrow> even (round_half_even n d)"
  by (auto simp: round_half_even_def Let_def)

lemma round_half_even_exact: "0 < d \<Longrightarrow> d dvd n \<Longrightarrow> round_half_even n d = n div d"
  by (simp add: round_half_even_def)

lemma pow2i_less_iff: "(2::real) powi i < 2 powi j \<longleftrightarrow> i < j"
proof
  assume "2 powi i < (2::real) powi j"
  then show "i < j"
    using power_int_increasing [of j i "2::real"] by (meson linorder_not_le not_le one_le_numeral)
next
  assume "i < j"
  then show "2 powi i < (2::real) powi j"
    using power_int_strict_increasing [of i j "2::real"] by simp
qed

lemma pow2i_le_iff: "(2::real) powi i \<le> 2 powi j \<longleftrightarrow> i \<le> j"
  by (meson linorder_not_less pow2i_less_iff)

lemma pow2_scale: "(2::real) ^ nat (- e) / 2 ^ nat e = 2 powi (- e)"
proof (cases "0 \<le> e")
  case True
  have "(2::real) powi e = 2 ^ nat e" using True by (metis nat_0_le power_int_of_nat)
  then have "(2::real) powi (- e) = inverse (2 ^ nat e)" by (simp only: power_int_minus)
  then show ?thesis using True by (simp add: divide_inverse)
next
  case False
  then have "- e = int (nat (- e))" by simp
  then have "(2::real) powi (- e) = 2 ^ nat (- e)" by (metis power_int_of_nat)
  then show ?thesis using False by simp
qed

lemma pow2i_shift: "(2::real) powi e * 2 powi (- e) = 1"
  by (simp add: power_int_minus)

lemma dvd_of_ratio_Ints:
  assumes "0 < d" "real n / real d \<in> \<int>"
  shows "d dvd n"
proof -
  obtain z :: int where z: "real n / real d = of_int z" using assms(2) Ints_cases by blast
  then have "real n = of_int z * real d" using assms(1) by (simp add: field_simps)
  then have "int n = z * int d" by (metis of_int_eq_iff of_int_mult of_int_of_nat_eq)
  then have "int d dvd int n" by simp
  then show ?thesis by simp
qed

text \<open>Rounding in the normal range: the exponent puts the significand in \<open>[2^52, 2^53)\<close>, the
  error is at most half a unit in the last place, and a value with no bits below that place
  is exact.\<close>

lemma b64_round_normal:
  fixes p q :: int
  defines "x \<equiv> real_of_int p / real_of_int q"
  assumes p: "0 < p" and q: "0 < q" and lo: "2 powi (-1022) \<le> x" and hi: "x < 2 ^ 1000"
  shows "\<exists>m e. b64_round p q = B64 m e \<and> 0 \<le> m \<and> 2 powi (e + 52) \<le> x
           \<and> \<bar>b64_val (B64 m e) - x\<bar> \<le> 2 powi e / 2
           \<and> (x * 2 powi (- e) \<in> \<int> \<longrightarrow> b64_val (B64 m e) = x)"
proof -
  define a where "a = nat p"
  define b where "b = nat q"
  have a0: "0 < a" and b0: "0 < b" using p q by (simp_all add: a_def b_def)
  have xab: "x = real a / real b" using p q by (simp add: x_def a_def b_def)
  define E where "E = binade a b"
  have xE: "2 powi E \<le> x" "x < 2 powi (E + 1)"
    using binade_bounds [OF a0 b0] by (simp_all add: xab E_def)
  have "-1022 < E + 1" using lo xE(2) pow2i_less_iff [of "-1022" "E + 1"] by linarith
  moreover have "E < 1000"
  proof -
    have "(2::real) ^ 1000 = 2 powi 1000" by (metis of_nat_numeral power_int_of_nat)
    then show ?thesis using hi xE(1) pow2i_less_iff [of E 1000] by linarith
  qed
  ultimately have Er: "-1022 \<le> E" "E < 1000" by simp_all
  define e where "e = b64_exponent a b"
  have e: "e = E - 52" using Er by (simp add: e_def b64_exponent_def E_def)
  define num where "num = a * 2 ^ nat (- e)"
  define den where "den = b * 2 ^ nat e"
  have den0: "0 < den" using b0 by (simp add: den_def)
  have s: "real num / real den = x * 2 powi (- e)"
  proof -
    have "real num / real den = (real a / real b) * (2 ^ nat (- e) / 2 ^ nat e)"
      by (simp add: num_def den_def)
    then show ?thesis by (simp add: xab pow2_scale)
  qed
  define m where "m = round_half_even num den"
  have err: "\<bar>real m - x * 2 powi (- e)\<bar> \<le> 1 / 2"
    using round_half_even_err [OF den0, of num] by (simp add: m_def s)
  have scale: "2 powi (E + 1) * 2 powi (- e) = (2::real) ^ 53"
  proof -
    have "2 powi (E + 1) * 2 powi (- e) = (2::real) powi (E + 1 + - e)"
      by (rule power_int_add [symmetric]) simp
    also have "E + 1 + - e = int 53" using e by simp
    finally show ?thesis by (metis power_int_of_nat)
  qed
  have s_hi: "x * 2 powi (- e) < 2 ^ 53"
    using xE(2) scale by (metis mult_strict_right_mono zero_less_power_int zero_less_numeral)
  have "real m < 2 ^ 53 + 1" using err s_hi by linarith
  then have m53: "m \<le> 2 ^ 53"
    by (metis Suc_leI linorder_not_less nat_less_real_le of_nat_numeral of_nat_power)
  have no_ovf: "\<not> (0 \<le> e \<and> 2 ^ 1024 \<le> m * 2 ^ nat e)"
  proof
    assume o: "0 \<le> e \<and> 2 ^ 1024 \<le> m * 2 ^ nat e"
    have "nat e \<le> 947" using e Er by simp
    then have p947: "(2::nat) ^ nat e \<le> 2 ^ 947" by (intro power_increasing) simp_all
    have "m * 2 ^ nat e \<le> 2 ^ 53 * 2 ^ 947" by (rule mult_mono [OF m53 p947]) simp_all
    also have "(2::nat) ^ 53 * 2 ^ 947 = 2 ^ 1000" by (simp only: power_add [symmetric] numeral_plus_numeral semiring_norm)
    also have "(2::nat) ^ 1000 < 2 ^ 1024" by (intro power_strict_increasing) simp_all
    finally show False using o by linarith
  qed
  have r: "b64_round p q = B64 (int m) e"
    using p no_ovf by (simp add: b64_round_def Let_def a_def [symmetric] b_def [symmetric] e_def [symmetric]
        num_def [symmetric] den_def [symmetric] m_def [symmetric])
  have xs: "x = x * 2 powi (- e) * 2 powi e"
    using pow2i_shift [of e] by (simp add: mult.assoc mult.commute)
  have v: "b64_val (B64 (int m) e) = real m * 2 powi e" by (simp add: b64_val_def)
  have "(real m - x * 2 powi (- e)) * 2 powi e = real m * 2 powi e - x"
    using xs [symmetric] by (simp only: left_diff_distrib)
  then have "\<bar>b64_val (B64 (int m) e) - x\<bar> = \<bar>(real m - x * 2 powi (- e)) * 2 powi e\<bar>"
    by (simp only: v)
  also have "\<dots> = \<bar>real m - x * 2 powi (- e)\<bar> * 2 powi e"
    by (simp add: abs_mult)
  also have "\<dots> \<le> 1 / 2 * 2 powi e" using err by (simp add: mult_right_mono)
  finally have bound: "\<bar>b64_val (B64 (int m) e) - x\<bar> \<le> 2 powi e / 2" by simp
  have low: "2 powi (e + 52) \<le> x" using xE(1) e by simp
  have exact: "x * 2 powi (- e) \<in> \<int> \<Longrightarrow> b64_val (B64 (int m) e) = x"
  proof -
    assume "x * 2 powi (- e) \<in> \<int>"
    then have "den dvd num" using dvd_of_ratio_Ints [OF den0] s by simp
    then have "m = num div den" by (simp add: m_def round_half_even_exact [OF den0])
    then have "real m = real num / real den" using \<open>den dvd num\<close> by (simp add: real_of_nat_div)
    then show ?thesis using v s xs by simp
  qed
  show ?thesis using r bound low exact by fastforce
qed

lemma b64_div_int_normal:
  fixes a b :: int
  defines "x \<equiv> real_of_int a / real_of_int b"
  assumes a: "0 < a" and b: "0 < b" and lo: "2 powi (-1022) \<le> x" and hi: "x < 2 ^ 1000"
  shows "\<exists>m e. b64_div_int a b = Inr (B64 m e) \<and> 0 \<le> m \<and> 2 powi (e + 52) \<le> x
           \<and> \<bar>b64_val (B64 m e) - x\<bar> \<le> 2 powi e / 2
           \<and> (x * 2 powi (- e) \<in> \<int> \<longrightarrow> b64_val (B64 m e) = x)"
  using b64_round_normal [OF a b lo [unfolded x_def] hi [unfolded x_def]] b
  by (auto simp: b64_div_int_def x_def)

lemma b64_mul_val:
  "real_of_int (m1 * m2 * 2 ^ nat (e1 + e2)) / real_of_int (2 ^ nat (- (e1 + e2)))
     = b64_val (B64 m1 e1) * b64_val (B64 m2 e2)"
proof -
  have "real_of_int (m1 * m2 * 2 ^ nat (e1 + e2)) / real_of_int (2 ^ nat (- (e1 + e2)))
      = real_of_int m1 * real_of_int m2 * (2 ^ nat (e1 + e2) / 2 ^ nat (- (e1 + e2)))"
    by simp
  also have "\<dots> = real_of_int m1 * real_of_int m2 * 2 powi (e1 + e2)"
    using pow2_scale [of "- (e1 + e2)"] by (simp only: minus_minus)
  also have "\<dots> = b64_val (B64 m1 e1) * b64_val (B64 m2 e2)"
    by (simp add: b64_val_def power_int_add)
  finally show ?thesis .
qed

lemma b64_to_int_floor:
  "0 \<le> m \<Longrightarrow> b64_to_int (B64 m e) = Inr \<lfloor>b64_val (B64 m e)\<rfloor>"
proof (cases "0 \<le> e")
  case True
  have "(2::real) powi e = 2 ^ nat e" using True by (metis nat_0_le power_int_of_nat)
  then have v: "b64_val (B64 m e) = real_of_int (m * 2 ^ nat e)" by (simp add: b64_val_def)
  have "b64_to_int (B64 m e) = Inr (m * 2 ^ nat e)" using True by (simp add: b64_to_int_def)
  then show ?thesis by (simp only: v floor_of_int)
next
  case False
  assume m: "0 \<le> m"
  have "(2::real) powi e = 1 / 2 ^ nat (- e)"
    using False by (metis add.inverse_inverse divide_inverse_commute inverse_eq_divide linorder_le_cases
        mult_1 nat_0_le neg_0_le_iff_le power_int_minus power_int_of_nat)
  then have "b64_val (B64 m e) = real_of_int m / real_of_int (2 ^ nat (- e))"
    by (simp add: b64_val_def)
  moreover have "\<lfloor>real_of_int m / real_of_int (2 ^ nat (- e))\<rfloor> = m div 2 ^ nat (- e)"
    by (rule floor_divide_of_int_eq)
  moreover have "sgn m * (m div 2 ^ nat (- e)) = m div 2 ^ nat (- e)"
    using m by (cases "m = 0") simp_all
  ultimately show ?thesis using False m by (simp add: b64_to_int_def)
qed

text \<open>Floors of a value close to a ratio \<open>k / t\<close>: closer than \<open>1 / t\<close>, the floor is \<open>k div t\<close>
  or one less, and it is \<open>k div t\<close> when the value is exact at integers.\<close>

lemma ratio_floor_gap:
  fixes k t :: int
  assumes "0 < t"
  shows "1 / real_of_int t \<le> real_of_int (k div t) + 1 - real_of_int k / real_of_int t"
    and "k mod t \<noteq> 0 \<Longrightarrow> 1 / real_of_int t \<le> real_of_int k / real_of_int t - real_of_int (k div t)"
proof -
  have k: "real_of_int k = real_of_int t * real_of_int (k div t) + real_of_int (k mod t)"
    by (metis div_mult_mod_eq mult.commute of_int_add of_int_mult)
  have "k mod t < t" by (rule pos_mod_bound [OF assms])
  then have r: "k mod t + 1 \<le> t" "0 \<le> k mod t" using pos_mod_sign [OF assms, of k] by simp_all
  have t: "0 < real_of_int t" using assms by simp
  show "1 / real_of_int t \<le> real_of_int (k div t) + 1 - real_of_int k / real_of_int t"
    using r t by (simp add: k field_simps flip: of_int_add of_int_le_iff)
  show "1 / real_of_int t \<le> real_of_int k / real_of_int t - real_of_int (k div t)"
    if "k mod t \<noteq> 0"
  proof -
    have "1 \<le> k mod t" using r(2) that by linarith
    then show ?thesis using t by (simp add: k field_simps)
  qed
qed

lemma floor_near_ratio:
  fixes k t :: int
  assumes t: "0 < t" and close: "\<bar>y - real_of_int k / real_of_int t\<bar> < 1 / real_of_int t"
  shows "\<lfloor>y\<rfloor> = k div t \<or> \<lfloor>y\<rfloor> = k div t - 1"
proof -
  have "y < real_of_int (k div t) + 1" using close ratio_floor_gap(1) [OF t, of k] by linarith
  moreover have "1 / real_of_int t \<le> 1" using t by simp
  moreover have "real_of_int (k div t) \<le> real_of_int k / real_of_int t"
    by (metis floor_divide_of_int_eq of_int_floor_le)
  ultimately have "real_of_int (k div t) - 1 \<le> y"
    using close by linarith
  with \<open>y < real_of_int (k div t) + 1\<close> show ?thesis by linarith
qed

lemma floor_near_ratio_exact:
  fixes k t :: int
  assumes t: "0 < t" and close: "\<bar>y - real_of_int k / real_of_int t\<bar> < 1 / real_of_int t"
    and exact: "real_of_int k / real_of_int t \<in> \<int> \<Longrightarrow> y = real_of_int k / real_of_int t"
  shows "\<lfloor>y\<rfloor> = k div t"
proof (cases "k mod t = 0")
  case True
  then have "real_of_int k / real_of_int t = real_of_int (k div t)"
    by (metis real_of_int_div dvd_eq_mod_eq_0)
  then show ?thesis using exact by simp
next
  case False
  have "y < real_of_int (k div t) + 1" using close ratio_floor_gap(1) [OF t, of k] by linarith
  moreover have "real_of_int (k div t) \<le> y" using close ratio_floor_gap(2) [OF t False] by linarith
  ultimately show ?thesis by linarith
qed

lemma half_ulp_rel:
  fixes x :: real
  assumes "2 powi (e + 52) \<le> x"
  shows "2 powi e / 2 \<le> x / 2 ^ 53"
proof -
  have "(2::real) powi (e + 52) = 2 powi e * 2 powi 52" by (rule power_int_add) simp
  also have "(2::real) powi 52 = 2 ^ 52" by (metis of_nat_numeral power_int_of_nat)
  finally have "2 powi e * 2 ^ 52 \<le> x" using assms by simp
  then show ?thesis by (simp add: field_simps)
qed

lemma Ints_scaled:
  fixes x :: real
  assumes "2 powi (e + 52) \<le> x" "x < 2 ^ 52" "x \<in> \<int>"
  shows "x * 2 powi (- e) \<in> \<int>"
proof -
  have "(2::real) powi (e + 52) < 2 powi 52"
    using assms(1,2) by (metis le_less_trans of_nat_numeral power_int_of_nat)
  then have "e + 52 < 52" by (simp only: pow2i_less_iff)
  then have "e < 0" by simp
  then have "(2::real) powi (- e) = of_int (2 ^ nat (- e))"
    by (metis le_less nat_0_le neg_0_less_iff_less of_int_numeral of_int_power power_int_of_nat)
  then show ?thesis using assms(3) by (simp add: Ints_mult)
qed

lemma b64_of_int_100: "b64_of_int 100 = Inr (B64 7036874417766400 (-46))"
proof -
  have "bit_length 100 = 7" by (simp add: bit_length.simps)
  then have "binade 100 (Suc 0) = 6" by (simp add: binade_def bit_length.simps pow2_le_ratio_def)
  then have "b64_exponent 100 (Suc 0) = -46" by (simp add: b64_exponent_def)
  then have "b64_round 100 1 = B64 7036874417766400 (-46)"
    by (simp add: b64_round_def round_half_even_def Let_def)
  then show ?thesis by (simp add: b64_of_int_def)
qed

lemma b64_val_100: "b64_val (B64 7036874417766400 (-46)) = 100"
  by (simp add: b64_val_def power_int_minus)

end
