(* ===== verification/ProviderConfig.thy ===== *)
theory ProviderConfig
  imports PyInt
begin

text \<open>
  The module \<open>src/AIAgentWorkshop-New/config.py\<close>, which every session script imports:
  at import time it reads the process environment (after \<open>load_dotenv()\<close> has merged the
  \<open>.env\<close> file into it; reading that file is not modelled) and binds the module constants
  \<open>PROVIDER\<close>, \<open>API_KEY\<close>, \<open>MODEL\<close>, \<open>API_BASE\<close>, \<open>DEBUG\<close>, \<open>MAX_TOKENS\<close>,
  \<open>TEMPERATURE\<close>, \<open>MAX_RETRIES\<close>, \<open>RETRY_DELAY\<close> and \<open>LLM_STRING\<close>. The import is
  \<open>load_provider_config\<close>, from the environment (a map) to the record of constants, or
  to the \<open>ValueError\<close> that \<open>int(...)\<close> or \<open>float(...)\<close> raises on a malformed
  \<open>MAX_TOKENS\<close> or \<open>TEMPERATURE\<close>, which aborts the import.
\<close>

type_synonym environ = "string \<rightharpoonup> string"

text \<open>\<open>os.getenv(key, default)\<close>.\<close>

definition getenv :: "environ \<Rightarrow> string \<Rightarrow> string \<Rightarrow> string" where
  "getenv env key dflt = (case env key of Some v \<Rightarrow> v | None \<Rightarrow> dflt)"

record provider_config =
  PROVIDER :: string
  API_KEY :: string
  MODEL :: string
  API_BASE :: string
  DEBUG :: bool
  MAX_TOKENS :: int
  TEMPERATURE :: py_float
  MAX_RETRIES :: int
  RETRY_DELAY :: real
  LLM_STRING :: string

datatype config_error =
    ValueError_int_literal string
  | ValueError_float_literal string

definition samba_default_key :: string where
  "samba_default_key = ''1f2ecb79-46bf-4b57-938a-b26db06ed941''"

definition samba_api_base :: string where
  "samba_api_base = ''https://api.sambanova.ai/v1''"

text \<open>Lines 13--27: the provider and its key, model and endpoint.\<close>

definition provider_settings :: "environ \<Rightarrow> string \<times> string \<times> string \<times> string" where
  "provider_settings env =
     (let provider = getenv env ''AI_PROVIDER'' ''ollama'' in
      if provider = ''sambanova'' then
        (provider, getenv env ''SAMBA_API_KEY'' samba_default_key,
         getenv env ''SAMBA_MODEL'' ''gpt-oss-120b'', samba_api_base)
      else if provider = ''ollama'' then
        (provider, ''ollama'', getenv env ''OLLAMA_MODEL'' ''gemma3:4b'', ''http://localhost:11434/v1'')
      else
        (provider, getenv env ''SAMBA_API_KEY'' samba_default_key,
         getenv env ''SAMBA_MODEL'' ''gpt-oss-120b'', samba_api_base))"

text \<open>Lines 39--42.\<close>

definition llm_string :: "string \<Rightarrow> string \<Rightarrow> string" where
  "llm_string provider model =
     (if provider = ''ollama'' then ''ollama/'' @ model else provider @ ''/'' @ model)"

definition load_provider_config :: "environ \<Rightarrow> config_error + provider_config" where
  "load_provider_config env =
     (let (provider, key, model, base) = provider_settings env;
          debug = (py_lower (getenv env ''WORKSHOP_DEBUG'' ''false'') = ''true'');
          tok = getenv env ''MAX_TOKENS'' ''4000'';
          temp = getenv env ''TEMPERATURE'' ''0.7''
      in case py_int tok of
           None \<Rightarrow> Inl (ValueError_int_literal tok)
         | Some max_tokens \<Rightarrow>
             (case py_float temp of
                None \<Rightarrow> Inl (ValueError_float_literal temp)
              | Some temperature \<Rightarrow>
                  Inr \<lparr>PROVIDER = provider, API_KEY = key, MODEL = model, API_BASE = base,
                       DEBUG = debug, MAX_TOKENS = max_tokens, TEMPERATURE = temperature,
                       MAX_RETRIES = 3, RETRY_DELAY = 1.0, LLM_STRING = llm_string provider model\<rparr>))"

text \<open>The constants an import with an empty environment is meant to produce.\<close>

definition ollama_defaults :: provider_config where
  "ollama_defaults = \<lparr>PROVIDER = ''ollama'', API_KEY = ''ollama'', MODEL = ''gemma3:4b'',
     API_BASE = ''http://localhost:11434/v1'', DEBUG = False, MAX_TOKENS = 4000, TEMPERATURE = Finite False 7 (-1),
     MAX_RETRIES = 3, RETRY_DELAY = 1.0, LLM_STRING = ''ollama/gemma3:4b''\<rparr>"

section \<open>Lemmas\<close>

lemma getenv_empty [simp]: "getenv Map.empty k d = d"
  by (simp add: getenv_def)

lemma getenv_upd [simp]: "getenv (env(k \<mapsto> v)) k' d = (if k' = k then v else getenv env k' d)"
  by (simp add: getenv_def)

lemma load_provider_config_llm_string:
  "load_provider_config env = Inr r \<Longrightarrow> LLM_STRING r = llm_string (PROVIDER r) (MODEL r)"
  by (auto simp: load_provider_config_def Let_def split: option.splits prod.splits)

section \<open>Properties of the configuration module\<close>

text \<open>With no variable set in the environment, importing \<open>config.py\<close> succeeds and selects
  the local Ollama server: provider \<open>ollama\<close>, key \<open>ollama\<close>, model \<open>gemma3:4b\<close>, endpoint
  \<open>http://localhost:11434/v1\<close>, debug off, 4000 tokens, temperature 0.7, three retries one
  second apart, and LiteLLM model string \<open>ollama/gemma3:4b\<close>.\<close>

theorem default_provider_config:
  "load_provider_config Map.empty = Inr \<lparr>PROVIDER = ''ollama'', API_KEY = ''ollama'', MODEL = ''gemma3:4b'',
     API_BASE = ''http://localhost:11434/v1'', DEBUG = False, MAX_TOKENS = 4000, TEMPERATURE = Finite False 7 (-1),
     MAX_RETRIES = 3, RETRY_DELAY = 1.0, LLM_STRING = ''ollama/gemma3:4b''\<rparr>"
  by code_simp

text \<open>C23. Whenever the import succeeds, the Ollama provider gets the fixed key \<open>ollama\<close>, the
  local endpoint and \<open>LLM_STRING = ollama/MODEL\<close>. Every other provider gets the SambaNova
  endpoint and \<open>LLM_STRING = PROVIDER/MODEL\<close>.\<close>

theorem provider_consistency:
  "load_provider_config env = Inr r \<Longrightarrow>
   (PROVIDER r = ''ollama'' \<longrightarrow> API_KEY r = ''ollama'' \<and> API_BASE r = ''http://localhost:11434/v1''
      \<and> LLM_STRING r = ''ollama/'' @ MODEL r)
 \<and> (PROVIDER r \<noteq> ''ollama'' \<longrightarrow> API_BASE r = samba_api_base \<and> LLM_STRING r = PROVIDER r @ ''/'' @ MODEL r)"
  by (auto simp: load_provider_config_def provider_settings_def llm_string_def Let_def split: option.splits if_splits)

theorem provider_consistency_witness:
  "load_provider_config (Map.empty(''AI_PROVIDER'' \<mapsto> ''sambanova'')) = Inr (ollama_defaults\<lparr>PROVIDER := ''sambanova'',
      API_KEY := samba_default_key, MODEL := ''gpt-oss-120b'', API_BASE := samba_api_base,
      LLM_STRING := ''sambanova/gpt-oss-120b''\<rparr>)
   \<and> API_BASE (ollama_defaults\<lparr>PROVIDER := ''sambanova'', API_KEY := samba_default_key, MODEL := ''gpt-oss-120b'',
      API_BASE := samba_api_base, LLM_STRING := ''sambanova/gpt-oss-120b''\<rparr>) = samba_api_base"
proof -
  have l: "load_provider_config (Map.empty(''AI_PROVIDER'' \<mapsto> ''sambanova'')) = Inr (ollama_defaults\<lparr>PROVIDER := ''sambanova'',
      API_KEY := samba_default_key, MODEL := ''gpt-oss-120b'', API_BASE := samba_api_base,
      LLM_STRING := ''sambanova/gpt-oss-120b''\<rparr>)"
    by code_simp
  from provider_consistency [OF l] show ?thesis using l by (simp add: ollama_defaults_def)
qed

text \<open>C24. The import raises \<open>ValueError\<close> exactly when \<open>MAX_TOKENS\<close> (default \<open>4000\<close>) is
  not an \<open>int\<close> literal or \<open>TEMPERATURE\<close> (default \<open>0.7\<close>) is not a \<open>float\<close> literal;
  every other environment imports.\<close>

theorem load_provider_config_error_iff:
  "(\<exists>err. load_provider_config env = Inl err) \<longleftrightarrow>
     py_int (getenv env ''MAX_TOKENS'' ''4000'') = None \<or> py_float (getenv env ''TEMPERATURE'' ''0.7'') = None"
  by (auto simp: load_provider_config_def Let_def split: option.splits prod.splits)

end
