(* ===== verification/Helpers.thy ===== *)
theory Helpers
  imports Binary64 ProviderConfig
begin

text \<open>
  The utility functions of \<open>src/AIAgentWorkshop-New/utils/helpers.py\<close>, one definition per
  function, over the Python values of theory \<open>PyValue\<close>:
  \<^item> \<open>load_environment_variables\<close>, from the environment to the dict of the required and
    optional variables, or the \<open>ValueError\<close> message;
  \<^item> \<open>validate_api_key\<close> and \<open>format_agent_response\<close>;
  \<^item> \<open>safe_get_nested_value\<close>, a path lookup that catches the subscription errors;
  \<^item> \<open>truncate_text\<close> (with Python's negative slices) and \<open>calculate_token_estimate\<close>;
  \<^item> \<open>format_workflow_summary\<close> and \<open>create_error_message\<close>;
  \<^item> \<open>validate_workflow_state\<close> and \<open>merge_agent_contexts\<close> (\<open>dict.update\<close> in order);
  \<^item> \<open>log_workflow_step\<close>, as the lines it prints for a given timestamp;
  \<^item> \<open>get_available_models\<close> and \<open>estimate_cost\<close>.

  Results that contain the text of a value are \<open>string option\<close>, \<open>None\<close> standing for a
  float whose \<open>repr\<close> is not modelled.

  \<open>create_progress_indicator\<close> is modelled with the binary64 arithmetic of theory
  \<open>Binary64\<close>, since its percentage \<open>int((current / total) * 100)\<close> depends on IEEE double
  rounding (\<open>(29 / 100) * 100\<close> is \<open>28.999999999999996\<close>); the two glyphs of its bar lie
  outside the 8-bit strings of the model and are parameters.\<close>

section \<open>Environment and API keys\<close>

definition missing_var_message :: "string \<Rightarrow> string" where
  "missing_var_message var = ''Required environment variable '' @ var @ '' is not set''"

fun load_required :: "environ \<Rightarrow> string list \<Rightarrow> pydict \<Rightarrow> string + pydict" where
  "load_required env [] d = Inr d"
| "load_required env (var # vars) d =
     (case env var of
        None \<Rightarrow> Inl (missing_var_message var)
      | Some value \<Rightarrow> if value = [] then Inl (missing_var_message var)
                      else load_required env vars (dict_set d (PStr var) (PStr value)))"

definition load_optional :: "environ \<Rightarrow> string list \<Rightarrow> pydict \<Rightarrow> pydict" where
  "load_optional env vars d =
     foldl (\<lambda>acc var. case env var of Some value \<Rightarrow> if value \<noteq> [] then dict_set acc (PStr var) (PStr value) else acc
                                    | None \<Rightarrow> acc) d vars"

definition required_vars :: "string list" where
  "required_vars = [''GROQ_API_KEY'']"

definition optional_vars :: "string list" where
  "optional_vars = [''GROQ_MODEL'', ''WORKSHOP_DEBUG'', ''MAX_TOKENS'', ''TEMPERATURE'']"

definition load_environment_variables :: "environ \<Rightarrow> string + pydict" where
  "load_environment_variables env =
     (case load_required env required_vars [] of
        Inl msg \<Rightarrow> Inl msg
      | Inr d \<Rightarrow> Inr (load_optional env optional_vars d))"

definition validate_api_key :: "pyval \<Rightarrow> bool" where
  "validate_api_key api_key =
     (if \<not> py_truthy api_key \<or> (case api_key of PStr _ \<Rightarrow> False | _ \<Rightarrow> True) then False
      else (case api_key of PStr s \<Rightarrow> prefix ''gsk_'' s \<and> 20 < length s | _ \<Rightarrow> False))"

definition format_agent_response :: "pyval \<Rightarrow> string option" where
  "format_agent_response response =
     (case response of PStr s \<Rightarrow> Some (py_strip s) | _ \<Rightarrow> map_option py_strip (py_str response))"

section \<open>Progress indicator\<close>

text \<open>\<open>int((current / total) * 100) if total > 0 else 0\<close>, in binary64.\<close>

definition progress_percentage :: "int \<Rightarrow> int \<Rightarrow> pyerr + int" where
  "progress_percentage current tot =
     (if 0 < tot then
        (case b64_div_int current tot of
           Inl e \<Rightarrow> Inl e
         | Inr q \<Rightarrow> (case b64_mul_int q 100 of Inl e \<Rightarrow> Inl e | Inr y \<Rightarrow> b64_to_int y))
      else Inr 0)"

definition bar_length :: int where
  "bar_length = 20"

text \<open>\<open>int(bar_length * current / total) if total > 0 else 0\<close>.\<close>

definition progress_filled :: "int \<Rightarrow> int \<Rightarrow> pyerr + int" where
  "progress_filled current tot =
     (if 0 < tot then
        (case b64_div_int (bar_length * current) tot of Inl e \<Rightarrow> Inl e | Inr y \<Rightarrow> b64_to_int y)
      else Inr 0)"

text \<open>\<open>bar = full * filled_length + light * (bar_length - filled_length)\<close>. The source's glyphs
  \<open>full\<close> (U+2588) and \<open>light\<close> (U+2591) lie outside the 8-bit strings of the model, so they
  are parameters; a negative count repeats nothing, as in Python.\<close>

definition progress_bar :: "string \<Rightarrow> string \<Rightarrow> int \<Rightarrow> string" where
  "progress_bar full light filled_length =
     concat (replicate (nat filled_length) full) @ concat (replicate (nat (bar_length - filled_length)) light)"

definition create_progress_indicator :: "string \<Rightarrow> string \<Rightarrow> int \<Rightarrow> int \<Rightarrow> string \<Rightarrow> pyerr + string" where
  "create_progress_indicator full light current tot prefix_text =
     (case progress_percentage current tot of
        Inl e \<Rightarrow> Inl e
      | Inr percentage \<Rightarrow>
          (case progress_filled current tot of
             Inl e \<Rightarrow> Inl e
           | Inr filled_length \<Rightarrow>
               Inr (prefix_text @ '': ['' @ progress_bar full light filled_length @ ''] ''
                    @ py_str_int percentage @ ''% ('' @ py_str_int current @ ''/'' @ py_str_int tot @ '')'')))"

section \<open>Nested lookup, truncation and estimates\<close>

fun nested_getitem :: "pyval \<Rightarrow> pyval list \<Rightarrow> pyerr + pyval" where
  "nested_getitem data [] = Inr data"
| "nested_getitem data (key # keys) =
     (case py_getitem data key of Inl e \<Rightarrow> Inl e | Inr data' \<Rightarrow> nested_getitem data' keys)"

definition safe_get_nested_value :: "pyval \<Rightarrow> pyval list \<Rightarrow> pyval \<Rightarrow> pyerr + pyval" where
  "safe_get_nested_value data keys dflt =
     (case nested_getitem data keys of
        Inr v \<Rightarrow> Inr v
      | Inl e \<Rightarrow> if e \<in> {KeyError, TypeError, IndexError} then Inr dflt else Inl e)"

definition truncate_text :: "string \<Rightarrow> int \<Rightarrow> string \<Rightarrow> string" where
  "truncate_text text max_length suffix_text =
     (if int (length text) \<le> max_length then text
      else py_slice_to text (max_length - int (length suffix_text)) @ suffix_text)"

definition calculate_token_estimate :: "string \<Rightarrow> nat" where
  "calculate_token_estimate text = length text div 4"

section \<open>Summaries and messages\<close>

text \<open>\<open>str.replace(old, new)\<close> for one-character \<open>old\<close> and \<open>new\<close>, and \<open>str.title()\<close> on
  ASCII text (the only text it is applied to here is three constant keys).\<close>

definition py_replace_char :: "char \<Rightarrow> char \<Rightarrow> string \<Rightarrow> string" where
  "py_replace_char old new s = map (\<lambda>c. if c = old then new else c) s"

definition ascii_lower :: "char \<Rightarrow> bool" where
  "ascii_lower c \<longleftrightarrow> (let n = (of_char c :: nat) in 97 \<le> n \<and> n \<le> 122)"

definition ascii_upper :: "char \<Rightarrow> bool" where
  "ascii_upper c \<longleftrightarrow> (let n = (of_char c :: nat) in 65 \<le> n \<and> n \<le> 90)"

fun title_from :: "bool \<Rightarrow> string \<Rightarrow> string" where
  "title_from prev_cased [] = []"
| "title_from prev_cased (c # cs) =
     (let cased = ascii_lower c \<or> ascii_upper c;
          c' = (if prev_cased \<and> ascii_upper c then char_of (of_char c + (32::nat))
                else if \<not> prev_cased \<and> ascii_lower c then char_of (of_char c - (32::nat)) else c)
      in c' # title_from cased cs)"

definition py_title :: "string \<Rightarrow> string" where
  "py_title s = title_from False s"

definition summary_count_line :: "string \<Rightarrow> pyval \<Rightarrow> pyerr + string list" where
  "summary_count_line label v =
     (if py_truthy v then (case py_len v of Inl e \<Rightarrow> Inl e | Inr n \<Rightarrow> Inr [label @ py_str_int (int n)])
      else Inr [])"

definition summary_content_keys :: "string list" where
  "summary_content_keys = [''user_request'', ''analysis_result'', ''final_synthesis'']"

definition summary_content_line :: "pydict \<Rightarrow> string \<Rightarrow> string list option" where
  "summary_content_line state key =
     (case safe_get_nested_value (PDict state) [PStr key] PNone of
        Inl e \<Rightarrow> None
      | Inr value \<Rightarrow>
          if py_truthy value then
            map_option (\<lambda>s. [py_title (py_replace_char CHR ''_'' CHR '' '' key) @ '': '' @ truncate_text s 100 ''...''])
              (py_str value)
          else Some [])"

definition summary_field_line :: "pydict \<Rightarrow> string \<Rightarrow> string \<Rightarrow> string list option" where
  "summary_field_line state key label =
     (case dict_lookup state (PStr key) of
        None \<Rightarrow> Some []
      | Some v \<Rightarrow> map_option (\<lambda>s. [label @ s]) (py_str v))"

definition format_workflow_summary :: "pydict \<Rightarrow> pyerr + string option" where
  "format_workflow_summary state =
     (case (safe_get_nested_value (PDict state) [PStr ''crew_tasks''] (PList []),
            safe_get_nested_value (PDict state) [PStr ''crew_results''] (PList [])) of
        (Inr crew_tasks, Inr crew_results) \<Rightarrow>
         (case summary_count_line ''Tasks Completed: '' crew_tasks of
           Inl e \<Rightarrow> Inl e
         | Inr tasks \<Rightarrow>
             (case summary_count_line ''Results Generated: '' crew_results of
                Inl e \<Rightarrow> Inl e
              | Inr results \<Rightarrow>
                  Inr (map_option (\<lambda>parts. py_join ''\<newline>'' (concat parts))
                    (those ([summary_field_line state ''status'' ''Status: '',
                             summary_field_line state ''timestamp'' ''Timestamp: '', Some tasks, Some results]
                            @ map (summary_content_line state) summary_content_keys)))))
      | (Inl e, _) \<Rightarrow> Inl e
      | (_, Inl e) \<Rightarrow> Inl e)"

record py_exception =
  exc_type_name :: string
  exc_message :: string

definition create_error_message :: "py_exception \<Rightarrow> string \<Rightarrow> string" where
  "create_error_message error context =
     (let message = ''Error in '' @ context @ '': '' @ exc_type_name error in
      if exc_message error \<noteq> [] then message @ '' - '' @ exc_message error else message)"

section \<open>Workflow states and agent contexts\<close>

fun collect_missing :: "pydict \<Rightarrow> pyval list \<Rightarrow> pyerr + pyval list" where
  "collect_missing state [] = Inr []"
| "collect_missing state (key # keys) =
     (if \<not> py_hashable key then Inl TypeError
      else map_sum id (if dict_in key state then id else Cons key) (collect_missing state keys))"

definition validate_workflow_state :: "pydict \<Rightarrow> pyval list \<Rightarrow> pyerr + bool \<times> pyval list" where
  "validate_workflow_state state required_keys =
     map_sum id (\<lambda>missing. (missing = [], missing)) (collect_missing state required_keys)"

definition merge_agent_contexts :: "pyval list \<Rightarrow> pydict" where
  "merge_agent_contexts contexts =
     foldl (\<lambda>merged context. case context of PDict d \<Rightarrow> dict_update merged d | _ \<Rightarrow> merged) [] contexts"

definition log_item_line :: "pyval \<times> pyval \<Rightarrow> string option" where
  "log_item_line item =
     (let (key, value) = item;
          shown = (case value of PStr s \<Rightarrow> if 100 < length s then Some (take 100 s @ ''...'') else Some s
                   | _ \<Rightarrow> py_str value)
      in case (py_str key, shown) of (Some k, Some v) \<Rightarrow> Some (''  '' @ k @ '': '' @ v) | _ \<Rightarrow> None)"

definition log_workflow_step :: "string \<Rightarrow> string \<Rightarrow> pydict option \<Rightarrow> string list option" where
  "log_workflow_step timestamp step_name data =
     map_option ((#) (''['' @ timestamp @ ''] '' @ step_name))
       (case data of Some d \<Rightarrow> if d \<noteq> [] then those (map log_item_line d) else Some [] | None \<Rightarrow> Some [])"

definition get_available_models :: "string list" where
  "get_available_models = [''gemma2-9b-it'', ''llama3-8b-8192'', ''llama3-70b-8192'', ''mixtral-8x7b-32768'',
     ''llama-3.1-8b-instant'', ''llama-3.1-70b-versatile'', ''llama-3.1-405b-inference'']"

definition model_costs :: "(string \<times> real) list" where
  "model_costs = map (\<lambda>m. (m, 0)) get_available_models"

definition estimate_cost :: "nat \<Rightarrow> string \<Rightarrow> real" where
  "estimate_cost tokens_used model =
     (let cost_per_1k = (case map_of model_costs model of Some c \<Rightarrow> c | None \<Rightarrow> 0.01) in
      real tokens_used / 1000 * cost_per_1k)"

definition merge_spec :: "pyval list \<Rightarrow> pyval \<Rightarrow> pyval option" where
  "merge_spec contexts k =
     foldl (\<lambda>acc c. case c of PDict d \<Rightarrow> (case dict_lookup (rev d) k of Some v \<Rightarrow> Some v | None \<Rightarrow> acc) | _ \<Rightarrow> acc)
       None contexts"

definition context_keys_ok :: "pyval list \<Rightarrow> bool" where
  "context_keys_ok contexts \<longleftrightarrow> (\<forall>c \<in> set contexts. case c of PDict d \<Rightarrow> \<forall>k \<in> fst ` set d. py_key k \<noteq> None | _ \<Rightarrow> True)"

section \<open>Lemmas\<close>

lemma py_getitem_errors: "py_getitem x k = Inl e \<Longrightarrow> e \<in> {KeyError, TypeError, IndexError}"
  by (auto simp: py_getitem_def split: pyval.splits option.splits if_splits)

lemma nested_getitem_errors: "nested_getitem x ks = Inl e \<Longrightarrow> e \<in> {KeyError, TypeError, IndexError}"
  by (induction x ks rule: nested_getitem.induct) (auto split: sum.splits dest: py_getitem_errors)

lemma nested_getitem_append:
  "nested_getitem x (ks1 @ ks2) = (case nested_getitem x ks1 of Inl e \<Rightarrow> Inl e | Inr v \<Rightarrow> nested_getitem v ks2)"
  by (induction x ks1 rule: nested_getitem.induct) (auto split: sum.splits)

lemma py_getitem_dict_set:
  "py_key k \<noteq> None \<Longrightarrow> py_getitem (PDict (dict_set d k v)) k = Inr v"
  by (simp add: py_getitem_def py_key_hashable dict_lookup_set py_key_eq_refl)

lemma collect_missing_iff:
  "collect_missing st ks = (if \<forall>k \<in> set ks. py_hashable k then Inr (filter (\<lambda>k. \<not> dict_in k st) ks) else Inl TypeError)"
  by (induction ks) (auto split: sum.splits)

lemma safe_get_dict_key:
  "safe_get_nested_value (PDict st) [PStr k] dflt = Inr (dict_get st (PStr k) dflt)"
  by (simp add: safe_get_nested_value_def py_getitem_def py_hashable_def dict_get_def split: option.split)

section \<open>Properties of the helpers\<close>

text \<open>\<open>safe_get_nested_value\<close> never raises: subscription only raises \<open>KeyError\<close>,
  \<open>TypeError\<close> or \<open>IndexError\<close>, which it catches. It returns the value at the end of the key
  path when every step succeeds and the default otherwise.\<close>

theorem safe_get_nested_value_total:
  "safe_get_nested_value data keys dflt = Inr (case nested_getitem data keys of Inr v \<Rightarrow> v | Inl e \<Rightarrow> dflt)"
  by (auto simp: safe_get_nested_value_def split: sum.split dest: nested_getitem_errors)

text \<open>Insert/lookup round trip: after \<open>d[k] = v\<close> for a hashable key, looking up the path
  \<open>k\<close> followed by \<open>keys\<close> is looking up \<open>keys\<close> in \<open>v\<close>.\<close>

theorem safe_get_nested_value_set:
  "py_key k \<noteq> None \<Longrightarrow> safe_get_nested_value (PDict (dict_set d k v)) (k # keys) dflt = safe_get_nested_value v keys dflt"
  by (simp add: safe_get_nested_value_def py_getitem_dict_set)

theorem safe_get_nested_value_set_witness:
  "py_key (PStr ''model'') \<noteq> None \<and>
   safe_get_nested_value (PDict (dict_set [(PStr ''a'', PInt 1)] (PStr ''model'') (PDict [(PStr ''name'', PStr ''x'')])))
     [PStr ''model'', PStr ''name''] PNone = Inr (PStr ''x'')"
proof -
  have k: "py_key (PStr ''model'') \<noteq> None" by simp
  show ?thesis
    using safe_get_nested_value_set [OF k, of "[(PStr ''a'', PInt 1)]" "PDict [(PStr ''name'', PStr ''x'')]" "[PStr ''name'']" PNone]
    by (simp add: safe_get_nested_value_def py_getitem_def py_hashable_def dict_lookup_Cons)
qed

text \<open>C32. When the suffix fits (\<open>len(suffix) \<le> max_length\<close>), \<open>truncate_text\<close> returns the
  text unchanged if it is short enough, and otherwise its first \<open>max_length - len(suffix)\<close>
  characters followed by the suffix; either way the result has at most \<open>max_length\<close> characters.\<close>

theorem truncate_text_bound:
  assumes "int (length suffix_text) \<le> max_length"
  shows "int (length (truncate_text text max_length suffix_text)) \<le> max_length
    \<and> (int (length text) \<le> max_length \<longrightarrow> truncate_text text max_length suffix_text = text)
    \<and> (max_length < int (length text) \<longrightarrow>
         truncate_text text max_length suffix_text = take (nat (max_length - int (length suffix_text))) text @ suffix_text)"
  using assms by (auto simp: truncate_text_def py_slice_to_def)

theorem truncate_text_bound_witness:
  "int (length ''...'') \<le> 8 \<and> truncate_text ''abcdefghijkl'' 8 ''...'' = ''abcde...''
   \<and> int (length (truncate_text ''abcdefghijkl'' 8 ''...'')) \<le> 8"
  using truncate_text_bound [of "''...''" 8 "''abcdefghijkl''"] by simp

text \<open>When \<open>max_length\<close> is smaller than the suffix, the slice bound is negative and Python
  counts it from the end, so the "truncated" text is longer than \<open>max_length\<close>.\<close>

theorem truncate_text_overlong:
  assumes "max_length < int (length suffix_text)" "max_length < int (length text)"
  shows "max_length < int (length (truncate_text text max_length suffix_text))"
proof -
  have "length suffix_text \<le> length (truncate_text text max_length suffix_text)"
    using assms(2) by (simp add: truncate_text_def)
  with assms(1) show ?thesis by linarith
qed

theorem truncate_text_overlong_witness:
  "truncate_text ''abcdef'' 2 ''...'' = ''abcde...'' \<and> 2 < int (length (truncate_text ''abcdef'' 2 ''...''))"
  using truncate_text_overlong [of 2 "''...''" "''abcdef''"]
  by (simp add: truncate_text_def py_slice_to_def)

text \<open>C34. \<open>merge_agent_contexts\<close> refines merging as maps: the result is a well-formed dict
  (hashable keys, no two equal) and each key maps to its value in the last dict context
  that contains it. Contexts that are not dicts are ignored.\<close>

theorem merge_agent_contexts_refines:
  assumes "context_keys_ok contexts"
  shows "dict_wf (merge_agent_contexts contexts) \<and> dict_lookup (merge_agent_contexts contexts) k = merge_spec contexts k"
  using assms
proof (induction contexts rule: rev_induct)
  case Nil
  then show ?case by (simp add: merge_agent_contexts_def merge_spec_def dict_wf_def)
next
  case (snoc c cs)
  then have ih: "dict_wf (merge_agent_contexts cs)" "dict_lookup (merge_agent_contexts cs) k = merge_spec cs k"
    by (auto simp: context_keys_ok_def)
  show ?case
  proof (cases c)
    case (PDict d)
    then have ok: "\<forall>k \<in> fst ` set d. py_key k \<noteq> None" using snoc.prems by (simp add: context_keys_ok_def)
    show ?thesis
      using ih ok PDict
      by (simp add: merge_agent_contexts_def merge_spec_def dict_lookup_update dict_wf_update split: option.split)
  qed (use ih in \<open>simp_all add: merge_agent_contexts_def merge_spec_def\<close>)
qed

theorem merge_agent_contexts_refines_witness:
  "context_keys_ok [PDict [(PStr ''a'', PInt 1), (PStr ''b'', PInt 2)], PNone, PDict [(PStr ''a'', PInt 3)]]
   \<and> dict_lookup (merge_agent_contexts [PDict [(PStr ''a'', PInt 1), (PStr ''b'', PInt 2)], PNone, PDict [(PStr ''a'', PInt 3)]]) (PStr ''a'')
     = Some (PInt 3)"
proof -
  have ok: "context_keys_ok [PDict [(PStr ''a'', PInt 1), (PStr ''b'', PInt 2)], PNone, PDict [(PStr ''a'', PInt 3)]]"
    by (simp add: context_keys_ok_def)
  show ?thesis
    using ok merge_agent_contexts_refines [OF ok, of "PStr ''a''"]
    by (simp add: merge_spec_def dict_lookup_Cons)
qed

text \<open>\<open>validate_workflow_state\<close> reports the state valid exactly when every required key
  is in it, and lists the missing keys in their order. An unhashable required key raises
  \<open>TypeError\<close>.\<close>

theorem validate_workflow_state_iff:
  "validate_workflow_state st ks =
     (if \<forall>k \<in> set ks. py_hashable k then Inr ((\<forall>k \<in> set ks. dict_in k st), filter (\<lambda>k. \<not> dict_in k st) ks)
      else Inl TypeError)"
  by (auto simp: validate_workflow_state_def collect_missing_iff filter_empty_conv)

theorem validate_workflow_state_iff_witness:
  "validate_workflow_state [(PStr ''user_request'', PStr ''q'')] [PStr ''user_request'', PStr ''final_synthesis'']
     = Inr (False, [PStr ''final_synthesis''])
   \<and> validate_workflow_state [] [PList []] = Inl TypeError"
  using validate_workflow_state_iff [of "[(PStr ''user_request'', PStr ''q'')]" "[PStr ''user_request'', PStr ''final_synthesis'']"]
    validate_workflow_state_iff [of "[]" "[PList []]"]
  by (simp add: py_hashable_def dict_in_def dict_lookup_Cons)

text \<open>A truthy non-sized \<open>crew_tasks\<close> value such as a nonzero int passes the
  \<open>if crew_tasks:\<close> test, and \<open>len(crew_tasks)\<close> then raises \<open>TypeError\<close> out of
  \<open>format_workflow_summary\<close>.\<close>

theorem format_workflow_summary_int_tasks:
  assumes "dict_lookup st (PStr ''crew_tasks'') = Some (PInt n)" "n \<noteq> 0"
  shows "format_workflow_summary st = Inl TypeError"
  using assms
  by (simp add: format_workflow_summary_def safe_get_dict_key dict_get_def summary_count_line_def py_truthy_def py_len_def)

theorem format_workflow_summary_int_tasks_witness:
  "format_workflow_summary [(PStr ''status'', PStr ''done''), (PStr ''crew_tasks'', PInt 3)] = Inl TypeError"
  by (rule format_workflow_summary_int_tasks [of _ 3]) (simp_all add: dict_lookup_Cons)

text \<open>The ratios the progress indicator divides, \<open>k * current / total\<close> with \<open>0 < current \<le> total
  \<le> 2^44\<close>, lie in the normal range, and \<open>k\<close> units of \<open>2^-53\<close> stay below \<open>1 / total\<close>.\<close>

lemma progress_ratio_range:
  fixes c t :: int and k :: real
  assumes c: "0 < c" "c \<le> t" and t: "t \<le> 2 ^ 44" and k: "1 \<le> k" "k \<le> 300"
  shows "2 powi (-1022) \<le> k * c / t" "k * c / t \<le> k" "k / 2 ^ 53 < 1 / t"
proof -
  have t0: "0 < real_of_int t" using c by simp
  have tt: "real_of_int t \<le> 2 ^ 44" using t by (metis of_int_le_iff of_int_numeral of_int_power)
  have inv: "1 / 2 ^ 44 \<le> 1 / real_of_int t" using t0 tt by (simp add: frac_le)
  have "(2::real) powi (-1022) \<le> 2 powi (-44)" by (simp only: pow2i_le_iff)
  also have "(2::real) powi 44 = 2 ^ 44" by (metis of_nat_numeral power_int_of_nat)
  then have "(2::real) powi (-44) = 1 / 2 ^ 44" by (simp only: power_int_minus inverse_eq_divide)
  also have "\<dots> \<le> 1 / real_of_int t" by (rule inv)
  also have "\<dots> \<le> k * c / t"
  proof -
    have "1 \<le> real_of_int c" using c by simp
    then have "1 * 1 \<le> k * real_of_int c" using k by (intro mult_mono) simp_all
    then show ?thesis using t0 by (simp add: divide_right_mono)
  qed
  finally show "2 powi (-1022) \<le> k * c / t" .
  have "real_of_int c / real_of_int t \<le> 1" using c t0 by simp
  then show "k * c / t \<le> k" using k by (metis mult_left_le order.trans linorder_not_le times_divide_eq_right zero_le_one)
  have "k / 2 ^ 53 < 1 / 2 ^ 44" using k by simp
  then show "k / 2 ^ 53 < 1 / t" using inv by linarith
qed

lemma progress_filled_exact:
  assumes c: "0 \<le> current" "current \<le> tot" and t: "0 < tot" "tot \<le> 2 ^ 44"
  shows "progress_filled current tot = Inr (bar_length * current div tot)"
proof (cases "current = 0")
  case True
  then show ?thesis using t by (simp add: progress_filled_def b64_div_int_def b64_round_def b64_to_int_def)
next
  case False
  then have c0: "0 < current" using c by simp
  define x where "x = real_of_int (bar_length * current) / real_of_int tot"
  have x20: "20 * real_of_int current / real_of_int tot = x" by (simp add: x_def bar_length_def)
  have r: "2 powi (-1022) \<le> x" "x \<le> 20" "20 / 2 ^ 53 < 1 / real_of_int tot"
    using progress_ratio_range [OF c0 c(2) t(2), of 20] by (simp_all only: x20)
  have hi: "x < 2 ^ 1000" using r(2) by simp
  obtain m e where d: "b64_div_int (bar_length * current) tot = Inr (B64 m e)" and m: "0 \<le> m"
      and low: "2 powi (e + 52) \<le> x" and err: "\<bar>b64_val (B64 m e) - x\<bar> \<le> 2 powi e / 2"
      and ex: "x * 2 powi (- e) \<in> \<int> \<Longrightarrow> b64_val (B64 m e) = x"
    using b64_div_int_normal [of "bar_length * current" tot, folded x_def] c0 t r(1) hi
    by (auto simp: bar_length_def)
  have close: "\<bar>b64_val (B64 m e) - x\<bar> < 1 / tot"
    using err half_ulp_rel [OF low] r(2,3) by (smt (verit) divide_right_mono zero_le_power)
  have "\<lfloor>b64_val (B64 m e)\<rfloor> = bar_length * current div tot"
    using floor_near_ratio_exact [OF t(1), of "b64_val (B64 m e)" "bar_length * current", folded x_def]
      close ex Ints_scaled [OF low] r(2) by force
  then show ?thesis using t d b64_to_int_floor [OF m] by (simp add: progress_filled_def)
qed

lemma progress_percentage_near:
  assumes c: "0 \<le> current" "current \<le> tot" and t: "0 < tot" "tot \<le> 2 ^ 44"
  shows "\<exists>p. progress_percentage current tot = Inr p \<and> (p = 100 * current div tot \<or> p = 100 * current div tot - 1)"
proof (cases "current = 0")
  case True
  then show ?thesis using t
    by (simp add: progress_percentage_def b64_div_int_def b64_round_def b64_to_int_def b64_mul_int_def b64_of_int_100)
next
  case False
  then have c0: "0 < current" using c by simp
  define x where "x = real_of_int current / real_of_int tot"
  have r1: "2 powi (-1022) \<le> x" "x \<le> 1" "1 / 2 ^ 53 < 1 / real_of_int tot"
    using progress_ratio_range [OF c0 c(2) t(2), of 1] by (simp_all add: x_def)
  obtain m1 e1 where d: "b64_div_int current tot = Inr (B64 m1 e1)" and m1: "0 \<le> m1"
      and low1: "2 powi (e1 + 52) \<le> x" and err1: "\<bar>b64_val (B64 m1 e1) - x\<bar> \<le> 2 powi e1 / 2"
    using b64_div_int_normal [of current tot, folded x_def] c0 t r1(1,2) by fastforce
  define v1 where "v1 = b64_val (B64 m1 e1)"
  have e1: "\<bar>v1 - x\<bar> \<le> x / 2 ^ 53" using err1 half_ulp_rel [OF low1] by (simp add: v1_def)
  have x0: "0 < x" using c0 t by (simp add: x_def)
  have "x / 2 ^ 53 \<le> x / 2" using x0 by (intro divide_left_mono) simp_all
  then have v1r: "x / 2 \<le> v1" "v1 \<le> 2" using e1 r1(2) unfolding abs_le_iff by linarith+
  have "m1 \<noteq> 0" using v1r(1) x0 by (auto simp: v1_def b64_val_def)
  then have m1p: "0 < m1" using m1 by simp
  define P where "P = m1 * 7036874417766400 * 2 ^ nat (e1 + - 46)"
  define Q :: int where "Q = 2 ^ nat (- (e1 + - 46))"
  have mul: "b64_mul_int (B64 m1 e1) 100 = Inr (b64_round P Q)"
    by (simp only: b64_mul_int_def b64_of_int_100 sum.case b64_mul.simps P_def Q_def)
  have PQ: "real_of_int P / real_of_int Q = 100 * v1"
    using b64_mul_val [of m1 7036874417766400 e1 "- 46"] b64_val_100 by (simp add: P_def Q_def v1_def)
  have P0: "0 < P" using m1p by (simp add: P_def)
  have Q0: "0 < Q" by (simp add: Q_def)
  have ylo: "2 powi (-1022) \<le> real_of_int P / real_of_int Q" using PQ r1(1) v1r(1) by simp
  have yhi: "real_of_int P / real_of_int Q < 2 ^ 1000" using PQ v1r(2) by simp
  obtain m2 e2 where rd: "b64_round P Q = B64 m2 e2" and m2: "0 \<le> m2"
      and low2: "2 powi (e2 + 52) \<le> 100 * v1" and err2: "\<bar>b64_val (B64 m2 e2) - 100 * v1\<bar> \<le> 2 powi e2 / 2"
    using b64_round_normal [OF P0 Q0 ylo yhi] unfolding PQ by blast
  have e2: "\<bar>b64_val (B64 m2 e2) - 100 * v1\<bar> \<le> 100 * v1 / 2 ^ 53"
    using err2 half_ulp_rel [OF low2] by simp
  have close: "\<bar>b64_val (B64 m2 e2) - real_of_int (100 * current) / real_of_int tot\<bar> < 1 / real_of_int tot"
  proof -
    have "\<bar>b64_val (B64 m2 e2) - 100 * x\<bar> \<le> 100 * v1 / 2 ^ 53 + 100 * (x / 2 ^ 53)"
      using e2 e1 by linarith
    also have "\<dots> \<le> 300 / 2 ^ 53" using v1r(2) r1(2) by simp
    also have "\<dots> < 1 / real_of_int tot" using progress_ratio_range(3) [OF c0 c(2) t(2), of 300] by simp
    finally show ?thesis by (simp add: x_def)
  qed
  show ?thesis
    using floor_near_ratio [OF t(1) close] t d mul rd b64_to_int_floor [OF m2]
    by (simp add: progress_percentage_def)
qed

text \<open>C33. For \<open>0 \<le> current \<le> total\<close> and \<open>0 < total \<le> 2^44\<close>, \<open>create_progress_indicator\<close>
  never raises. Its bar has exactly \<open>20 * current // total\<close> full cells, but its percentage is
  \<open>100 * current // total\<close> or one less: \<open>(current / total) * 100\<close> is rounded twice in
  binary64 and may fall just below an integer, which \<open>int()\<close> truncates (29 of 100 shows
  \<open>28%\<close>).\<close>

theorem progress_indicator_bounds:
  assumes "0 \<le> current" "current \<le> tot" "0 < tot" "tot \<le> 2 ^ 44"
  shows "\<exists>p. create_progress_indicator full light current tot prefix_text =
              Inr (prefix_text @ '': ['' @ progress_bar full light (bar_length * current div tot) @ ''] ''
                   @ py_str_int p @ ''% ('' @ py_str_int current @ ''/'' @ py_str_int tot @ '')'')
           \<and> (p = 100 * current div tot \<or> p = 100 * current div tot - 1)"
  using progress_percentage_near [OF assms] progress_filled_exact [OF assms]
  by (auto simp: create_progress_indicator_def)

theorem progress_indicator_bounds_witness:
  "0 \<le> (29::int) \<and> (29::int) \<le> 100 \<and> (0::int) < 100 \<and> (100::int) \<le> 2 ^ 44
   \<and> create_progress_indicator ''#'' ''-'' 29 100 ''Progress'' = Inr ''Progress: [#####---------------] 28% (29/100)''
   \<and> (\<exists>p. create_progress_indicator ''#'' ''-'' 29 100 ''Progress'' =
              Inr (''Progress'' @ '': ['' @ progress_bar ''#'' ''-'' (bar_length * 29 div 100) @ ''] ''
                   @ py_str_int p @ ''% ('' @ py_str_int 29 @ ''/'' @ py_str_int 100 @ '')'')
           \<and> (p = 100 * 29 div 100 \<or> p = 100 * 29 div 100 - 1))"
proof -
  have "bit_length 29 = 5" "bit_length 100 = 7" by (simp_all add: bit_length.simps)
  then have "binade 29 100 = -2" by (simp add: binade_def pow2_le_ratio_def)
  then have "b64_exponent 29 100 = -54" by (simp add: b64_exponent_def)
  then have "b64_round 29 100 = B64 5224175567749775 (-54)"
    by (simp add: b64_round_def round_half_even_def Let_def)
  then have q: "b64_div_int 29 100 = Inr (B64 5224175567749775 (-54))" by (simp add: b64_div_int_def)
  have "bit_length 36761867406618650110129602560000 = 105" "bit_length (2 ^ 100) = 101"
    by (simp_all add: bit_length.simps)
  then have "binade 36761867406618650110129602560000 (2 ^ 100) = 4" by (simp add: binade_def pow2_le_ratio_def)
  then have "b64_exponent 36761867406618650110129602560000 (2 ^ 100) = -48" by (simp add: b64_exponent_def)
  then have "b64_mul (B64 5224175567749775 (-54)) (B64 7036874417766400 (-46)) = B64 8162774324609023 (-48)"
    by (simp add: b64_round_def round_half_even_def Let_def)
  then have pct: "progress_percentage 29 100 = Inr 28"
    using q by (simp add: progress_percentage_def b64_mul_int_def b64_of_int_100 b64_to_int_def)
  have fil: "progress_filled 29 100 = Inr 5"
    using progress_filled_exact [of 29 100] by (simp add: bar_length_def)
  have str: "py_str_int 28 = ''28''" "py_str_int 29 = ''29''" "py_str_int 100 = ''100''"
    by (simp_all add: py_str_int_def nat_to_digits.simps digit_char_def)
  have bar: "progress_bar ''#'' ''-'' 5 = ''#####---------------''"
    by (simp add: progress_bar_def bar_length_def numeral_eq_Suc)
  have s: "create_progress_indicator ''#'' ''-'' 29 100 ''Progress'' = Inr ''Progress: [#####---------------] 28% (29/100)''"
    using pct fil by (simp add: create_progress_indicator_def str bar)
  show ?thesis
    using s progress_indicator_bounds [of 29 100 "''#''" "''-''" "''Progress''"] by simp
qed


end
