(* ===== verification/WorkshopConfig.thy ===== *)
theory WorkshopConfig
  imports Helpers "HOL-Library.AList" "HOL-Library.List_Lexorder" "HOL-Library.Char_ord"
begin

text \<open>
  The \<open>WorkshopConfig\<close> class and the module functions of
  \<open>src/AIAgentWorkshop-New/utils/config.py\<close>. An instance is its \<open>_config\<close> dict.
  \<^item> The constructor (\<open>_load_config\<close>) merges \<open>load_environment_variables()\<close> (on
    \<open>ValueError\<close> it prints a warning and merges nothing), sets four defaults, and converts
    three entries to \<open>bool\<close>, \<open>int\<close> and \<open>float\<close>. A malformed number is replaced by its
    default with a warning; any other exception propagates.
  \<^item> \<open>get\<close>/\<open>set\<close>/\<open>validate\<close> work on the dict. \<open>validate\<close> compares numbers as
    Python does: int and float exactly, NaN never, and a \<open>str\<close> raises \<open>TypeError\<close>.
  \<^item> \<open>save_to_env_file\<close> is a function from the current content of the file (\<open>None\<close> if it
    does not exist) to the content written.
  \<^item> \<open>get_agent_config\<close>, \<open>get_workflow_config\<close> and \<open>__str__\<close> (with the masking of the
    Groq key) are functions of the dict.
  \<^item> The global instance of \<open>get_config\<close>/\<open>reload_config\<close> is a module state.

  Printed warnings are returned as a list of lines. \<open>setup_config_interactive\<close> (console
  dialogue) is modelled in theory \<open>ConfigSetup\<close>.
\<close>

type_synonym workshop_config = pydict

section \<open>Conversions\<close>

text \<open>\<open>int(v)\<close> and \<open>float(v)\<close> of a value; \<open>int\<close> of a float truncates towards zero.\<close>

definition py_int_value :: "pyval \<Rightarrow> pyerr + int" where
  "py_int_value v =
     (case v of
        PStr s \<Rightarrow> (case py_int s of Some i \<Rightarrow> Inr i | None \<Rightarrow> Inl ValueError)
      | PInt i \<Rightarrow> Inr i
      | PBool b \<Rightarrow> Inr (if b then 1 else 0)
      | PFloat (Finite neg m e) \<Rightarrow>
          Inr ((if neg then -1 else 1) * int (if 0 \<le> e then m * 10 ^ nat e else m div 10 ^ nat (- e)))
      | PFloat (Infinity _) \<Rightarrow> Inl OverflowError
      | PFloat NaN \<Rightarrow> Inl ValueError
      | _ \<Rightarrow> Inl TypeError)"

definition py_float_value :: "pyval \<Rightarrow> pyerr + py_float" where
  "py_float_value v =
     (case v of
        PStr s \<Rightarrow> (case py_float s of Some f \<Rightarrow> Inr f | None \<Rightarrow> Inl ValueError)
      | PInt i \<Rightarrow> if float_int_overflows i then Inl OverflowError else Inr (Finite (i < 0) (nat \<bar>i\<bar>) 0)
      | PBool b \<Rightarrow> Inr (Finite False (if b then 1 else 0) 0)
      | PFloat f \<Rightarrow> Inr f
      | _ \<Rightarrow> Inl TypeError)"

text \<open>\<open>str(v).lower() in ('true', '1', 'yes', 'on')\<close>. A value whose text is not modelled
  contains a float, and the text of a float (\<open>1.0\<close>, \<open>inf\<close>, \<open>nan\<close>, ...) is none of the four words.\<close>

definition truthy_word :: "pyval \<Rightarrow> bool" where
  "truthy_word v = (case py_str v of Some s \<Rightarrow> py_lower s \<in> {''true'', ''1'', ''yes'', ''on''} | None \<Rightarrow> False)"

definition convert_int_key :: "string \<Rightarrow> int \<Rightarrow> pydict \<times> string list \<Rightarrow> pyerr + pydict \<times> string list" where
  "convert_int_key key dflt cw =
     (let (d, warnings) = cw in
      case dict_lookup d (PStr key) of
        None \<Rightarrow> Inr cw
      | Some v \<Rightarrow> (case py_int_value v of
                    Inr i \<Rightarrow> Inr (dict_set d (PStr key) (PInt i), warnings)
                  | Inl ValueError \<Rightarrow> Inr (dict_set d (PStr key) (PInt dflt),
                                         warnings @ [''Warning: Invalid integer value for '' @ key @ '', using default''])
                  | Inl e \<Rightarrow> Inl e))"

definition convert_float_key :: "string \<Rightarrow> py_float \<Rightarrow> pydict \<times> string list \<Rightarrow> pyerr + pydict \<times> string list" where
  "convert_float_key key dflt cw =
     (let (d, warnings) = cw in
      case dict_lookup d (PStr key) of
        None \<Rightarrow> Inr cw
      | Some v \<Rightarrow> (case py_float_value v of
                    Inr f \<Rightarrow> Inr (dict_set d (PStr key) (PFloat f), warnings)
                  | Inl ValueError \<Rightarrow> Inr (dict_set d (PStr key) (PFloat dflt),
                                         warnings @ [''Warning: Invalid float value for '' @ key @ '', using default''])
                  | Inl e \<Rightarrow> Inl e))"

definition convert_bool_key :: "string \<Rightarrow> pydict \<Rightarrow> pydict" where
  "convert_bool_key key d =
     (case dict_lookup d (PStr key) of None \<Rightarrow> d | Some v \<Rightarrow> dict_set d (PStr key) (PBool (truthy_word v)))"

definition convert_types :: "pydict \<times> string list \<Rightarrow> pyerr + pydict \<times> string list" where
  "convert_types cw =
     (let (d, warnings) = cw in
      case convert_int_key ''MAX_TOKENS'' 4000 (convert_bool_key ''WORKSHOP_DEBUG'' d, warnings) of
        Inl e \<Rightarrow> Inl e
      | Inr cw' \<Rightarrow> convert_float_key ''TEMPERATURE'' (Finite False 7 (-1)) cw')"

section \<open>Construction, access and validation\<close>

definition config_defaults :: "(string \<times> string) list" where
  "config_defaults = [(''SAMBA_MODEL'', ''gpt-oss-120b''), (''WORKSHOP_DEBUG'', ''false''),
     (''MAX_TOKENS'', ''4000''), (''TEMPERATURE'', ''0.7'')]"

definition load_config :: "environ \<Rightarrow> pyerr + workshop_config \<times> string list" where
  "load_config env =
     (let (d, warnings) = (case load_environment_variables env of
                             Inr env_vars \<Rightarrow> (dict_update [] env_vars, [])
                           | Inl msg \<Rightarrow> ([], [''Warning: '' @ msg]));
          d' = foldl (\<lambda>acc (k, v). dict_setdefault acc (PStr k) (PStr v)) d config_defaults
      in convert_types (d', warnings))"

definition config_get :: "workshop_config \<Rightarrow> string \<Rightarrow> pyval \<Rightarrow> pyval" where
  "config_get c key dflt = dict_get c (PStr key) dflt"

definition config_set :: "workshop_config \<Rightarrow> string \<Rightarrow> pyval \<Rightarrow> workshop_config" where
  "config_set c key value = dict_set c (PStr key) value"

text \<open>A number for an ordering comparison, as a float; other values cannot be compared with one.\<close>

definition py_order_num :: "pyval \<Rightarrow> py_float option" where
  "py_order_num v = (case v of PInt i \<Rightarrow> Some (Finite (i < 0) (nat \<bar>i\<bar>) 0)
     | PBool b \<Rightarrow> Some (Finite False (if b then 1 else 0) 0) | PFloat f \<Rightarrow> Some f | _ \<Rightarrow> None)"

definition float_le :: "py_float \<Rightarrow> py_float \<Rightarrow> bool" where
  "float_le a b =
     (case (a, b) of
        (NaN, _) \<Rightarrow> False
      | (_, NaN) \<Rightarrow> False
      | (Infinity n, Infinity m) \<Rightarrow> n \<or> \<not> m
      | (Infinity n, _) \<Rightarrow> n
      | (_, Infinity m) \<Rightarrow> \<not> m
      | (Finite n1 m1 e1, Finite n2 m2 e2) \<Rightarrow> float_value n1 m1 e1 \<le> float_value n2 m2 e2)"

text \<open>\<open>a <= b\<close> for two numbers, \<open>TypeError\<close> for anything else.\<close>

definition py_le :: "pyval \<Rightarrow> pyval \<Rightarrow> pyerr + bool" where
  "py_le a b = (case (py_order_num a, py_order_num b) of (Some x, Some y) \<Rightarrow> Inr (float_le x y) | _ \<Rightarrow> Inl TypeError)"

definition validate_temperature :: "pyval \<Rightarrow> pyerr + string list" where
  "validate_temperature temp =
     (if temp = PNone then Inr []
      else (case py_le (PFloat (Finite False 0 0)) temp of
              Inl e \<Rightarrow> Inl e
            | Inr False \<Rightarrow> Inr [''TEMPERATURE must be between 0.0 and 2.0'']
            | Inr True \<Rightarrow> (case py_le temp (PFloat (Finite False 2 0)) of
                             Inl e \<Rightarrow> Inl e
                           | Inr ok \<Rightarrow> Inr (if ok then [] else [''TEMPERATURE must be between 0.0 and 2.0'']))))"

definition validate_max_tokens :: "pyval \<Rightarrow> pyerr + string list" where
  "validate_max_tokens max_tokens =
     (if max_tokens = PNone then Inr []
      else map_sum id (\<lambda>le0. if le0 then [''MAX_TOKENS must be greater than 0''] else []) (py_le max_tokens (PInt 0)))"

definition config_validate :: "workshop_config \<Rightarrow> pyerr + bool \<times> string list" where
  "config_validate c =
     (let api_key = config_get c ''SAMBA_API_KEY'' PNone;
          key_errors = (if \<not> py_truthy api_key then [''SAMBA_API_KEY is required'']
                        else if \<not> validate_api_key api_key then [''SAMBA_API_KEY format is invalid''] else []);
          model_errors = (if \<not> py_truthy (config_get c ''SAMBA_MODEL'' PNone) then [''SAMBA_MODEL is required''] else [])
      in case validate_temperature (config_get c ''TEMPERATURE'' PNone) of
           Inl e \<Rightarrow> Inl e
         | Inr temp_errors \<Rightarrow>
             (case validate_max_tokens (config_get c ''MAX_TOKENS'' PNone) of
                Inl e \<Rightarrow> Inl e
              | Inr tok_errors \<Rightarrow>
                  let errors = key_errors @ model_errors @ temp_errors @ tok_errors in Inr (errors = [], errors)))"

definition config_to_dict :: "workshop_config \<Rightarrow> pydict" where
  "config_to_dict c = c"

section \<open>The \<open>.env\<close> file\<close>

text \<open>Reading a text file in text mode: \<open>\r\n\<close> and \<open>\r\<close> become \<open>\n\<close>, and iteration yields
  the lines.\<close>

fun translate_newlines :: "string \<Rightarrow> string" where
  "translate_newlines [] = []"
| "translate_newlines [c] = (if c = CHR 0x0D then [CHR 0x0A] else [c])"
| "translate_newlines (c # d # cs) =
     (if c = CHR 0x0D \<and> d = CHR 0x0A then CHR 0x0A # translate_newlines cs
      else if c = CHR 0x0D then CHR 0x0A # translate_newlines (d # cs)
      else c # translate_newlines (d # cs))"

text \<open>The lines of a text (without their newline); \<open>cur\<close> is the reversed line being read.\<close>

fun split_lines_from :: "string \<Rightarrow> string \<Rightarrow> string list" where
  "split_lines_from cur [] = (if cur = [] then [] else [rev cur])"
| "split_lines_from cur (c # cs) =
     (if c = CHR 0x0A then rev cur # split_lines_from [] cs else split_lines_from (c # cur) cs)"

definition split_lines :: "string \<Rightarrow> string list" where
  "split_lines s = split_lines_from [] s"

definition parse_env_line :: "(string \<times> string) list \<Rightarrow> string \<Rightarrow> (string \<times> string) list" where
  "parse_env_line acc raw =
     (let line = py_strip raw in
      if line \<noteq> [] \<and> \<not> prefix ''#'' line \<and> CHR ''='' \<in> set line then
        AList.update (py_strip (takeWhile (\<lambda>c. c \<noteq> CHR ''='') line))
                     (py_strip (tl (dropWhile (\<lambda>c. c \<noteq> CHR ''='') line))) acc
      else acc)"

definition parse_env_file :: "string \<Rightarrow> (string \<times> string) list" where
  "parse_env_file text = foldl parse_env_line [] (split_lines (translate_newlines text))"

definition env_file_header :: string where
  "env_file_header = ''# AI Agent Workshop Configuration\<newline># Generated automatically - do not edit manually\<newline>\<newline>''"

definition render_env_file :: "(string \<times> string) list \<Rightarrow> string" where
  "render_env_file items = env_file_header @ concat (map (\<lambda>(k, v). k @ ''='' @ v @ ''\<newline>'') (sort_key fst items))"

definition saved_prefixes :: "string list" where
  "saved_prefixes = [''SAMBA_'', ''WORKSHOP_'', ''MAX_TOKENS'', ''TEMPERATURE'']"

fun merge_saved :: "(string \<times> string) list \<Rightarrow> pydict \<Rightarrow> pyerr + (string \<times> string) list option" where
  "merge_saved acc [] = Inr (Some acc)"
| "merge_saved acc ((k, v) # items) =
     (case k of
        PStr key \<Rightarrow>
          if list_ex (\<lambda>p. prefix p key) saved_prefixes then
            (case py_str v of
               None \<Rightarrow> map_sum id (\<lambda>_. None) (merge_saved acc items)
             | Some sv \<Rightarrow> merge_saved (AList.update key sv acc) items)
          else merge_saved acc items
      | _ \<Rightarrow> Inl AttributeError)"

text \<open>The text \<open>save_to_env_file\<close> writes, given the file's current text (\<open>None\<close> when it does
  not exist). \<open>None\<close> inside: a saved value whose \<open>str\<close> is not modelled.\<close>

definition save_to_env_file :: "string option \<Rightarrow> workshop_config \<Rightarrow> pyerr + string option" where
  "save_to_env_file existing c =
     (let existing_content = (case existing of None \<Rightarrow> [] | Some text \<Rightarrow> parse_env_file text) in
      map_sum id (map_option render_env_file) (merge_saved existing_content c))"

section \<open>Derived dicts, masking and the global instance\<close>

definition config_api_base :: string where
  "config_api_base = ''https://api.sambanova.ai/v1''"

definition get_agent_config :: "workshop_config \<Rightarrow> pydict" where
  "get_agent_config c =
     [(PStr ''model'', config_get c ''SAMBA_MODEL'' PNone), (PStr ''temperature'', config_get c ''TEMPERATURE'' PNone),
      (PStr ''max_tokens'', config_get c ''MAX_TOKENS'' PNone), (PStr ''api_key'', config_get c ''SAMBA_API_KEY'' PNone),
      (PStr ''api_base'', PStr config_api_base), (PStr ''max_retries'', PInt 3),
      (PStr ''retry_delay'', PFloat (Finite False 1 0))]"

definition get_workflow_config :: "workshop_config \<Rightarrow> pydict" where
  "get_workflow_config c =
     [(PStr ''debug'', config_get c ''WORKSHOP_DEBUG'' PNone), (PStr ''max_iterations'', config_get c ''MAX_ITERATIONS'' (PInt 10)),
      (PStr ''timeout_seconds'', config_get c ''TIMEOUT_SECONDS'' (PInt 300))]"

definition mask_secret :: "string \<Rightarrow> string" where
  "mask_secret key = take 6 key @ replicate (length key - 10) CHR ''*'' @ py_slice_from key (-4)"

text \<open>The masking step of \<open>__str__\<close>: only a \<open>str\<close> key longer than ten characters is
  masked; slicing and concatenating other sized values raises \<open>TypeError\<close>.\<close>

definition mask_groq_key :: "workshop_config \<Rightarrow> pyerr + workshop_config" where
  "mask_groq_key c =
     (case dict_lookup c (PStr ''GROQ_API_KEY'') of
        None \<Rightarrow> Inr c
      | Some key \<Rightarrow>
          (case py_len key of
             Inl e \<Rightarrow> Inl e
           | Inr n \<Rightarrow> if n \<le> 10 then Inr c
                     else (case key of PStr s \<Rightarrow> Inr (dict_set c (PStr ''GROQ_API_KEY'') (PStr (mask_secret s)))
                           | _ \<Rightarrow> Inl TypeError)))"

definition config_str :: "workshop_config \<Rightarrow> pyerr + string option" where
  "config_str c =
     map_sum id (\<lambda>c'. map_option (\<lambda>r. ''WorkshopConfig('' @ r @ '')'') (py_repr (PDict c'))) (mask_groq_key c)"

record config_module =
  config_instance :: "workshop_config option"

definition get_config :: "environ \<Rightarrow> config_module \<Rightarrow> pyerr + workshop_config \<times> config_module \<times> string list" where
  "get_config env m =
     (case config_instance m of
        Some c \<Rightarrow> Inr (c, m, [])
      | None \<Rightarrow> map_sum id (\<lambda>(c, warnings). (c, m\<lparr>config_instance := Some c\<rparr>, warnings)) (load_config env))"

definition reload_config :: "environ \<Rightarrow> config_module \<Rightarrow> pyerr + config_module \<times> string list" where
  "reload_config env m = map_sum id (\<lambda>(c, warnings). (m\<lparr>config_instance := Some c\<rparr>, warnings)) (load_config env)"

definition validate_config :: "environ \<Rightarrow> config_module \<Rightarrow> pyerr + (bool \<times> string list) \<times> config_module" where
  "validate_config env m =
     (case get_config env m of
        Inl e \<Rightarrow> Inl e
      | Inr (c, m', _) \<Rightarrow> map_sum id (\<lambda>r. (r, m')) (config_validate c))"

text \<open>A \<open>.env\<close> entry that survives a save and a load: a nonempty key with no \<open>=\<close>, no
  leading \<open>#\<close> and no surrounding blanks, a value with no surrounding blanks, neither with a
  line break.\<close>

definition env_item_ok :: "string \<times> string \<Rightarrow> bool" where
  "env_item_ok item \<longleftrightarrow> (let (k, v) = item in
     k \<noteq> [] \<and> py_strip k = k \<and> py_strip v = v \<and> CHR ''='' \<notin> set k \<and> hd k \<noteq> CHR ''#''
     \<and> CHR 0x0A \<notin> set k \<and> CHR 0x0A \<notin> set v \<and> CHR 0x0D \<notin> set k \<and> CHR 0x0D \<notin> set v)"

definition is_pstr :: "pyval \<Rightarrow> bool" where
  "is_pstr v = (case v of PStr _ \<Rightarrow> True | _ \<Rightarrow> False)"

text \<open>A dictionary whose keys are all strings, as every dictionary this module builds, and
  one whose keys and values are all strings, as the environment gives them.\<close>

definition str_keyed :: "pydict \<Rightarrow> bool" where
  "str_keyed d \<longleftrightarrow> (\<forall>k \<in> fst ` set d. is_pstr k)"

definition str_dict :: "pydict \<Rightarrow> bool" where
  "str_dict d \<longleftrightarrow> (\<forall>(k, v) \<in> set d. is_pstr k \<and> is_pstr v)"

text \<open>The types \<open>_convert_types\<close> establishes: a well-formed dict with string keys in which
  \<open>MAX_TOKENS\<close> is an \<open>int\<close>, \<open>TEMPERATURE\<close> a \<open>float\<close> and \<open>WORKSHOP_DEBUG\<close> a
  \<open>bool\<close>, and \<open>SAMBA_MODEL\<close> the default model.\<close>

definition config_typed :: "workshop_config \<Rightarrow> bool" where
  "config_typed c \<longleftrightarrow> dict_wf c \<and> str_keyed c
     \<and> (case dict_lookup c (PStr ''MAX_TOKENS'') of Some (PInt _) \<Rightarrow> True | _ \<Rightarrow> False)
     \<and> (case dict_lookup c (PStr ''TEMPERATURE'') of Some (PFloat _) \<Rightarrow> True | _ \<Rightarrow> False)
     \<and> (case dict_lookup c (PStr ''WORKSHOP_DEBUG'') of Some (PBool _) \<Rightarrow> True | _ \<Rightarrow> False)
     \<and> dict_lookup c (PStr ''SAMBA_MODEL'') = Some (PStr ''gpt-oss-120b'')"

section \<open>Lemmas\<close>

lemma split_lines_from_append:
  "CHR 0x0A \<notin> set x \<Longrightarrow> split_lines_from cur (x @ CHR 0x0A # rest) = (rev cur @ x) # split_lines_from [] rest"
  by (induction x arbitrary: cur) auto

lemma translate_newlines_id: "CHR 0x0D \<notin> set s \<Longrightarrow> translate_newlines s = s"
  by (induction s rule: translate_newlines.induct) auto

lemma py_strip_nonempty_ends:
  assumes "py_strip s = s" "s \<noteq> []"
  shows "\<not> py_isspace (hd s) \<and> \<not> py_isspace (last s)"
proof -
  have le: "length (py_strip s) \<le> length (dropWhile py_isspace s)"
    using length_dropWhile_le [of py_isspace "rev (dropWhile py_isspace s)"] by (simp add: py_strip_def)
  have hd: "\<not> py_isspace (hd s)"
  proof
    assume "py_isspace (hd s)"
    with assms(2) have "length (dropWhile py_isspace s) < length s"
      by (cases s) (auto simp: le_imp_less_Suc length_dropWhile_le)
    with le assms(1) show False by simp
  qed
  then have "dropWhile py_isspace s = s" using assms(2) by (cases s) auto
  then have ps: "py_strip s = rev (dropWhile py_isspace (rev s))" by (simp add: py_strip_def)
  have "\<not> py_isspace (last s)"
  proof
    assume "py_isspace (last s)"
    with assms(2) have "length (dropWhile py_isspace (rev s)) < length s"
      by (cases "rev s") (auto simp: le_imp_less_Suc length_dropWhile_le hd_rev [symmetric]
          dest: arg_cong [where f = length])
    with ps assms(1) show False by (metis length_rev less_irrefl)
  qed
  with hd show ?thesis by simp
qed

lemma update_fresh: "k \<notin> fst ` set xs \<Longrightarrow> AList.update k v xs = xs @ [(k, v)]"
  by (induction xs) auto

lemma parse_env_item:
  assumes "env_item_ok (k, v)"
  shows "parse_env_line acc (k @ CHR ''='' # v) = AList.update k v acc"
proof -
  from assms have k: "k \<noteq> []" "py_strip k = k" "CHR ''='' \<notin> set k" "hd k \<noteq> CHR ''#''" and v: "py_strip v = v"
    by (simp_all add: env_item_ok_def)
  have hk: "\<not> py_isspace (hd k)" using py_strip_nonempty_ends [OF k(2) k(1)] by simp
  have lk: "\<not> py_isspace (last (k @ CHR ''='' # v))"
  proof (cases "v = []")
    case True
    then show ?thesis by (simp add: py_defs)
  next
    case False
    then show ?thesis using py_strip_nonempty_ends [OF v False] by simp
  qed
  have line: "py_strip (k @ CHR ''='' # v) = k @ CHR ''='' # v"
    by (rule py_strip_no_space_ends) (use k(1) hk lk in auto)
  have "\<not> prefix ''#'' (k @ CHR ''='' # v)"
    using k(1) k(4) by (cases k) auto
  moreover have "takeWhile (\<lambda>c. c \<noteq> CHR ''='') (k @ CHR ''='' # v) = k"
    by (subst takeWhile_append2) (use k(3) in auto)
  moreover have "dropWhile (\<lambda>c. c \<noteq> CHR ''='') (k @ CHR ''='' # v) = CHR ''='' # v"
    by (subst dropWhile_append2) (use k(3) in auto)
  ultimately show ?thesis
    using k v line by (simp add: parse_env_line_def)
qed

lemma parse_env_items:
  "\<forall>it \<in> set xs. env_item_ok it \<Longrightarrow> distinct (map fst xs) \<Longrightarrow> fst ` set xs \<inter> fst ` set acc = {} \<Longrightarrow>
   foldl parse_env_line acc (split_lines_from [] (concat (map (\<lambda>(k, v). k @ ''='' @ v @ ''\<newline>'') xs))) = acc @ xs"
proof (induction xs arbitrary: acc)
  case Nil
  then show ?case by simp
next
  case (Cons it xs)
  obtain k v where it: "it = (k, v)" by fastforce
  have ok: "env_item_ok (k, v)" using Cons.prems it by simp
  then have nl: "CHR 0x0A \<notin> set (k @ CHR ''='' # v)" by (simp add: env_item_ok_def)
  have fresh: "k \<notin> fst ` set acc" using Cons.prems(3) it by auto
  have "foldl parse_env_line (acc @ [(k, v)]) (split_lines_from [] (concat (map (\<lambda>(k, v). k @ ''='' @ v @ ''\<newline>'') xs)))
        = (acc @ [(k, v)]) @ xs"
    by (rule Cons.IH) (use Cons.prems it in auto)
  moreover have "concat (map (\<lambda>(k, v). k @ ''='' @ v @ ''\<newline>'') (it # xs))
      = (k @ CHR ''='' # v) @ CHR 0x0A # concat (map (\<lambda>(k, v). k @ ''='' @ v @ ''\<newline>'') xs)"
    by (simp add: it)
  ultimately show ?case
    using parse_env_item [OF ok, of acc] update_fresh [OF fresh]
    by (simp only: split_lines_from_append [OF nl]) (simp add: it)
qed

lemma parse_env_header:
  "foldl parse_env_line acc (split_lines_from [] (env_file_header @ rest)) = foldl parse_env_line acc (split_lines_from [] rest)"
proof -
  have h: "env_file_header @ rest = ''# AI Agent Workshop Configuration'' @ CHR 0x0A #
      (''# Generated automatically - do not edit manually'' @ CHR 0x0A # ([] @ CHR 0x0A # rest))"
    by (simp add: env_file_header_def)
  have "split_lines_from [] (env_file_header @ rest) =
      ''# AI Agent Workshop Configuration'' # ''# Generated automatically - do not edit manually'' # [] # split_lines_from [] rest"
    unfolding h
    by (subst split_lines_from_append, simp, subst split_lines_from_append, simp, subst split_lines_from_append, simp_all)
  then show ?thesis
    by (simp add: parse_env_line_def py_defs)
qed

lemma dict_lookup_set_str:
  "dict_lookup (dict_set d (PStr k) v) (PStr k') = (if k = k' then Some v else dict_lookup d (PStr k'))"
  by (simp add: dict_lookup_set)

lemma dict_lookup_setdefault_str:
  "dict_lookup (dict_setdefault d (PStr k) v) (PStr k') =
     (if k = k' \<and> dict_lookup d (PStr k) = None then Some v else dict_lookup d (PStr k'))"
  by (auto simp: dict_setdefault_def dict_in_def dict_lookup_set_str)

lemma is_pstr_key: "is_pstr k \<Longrightarrow> py_key k \<noteq> None"
  by (auto simp: is_pstr_def split: pyval.splits)

lemma is_pstr_iff: "is_pstr v \<longleftrightarrow> (\<exists>s. v = PStr s)"
  by (cases v) (simp_all add: is_pstr_def)

lemma str_keyed_set: "str_keyed d \<Longrightarrow> is_pstr k \<Longrightarrow> str_keyed (dict_set d k v)"
  by (induction d) (fastforce simp: str_keyed_def split: if_splits)+

lemma str_dict_set: "str_dict d \<Longrightarrow> is_pstr k \<Longrightarrow> is_pstr v \<Longrightarrow> str_dict (dict_set d k v)"
  by (induction d) (fastforce simp: str_dict_def split: if_splits)+

lemma str_dict_keyed: "str_dict d \<Longrightarrow> str_keyed d"
  by (auto simp: str_dict_def str_keyed_def)

lemma str_dict_lookup: "str_dict d \<Longrightarrow> dict_lookup d k = Some v \<Longrightarrow> \<exists>s. v = PStr s"
  by (fastforce simp: str_dict_def dict_lookup_def is_pstr_iff dest!: find_Some_mem)

lemma str_dict_update: "str_dict d \<Longrightarrow> str_dict e \<Longrightarrow> str_dict (dict_update d e)"
proof (induction e arbitrary: d)
  case Nil
  then show ?case by (simp add: dict_update_def)
next
  case (Cons p e)
  obtain k v where p: "p = (k, v)" by fastforce
  have "str_dict (dict_set d k v)"
    using Cons.prems p by (intro str_dict_set) (auto simp: str_dict_def)
  moreover have "str_dict e" using Cons.prems by (simp add: str_dict_def)
  ultimately show ?case using Cons.IH p by (simp add: dict_update_def)
qed

lemma load_required_keys:
  "load_required env vars d = Inr d' \<Longrightarrow> str_dict d \<Longrightarrow>
   str_dict d' \<and> (\<forall>k. k \<notin> set vars \<longrightarrow> dict_lookup d' (PStr k) = dict_lookup d (PStr k))"
  by (induction env vars d rule: load_required.induct)
     (auto simp: dict_lookup_set_str str_dict_set is_pstr_def split: option.splits if_splits)

lemma load_optional_keys:
  "str_dict d \<Longrightarrow> str_dict (load_optional env vars d) \<and>
   (\<forall>k. k \<notin> set vars \<longrightarrow> dict_lookup (load_optional env vars d) (PStr k) = dict_lookup d (PStr k))"
  unfolding load_optional_def
  by (induction vars arbitrary: d) (auto simp: dict_lookup_set_str str_dict_set is_pstr_def split: option.splits)

lemma dict_lookup_None_iff: "dict_lookup d k = None \<longleftrightarrow> (\<forall>p \<in> set d. \<not> py_key_eq (fst p) k)"
  by (auto simp: dict_lookup_def find_None_iff)

text \<open>What \<open>_load_config\<close> starts from: the dict of \<open>load_environment_variables()\<close>, or the
  empty dict when it raised. Only the variables that function reads are in it.\<close>

lemma load_config_initial:
  assumes "(case load_environment_variables env of Inr env_vars \<Rightarrow> (dict_update [] env_vars, [])
            | Inl msg \<Rightarrow> ([], [''Warning: '' @ msg])) = (d0, w0)"
  shows "str_dict d0 \<and> dict_wf d0
    \<and> (\<forall>k. k \<notin> set required_vars \<longrightarrow> k \<notin> set optional_vars \<longrightarrow> dict_lookup d0 (PStr k) = None)"
proof (cases "load_environment_variables env")
  case (Inl msg)
  then show ?thesis using assms by (simp add: str_dict_def dict_wf_def dict_lookup_def)
next
  case (Inr e)
  obtain d where d: "load_required env required_vars [] = Inr d" and e: "e = load_optional env optional_vars d"
    using Inr by (auto simp: load_environment_variables_def split: sum.splits)
  have sd0: "str_dict []" by (simp add: str_dict_def)
  from load_required_keys [OF d sd0] have sd: "str_dict d"
    and ld: "\<forall>k. k \<notin> set required_vars \<longrightarrow> dict_lookup d (PStr k) = None"
    by (simp_all add: dict_lookup_def)
  from load_optional_keys [OF sd, of env optional_vars] e have se: "str_dict e"
    and le: "\<forall>k. k \<notin> set required_vars \<longrightarrow> k \<notin> set optional_vars \<longrightarrow> dict_lookup e (PStr k) = None"
    using ld by simp_all
  have keys: "\<forall>k \<in> fst ` set e. py_key k \<noteq> None"
    using str_dict_keyed [OF se] is_pstr_key unfolding str_keyed_def by blast
  have d0: "d0 = dict_update [] e" using assms Inr by simp
  have "\<forall>k. k \<notin> set required_vars \<longrightarrow> k \<notin> set optional_vars \<longrightarrow> dict_lookup (rev e) (PStr k) = None"
    using le by (simp add: dict_lookup_None_iff)
  then show ?thesis
    unfolding d0 using str_dict_update [OF sd0 se] dict_wf_update [OF _ keys, of "[]"]
    by (simp add: dict_lookup_update [OF keys] dict_wf_def [of "[]"])
qed

lemma convert_bool_key_lookup:
  "dict_lookup (convert_bool_key key d) (PStr k') =
     (if k' = key then map_option (\<lambda>v. PBool (truthy_word v)) (dict_lookup d (PStr key)) else dict_lookup d (PStr k'))"
  by (auto simp: convert_bool_key_def dict_lookup_set_str split: option.split)

lemma convert_int_key_lookup:
  assumes "convert_int_key key dflt (d, w) = Inr (d', w')"
  shows "(\<forall>k'. k' \<noteq> key \<longrightarrow> dict_lookup d' (PStr k') = dict_lookup d (PStr k'))
    \<and> (dict_lookup d (PStr key) \<noteq> None \<longrightarrow> (\<exists>i. dict_lookup d' (PStr key) = Some (PInt i)))"
  using assms
  by (auto simp: convert_int_key_def dict_lookup_set_str split: option.splits sum.splits pyerr.splits)

lemma convert_float_key_lookup:
  assumes "convert_float_key key dflt (d, w) = Inr (d', w')"
  shows "(\<forall>k'. k' \<noteq> key \<longrightarrow> dict_lookup d' (PStr k') = dict_lookup d (PStr k'))
    \<and> (dict_lookup d (PStr key) \<noteq> None \<longrightarrow> (\<exists>f. dict_lookup d' (PStr key) = Some (PFloat f)))"
  using assms
  by (auto simp: convert_float_key_def dict_lookup_set_str split: option.splits sum.splits pyerr.splits)

lemma convert_types_lookup:
  assumes "convert_types (d, w) = Inr (d', w')"
    and "dict_lookup d (PStr ''MAX_TOKENS'') \<noteq> None" "dict_lookup d (PStr ''TEMPERATURE'') \<noteq> None"
  shows "dict_lookup d' (PStr ''SAMBA_API_KEY'') = dict_lookup d (PStr ''SAMBA_API_KEY'')
    \<and> (\<exists>i. dict_lookup d' (PStr ''MAX_TOKENS'') = Some (PInt i))
    \<and> (\<exists>f. dict_lookup d' (PStr ''TEMPERATURE'') = Some (PFloat f))"
proof -
  obtain d1 w1 where c1: "convert_int_key ''MAX_TOKENS'' 4000 (convert_bool_key ''WORKSHOP_DEBUG'' d, w) = Inr (d1, w1)"
    and c2: "convert_float_key ''TEMPERATURE'' (Finite False 7 (-1)) (d1, w1) = Inr (d', w')"
    using assms(1) by (auto simp: convert_types_def split: sum.splits)
  note l1 = convert_int_key_lookup [OF c1] and l2 = convert_float_key_lookup [OF c2]
  show ?thesis
    using l1 l2 assms(2,3) by (auto simp: convert_bool_key_lookup)
qed

lemma setdefault_inv:
  "str_dict d \<Longrightarrow> dict_wf d \<Longrightarrow>
   str_dict (dict_setdefault d (PStr k) (PStr v)) \<and> dict_wf (dict_setdefault d (PStr k) (PStr v))"
  by (simp add: dict_setdefault_def str_dict_set is_pstr_def dict_wf_set)

text \<open>The four \<open>setdefault\<close> calls of \<open>_load_config\<close>.\<close>

lemma setdefaults_typed:
  assumes "str_dict d" "dict_wf d" "dict_lookup d (PStr ''SAMBA_MODEL'') = None"
    and "d' = foldl (\<lambda>acc (k, v). dict_setdefault acc (PStr k) (PStr v)) d config_defaults"
  shows "str_dict d' \<and> dict_wf d' \<and> dict_lookup d' (PStr ''SAMBA_API_KEY'') = dict_lookup d (PStr ''SAMBA_API_KEY'')
    \<and> dict_lookup d' (PStr ''SAMBA_MODEL'') = Some (PStr ''gpt-oss-120b'')
    \<and> dict_lookup d' (PStr ''MAX_TOKENS'') \<noteq> None \<and> dict_lookup d' (PStr ''TEMPERATURE'') \<noteq> None
    \<and> dict_lookup d' (PStr ''WORKSHOP_DEBUG'') \<noteq> None"
  using assms by (simp add: config_defaults_def dict_lookup_setdefault_str setdefault_inv)

lemma convert_int_key_str:
  "dict_lookup d (PStr key) = Some (PStr s) \<Longrightarrow> \<exists>d' w'. convert_int_key key dflt (d, w) = Inr (d', w')"
  by (auto simp: convert_int_key_def py_int_value_def split: option.split)

lemma convert_float_key_str:
  "dict_lookup d (PStr key) = Some (PStr s) \<Longrightarrow> \<exists>d' w'. convert_float_key key dflt (d, w) = Inr (d', w')"
  by (auto simp: convert_float_key_def py_float_value_def split: option.split)

lemma convert_bool_key_keys:
  "dict_wf d \<Longrightarrow> str_keyed d \<Longrightarrow> dict_wf (convert_bool_key key d) \<and> str_keyed (convert_bool_key key d)"
  by (auto simp: convert_bool_key_def dict_wf_set str_keyed_set is_pstr_def split: option.split)

lemma convert_int_key_keys:
  "convert_int_key key dflt (d, w) = Inr (d', w') \<Longrightarrow> dict_wf d \<Longrightarrow> str_keyed d \<Longrightarrow> dict_wf d' \<and> str_keyed d'"
  by (auto simp: convert_int_key_def dict_wf_set str_keyed_set is_pstr_def split: option.splits sum.splits pyerr.splits)

lemma convert_float_key_keys:
  "convert_float_key key dflt (d, w) = Inr (d', w') \<Longrightarrow> dict_wf d \<Longrightarrow> str_keyed d \<Longrightarrow> dict_wf d' \<and> str_keyed d'"
  by (auto simp: convert_float_key_def dict_wf_set str_keyed_set is_pstr_def split: option.splits sum.splits pyerr.splits)

lemma convert_types_typed:
  assumes "dict_wf d" "str_keyed d"
    "dict_lookup d (PStr ''MAX_TOKENS'') = Some (PStr a)" "dict_lookup d (PStr ''TEMPERATURE'') = Some (PStr b)"
    "dict_lookup d (PStr ''WORKSHOP_DEBUG'') \<noteq> None" "dict_lookup d (PStr ''SAMBA_MODEL'') = Some (PStr ''gpt-oss-120b'')"
  shows "\<exists>c w'. convert_types (d, w) = Inr (c, w') \<and> config_typed c"
proof -
  let ?d1 = "convert_bool_key ''WORKSHOP_DEBUG'' d"
  have l1: "dict_lookup ?d1 (PStr ''MAX_TOKENS'') = Some (PStr a)"
    using assms(3) by (simp add: convert_bool_key_lookup)
  obtain d2 w2 where c1: "convert_int_key ''MAX_TOKENS'' 4000 (?d1, w) = Inr (d2, w2)"
    using convert_int_key_str [OF l1] by blast
  have l2: "dict_lookup d2 (PStr ''TEMPERATURE'') = Some (PStr b)"
    using convert_int_key_lookup [OF c1] assms(4) by (simp add: convert_bool_key_lookup)
  obtain c w' where c2: "convert_float_key ''TEMPERATURE'' (Finite False 7 (-1)) (d2, w2) = Inr (c, w')"
    using convert_float_key_str [OF l2] by blast
  have ct: "convert_types (d, w) = Inr (c, w')"
    using c1 c2 by (simp add: convert_types_def)
  have k1: "dict_wf ?d1 \<and> str_keyed ?d1" using convert_bool_key_keys assms(1,2) by blast
  have k2: "dict_wf d2 \<and> str_keyed d2" using convert_int_key_keys [OF c1] k1 by blast
  have k3: "dict_wf c \<and> str_keyed c" using convert_float_key_keys [OF c2] k2 by blast
  have "config_typed c"
    using k3 convert_float_key_lookup [OF c2] convert_int_key_lookup [OF c1] assms(3-6) l2
    by (auto simp: config_typed_def convert_bool_key_lookup)
  with ct show ?thesis by blast
qed

text \<open>What \<open>_load_config\<close> hands to \<open>_convert_types\<close>: a well-formed dict of strings with
  the four defaults present, \<open>SAMBA_MODEL\<close> the default and no \<open>SAMBA_API_KEY\<close>.\<close>

lemma load_config_before_convert:
  obtains d w0 a b where "load_config env = convert_types (d, w0)" "str_dict d" "dict_wf d"
    "dict_lookup d (PStr ''SAMBA_API_KEY'') = None" "dict_lookup d (PStr ''SAMBA_MODEL'') = Some (PStr ''gpt-oss-120b'')"
    "dict_lookup d (PStr ''MAX_TOKENS'') = Some (PStr a)" "dict_lookup d (PStr ''TEMPERATURE'') = Some (PStr b)"
    "dict_lookup d (PStr ''WORKSHOP_DEBUG'') \<noteq> None"
proof -
  obtain d0 w0 where d0: "(case load_environment_variables env of Inr env_vars \<Rightarrow> (dict_update [] env_vars, [])
                           | Inl msg \<Rightarrow> ([], [''Warning: '' @ msg])) = (d0, w0)"
    by fastforce
  note i = load_config_initial [OF d0]
  have s0: "dict_lookup d0 (PStr ''SAMBA_API_KEY'') = None" "dict_lookup d0 (PStr ''SAMBA_MODEL'') = None"
    using i by (simp_all add: required_vars_def optional_vars_def)
  define d1 where "d1 = foldl (\<lambda>acc (k, v). dict_setdefault acc (PStr k) (PStr v)) d0 config_defaults"
  have s: "str_dict d1" "dict_wf d1" "dict_lookup d1 (PStr ''SAMBA_API_KEY'') = None"
      "dict_lookup d1 (PStr ''SAMBA_MODEL'') = Some (PStr ''gpt-oss-120b'')"
      "dict_lookup d1 (PStr ''MAX_TOKENS'') \<noteq> None" "dict_lookup d1 (PStr ''TEMPERATURE'') \<noteq> None"
      "dict_lookup d1 (PStr ''WORKSHOP_DEBUG'') \<noteq> None"
    using setdefaults_typed [OF _ _ s0(2) d1_def] i s0(1) by simp_all
  obtain a where a: "dict_lookup d1 (PStr ''MAX_TOKENS'') = Some (PStr a)"
    using s(1,5) str_dict_lookup [of d1 "PStr ''MAX_TOKENS''"] by fastforce
  obtain b where b: "dict_lookup d1 (PStr ''TEMPERATURE'') = Some (PStr b)"
    using s(1,6) str_dict_lookup [of d1 "PStr ''TEMPERATURE''"] by fastforce
  have "load_config env = convert_types (d1, w0)"
    using d0 by (simp add: load_config_def d1_def)
  from that [OF this s(1-4) a b s(7)] show ?thesis .
qed

lemma convert_types_other:
  assumes "convert_types (d, w) = Inr (c, w')" "k \<notin> {''WORKSHOP_DEBUG'', ''MAX_TOKENS'', ''TEMPERATURE''}"
  shows "dict_lookup c (PStr k) = dict_lookup d (PStr k)"
proof -
  obtain d1 w1 where c1: "convert_int_key ''MAX_TOKENS'' 4000 (convert_bool_key ''WORKSHOP_DEBUG'' d, w) = Inr (d1, w1)"
    and c2: "convert_float_key ''TEMPERATURE'' (Finite False 7 (-1)) (d1, w1) = Inr (c, w')"
    using assms(1) by (auto simp: convert_types_def split: sum.splits)
  show ?thesis
    using convert_int_key_lookup [OF c1] convert_float_key_lookup [OF c2] assms(2)
    by (simp add: convert_bool_key_lookup)
qed

text \<open>A loaded configuration has no \<open>SAMBA_API_KEY\<close> and the default \<open>SAMBA_MODEL\<close>.\<close>

lemma load_config_samba_entries:
  assumes "load_config env = Inr (c, warnings)"
  shows "dict_lookup c (PStr ''SAMBA_API_KEY'') = None \<and> dict_lookup c (PStr ''SAMBA_MODEL'') = Some (PStr ''gpt-oss-120b'')"
proof -
  obtain d w0 a b where l: "load_config env = convert_types (d, w0)"
      and k: "dict_lookup d (PStr ''SAMBA_API_KEY'') = None" "dict_lookup d (PStr ''SAMBA_MODEL'') = Some (PStr ''gpt-oss-120b'')"
    by (rule load_config_before_convert)
  from l assms have "convert_types (d, w0) = Inr (c, warnings)" by simp
  from convert_types_other [OF this, of "''SAMBA_API_KEY''"] convert_types_other [OF this, of "''SAMBA_MODEL''"] k
  show ?thesis by simp
qed

lemma load_environment_variables_no_groq:
  "env ''GROQ_API_KEY'' \<in> {None, Some []} \<Longrightarrow> load_environment_variables env = Inl (missing_var_message ''GROQ_API_KEY'')"
  by (auto simp: load_environment_variables_def required_vars_def)

text \<open>\<open>validate()\<close> checks the SambaNova key with the Groq format of \<open>validate_api_key\<close>.\<close>

lemma config_validate_needs_groq_key:
  assumes "config_validate c = Inr (True, errors)"
  shows "\<exists>s. config_get c ''SAMBA_API_KEY'' PNone = PStr s \<and> prefix ''gsk_'' s \<and> 20 < length s"
  using assms
  by (auto simp: config_validate_def validate_api_key_def Let_def split: sum.splits if_splits pyval.splits)

section \<open>Properties of the workshop configuration\<close>

text \<open>C35. Constructing a \<open>WorkshopConfig\<close> never raises, whatever the environment holds, and
  the dict it builds has the types \<open>_convert_types\<close> promises: it is well formed with string
  keys, \<open>MAX_TOKENS\<close> is an \<open>int\<close> (a malformed value becomes 4000), \<open>TEMPERATURE\<close> a
  \<open>float\<close> (a malformed value becomes 0.7) and \<open>WORKSHOP_DEBUG\<close> a \<open>bool\<close>. \<open>SAMBA_MODEL\<close> is
  always the default \<open>gpt-oss-120b\<close>, because \<open>load_environment_variables\<close> never reads it.\<close>

theorem load_config_typed: "\<exists>c warnings. load_config env = Inr (c, warnings) \<and> config_typed c"
proof -
  obtain d w0 a b where l: "load_config env = convert_types (d, w0)" and d: "str_dict d" "dict_wf d"
      "dict_lookup d (PStr ''SAMBA_MODEL'') = Some (PStr ''gpt-oss-120b'')"
      "dict_lookup d (PStr ''MAX_TOKENS'') = Some (PStr a)" "dict_lookup d (PStr ''TEMPERATURE'') = Some (PStr b)"
      "dict_lookup d (PStr ''WORKSHOP_DEBUG'') \<noteq> None"
    by (rule load_config_before_convert)
  from convert_types_typed [OF d(2) str_dict_keyed [OF d(1)] d(4) d(5) d(6) d(3), of w0] l
  show ?thesis by auto
qed

theorem load_config_typed_witness:
  "load_config Map.empty = Inr ([(PStr ''SAMBA_MODEL'', PStr ''gpt-oss-120b''), (PStr ''WORKSHOP_DEBUG'', PBool False),
       (PStr ''MAX_TOKENS'', PInt 4000), (PStr ''TEMPERATURE'', PFloat (Finite False 7 (-1)))],
       [''Warning: Required environment variable GROQ_API_KEY is not set''])
   \<and> config_typed [(PStr ''SAMBA_MODEL'', PStr ''gpt-oss-120b''), (PStr ''WORKSHOP_DEBUG'', PBool False),
       (PStr ''MAX_TOKENS'', PInt 4000), (PStr ''TEMPERATURE'', PFloat (Finite False 7 (-1)))]"
proof -
  have l: "load_config Map.empty = Inr ([(PStr ''SAMBA_MODEL'', PStr ''gpt-oss-120b''), (PStr ''WORKSHOP_DEBUG'', PBool False),
       (PStr ''MAX_TOKENS'', PInt 4000), (PStr ''TEMPERATURE'', PFloat (Finite False 7 (-1)))],
       [''Warning: Required environment variable GROQ_API_KEY is not set''])"
    by code_simp
  show ?thesis using l load_config_typed [of Map.empty] by simp
qed

text \<open>C37. A configuration loaded by \<open>WorkshopConfig._load_config\<close> never validates:
  \<open>load_environment_variables\<close> loads \<open>GROQ_API_KEY\<close>, \<open>GROQ_MODEL\<close>, \<open>WORKSHOP_DEBUG\<close>,
  \<open>MAX_TOKENS\<close> and \<open>TEMPERATURE\<close> but never \<open>SAMBA_API_KEY\<close>, and no default supplies it, so \<open>validate()\<close>
  always reports \<open>SAMBA_API_KEY is required\<close> first, whatever the environment holds.\<close>

theorem load_config_never_valid:
  assumes "load_config env = Inr (c, warnings)"
  shows "\<exists>errors. config_validate c = Inr (False, ''SAMBA_API_KEY is required'' # errors)"
proof -
  obtain d w0 a b where l: "load_config env = convert_types (d, w0)"
      and d: "dict_lookup d (PStr ''SAMBA_API_KEY'') = None"
      "dict_lookup d (PStr ''MAX_TOKENS'') = Some (PStr a)" "dict_lookup d (PStr ''TEMPERATURE'') = Some (PStr b)"
    by (rule load_config_before_convert)
  from l assms have conv: "convert_types (d, w0) = Inr (c, warnings)" by simp
  from convert_types_lookup [OF conv] d
  obtain i f where "dict_lookup c (PStr ''SAMBA_API_KEY'') = None"
      "dict_lookup c (PStr ''MAX_TOKENS'') = Some (PInt i)" "dict_lookup c (PStr ''TEMPERATURE'') = Some (PFloat f)"
    by auto
  then show ?thesis
    by (auto simp: config_validate_def config_get_def dict_get_def validate_temperature_def validate_max_tokens_def
        py_le_def py_order_num_def py_truthy_def Let_def split: bool.split)
qed

theorem load_config_never_valid_witness:
  "load_config (Map.empty(''GROQ_API_KEY'' \<mapsto> ''gsk_0123456789abcdefghij'')) =
     Inr ([(PStr ''GROQ_API_KEY'', PStr ''gsk_0123456789abcdefghij''), (PStr ''SAMBA_MODEL'', PStr ''gpt-oss-120b''),
           (PStr ''WORKSHOP_DEBUG'', PBool False), (PStr ''MAX_TOKENS'', PInt 4000),
           (PStr ''TEMPERATURE'', PFloat (Finite False 7 (-1)))], [])
   \<and> (\<exists>errors. config_validate [(PStr ''GROQ_API_KEY'', PStr ''gsk_0123456789abcdefghij''), (PStr ''SAMBA_MODEL'', PStr ''gpt-oss-120b''),
           (PStr ''WORKSHOP_DEBUG'', PBool False), (PStr ''MAX_TOKENS'', PInt 4000),
           (PStr ''TEMPERATURE'', PFloat (Finite False 7 (-1)))] = Inr (False, ''SAMBA_API_KEY is required'' # errors))"
proof -
  have l: "load_config (Map.empty(''GROQ_API_KEY'' \<mapsto> ''gsk_0123456789abcdefghij'')) =
     Inr ([(PStr ''GROQ_API_KEY'', PStr ''gsk_0123456789abcdefghij''), (PStr ''SAMBA_MODEL'', PStr ''gpt-oss-120b''),
           (PStr ''WORKSHOP_DEBUG'', PBool False), (PStr ''MAX_TOKENS'', PInt 4000),
           (PStr ''TEMPERATURE'', PFloat (Finite False 7 (-1)))], [])"
    by code_simp
  show ?thesis using l load_config_never_valid [OF l] by simp
qed

text \<open>C39. Without \<open>GROQ_API_KEY\<close> (unset or empty) the configuration loads as from an empty
  environment: \<open>load_environment_variables\<close> raises, \<open>_load_config\<close> catches it and keeps
  only the defaults, so the \<open>MAX_TOKENS\<close>, \<open>TEMPERATURE\<close> and \<open>SAMBA_MODEL\<close> variables
  are ignored.\<close>

theorem load_config_without_groq_key:
  assumes "env ''GROQ_API_KEY'' \<in> {None, Some []}"
  shows "load_config env = load_config Map.empty"
  using load_environment_variables_no_groq [of env, OF assms] load_environment_variables_no_groq [of Map.empty]
  by (simp add: load_config_def)

theorem load_config_without_groq_key_witness:
  "(Map.empty(''MAX_TOKENS'' \<mapsto> ''100'', ''TEMPERATURE'' \<mapsto> ''1.5'') :: environ) ''GROQ_API_KEY'' \<in> {None, Some []}
   \<and> load_config (Map.empty(''MAX_TOKENS'' \<mapsto> ''100'', ''TEMPERATURE'' \<mapsto> ''1.5''))
     = Inr ([(PStr ''SAMBA_MODEL'', PStr ''gpt-oss-120b''), (PStr ''WORKSHOP_DEBUG'', PBool False),
            (PStr ''MAX_TOKENS'', PInt 4000), (PStr ''TEMPERATURE'', PFloat (Finite False 7 (-1)))],
            [''Warning: Required environment variable GROQ_API_KEY is not set''])"
proof -
  have e: "load_config Map.empty = Inr ([(PStr ''SAMBA_MODEL'', PStr ''gpt-oss-120b''), (PStr ''WORKSHOP_DEBUG'', PBool False),
            (PStr ''MAX_TOKENS'', PInt 4000), (PStr ''TEMPERATURE'', PFloat (Finite False 7 (-1)))],
            [''Warning: Required environment variable GROQ_API_KEY is not set''])"
    by code_simp
  show ?thesis
    using load_config_without_groq_key [of "Map.empty(''MAX_TOKENS'' \<mapsto> ''100'', ''TEMPERATURE'' \<mapsto> ''1.5'')"] e by simp
qed

text \<open>C40. Saving then loading the \<open>.env\<close> file is a round trip: for entries that fit the
  file format (\<open>env_item_ok\<close>) with distinct keys, parsing the text \<open>save_to_env_file\<close>
  writes gives back the entries, in the sorted order it writes them.\<close>

theorem env_file_roundtrip:
  assumes "\<forall>it \<in> set items. env_item_ok it" "distinct (map fst items)"
  shows "parse_env_file (render_env_file items) = sort_key fst items"
proof -
  let ?xs = "sort_key fst items"
  have set_eq: "set ?xs = set items" by simp
  have "card (set (map fst ?xs)) = length (map fst ?xs)"
    using distinct_card [OF assms(2)] by (simp add: length_sort)
  then have dist: "distinct (map fst ?xs)" by (rule card_distinct)
  have nocr: "CHR 0x0D \<notin> set (render_env_file items)"
    using assms(1) by (auto simp: render_env_file_def env_file_header_def env_item_ok_def)
  have "parse_env_file (render_env_file items)
        = foldl parse_env_line [] (split_lines_from [] (concat (map (\<lambda>(k, v). k @ ''='' @ v @ ''\<newline>'') ?xs)))"
    unfolding parse_env_file_def translate_newlines_id [OF nocr] split_lines_def
    unfolding render_env_file_def by (rule parse_env_header)
  also have "\<dots> = ?xs"
    using parse_env_items [of ?xs "[]"] assms(1) dist set_eq by simp
  finally show ?thesis .
qed

theorem env_file_roundtrip_witness:
  "env_item_ok (''SAMBA_MODEL'', ''gpt-oss-120b'') \<and> env_item_ok (''GROQ_API_KEY'', ''gsk_key'')
   \<and> distinct (map fst [(''SAMBA_MODEL'', ''gpt-oss-120b''), (''GROQ_API_KEY'', ''gsk_key'')])
   \<and> parse_env_file (render_env_file [(''SAMBA_MODEL'', ''gpt-oss-120b''), (''GROQ_API_KEY'', ''gsk_key'')])
       = [(''GROQ_API_KEY'', ''gsk_key''), (''SAMBA_MODEL'', ''gpt-oss-120b'')]"
proof -
  have ok: "\<forall>it \<in> set [(''SAMBA_MODEL'', ''gpt-oss-120b''), (''GROQ_API_KEY'', ''gsk_key'')]. env_item_ok it"
    by code_simp
  have d: "distinct (map fst [(''SAMBA_MODEL'', ''gpt-oss-120b''), (''GROQ_API_KEY'', ''gsk_key'')])"
    by simp
  have s: "sort_key fst [(''SAMBA_MODEL'', ''gpt-oss-120b''), (''GROQ_API_KEY'', ''gsk_key'')]
      = [(''GROQ_API_KEY'', ''gsk_key''), (''SAMBA_MODEL'', ''gpt-oss-120b'')]"
    by code_simp
  show ?thesis using ok d env_file_roundtrip [OF ok d] s by simp
qed

end
