(* ===== verification/RateLimitedLLM.thy ===== *)
theory RateLimitedLLM
  imports RateLimiter WorkshopConfig
begin

text \<open>
  The factory \<open>create_rate_limited_llm(config)\<close> of
  \<open>src/AIAgentWorkshop-New/utils/rate_limiter.py\<close> (lines 129--152), over the Python dicts of
  theory \<open>PyValue\<close>. It builds a \<open>RateLimiter\<close> from \<open>config.get('max_retries', 3)\<close> and
  \<open>config.get('retry_delay', 1.0)\<close>, then returns a \<open>ChatOpenAI\<close> client built from
  \<open>config['temperature']\<close>, \<open>config['model']\<close>, \<open>config['api_key']\<close> and
  \<open>config['api_base']\<close>. The first missing key raises \<open>KeyError\<close>, in argument order. The
  limiter is not used: the client is returned unwrapped.

  The constructor \<open>ChatOpenAI(...)\<close> is a call into \<open>langchain_openai\<close>, which creates an
  \<open>openai.OpenAI\<close> client. What the model keeps of it is the API key the client ends up
  with: a string key is used as given; \<open>api_key=None\<close> makes the client read
  \<open>OPENAI_API_KEY\<close> from the process environment and raise \<open>OpenAIError\<close> when it is unset;
  any other value fails pydantic's validation (a \<open>ValueError\<close>). The other three arguments
  are kept as passed; their validation is not modelled. Its natural input is
  \<open>WorkshopConfig.get_agent_config()\<close>.
\<close>

record rl_chat_client =
  rl_temperature :: pyval
  rl_model :: pyval
  rl_api_key :: string
  rl_base_url :: pyval

text \<open>The \<open>RateLimiter\<close> the factory builds (with the default \<open>max_delay\<close> of 60 s). The
  constructor stores any value; \<open>None\<close> stands for values that are not an int retry count and a
  finite float or int delay, which the record of theory \<open>RateLimiter\<close> cannot hold.\<close>

definition rate_limited_llm_limiter :: "pydict \<Rightarrow> rate_limiter option" where
  "rate_limited_llm_limiter config =
     (case (dict_get config (PStr ''max_retries'') (PInt 3), dict_get config (PStr ''retry_delay'') (PFloat (Finite False 1 0))) of
        (PInt mr, PFloat (Finite neg m e)) \<Rightarrow> Some (rate_limiter_init mr (float_value neg m e) 60)
      | (PInt mr, PInt bd) \<Rightarrow> Some (rate_limiter_init mr (real_of_int bd) 60)
      | _ \<Rightarrow> None)"

text \<open>\<open>ChatOpenAI(temperature=..., model=..., api_key=..., base_url=...)\<close> in the process
  environment \<open>env\<close>: the API key the client is created with.\<close>

definition chat_openai :: "environ \<Rightarrow> pyval \<Rightarrow> pyval \<Rightarrow> pyval \<Rightarrow> pyval \<Rightarrow> pyerr + rl_chat_client" where
  "chat_openai env temperature model api_key base_url =
     (let client = (\<lambda>k. \<lparr>rl_temperature = temperature, rl_model = model, rl_api_key = k, rl_base_url = base_url\<rparr>) in
      case api_key of
        PStr k \<Rightarrow> Inr (client k)
      | PNone \<Rightarrow> (case env ''OPENAI_API_KEY'' of None \<Rightarrow> Inl OpenAIError | Some k \<Rightarrow> Inr (client k))
      | _ \<Rightarrow> Inl ValueError)"

definition create_rate_limited_llm :: "environ \<Rightarrow> pydict \<Rightarrow> pyerr + rl_chat_client" where
  "create_rate_limited_llm env config =
     (case py_getitem (PDict config) (PStr ''temperature'') of
        Inl e \<Rightarrow> Inl e
      | Inr temperature \<Rightarrow>
          (case py_getitem (PDict config) (PStr ''model'') of
             Inl e \<Rightarrow> Inl e
           | Inr model \<Rightarrow>
               (case py_getitem (PDict config) (PStr ''api_key'') of
                  Inl e \<Rightarrow> Inl e
                | Inr api_key \<Rightarrow>
                    (case py_getitem (PDict config) (PStr ''api_base'') of
                       Inl e \<Rightarrow> Inl e
                     | Inr base_url \<Rightarrow> chat_openai env temperature model api_key base_url))))"

section \<open>Lemmas\<close>

text \<open>The limiter built from the agent configuration has the defaults: three retries, one
  second apart, whatever the configuration.\<close>

lemma agent_config_limiter:
  "rate_limited_llm_limiter (get_agent_config c) = Some (rate_limiter_init 3 1 60)"
  by (simp add: rate_limited_llm_limiter_def get_agent_config_def dict_get_def dict_lookup_Cons py_hashable_def
      float_value_def scale10_def)

section \<open>Properties of the factory\<close>

text \<open>C36. Composed with \<open>WorkshopConfig.get_agent_config()\<close> of any configuration
  \<open>WorkshopConfig()\<close> loads from the environment, the factory passes \<open>api_key=None\<close>,
  because \<open>SAMBA_API_KEY\<close> is never loaded. So it raises \<open>OpenAIError\<close> when
  \<open>OPENAI_API_KEY\<close> is unset, and otherwise returns a client for the SambaNova endpoint and
  the default model \<open>gpt-oss-120b\<close> that authenticates with the OpenAI key: the SambaNova key
  never reaches the client.\<close>

theorem agent_config_llm_unkeyed:
  assumes "load_config env = Inr (c, warnings)"
  shows "create_rate_limited_llm env (get_agent_config c) =
      (case env ''OPENAI_API_KEY'' of
         None \<Rightarrow> Inl OpenAIError
       | Some k \<Rightarrow> Inr \<lparr>rl_temperature = config_get c ''TEMPERATURE'' PNone, rl_model = PStr ''gpt-oss-120b'',
           rl_api_key = k, rl_base_url = PStr config_api_base\<rparr>)"
  using load_config_samba_entries [OF assms]
  by (simp add: create_rate_limited_llm_def chat_openai_def get_agent_config_def py_getitem_def
      config_get_def dict_get_def dict_lookup_Cons py_hashable_def split: option.split)

theorem agent_config_llm_unkeyed_witness:
  "load_config [''OPENAI_API_KEY'' \<mapsto> ''sk-openai''] = Inr ([(PStr ''SAMBA_MODEL'', PStr ''gpt-oss-120b''),
       (PStr ''WORKSHOP_DEBUG'', PBool False),
       (PStr ''MAX_TOKENS'', PInt 4000), (PStr ''TEMPERATURE'', PFloat (Finite False 7 (-1)))],
       [''Warning: Required environment variable GROQ_API_KEY is not set''])
   \<and> create_rate_limited_llm [''OPENAI_API_KEY'' \<mapsto> ''sk-openai''] (get_agent_config [(PStr ''SAMBA_MODEL'', PStr ''gpt-oss-120b''),
       (PStr ''WORKSHOP_DEBUG'', PBool False), (PStr ''MAX_TOKENS'', PInt 4000),
       (PStr ''TEMPERATURE'', PFloat (Finite False 7 (-1)))])
     = Inr \<lparr>rl_temperature = PFloat (Finite False 7 (-1)), rl_model = PStr ''gpt-oss-120b'', rl_api_key = ''sk-openai'',
           rl_base_url = PStr config_api_base\<rparr>"
proof -
  have l: "load_config [''OPENAI_API_KEY'' \<mapsto> ''sk-openai''] = Inr ([(PStr ''SAMBA_MODEL'', PStr ''gpt-oss-120b''),
       (PStr ''WORKSHOP_DEBUG'', PBool False),
       (PStr ''MAX_TOKENS'', PInt 4000), (PStr ''TEMPERATURE'', PFloat (Finite False 7 (-1)))],
       [''Warning: Required environment variable GROQ_API_KEY is not set''])"
    by code_simp
  have t: "config_get [(PStr ''SAMBA_MODEL'', PStr ''gpt-oss-120b''), (PStr ''WORKSHOP_DEBUG'', PBool False),
       (PStr ''MAX_TOKENS'', PInt 4000), (PStr ''TEMPERATURE'', PFloat (Finite False 7 (-1)))] ''TEMPERATURE'' PNone
       = PFloat (Finite False 7 (-1))"
    by code_simp
  from l t agent_config_llm_unkeyed [OF l] show ?thesis by simp
qed

end
