(* ===== verification/ConfigSetup.thy ===== *)
theory ConfigSetup
  imports WorkshopConfig
begin

text \<open>
  The console dialogue \<open>setup_config_interactive\<close> of \<open>src/AIAgentWorkshop-New/utils/config.py\<close>
  (lines 191--252). Standard input is a list of lines: \<open>input()\<close> takes the next one and
  raises \<open>EOFError\<close> at the end. The dialogue works on the global instance of
  \<open>get_config()\<close>, and \<open>config.set\<close> mutates that object, so every change stays in the module
  state, also when an exception ends the dialogue. The state is the module and the current
  text of the \<open>.env\<close> file (\<open>None\<close>: no file). A run yields the result (\<open>True\<close>/\<open>False\<close>
  or the exception), the state after it and the unread input; \<open>None\<close> stands for a saved
  value whose \<open>str\<close> is not modelled (as in \<open>save_to_env_file\<close>). Printed lines are not
  modelled.

  The lemmas show that the dialogue saves a file only after \<open>validate()\<close> accepted the
  configuration, so only with a key in the Groq format, and that the model chosen in the
  dialogue never reaches the file: it is stored as \<open>GROQ_MODEL\<close>, which \<open>validate()\<close>
  does not read and \<open>save_to_env_file\<close> does not write.
\<close>

section \<open>Console and state\<close>

datatype setup_error = EOFError | Config_error pyerr

text \<open>\<open>input(prompt)\<close>: the next line of standard input.\<close>

definition console_input :: "string list \<Rightarrow> setup_error + string \<times> string list" where
  "console_input ins = (case ins of [] \<Rightarrow> Inl EOFError | line # rest \<Rightarrow> Inr (line, rest))"

record setup_state =
  setup_module :: config_module
  setup_env_file :: "string option"

text \<open>A phase of the dialogue: its result or exception, the configuration object after it and
  the unread input.\<close>

type_synonym 'a dialogue = "(setup_error + 'a) \<times> workshop_config \<times> string list"

section \<open>The phases of \<open>setup_config_interactive\<close>\<close>

text \<open>Lines 198--210. A configured key is kept; otherwise the stripped answer is set as
  \<open>SAMBA_API_KEY\<close>, and an empty answer ends the dialogue with \<open>False\<close> (\<open>Inr False\<close> here).\<close>

definition setup_api_key :: "workshop_config \<Rightarrow> string list \<Rightarrow> bool dialogue" where
  "setup_api_key c ins =
     (if py_truthy (config_get c ''SAMBA_API_KEY'' PNone) then (Inr True, c, ins)
      else case console_input ins of
             Inl e \<Rightarrow> (Inl e, c, ins)
           | Inr (line, rest) \<Rightarrow>
               (let api_key = py_strip line in
                if api_key \<noteq> [] then (Inr True, config_set c ''SAMBA_API_KEY'' (PStr api_key), rest)
                else (Inr False, c, rest)))"

definition setup_models :: "string list" where
  "setup_models = [''gemma2-9b-it'', ''llama3-8b-8192'', ''llama3-70b-8192'', ''mixtral-8x7b-32768'',
     ''llama-3.1-8b-instant'', ''llama-3.1-70b-versatile'', ''llama-3.1-405b-inference'']"

text \<open>Lines 231--237: \<open>int(choice) - 1\<close> in range selects a model; a \<open>ValueError\<close> of \<open>int\<close>
  is caught and keeps the current model.\<close>

definition select_model :: "workshop_config \<Rightarrow> string \<Rightarrow> workshop_config" where
  "select_model c choice =
     (case py_int choice of
        None \<Rightarrow> c
      | Some n \<Rightarrow>
          (let index = n - 1 in
           if 0 \<le> index \<and> index < int (length setup_models)
           then config_set c ''GROQ_MODEL'' (PStr (setup_models ! nat index)) else c))"

text \<open>Lines 213--237. \<open>current_model\<close> is only printed.\<close>

definition setup_model :: "workshop_config \<Rightarrow> string list \<Rightarrow> unit dialogue" where
  "setup_model c ins =
     (case console_input ins of
        Inl e \<Rightarrow> (Inl e, c, ins)
      | Inr (line, rest) \<Rightarrow>
          if py_lower (py_strip line) = ''y'' then
            (case console_input rest of
               Inl e \<Rightarrow> (Inl e, c, rest)
             | Inr (choice, rest') \<Rightarrow> (Inr (), select_model c (py_strip choice), rest'))
          else (Inr (), c, rest))"

text \<open>Lines 239--252: validate; when valid, ask and save unless the answer is \<open>n\<close>. The
  result is the return value, the \<open>.env\<close> text after it and the unread input.\<close>

definition setup_save ::
  "workshop_config \<Rightarrow> string option \<Rightarrow> string list \<Rightarrow> ((setup_error + bool) \<times> string option \<times> string list) option" where
  "setup_save c file ins =
     (case config_validate c of
        Inl e \<Rightarrow> Some (Inl (Config_error e), file, ins)
      | Inr (is_valid, errors) \<Rightarrow>
          if \<not> is_valid then Some (Inr False, file, ins)
          else case console_input ins of
                 Inl e \<Rightarrow> Some (Inl e, file, ins)
               | Inr (line, rest) \<Rightarrow>
                   if py_lower (py_strip line) \<noteq> ''n'' then
                     (case save_to_env_file file c of
                        Inl e \<Rightarrow> Some (Inl (Config_error e), file, rest)
                      | Inr None \<Rightarrow> None
                      | Inr (Some text) \<Rightarrow> Some (Inr True, Some text, rest))
                   else Some (Inr True, file, rest))"

definition setup_config_interactive ::
  "environ \<Rightarrow> setup_state \<Rightarrow> string list \<Rightarrow> ((setup_error + bool) \<times> setup_state \<times> string list) option" where
  "setup_config_interactive env st ins =
     (case get_config env (setup_module st) of
        Inl e \<Rightarrow> Some (Inl (Config_error e), st, ins)
      | Inr (c0, m, warnings) \<Rightarrow>
          (let finish = (\<lambda>c. st\<lparr>setup_module := m\<lparr>config_instance := Some c\<rparr>\<rparr>) in
           case setup_api_key c0 ins of
             (Inl e, c1, ins1) \<Rightarrow> Some (Inl e, finish c1, ins1)
           | (Inr False, c1, ins1) \<Rightarrow> Some (Inr False, finish c1, ins1)
           | (Inr True, c1, ins1) \<Rightarrow>
               (case setup_model c1 ins1 of
                  (Inl e, c2, ins2) \<Rightarrow> Some (Inl e, finish c2, ins2)
                | (Inr u, c2, ins2) \<Rightarrow>
                    map_option (\<lambda>(r, file, ins3). (r, (finish c2)\<lparr>setup_env_file := file\<rparr>, ins3))
                      (setup_save c2 (setup_env_file st) ins2))))"

section \<open>Lemmas\<close>

text \<open>Entries that \<open>validate()\<close> does not read and \<open>save_to_env_file\<close> does not write.\<close>

definition unsaved_key :: "string \<Rightarrow> bool" where
  "unsaved_key k \<longleftrightarrow> k \<notin> {''SAMBA_API_KEY'', ''SAMBA_MODEL'', ''TEMPERATURE'', ''MAX_TOKENS''}
     \<and> \<not> list_ex (\<lambda>p. prefix p k) saved_prefixes"

lemma config_get_set_other:
  "k \<noteq> k' \<Longrightarrow> config_get (config_set c k v) k' d = config_get c k' d"
  by (simp add: config_get_def config_set_def dict_get_def dict_lookup_set py_key_def py_key_eq_def)

lemma config_validate_set_unsaved:
  "unsaved_key k \<Longrightarrow> config_validate (config_set c k v) = config_validate c"
  unfolding config_validate_def unsaved_key_def Let_def
  by (simp add: config_get_set_other cong: sum.case_cong)

lemma merge_saved_set_unsaved:
  "unsaved_key k \<Longrightarrow> merge_saved acc (dict_set c (PStr k) v) = merge_saved acc c"
proof (induction c arbitrary: acc)
  case Nil
  then show ?case by (simp add: unsaved_key_def)
next
  case (Cons kv c)
  then show ?case
    by (cases kv) (auto simp: py_key_eq_def py_key_def unsaved_key_def split: pyval.splits option.splits)
qed

lemma save_to_env_file_set_unsaved:
  "unsaved_key k \<Longrightarrow> save_to_env_file file (config_set c k v) = save_to_env_file file c"
  by (simp add: save_to_env_file_def config_set_def merge_saved_set_unsaved)

lemma setup_save_set_unsaved:
  assumes "unsaved_key k"
  shows "setup_save (config_set c k v) file ins = setup_save c file ins"
  unfolding setup_save_def config_validate_set_unsaved [OF assms] save_to_env_file_set_unsaved [OF assms] ..

lemma config_get_set_same:
  "config_get (config_set c k v) k d = v"
  by (simp add: config_get_def config_set_def dict_get_def dict_lookup_set py_key_def py_key_eq_def)

lemma select_model_cases:
  "select_model c choice = c \<or> (\<exists>v. select_model c choice = config_set c ''GROQ_MODEL'' v)"
  by (auto simp: select_model_def Let_def split: option.split)

lemma unsaved_groq_model: "unsaved_key ''GROQ_MODEL''"
  by (simp add: unsaved_key_def saved_prefixes_def)

lemma setup_save_select_model:
  "setup_save (select_model c choice) file ins = setup_save c file ins"
  using select_model_cases [of c choice] setup_save_set_unsaved [OF unsaved_groq_model] by auto

lemma select_model_key:
  "config_get (select_model c choice) ''SAMBA_API_KEY'' d = config_get c ''SAMBA_API_KEY'' d"
  using select_model_cases [of c choice] config_get_set_other [of "''GROQ_MODEL''" "''SAMBA_API_KEY''"] by auto

lemma setup_model_key:
  "setup_model c ins = (r, c', ins') \<Longrightarrow> config_get c' ''SAMBA_API_KEY'' d = config_get c ''SAMBA_API_KEY'' d"
  by (auto simp: setup_model_def console_input_def select_model_key split: list.splits if_splits)

lemma setup_save_result:
  "setup_save c file ins = Some (r, file', rest) \<Longrightarrow>
     (file' \<noteq> file \<longrightarrow> r = Inr True) \<and> (r = Inr True \<longrightarrow> (\<exists>errors. config_validate c = Inr (True, errors)))"
  by (auto simp: setup_save_def console_input_def split: sum.splits list.splits if_splits option.splits)

lemma get_config_fresh:
  "config_instance m = None \<Longrightarrow> get_config env m = Inr (c, m', w) \<Longrightarrow> dict_lookup c (PStr ''SAMBA_API_KEY'') = None"
  by (cases "load_config env") (auto simp: get_config_def dest: load_config_samba_entries)

lemma setup_api_key_unset:
  "dict_lookup c (PStr ''SAMBA_API_KEY'') = None \<Longrightarrow>
   setup_api_key c (key # ins) =
     (if py_strip key \<noteq> [] then (Inr True, config_set c ''SAMBA_API_KEY'' (PStr (py_strip key)), ins)
      else (Inr False, c, ins))"
  by (simp add: setup_api_key_def config_get_def dict_get_def py_truthy_def console_input_def Let_def)

lemma setup_model_answer:
  "setup_model c (''y'' # choice # ins) = (Inr (), select_model c (py_strip choice), ins)"
  "setup_model c (''n'' # ins) = (Inr (), c, ins)"
  by (simp_all add: setup_model_def console_input_def py_strip_def py_lower_def py_isspace_def py_lower_char_def py_is_upper_def)

section \<open>Properties of the setup dialogue\<close>

text \<open>C38. Run on a fresh module (no instance yet), the setup dialogue asks for the SambaNova
  key first. It changes the \<open>.env\<close> file only when it returns \<open>True\<close>, and it returns
  \<open>True\<close> only when the key typed in starts with the Groq prefix \<open>gsk_\<close> and has more than 20
  characters: \<open>validate()\<close> checks the SambaNova key with the Groq format, so a SambaNova key
  typed into the dialogue is never saved.\<close>

theorem setup_saves_only_groq_keys:
  assumes fresh: "config_instance (setup_module st) = None"
    and run: "setup_config_interactive env st (key # ins) = Some (r, st', rest)"
  shows "(setup_env_file st' \<noteq> setup_env_file st \<longrightarrow> r = Inr True)
       \<and> (r = Inr True \<longrightarrow> prefix ''gsk_'' (py_strip key) \<and> 20 < length (py_strip key))"
proof (cases "get_config env (setup_module st)")
  case (Inl e)
  then show ?thesis using run by (auto simp: setup_config_interactive_def)
next
  case (Inr res)
  then obtain c0 m w where g: "get_config env (setup_module st) = Inr (c0, m, w)"
    by (cases res) auto
  note k = setup_api_key_unset [OF get_config_fresh [OF fresh g], of key ins]
  show ?thesis
  proof (cases "py_strip key = []")
    case True
    then show ?thesis using run g k by (auto simp: setup_config_interactive_def)
  next
    case False
    define c1 where "c1 = config_set c0 ''SAMBA_API_KEY'' (PStr (py_strip key))"
    obtain mr c2 ins2 where m: "setup_model c1 ins = (mr, c2, ins2)"
      by (cases "setup_model c1 ins") auto
    have key2: "config_get c2 ''SAMBA_API_KEY'' PNone = PStr (py_strip key)"
      using setup_model_key [OF m] by (simp add: c1_def config_get_set_same)
    show ?thesis
    proof (cases mr)
      case (Inl e)
      then show ?thesis using run g k False m by (auto simp: setup_config_interactive_def c1_def [symmetric])
    next
      case (Inr u)
      with run g k False m obtain f' where s: "setup_save c2 (setup_env_file st) ins2 = Some (r, f', rest)"
          and f: "setup_env_file st' = f'"
        by (auto simp: setup_config_interactive_def c1_def [symmetric])
      show ?thesis
        using setup_save_result [OF s] config_validate_needs_groq_key key2 f by fastforce
    qed
  qed
qed

theorem setup_saves_only_groq_keys_witness:
  "config_instance (setup_module \<lparr>setup_module = \<lparr>config_instance = None\<rparr>, setup_env_file = None\<rparr>) = None
   \<and> map_option (\<lambda>(r, st', rest). (r, setup_env_file st', rest))
       (setup_config_interactive (Map.empty(''GROQ_API_KEY'' \<mapsto> ''gsk_0123456789abcdefghij'')) \<lparr>setup_module = \<lparr>config_instance = None\<rparr>, setup_env_file = None\<rparr>
          [''gsk_0123456789abcdefghijk'', ''n'', ''y'']) =
     Some (Inr True, Some ''# AI Agent Workshop Configuration\<newline># Generated automatically - do not edit manually\<newline>\<newline>MAX_TOKENS=4000\<newline>SAMBA_API_KEY=gsk_0123456789abcdefghijk\<newline>SAMBA_MODEL=gpt-oss-120b\<newline>TEMPERATURE=0.7\<newline>WORKSHOP_DEBUG=False\<newline>'', [])
   \<and> prefix ''gsk_'' (py_strip ''gsk_0123456789abcdefghijk'') \<and> 20 < length (py_strip ''gsk_0123456789abcdefghijk'')"
proof -
  have run: "map_option (\<lambda>(r, st', rest). (r, setup_env_file st', rest))
       (setup_config_interactive (Map.empty(''GROQ_API_KEY'' \<mapsto> ''gsk_0123456789abcdefghij'')) \<lparr>setup_module = \<lparr>config_instance = None\<rparr>, setup_env_file = None\<rparr>
          [''gsk_0123456789abcdefghijk'', ''n'', ''y'']) =
     Some (Inr True, Some ''# AI Agent Workshop Configuration\<newline># Generated automatically - do not edit manually\<newline>\<newline>MAX_TOKENS=4000\<newline>SAMBA_API_KEY=gsk_0123456789abcdefghijk\<newline>SAMBA_MODEL=gpt-oss-120b\<newline>TEMPERATURE=0.7\<newline>WORKSHOP_DEBUG=False\<newline>'', [])"
    by code_simp
  then obtain st' where r: "setup_config_interactive (Map.empty(''GROQ_API_KEY'' \<mapsto> ''gsk_0123456789abcdefghij'')) \<lparr>setup_module = \<lparr>config_instance = None\<rparr>, setup_env_file = None\<rparr>
          [''gsk_0123456789abcdefghijk'', ''n'', ''y''] = Some (Inr True, st', [])"
    by (auto split: prod.splits)
  show ?thesis
    using run setup_saves_only_groq_keys [OF _ r] by simp
qed

text \<open>C14. The model chosen in the dialogue never reaches the \<open>.env\<close> file: the dialogue
  stores it as \<open>GROQ_MODEL\<close>, which \<open>validate()\<close> does not read and \<open>save_to_env_file\<close>
  does not write, so on a fresh module answering \<open>y\<close> and picking any model gives the same
  result and the same file as answering \<open>n\<close>.\<close>

theorem setup_model_choice_not_saved:
  assumes fresh: "config_instance (setup_module st) = None"
  shows "map_option (\<lambda>(r, st', rest). (r, setup_env_file st'))
           (setup_config_interactive env st (key # ''y'' # choice # ins))
       = map_option (\<lambda>(r, st', rest). (r, setup_env_file st'))
           (setup_config_interactive env st (key # ''n'' # ins))"
proof (cases "get_config env (setup_module st)")
  case (Inl e)
  then show ?thesis by (simp add: setup_config_interactive_def)
next
  case (Inr res)
  then obtain c0 m w where g: "get_config env (setup_module st) = Inr (c0, m, w)"
    by (cases res) auto
  note k = setup_api_key_unset [OF get_config_fresh [OF fresh g]]
  show ?thesis
    by (cases "setup_save (config_set c0 ''SAMBA_API_KEY'' (PStr (py_strip key))) (setup_env_file st) ins")
      (auto simp: setup_config_interactive_def g k setup_model_answer setup_save_select_model)
qed

theorem setup_model_choice_not_saved_witness:
  "config_instance (setup_module \<lparr>setup_module = \<lparr>config_instance = None\<rparr>, setup_env_file = None\<rparr>) = None
   \<and> map_option (\<lambda>(r, st', rest). (r, setup_env_file st'))
       (setup_config_interactive (Map.empty(''GROQ_API_KEY'' \<mapsto> ''gsk_0123456789abcdefghij'')) \<lparr>setup_module = \<lparr>config_instance = None\<rparr>, setup_env_file = None\<rparr>
          [''gsk_0123456789abcdefghijk'', ''y'', ''3'', ''y'']) =
     Some (Inr True, Some ''# AI Agent Workshop Configuration\<newline># Generated automatically - do not edit manually\<newline>\<newline>MAX_TOKENS=4000\<newline>SAMBA_API_KEY=gsk_0123456789abcdefghijk\<newline>SAMBA_MODEL=gpt-oss-120b\<newline>TEMPERATURE=0.7\<newline>WORKSHOP_DEBUG=False\<newline>'')"
proof -
  have n: "map_option (\<lambda>(r, st', rest). (r, setup_env_file st'))
       (setup_config_interactive (Map.empty(''GROQ_API_KEY'' \<mapsto> ''gsk_0123456789abcdefghij'')) \<lparr>setup_module = \<lparr>config_instance = None\<rparr>, setup_env_file = None\<rparr>
          [''gsk_0123456789abcdefghijk'', ''n'', ''y'']) =
     Some (Inr True, Some ''# AI Agent Workshop Configuration\<newline># Generated automatically - do not edit manually\<newline>\<newline>MAX_TOKENS=4000\<newline>SAMBA_API_KEY=gsk_0123456789abcdefghijk\<newline>SAMBA_MODEL=gpt-oss-120b\<newline>TEMPERATURE=0.7\<newline>WORKSHOP_DEBUG=False\<newline>'')"
    by code_simp
  show ?thesis
    using n setup_model_choice_not_saved [of "\<lparr>setup_module = \<lparr>config_instance = None\<rparr>, setup_env_file = None\<rparr>" "(Map.empty(''GROQ_API_KEY'' \<mapsto> ''gsk_0123456789abcdefghij''))" "''gsk_0123456789abcdefghijk''" "''3''" "[''y'']"]
    by simp
qed

end
