(* ===== verification/Graph.thy ===== *)
theory Graph
  imports Prelude
begin

text \<open>
  The execution model of a compiled LangGraph \<open>StateGraph\<close>, the external library the
  session-3 workflows of the repository build on (they call \<open>add_node\<close>,
  \<open>add_conditional_edges\<close>, \<open>add_edge\<close>, \<open>set_entry_point\<close>, \<open>compile\<close> and
  \<open>invoke\<close>). This is not repository code: it states the library behaviour the
  workflows rely on. A run starts at the entry point; each super-step runs the current
  node on the whole state (the repository's nodes return a complete copy of the state, so
  the state is replaced; an exception a node raises, such as a failed LLM call, ends the run
  and propagates out of \<open>invoke\<close>), then follows the node's edge: a direct edge names the next node,
  a conditional edge applies the router to the new state and looks its answer up in the
  path map. The sentinel \<open>END\<close> (the string \<^verbatim>\<open>__end__\<close>) stops the run. A router answer
  missing from the path map, a node without an outgoing edge, and more super-steps than
  the recursion limit (25 by default) are errors. \<open>graph_run\<close> executes with the
  recursion limit as fuel and records the nodes it ran; \<open>graph_step\<close> is the same
  transition as an inductive relation, for reasoning about the reachable configurations.
  \<open>rank_decreasing\<close> states that a ranking of the nodes decreases along every edge. Such a
  ranking bounds every run and shows it terminates (\<open>graph_run_ranked\<close>). With nodes that
  always succeed, it also gives progress to \<open>END\<close> (\<open>graph_progress\<close>).
\<close>

definition graph_END :: string where
  "graph_END = ''__end__''"

datatype 's edge =
    Direct string
  | Conditional "'s \<Rightarrow> string" "(string \<times> string) list"

record ('s, 'e) state_graph =
  entry_point :: string
  graph_nodes :: "(string \<times> ('s \<Rightarrow> 'e + 's)) list"
  graph_edges :: "(string \<times> 's edge) list"

datatype 'e graph_error =
    Node_raised 'e
  | Node_not_found string
  | Branch_not_in_path_map string
  | No_outgoing_edge string
  | Recursion_limit_reached

definition recursion_limit :: nat where
  "recursion_limit = 25"

text \<open>The node that follows node \<open>n\<close> when it has produced state \<open>s'\<close>.\<close>

definition next_node :: "('s, 'e) state_graph \<Rightarrow> string \<Rightarrow> 's \<Rightarrow> 'e graph_error + string" where
  "next_node g n s' =
     (case map_of (graph_edges g) n of
        None \<Rightarrow> Inl (No_outgoing_edge n)
      | Some (Direct t) \<Rightarrow> Inr t
      | Some (Conditional router path_map) \<Rightarrow>
          (case map_of path_map (router s') of
             None \<Rightarrow> Inl (Branch_not_in_path_map (router s'))
           | Some t \<Rightarrow> Inr t))"

fun graph_run :: "nat \<Rightarrow> ('s, 'e) state_graph \<Rightarrow> string \<Rightarrow> 's \<Rightarrow> string list \<Rightarrow> ('e graph_error + 's) \<times> string list" where
  "graph_run 0 g n s trace = (Inl Recursion_limit_reached, trace)"
| "graph_run (Suc k) g n s trace =
     (case map_of (graph_nodes g) n of
        None \<Rightarrow> (Inl (Node_not_found n), trace)
      | Some f \<Rightarrow>
          (case f s of
             Inl e \<Rightarrow> (Inl (Node_raised e), trace @ [n])
           | Inr s' \<Rightarrow>
               (case next_node g n s' of
                  Inl err \<Rightarrow> (Inl err, trace @ [n])
                | Inr t \<Rightarrow> if t = graph_END then (Inr s', trace @ [n])
                          else graph_run k g t s' (trace @ [n]))))"

definition graph_invoke :: "('s, 'e) state_graph \<Rightarrow> 's \<Rightarrow> ('e graph_error + 's) \<times> string list" where
  "graph_invoke g s = graph_run recursion_limit g (entry_point g) s []"

text \<open>One super-step as a relation on configurations (node to run, state).\<close>

inductive graph_step :: "('s, 'e) state_graph \<Rightarrow> string \<times> 's \<Rightarrow> string \<times> 's \<Rightarrow> bool" for g where
  step: "map_of (graph_nodes g) n = Some f \<Longrightarrow> f s = Inr s' \<Longrightarrow> next_node g n s' = Inr t
         \<Longrightarrow> graph_step g (n, s) (t, s')"

inductive graph_reach :: "('s, 'e) state_graph \<Rightarrow> 's \<Rightarrow> string \<times> 's \<Rightarrow> bool" for g s0 where
  start: "graph_reach g s0 (entry_point g, s0)"
| step: "graph_reach g s0 c \<Longrightarrow> graph_step g c c' \<Longrightarrow> graph_reach g s0 c'"

inductive_cases graph_stepE: "graph_step g (n, s) c'"

text \<open>The nodes an edge can lead to, and the termination measure of a run: a ranking of the
  nodes that every edge decreases, whatever the router answers.\<close>

fun edge_targets :: "'s edge \<Rightarrow> string list" where
  "edge_targets (Direct t) = [t]"
| "edge_targets (Conditional router path_map) = map snd path_map"

definition rank_decreasing :: "('s, 'e) state_graph \<Rightarrow> (string \<Rightarrow> nat) \<Rightarrow> bool" where
  "rank_decreasing g r \<longleftrightarrow>
     (\<forall>(n, e) \<in> set (graph_edges g). \<forall>t \<in> set (edge_targets e). t \<noteq> graph_END \<longrightarrow> r t < r n)"

section \<open>Lemmas\<close>

lemma graph_END_eq_iff [simp]: "t = graph_END \<longleftrightarrow> t = ''__end__''" "graph_END = t \<longleftrightarrow> t = ''__end__''"
  by (auto simp: graph_END_def)

lemma graph_run_Suc_step:
  assumes "map_of (graph_nodes g) n = Some f" "f s = Inr s'" "next_node g n s' = Inr t" "t \<noteq> graph_END"
  shows "graph_run (Suc k) g n s trace = graph_run k g t s' (trace @ [n])"
  using assms by simp

lemma graph_run_Suc_end:
  assumes "map_of (graph_nodes g) n = Some f" "f s = Inr s'" "next_node g n s' = Inr graph_END"
  shows "graph_run (Suc k) g n s trace = (Inr s', trace @ [n])"
  using assms by simp

lemma graph_run_Suc_raise:
  assumes "map_of (graph_nodes g) n = Some f" "f s = Inl e"
  shows "graph_run (Suc k) g n s trace = (Inl (Node_raised e), trace @ [n])"
  using assms by simp

lemma graph_invoke_unfold: "graph_invoke g s = graph_run (Suc 24) g (entry_point g) s []"
  by (simp add: graph_invoke_def recursion_limit_def)

text \<open>A run that returns a state has reached \<open>END\<close> along \<open>graph_step\<close>s from where it started.\<close>

lemma graph_run_reach:
  "graph_run k g n s tr = (Inr s', tr') \<Longrightarrow> graph_reach g s0 (n, s) \<Longrightarrow> graph_reach g s0 (graph_END, s')"
proof (induction k arbitrary: n s tr)
  case 0
  then show ?case by simp
next
  case (Suc k)
  from Suc.prems(1) obtain f s1 t where f: "map_of (graph_nodes g) n = Some f" and s1: "f s = Inr s1"
      and t: "next_node g n s1 = Inr t"
    by (auto split: option.splits sum.splits)
  have r: "graph_reach g s0 (t, s1)"
    using Suc.prems(2) f s1 t by (blast intro: graph_reach.step graph_step.step)
  show ?case
  proof (cases "t = graph_END")
    case True
    with Suc.prems(1) f s1 t r show ?thesis by auto
  next
    case False
    with Suc.prems(1) f s1 t have "graph_run k g t s1 (tr @ [n]) = (Inr s', tr')" by simp
    from Suc.IH [OF this r] show ?thesis .
  qed
qed

text \<open>A three-node pipeline: when each node, having succeeded, routes to the next one and the
  last routes to \<open>END\<close>, a run is the sequential composition of the three node functions,
  stopping at the first exception; three super-steps suffice.\<close>

lemma graph_run_pipeline3:
  assumes nodes: "map_of (graph_nodes g) a = Some fa" "map_of (graph_nodes g) b = Some fb"
      "map_of (graph_nodes g) c = Some fc"
    and ab: "\<And>s1. fa s = Inr s1 \<Longrightarrow> next_node g a s1 = Inr b"
    and bc: "\<And>s1 s2. fa s = Inr s1 \<Longrightarrow> fb s1 = Inr s2 \<Longrightarrow> next_node g b s2 = Inr c"
    and ce: "\<And>s1 s2 s3. fa s = Inr s1 \<Longrightarrow> fb s1 = Inr s2 \<Longrightarrow> fc s2 = Inr s3 \<Longrightarrow> next_node g c s3 = Inr graph_END"
    and ne: "b \<noteq> graph_END" "c \<noteq> graph_END"
  shows "graph_run (Suc (Suc (Suc m))) g a s [] =
     (case fa s of
        Inl e \<Rightarrow> (Inl (Node_raised e), [a])
      | Inr s1 \<Rightarrow>
          (case fb s1 of
             Inl e \<Rightarrow> (Inl (Node_raised e), [a, b])
           | Inr s2 \<Rightarrow>
               (case fc s2 of
                  Inl e \<Rightarrow> (Inl (Node_raised e), [a, b, c])
                | Inr s3 \<Rightarrow> (Inr s3, [a, b, c]))))"
proof (cases "fa s")
  case (Inl e)
  then show ?thesis using nodes by simp
next
  case (Inr s1)
  show ?thesis
  proof (cases "fb s1")
    case (Inl e)
    then show ?thesis using nodes Inr ab ne by simp
  next
    case (Inr s2)
    then show ?thesis
      using nodes \<open>fa s = Inr s1\<close> ab bc ce ne by (cases "fc s2") simp_all
  qed
qed

lemma graph_invoke_fuel:
  assumes "entry_point g = a"
  shows "graph_invoke g s = graph_run (Suc (Suc (Suc 22))) g a s []"
  using assms by (simp add: graph_invoke_def recursion_limit_def)


lemma next_node_target:
  "next_node g n s = Inr t \<Longrightarrow> \<exists>e. (n, e) \<in> set (graph_edges g) \<and> t \<in> set (edge_targets e)"
  unfolding next_node_def by (force split: option.splits edge.splits dest!: map_of_SomeD)

lemma next_node_Inl: "next_node g n s = Inl err \<Longrightarrow> err \<noteq> Recursion_limit_reached"
  by (auto simp: next_node_def split: option.splits edge.splits)

lemma rank_decreasing_next:
  "rank_decreasing g r \<Longrightarrow> next_node g n s = Inr t \<Longrightarrow> t \<noteq> graph_END \<Longrightarrow> r t < r n"
  unfolding rank_decreasing_def by (blast dest: next_node_target)

text \<open>Termination by the ranking: a run from node \<open>n\<close> with more fuel than the rank of \<open>n\<close>
  never exhausts it and runs at most \<open>rank n + 1\<close> nodes.\<close>

lemma graph_run_ranked:
  assumes rank: "rank_decreasing g r"
  shows "r n < k \<Longrightarrow> fst (graph_run k g n s tr) \<noteq> Inl Recursion_limit_reached
    \<and> length (snd (graph_run k g n s tr)) \<le> length tr + Suc (r n)"
proof (induction k arbitrary: n s tr)
  case 0
  then show ?case by simp
next
  case (Suc k)
  show ?case
  proof (cases "map_of (graph_nodes g) n")
    case None
    then show ?thesis by simp
  next
    case (Some f)
    note f = Some
    show ?thesis
    proof (cases "f s")
      case (Inl e)
      then show ?thesis using f by simp
    next
      case (Inr s')
      note s' = Inr
      show ?thesis
      proof (cases "next_node g n s'")
        case (Inl err)
        then show ?thesis using f s' next_node_Inl by simp
      next
        case (Inr t)
        note t = Inr
        show ?thesis
        proof (cases "t = graph_END")
          case True
          then show ?thesis using f s' t by simp
        next
          case False
          have rt: "r t < r n" by (rule rank_decreasing_next [OF rank t False])
          then have "r t < k" using Suc.prems by simp
          from Suc.IH [OF this, of s' "tr @ [n]"] show ?thesis
            using f s' t False rt by simp
        qed
      qed
    qed
  qed
qed

lemma graph_invoke_ranked:
  "rank_decreasing g r \<Longrightarrow> r (entry_point g) < recursion_limit \<Longrightarrow>
   fst (graph_invoke g s) \<noteq> Inl Recursion_limit_reached \<and> length (snd (graph_invoke g s)) \<le> Suc (r (entry_point g))"
  using graph_run_ranked [of g r "entry_point g" recursion_limit s "[]"] by (simp add: graph_invoke_def)

text \<open>Progress: when every node of a ranked graph succeeds on every state and routes to a node
  or to \<open>END\<close>, \<open>END\<close> is reached from every node.\<close>

lemma graph_progress:
  assumes rank: "rank_decreasing g r"
    and total: "\<And>n s. n \<in> fst ` set (graph_nodes g) \<Longrightarrow> \<exists>f s' t. map_of (graph_nodes g) n = Some f
                  \<and> f s = Inr s' \<and> next_node g n s' = Inr t \<and> (t = graph_END \<or> t \<in> fst ` set (graph_nodes g))"
  shows "n \<in> fst ` set (graph_nodes g) \<Longrightarrow> \<exists>s'. (graph_step g)\<^sup>*\<^sup>* (n, s) (graph_END, s')"
proof (induction "r n" arbitrary: n s rule: less_induct)
  case less
  obtain f s' t where f: "map_of (graph_nodes g) n = Some f" "f s = Inr s'" "next_node g n s' = Inr t"
      and tn: "t = graph_END \<or> t \<in> fst ` set (graph_nodes g)"
    using total [OF less.prems] by blast
  have st: "graph_step g (n, s) (t, s')"
    using f by (rule graph_step.step)
  show ?case
  proof (cases "t = graph_END")
    case True
    then show ?thesis using st by blast
  next
    case False
    have "r t < r n" by (rule rank_decreasing_next [OF rank f(3) False])
    from less.hyps [OF this] False tn obtain s'' where "(graph_step g)\<^sup>*\<^sup>* (t, s') (graph_END, s'')"
      by blast
    then show ?thesis using st by (blast intro: converse_rtranclp_into_rtranclp)
  qed
qed

text \<open>A reachable configuration is at the entry point or at a target of some edge.\<close>

lemma graph_reach_target:
  "graph_reach g s0 (n, s) \<Longrightarrow> n = entry_point g \<or> (\<exists>m e. (m, e) \<in> set (graph_edges g) \<and> n \<in> set (edge_targets e))"
  by (induction "(n, s)" arbitrary: n s rule: graph_reach.induct) (auto elim!: graph_stepE dest: next_node_target)

end
