(* ===== verification/Workflow.thy ===== *)
theory Workflow
  imports Graph ProviderConfig
begin

text \<open>
  The CrewAI stateful workflow of \<open>src/AIAgentWorkshop-New/session3/stateful_workflow.py\<close>:
  the \<open>WorkflowState\<close> notebook, the three node functions \<open>research_step\<close>,
  \<open>draft_answer_step\<close> and \<open>final_answer_step\<close> (each builds an \<open>Agent\<close>, a
  \<open>Task\<close> and a one-agent \<open>Crew\<close> and stores \<open>str(crew.kickoff())\<close> in a copy of the
  state), the router \<open>decide_next_step\<close>, the graph of \<open>create_simple_workflow\<close> and
  the run of \<open>run_simple_workflow\<close>. The LLM service behind \<open>kickoff\<close> is an oracle
  \<open>kickoff :: crew \<Rightarrow> 'e + string\<close>: it sees the whole crew (agents with their LLM
  settings, tasks with their prompts) and either answers or raises. The console output of
  the \<open>print\<close> calls is not modelled. The module constants imported from \<open>config.py\<close>
  are a \<open>provider_config\<close> record.
\<close>

text \<open>Lines 13--19: the import-time export of the SambaNova key for LiteLLM.\<close>

definition workflow_env_setup :: "provider_config \<Rightarrow> environ \<Rightarrow> environ" where
  "workflow_env_setup cfg env =
     (if PROVIDER cfg = ''sambanova'' then env(''SAMBANOVA_API_KEY'' \<mapsto> API_KEY cfg) else env)"

text \<open>A CrewAI \<open>LLM(model, api_key, base_url)\<close> object, or the plain model string.\<close>

datatype llm_spec =
    CrewLLM string "string option" string
  | LLMName string

definition get_llm :: "provider_config \<Rightarrow> llm_spec" where
  "get_llm cfg =
     (if PROVIDER cfg = ''ollama'' then CrewLLM (''ollama/'' @ MODEL cfg) None ''http://localhost:11434''
      else if PROVIDER cfg = ''sambanova'' then CrewLLM (''sambanova/'' @ MODEL cfg) (Some (API_KEY cfg)) (API_BASE cfg)
      else LLMName (PROVIDER cfg @ ''/'' @ MODEL cfg))"

record agent =
  role :: string
  goal :: string
  backstory :: string
  agent_llm :: llm_spec
  agent_verbose :: bool

record task =
  description :: string
  expected_output :: string
  task_agent :: agent

record crew =
  crew_agents :: "agent list"
  crew_tasks :: "task list"
  crew_verbose :: bool

type_synonym 'e kickoff = "crew \<Rightarrow> 'e + string"

record workflow_state =
  user_question :: string
  research_notes :: "string option"
  answer_draft :: "string option"
  final_answer :: "string option"
  current_step :: string

definition one_task_crew :: "agent \<Rightarrow> task \<Rightarrow> crew" where
  "one_task_crew a t = \<lparr>crew_agents = [a], crew_tasks = [t], crew_verbose = True\<rparr>"

subsection \<open>The three steps\<close>

definition researcher :: "llm_spec \<Rightarrow> agent" where
  "researcher llm = \<lparr>role = ''Researcher'', goal = ''Find helpful information about topics'',
     backstory = ''I am a curious researcher who loves learning new things.'', agent_llm = llm, agent_verbose = True\<rparr>"

definition research_task :: "llm_spec \<Rightarrow> string \<Rightarrow> task" where
  "research_task llm question = \<lparr>description = ''Research this question and find key facts: '' @ question,
     expected_output = ''Write down 3-4 important facts about the topic.'', task_agent = researcher llm\<rparr>"

definition research_step :: "provider_config \<Rightarrow> 'e kickoff \<Rightarrow> workflow_state \<Rightarrow> 'e + workflow_state" where
  "research_step cfg kickoff state =
     (let question = user_question state; llm = get_llm cfg in
      case kickoff (one_task_crew (researcher llm) (research_task llm question)) of
        Inl e \<Rightarrow> Inl e
      | Inr research_result \<Rightarrow> Inr (state\<lparr>research_notes := Some research_result, current_step := ''researched''\<rparr>))"

definition writer :: "llm_spec \<Rightarrow> agent" where
  "writer llm = \<lparr>role = ''Writer'', goal = ''Write clear and helpful answers'',
     backstory = ''I am a writer who explains things in simple ways.'', agent_llm = llm, agent_verbose = True\<rparr>"

definition writing_task :: "llm_spec \<Rightarrow> string \<Rightarrow> string option \<Rightarrow> task" where
  "writing_task llm question research = \<lparr>description =
       ''Using this research information, write a draft answer to: '' @ question @ ''\<newline>\<newline>Research: '' @ py_str_opt research,
     expected_output = ''Write a clear draft answer in 2-3 sentences.'', task_agent = writer llm\<rparr>"

definition draft_answer_step :: "provider_config \<Rightarrow> 'e kickoff \<Rightarrow> workflow_state \<Rightarrow> 'e + workflow_state" where
  "draft_answer_step cfg kickoff state =
     (let question = user_question state; research = research_notes state; llm = get_llm cfg in
      case kickoff (one_task_crew (writer llm) (writing_task llm question research)) of
        Inl e \<Rightarrow> Inl e
      | Inr draft_result \<Rightarrow> Inr (state\<lparr>answer_draft := Some draft_result, current_step := ''drafted''\<rparr>))"

definition editor :: "llm_spec \<Rightarrow> agent" where
  "editor llm = \<lparr>role = ''Editor'', goal = ''Make answers clear and perfect'',
     backstory = ''I am an editor who polishes writing to make it excellent.'', agent_llm = llm, agent_verbose = True\<rparr>"

definition editing_task :: "llm_spec \<Rightarrow> string \<Rightarrow> string option \<Rightarrow> string option \<Rightarrow> task" where
  "editing_task llm question research draft = \<lparr>description =
       ''Review and improve this draft answer. Make it perfect!\<newline>\<newline>Question: '' @ question
       @ ''\<newline>Research: '' @ py_str_opt research @ ''\<newline>Draft: '' @ py_str_opt draft
       @ ''\<newline>\<newline>Make the final answer clear, accurate, and helpful.'',
     expected_output = ''Write the final polished answer.'', task_agent = editor llm\<rparr>"

definition final_answer_step :: "provider_config \<Rightarrow> 'e kickoff \<Rightarrow> workflow_state \<Rightarrow> 'e + workflow_state" where
  "final_answer_step cfg kickoff state =
     (let question = user_question state; research = research_notes state; draft = answer_draft state;
          llm = get_llm cfg in
      case kickoff (one_task_crew (editor llm) (editing_task llm question research draft)) of
        Inl e \<Rightarrow> Inl e
      | Inr final_result \<Rightarrow> Inr (state\<lparr>final_answer := Some final_result, current_step := ''complete''\<rparr>))"

subsection \<open>Routing, graph and run\<close>

definition decide_next_step :: "workflow_state \<Rightarrow> string" where
  "decide_next_step state =
     (let step = current_step state in
      if step = ''start'' then ''research''
      else if step = ''researched'' then ''draft''
      else if step = ''drafted'' then ''final''
      else graph_END)"

definition create_simple_workflow :: "provider_config \<Rightarrow> 'e kickoff \<Rightarrow> (workflow_state, 'e) state_graph" where
  "create_simple_workflow cfg kickoff =
     \<lparr>entry_point = ''research'',
      graph_nodes = [(''research'', research_step cfg kickoff), (''draft'', draft_answer_step cfg kickoff),
                     (''final'', final_answer_step cfg kickoff)],
      graph_edges = [(''research'', Conditional decide_next_step [(''draft'', ''draft''), (graph_END, graph_END)]),
                     (''draft'', Conditional decide_next_step [(''final'', ''final''), (graph_END, graph_END)]),
                     (''final'', Conditional decide_next_step [(graph_END, graph_END)])]\<rparr>"

definition starting_state :: "string \<Rightarrow> workflow_state" where
  "starting_state question = \<lparr>user_question = question, research_notes = None, answer_draft = None,
     final_answer = None, current_step = ''start''\<rparr>"

definition workshop_question :: string where
  "workshop_question = ''What are the benefits of eating healthy food?''"

definition run_simple_workflow :: "provider_config \<Rightarrow> 'e kickoff \<Rightarrow> 'e graph_error + workflow_state" where
  "run_simple_workflow cfg kickoff =
     fst (graph_invoke (create_simple_workflow cfg kickoff) (starting_state workshop_question))"

definition wf_invariant :: "string \<Rightarrow> string \<times> workflow_state \<Rightarrow> bool" where
  "wf_invariant q c = (let (n, s) = c in
     user_question s = q
   \<and> (n = ''research'' \<longrightarrow> s = starting_state q)
   \<and> (n = ''draft'' \<longrightarrow> current_step s = ''researched'' \<and> research_notes s \<noteq> None)
   \<and> (n = ''final'' \<longrightarrow> current_step s = ''drafted'' \<and> research_notes s \<noteq> None \<and> answer_draft s \<noteq> None)
   \<and> (n = graph_END \<longrightarrow> current_step s = ''complete'' \<and> research_notes s \<noteq> None \<and> answer_draft s \<noteq> None
        \<and> final_answer s \<noteq> None)
   \<and> n \<in> {''research'', ''draft'', ''final'', graph_END})"

section \<open>Lemmas\<close>

lemma research_step_Inr: "research_step cfg k s = Inr s' \<Longrightarrow>
   s' = s\<lparr>research_notes := research_notes s', current_step := ''researched''\<rparr> \<and> research_notes s' \<noteq> None"
  by (auto simp: research_step_def Let_def split: sum.splits)

lemma draft_answer_step_Inr: "draft_answer_step cfg k s = Inr s' \<Longrightarrow>
   s' = s\<lparr>answer_draft := answer_draft s', current_step := ''drafted''\<rparr> \<and> answer_draft s' \<noteq> None"
  by (auto simp: draft_answer_step_def Let_def split: sum.splits)

lemma final_answer_step_Inr: "final_answer_step cfg k s = Inr s' \<Longrightarrow>
   s' = s\<lparr>final_answer := final_answer s', current_step := ''complete''\<rparr> \<and> final_answer s' \<noteq> None"
  by (auto simp: final_answer_step_def Let_def split: sum.splits)

lemmas workflow_step_Inr = research_step_Inr draft_answer_step_Inr final_answer_step_Inr

lemma simple_workflow_next:
  "next_node (create_simple_workflow cfg k) n s =
     (if n = ''research'' then (if current_step s = ''researched'' then Inr ''draft''
        else if decide_next_step s = graph_END then Inr graph_END else Inl (Branch_not_in_path_map (decide_next_step s)))
      else if n = ''draft'' then (if current_step s = ''drafted'' then Inr ''final''
        else if decide_next_step s = graph_END then Inr graph_END else Inl (Branch_not_in_path_map (decide_next_step s)))
      else if n = ''final'' then (if decide_next_step s = graph_END then Inr graph_END else Inl (Branch_not_in_path_map (decide_next_step s)))
      else Inl (No_outgoing_edge n))"
  by (auto simp: next_node_def create_simple_workflow_def decide_next_step_def Let_def)

lemma simple_workflow_nodes:
  "map_of (graph_nodes (create_simple_workflow cfg k)) n =
     (if n = ''research'' then Some (research_step cfg k) else if n = ''draft'' then Some (draft_answer_step cfg k)
      else if n = ''final'' then Some (final_answer_step cfg k) else None)"
  by (simp add: create_simple_workflow_def)

lemma decide_next_step_complete: "current_step s = ''complete'' \<Longrightarrow> decide_next_step s = graph_END"
  by (simp add: decide_next_step_def)

text \<open>Three super-steps suffice: with any recursion limit of at least three the graph runs
  the three steps in order, whatever the starting state.\<close>

lemma simple_workflow_run3:
  "graph_run (Suc (Suc (Suc m))) (create_simple_workflow cfg k) ''research'' s [] =
     (case research_step cfg k s of
        Inl e \<Rightarrow> (Inl (Node_raised e), [''research''])
      | Inr s1 \<Rightarrow>
          (case draft_answer_step cfg k s1 of
             Inl e \<Rightarrow> (Inl (Node_raised e), [''research'', ''draft''])
           | Inr s2 \<Rightarrow>
               (case final_answer_step cfg k s2 of
                  Inl e \<Rightarrow> (Inl (Node_raised e), [''research'', ''draft'', ''final''])
                | Inr s3 \<Rightarrow> (Inr s3, [''research'', ''draft'', ''final'']))))"
  by (rule graph_run_pipeline3)
     (auto simp: simple_workflow_nodes simple_workflow_next decide_next_step_complete dest!: workflow_step_Inr)

lemma simple_workflow_invoke_eq:
  "graph_invoke (create_simple_workflow cfg k) s = graph_run (Suc (Suc (Suc 22))) (create_simple_workflow cfg k) ''research'' s []"
  by (rule graph_invoke_fuel) (simp add: create_simple_workflow_def)

lemma kickoff_total_ne: "\<forall>c. \<exists>r. k c = Inr r \<Longrightarrow> k c \<noteq> Inl e"
  by (metis sum.distinct(1))

lemma workflow_steps_total:
  assumes "\<forall>c. \<exists>r. k c = Inr r"
  shows "\<exists>s'. research_step cfg k s = Inr s' \<and> current_step s' = ''researched''"
    "\<exists>s'. draft_answer_step cfg k s = Inr s' \<and> current_step s' = ''drafted''"
    "\<exists>s'. final_answer_step cfg k s = Inr s' \<and> current_step s' = ''complete''"
  by (simp_all add: research_step_def draft_answer_step_def final_answer_step_def Let_def
      kickoff_total_ne [OF assms] split: sum.split)

lemma simple_workflow_node_names:
  "fst ` set (graph_nodes (create_simple_workflow cfg k)) = {''research'', ''draft'', ''final''}"
  by (simp add: create_simple_workflow_def)

lemma simple_workflow_total:
  assumes "\<forall>c. \<exists>r. k c = Inr r" "n \<in> fst ` set (graph_nodes (create_simple_workflow cfg k))"
  shows "\<exists>f s' t. map_of (graph_nodes (create_simple_workflow cfg k)) n = Some f \<and> f s = Inr s'
    \<and> next_node (create_simple_workflow cfg k) n s' = Inr t
    \<and> (t = graph_END \<or> t \<in> fst ` set (graph_nodes (create_simple_workflow cfg k)))"
proof -
  have n: "n = ''research'' \<or> n = ''draft'' \<or> n = ''final''"
    using assms(2) by (simp add: simple_workflow_node_names)
  note tot = workflow_steps_total [OF assms(1), of cfg s]
  show ?thesis
    using n tot by (auto simp: simple_workflow_nodes simple_workflow_next simple_workflow_node_names
        decide_next_step_def)
qed

section \<open>Properties of the CrewAI workflow\<close>

text \<open>C18. Whatever the starting state, invoking the compiled workflow of
  \<open>create_simple_workflow\<close> runs \<open>research_step\<close>, \<open>draft_answer_step\<close> and
  \<open>final_answer_step\<close> once each, in this order, each on the state the previous one
  returned, and returns the last state; an exception from a \<open>kickoff\<close> ends the run at that
  step and propagates. No routing error and no recursion-limit error can occur.\<close>

theorem simple_workflow_sequential:
  "graph_invoke (create_simple_workflow cfg k) s =
     (case research_step cfg k s of
        Inl e \<Rightarrow> (Inl (Node_raised e), [''research''])
      | Inr s1 \<Rightarrow>
          (case draft_answer_step cfg k s1 of
             Inl e \<Rightarrow> (Inl (Node_raised e), [''research'', ''draft''])
           | Inr s2 \<Rightarrow>
               (case final_answer_step cfg k s2 of
                  Inl e \<Rightarrow> (Inl (Node_raised e), [''research'', ''draft'', ''final''])
                | Inr s3 \<Rightarrow> (Inr s3, [''research'', ''draft'', ''final'']))))"
  unfolding simple_workflow_invoke_eq by (rule simple_workflow_run3)

text \<open>C21. When every \<open>kickoff\<close> answers, \<open>run_simple_workflow\<close> returns the notebook
  with the workshop question, the three answers and step \<open>complete\<close>. State flows forward
  through the notebook: the researcher's crew is asked the question, the writer's task is
  built from the question and the researcher's answer, and the editor's task from the
  question and both earlier answers.\<close>

theorem run_simple_workflow_answers:
  "run_simple_workflow cfg (\<lambda>c. Inr (answer c)) =
     (let llm = get_llm cfg; q = workshop_question;
          r = answer (one_task_crew (researcher llm) (research_task llm q));
          d = answer (one_task_crew (writer llm) (writing_task llm q (Some r)));
          f = answer (one_task_crew (editor llm) (editing_task llm q (Some r) (Some d)))
      in Inr \<lparr>user_question = q, research_notes = Some r, answer_draft = Some d, final_answer = Some f,
              current_step = ''complete''\<rparr>)"
  unfolding run_simple_workflow_def simple_workflow_invoke_eq simple_workflow_run3
  by (simp add: research_step_def draft_answer_step_def final_answer_step_def starting_state_def Let_def)

text \<open>C20. Every configuration the workflow graph can reach from \<open>starting_state q\<close> (by
  the step relation \<open>graph_step\<close>) is at one of the three nodes or at \<open>END\<close>, keeps the
  question, and has filled in every notebook field its position needs: the draft step only
  ever sees research notes, the final step notes and a draft, and \<open>END\<close> all three answers
  with step \<open>complete\<close>.\<close>

theorem simple_workflow_reach_inv:
  "graph_reach (create_simple_workflow cfg k) (starting_state q) c \<Longrightarrow> wf_invariant q c"
proof (induction rule: graph_reach.induct)
  case start
  then show ?case
    by (simp add: wf_invariant_def create_simple_workflow_def starting_state_def)
next
  case (step c c')
  obtain n s where c: "c = (n, s)" by fastforce
  from step.hyps(2) obtain f s' t where c': "c' = (t, s')" and f: "map_of (graph_nodes (create_simple_workflow cfg k)) n = Some f"
     and fs: "f s = Inr s'" and t: "next_node (create_simple_workflow cfg k) n s' = Inr t"
    unfolding c by (auto elim: graph_stepE)
  have inv: "wf_invariant q (n, s)" using step.IH c by simp
  consider "n = ''research''" | "n = ''draft''" | "n = ''final''"
    using f by (auto simp: simple_workflow_nodes split: if_splits)
  then show ?case
  proof cases
    case 1
    with f fs have "research_step cfg k s = Inr s'" by (simp add: simple_workflow_nodes)
    from research_step_Inr [OF this] 1 inv t show ?thesis
      unfolding c' wf_invariant_def by (auto simp: simple_workflow_next starting_state_def)
  next
    case 2
    with f fs have "draft_answer_step cfg k s = Inr s'" by (simp add: simple_workflow_nodes)
    from draft_answer_step_Inr [OF this] 2 inv t show ?thesis
      unfolding c' wf_invariant_def by (auto simp: simple_workflow_next)
  next
    case 3
    with f fs have "final_answer_step cfg k s = Inr s'" by (simp add: simple_workflow_nodes)
    from final_answer_step_Inr [OF this] 3 inv t show ?thesis
      unfolding c' wf_invariant_def by (auto simp: simple_workflow_next decide_next_step_def split: if_splits)
  qed
qed

theorem simple_workflow_reach_inv_witness:
  "graph_reach (create_simple_workflow ollama_defaults (\<lambda>_. Inr ''ok'' :: string + string)) (starting_state workshop_question)
     (graph_END, \<lparr>user_question = workshop_question, research_notes = Some ''ok'', answer_draft = Some ''ok'',
       final_answer = Some ''ok'', current_step = ''complete''\<rparr>)
   \<and> wf_invariant workshop_question (graph_END, \<lparr>user_question = workshop_question, research_notes = Some ''ok'',
       answer_draft = Some ''ok'', final_answer = Some ''ok'', current_step = ''complete''\<rparr>)"
proof -
  let ?G = "create_simple_workflow ollama_defaults (\<lambda>_::crew. Inr ''ok'' :: string + string)"
  let ?s = "\<lparr>user_question = workshop_question, research_notes = Some ''ok'', answer_draft = Some ''ok'',
       final_answer = Some ''ok'', current_step = ''complete''\<rparr>"
  have "graph_run (Suc (Suc (Suc 22))) ?G ''research'' (starting_state workshop_question) [] = (Inr ?s, [''research'', ''draft'', ''final''])"
    unfolding simple_workflow_run3
    by (simp add: research_step_def draft_answer_step_def final_answer_step_def starting_state_def)
  from graph_run_reach [OF this] have r: "graph_reach ?G (starting_state workshop_question) (graph_END, ?s)"
    using graph_reach.start [of ?G "starting_state workshop_question"] by (simp add: create_simple_workflow_def)
  show ?thesis using r simple_workflow_reach_inv [OF r] by blast
qed

text \<open>C26. Liveness: when every \<open>kickoff\<close> answers, \<open>END\<close> is reachable from every
  configuration of the workflow graph reachable from any starting state. No run gets stuck
  on a routing error and none goes round forever.\<close>

theorem simple_workflow_live:
  assumes "\<forall>c. \<exists>r. kickoff c = Inr r" "graph_reach (create_simple_workflow cfg kickoff) s0 c"
  shows "\<exists>s'. (graph_step (create_simple_workflow cfg kickoff))\<^sup>*\<^sup>* c (graph_END, s')"
proof -
  obtain n s where c: "c = (n, s)" by fastforce
  have r: "rank_decreasing (create_simple_workflow cfg kickoff)
      (\<lambda>n. if n = ''research'' then 2 else if n = ''draft'' then 1 else (0::nat))"
    by (simp add: rank_decreasing_def create_simple_workflow_def)
  from graph_reach_target [OF assms(2) [unfolded c]]
  have "n = graph_END \<or> n \<in> fst ` set (graph_nodes (create_simple_workflow cfg kickoff))"
    by (auto simp: create_simple_workflow_def)
  then show ?thesis
  proof
    assume "n = graph_END"
    then show ?thesis using c by blast
  next
    assume "n \<in> fst ` set (graph_nodes (create_simple_workflow cfg kickoff))"
    from graph_progress [OF r simple_workflow_total [OF assms(1)] this] show ?thesis
      using c by blast
  qed
qed

theorem simple_workflow_live_witness:
  "(\<forall>c. \<exists>r. (\<lambda>c. Inr ''ok'' :: unit + string) c = Inr r)
   \<and> graph_reach (create_simple_workflow ollama_defaults (\<lambda>c. Inr ''ok'' :: unit + string)) (starting_state ''q'')
       (''research'', starting_state ''q'')
   \<and> (\<exists>s'. (graph_step (create_simple_workflow ollama_defaults (\<lambda>c. Inr ''ok'' :: unit + string)))\<^sup>*\<^sup>*
           (''research'', starting_state ''q'') (graph_END, s'))"
proof -
  have k: "\<forall>c. \<exists>r. (\<lambda>c. Inr ''ok'' :: unit + string) c = Inr r" by simp
  have r: "graph_reach (create_simple_workflow ollama_defaults (\<lambda>c. Inr ''ok'' :: unit + string)) (starting_state ''q'')
      (''research'', starting_state ''q'')"
    using graph_reach.start [of "create_simple_workflow ollama_defaults (\<lambda>c. Inr ''ok'' :: unit + string)" "starting_state ''q''"]
    by (simp add: create_simple_workflow_def)
  from k r simple_workflow_live [OF k r] show ?thesis by (intro conjI)
qed

end
