(* ===== verification/CrewDemos.thy ===== *)
theory CrewDemos
  imports Workflow
begin

text \<open>
  The CrewAI demonstrations of sessions 1 and 2: \<open>session1/basics.py\<close> (direct chat
  calls), \<open>session1/crewai_intro.py\<close>, \<open>session2/agent_roles.py\<close> and
  \<open>session2/content_crew.py\<close>. Each script exports the SambaNova key for LiteLLM at import,
  picks its LLM with its own copy of \<open>get_llm\<close>, reads a topic from the console (a line,
  or \<open>None\<close> for end of input), builds agents, tasks (with their \<open>context\<close> lists) and a
  crew, and calls \<open>kickoff\<close>. Its \<open>main\<close> runs the examples in order inside one
  \<open>try\<close>. The first exception ends the run, and the handler prints a hint that depends on
  the provider.

  As in theory \<open>Workflow\<close>, the service is an oracle: \<open>'e crew_kickoff\<close> maps the whole
  crew (agents, tasks, contexts, flags) to the text of the result or an exception, and
  \<open>'e openai_invoke\<close> maps a \<open>ChatOpenAI\<close> client and messages to the reply. CrewAI's own
  scheduling is not modelled: every theorem holds for every behaviour of the oracle. Of the
  console output, only the answers each example prints and the hint lines of the
  exception handler are modelled.
\<close>

section \<open>Agents, tasks and crews with CrewAI's options\<close>

datatype crew_process = Sequential | Hierarchical

text \<open>An \<open>Agent\<close> with the \<open>allow_delegation\<close> option (\<open>None\<close>: not given).\<close>

record demo_agent = agent +
  agent_allow_delegation :: "bool option"

text \<open>A \<open>Task\<close>; \<open>context\<close> lists the tasks whose output it reads (\<open>None\<close>: not given).\<close>

datatype crew_task = CrewTask
  (ct_description: string) (ct_expected_output: string) (ct_agent: demo_agent) (ct_context: "crew_task list option")

record crew_config =
  cc_agents :: "demo_agent list"
  cc_tasks :: "crew_task list"
  cc_verbose :: bool
  cc_memory :: bool
  cc_cache :: bool
  cc_max_rpm :: "nat option"
  cc_process :: crew_process

type_synonym 'e crew_kickoff = "crew_config \<Rightarrow> 'e + string"

text \<open>A \<open>ChatOpenAI(temperature, model, api_key, base_url)\<close> client and its \<open>invoke\<close> on
  \<open>(role, content)\<close> messages, returning the reply's \<open>content\<close>.\<close>

record openai_client =
  client_temperature :: py_float
  client_model :: string
  client_api_key :: string
  client_base_url :: string

type_synonym 'e openai_invoke = "openai_client \<Rightarrow> (string \<times> string) list \<Rightarrow> 'e + string"

text \<open>The outcome of a script's \<open>main\<close>: the answers printed, then either completion or the
  exception with the hint lines the handler prints.\<close>

datatype 'e demo_outcome =
    Demo_completed "string list"
  | Demo_failed "string list" 'e "string list"

section \<open>Shared script code\<close>

text \<open>\<open>input(prompt).strip()\<close> with the default for an empty answer and for \<open>EOFError\<close>.\<close>

definition read_input :: "string option \<Rightarrow> string \<Rightarrow> string" where
  "read_input inp dflt =
     (case inp of
        None \<Rightarrow> dflt
      | Some line \<Rightarrow> (let answer = py_strip line in if answer = [] then dflt else answer))"

text \<open>The provider-specific lines of the exception handler of every \<open>main\<close>.\<close>

definition provider_hint :: "provider_config \<Rightarrow> string list" where
  "provider_hint cfg =
     (if PROVIDER cfg = ''sambanova'' then [''Make sure your SAMBA_API_KEY is set correctly in the .env file.'']
      else if PROVIDER cfg = ''ollama'' then
        [''Make sure Ollama is running locally on http://localhost:11434'',
         ''Install Ollama from https://ollama.ai and run: ollama serve'']
      else [])"

text \<open>The body of every \<open>main\<close>: \<open>try: example_1(); example_2() ...\<close> and the handler.\<close>

fun demo_run :: "string list \<Rightarrow> ('e + string) list \<Rightarrow> string list \<Rightarrow> 'e demo_outcome" where
  "demo_run hint [] answers = Demo_completed answers"
| "demo_run hint (Inl e # examples) answers = Demo_failed answers e hint"
| "demo_run hint (Inr answer # examples) answers = demo_run hint examples (answers @ [answer])"

text \<open>The \<open>Crew(agents, tasks, verbose=True, memory=True, cache=True, max_rpm=1)\<close> of the
  demos; the process is the default, sequential.\<close>

definition demo_crew :: "demo_agent list \<Rightarrow> crew_task list \<Rightarrow> crew_process \<Rightarrow> crew_config" where
  "demo_crew agents tasks process = \<lparr>cc_agents = agents, cc_tasks = tasks, cc_verbose = True, cc_memory = True,
     cc_cache = True, cc_max_rpm = Some 1, cc_process = process\<rparr>"

definition demo_agent :: "string \<Rightarrow> string \<Rightarrow> string \<Rightarrow> llm_spec \<Rightarrow> bool option \<Rightarrow> demo_agent" where
  "demo_agent r g b llm delegation = \<lparr>role = r, goal = g, backstory = b, agent_llm = llm, agent_verbose = True,
     agent_allow_delegation = delegation\<rparr>"

text \<open>What a crew of the demos is meant to be: each task is done by a member of the crew
  and reads the output of earlier tasks only, every member has a task, the tasks run in
  sequence, and at most one request is made per minute.\<close>

fun tasks_wf :: "demo_agent list \<Rightarrow> crew_task list \<Rightarrow> crew_task list \<Rightarrow> bool" where
  "tasks_wf agents earlier [] = True"
| "tasks_wf agents earlier (t # ts) \<longleftrightarrow> ct_agent t \<in> set agents
     \<and> (case ct_context t of None \<Rightarrow> True | Some ctx \<Rightarrow> set ctx \<subseteq> set earlier)
     \<and> tasks_wf agents (earlier @ [t]) ts"

definition crew_wf :: "crew_config \<Rightarrow> bool" where
  "crew_wf c \<longleftrightarrow> tasks_wf (cc_agents c) [] (cc_tasks c) \<and> set (map ct_agent (cc_tasks c)) = set (cc_agents c)
     \<and> cc_process c = Sequential \<and> cc_max_rpm c = Some 1"

section \<open>\<open>session1/basics.py\<close>\<close>

definition basics_client :: "provider_config \<Rightarrow> openai_client" where
  "basics_client cfg = \<lparr>client_temperature = TEMPERATURE cfg, client_model = MODEL cfg, client_api_key = API_KEY cfg,
     client_base_url = API_BASE cfg\<rparr>"

definition basic_chat_example :: "provider_config \<Rightarrow> 'e openai_invoke \<Rightarrow> string option \<Rightarrow> 'e + string" where
  "basic_chat_example cfg llm inp =
     (let user_question = read_input inp ''Explain what an AI agent is in simple terms.''
      in llm (basics_client cfg) [(''system'', ''You are a helpful AI assistant.''), (''user'', user_question)])"

definition simple_math_helper :: "provider_config \<Rightarrow> 'e openai_invoke \<Rightarrow> string option \<Rightarrow> 'e + string" where
  "simple_math_helper cfg llm inp =
     (let math_question = read_input inp
            ''If you have 15 apples and buy 27 more, then give away 3, how many do you have left?''
      in llm (basics_client cfg)
           [(''system'', ''You are a helpful math tutor. Explain your answers clearly step by step.''),
            (''user'', math_question)])"

definition basics_main :: "provider_config \<Rightarrow> 'e openai_invoke \<Rightarrow> string option \<Rightarrow> string option \<Rightarrow> 'e demo_outcome" where
  "basics_main cfg llm inp1 inp2 =
     demo_run (provider_hint cfg @ [''Check the README.md for setup instructions.''])
       [basic_chat_example cfg llm inp1, simple_math_helper cfg llm inp2] []"

section \<open>\<open>session1/crewai_intro.py\<close>\<close>

definition crewai_intro_env_setup :: "provider_config \<Rightarrow> environ \<Rightarrow> environ" where
  "crewai_intro_env_setup cfg env =
     (if PROVIDER cfg = ''sambanova'' then env(''SAMBANOVA_API_KEY'' \<mapsto> API_KEY cfg) else env)"

definition crewai_intro_get_llm :: "provider_config \<Rightarrow> llm_spec" where
  "crewai_intro_get_llm cfg =
     (if PROVIDER cfg = ''ollama'' then CrewLLM (''ollama/'' @ MODEL cfg) None ''http://localhost:11434''
      else if PROVIDER cfg = ''sambanova'' then CrewLLM (''sambanova/'' @ MODEL cfg) (Some (API_KEY cfg)) (API_BASE cfg)
      else LLMName (LLM_STRING cfg))"

definition simple_crew :: "provider_config \<Rightarrow> string \<Rightarrow> crew_config" where
  "simple_crew cfg research_topic =
     (let llm = crewai_intro_get_llm cfg;
          researcher' = demo_agent ''Researcher'' ''Find and explain information about topics''
            ''I am a helpful researcher who loves learning and sharing knowledge.'' llm None;
          research_task' = CrewTask
            (''Explain what '' @ research_topic @ '' are/is in simple terms that anyone can understand.'')
            ''A simple explanation in 2-3 sentences.'' researcher' None
      in demo_crew [researcher'] [research_task'] Sequential)"

definition simple_crew_example :: "provider_config \<Rightarrow> 'e crew_kickoff \<Rightarrow> string option \<Rightarrow> 'e + string" where
  "simple_crew_example cfg kickoff inp = kickoff (simple_crew cfg (read_input inp ''AI agents''))"

definition multi_agent_crew :: "provider_config \<Rightarrow> string \<Rightarrow> crew_config" where
  "multi_agent_crew cfg team_topic =
     (let llm = crewai_intro_get_llm cfg;
          researcher' = demo_agent ''Researcher'' ''Find information about topics''
            ''I am a curious researcher who gathers facts and information.'' llm None;
          writer' = demo_agent ''Writer'' ''Write clear and interesting content''
            ''I am a creative writer who makes information easy to read.'' llm None;
          research_task' = CrewTask (''Find 3 benefits and 2 challenges of using '' @ team_topic @ ''.'')
            ''A simple list of benefits and challenges.'' researcher' None;
          writing_task' = CrewTask (''Write a short paragraph about '' @ team_topic @ '' using the research information.'')
            ''One paragraph explaining the topic.'' writer' (Some [research_task'])
      in demo_crew [researcher', writer'] [research_task', writing_task'] Sequential)"

definition multi_agent_crew_example :: "provider_config \<Rightarrow> 'e crew_kickoff \<Rightarrow> string option \<Rightarrow> 'e + string" where
  "multi_agent_crew_example cfg kickoff inp = kickoff (multi_agent_crew cfg (read_input inp ''AI agents''))"

definition crewai_intro_main ::
  "provider_config \<Rightarrow> 'e crew_kickoff \<Rightarrow> string option \<Rightarrow> string option \<Rightarrow> 'e demo_outcome" where
  "crewai_intro_main cfg kickoff inp1 inp2 =
     demo_run (provider_hint cfg @ [''Check the README.md for setup help.''])
       [simple_crew_example cfg kickoff inp1, multi_agent_crew_example cfg kickoff inp2] []"

section \<open>\<open>session2/agent_roles.py\<close>\<close>

definition agent_roles_env_setup :: "provider_config \<Rightarrow> environ \<Rightarrow> environ" where
  "agent_roles_env_setup cfg env =
     (if PROVIDER cfg = ''sambanova'' then env(''SAMBANOVA_API_KEY'' \<mapsto> API_KEY cfg) else env)"

definition agent_roles_get_llm :: "provider_config \<Rightarrow> llm_spec" where
  "agent_roles_get_llm cfg =
     (if PROVIDER cfg = ''ollama'' then CrewLLM (''ollama/'' @ MODEL cfg) None ''http://localhost:11434''
      else if PROVIDER cfg = ''sambanova'' then CrewLLM (''sambanova/'' @ MODEL cfg) (Some (API_KEY cfg)) (API_BASE cfg)
      else LLMName (PROVIDER cfg @ ''/'' @ MODEL cfg))"

definition business_crew :: "provider_config \<Rightarrow> crew_config" where
  "business_crew cfg =
     (let llm = agent_roles_get_llm cfg;
          analyst = demo_agent ''Data Analyst'' ''Look at data and find useful patterns''
            ''I love working with numbers and finding hidden insights in data.'' llm None;
          strategist = demo_agent ''Business Strategist'' ''Create plans based on data insights''
            ''I am good at making business plans and giving advice for growth.'' llm None;
          analysis_task = CrewTask
            ''Look at this simple sales data: Q1 sales were $10,000, Q2 were $12,000, Q3 were $15,000. Find trends.''
            ''Tell me if sales are going up or down, and by how much.'' analyst None;
          strategy_task = CrewTask ''Based on the sales analysis, suggest 2 ways to increase sales next quarter.''
            ''Two simple suggestions for growing the business.'' strategist (Some [analysis_task])
      in demo_crew [analyst, strategist] [analysis_task, strategy_task] Sequential)"

definition demonstrate_agent_roles :: "provider_config \<Rightarrow> 'e crew_kickoff \<Rightarrow> 'e + string" where
  "demonstrate_agent_roles cfg kickoff = kickoff (business_crew cfg)"

definition food_crew :: "provider_config \<Rightarrow> crew_config" where
  "food_crew cfg =
     (let llm = agent_roles_get_llm cfg;
          chef = demo_agent ''Chef'' ''Create and describe recipes''
            ''I am a creative chef who loves making delicious food.'' llm None;
          nutritionist = demo_agent ''Nutritionist'' ''Check if food is healthy''
            ''I am a health expert who makes sure food is good for you.'' llm None;
          recipe_task = CrewTask ''Create a simple recipe for chocolate chip cookies.''
            ''List ingredients and basic steps.'' chef None;
          health_task = CrewTask ''Check if this cookie recipe is healthy and suggest improvements.''
            ''Say if it's healthy and give one healthy tip.'' nutritionist (Some [recipe_task])
      in demo_crew [chef, nutritionist] [recipe_task, health_task] Sequential)"

definition show_simple_roles :: "provider_config \<Rightarrow> 'e crew_kickoff \<Rightarrow> 'e + string" where
  "show_simple_roles cfg kickoff = kickoff (food_crew cfg)"

definition agent_roles_main :: "provider_config \<Rightarrow> 'e crew_kickoff \<Rightarrow> 'e demo_outcome" where
  "agent_roles_main cfg kickoff =
     demo_run (provider_hint cfg @ [''Check the README.md for help.''])
       [demonstrate_agent_roles cfg kickoff, show_simple_roles cfg kickoff] []"

section \<open>\<open>session2/content_crew.py\<close>\<close>

definition content_crew_env_setup :: "provider_config \<Rightarrow> environ \<Rightarrow> environ" where
  "content_crew_env_setup cfg env =
     (if PROVIDER cfg = ''sambanova'' then env(''SAMBANOVA_API_KEY'' \<mapsto> API_KEY cfg) else env)"

definition content_crew_get_llm :: "provider_config \<Rightarrow> llm_spec" where
  "content_crew_get_llm cfg =
     (if PROVIDER cfg = ''ollama'' then CrewLLM (''ollama/'' @ MODEL cfg) None ''http://localhost:11434''
      else if PROVIDER cfg = ''sambanova'' then CrewLLM (''sambanova/'' @ MODEL cfg) (Some (API_KEY cfg)) (API_BASE cfg)
      else LLMName (PROVIDER cfg @ ''/'' @ MODEL cfg))"

text \<open>The topic argument is not used by the function.\<close>

definition create_content_creation_crew :: "provider_config \<Rightarrow> string \<Rightarrow> demo_agent \<times> demo_agent \<times> demo_agent" where
  "create_content_creation_crew cfg topic =
     (let llm = content_crew_get_llm cfg;
          researcher' = demo_agent ''Senior Research Analyst''
            ''Conduct thorough research and gather comprehensive information on topics''
            ''You are a senior research analyst with years of experience in gathering\<newline>        and synthesizing information from various sources. You excel at finding accurate,\<newline>        up-to-date information and organizing it in a structured way.'' llm (Some False);
          writer' = demo_agent ''Content Writer''
            ''Create engaging, well-structured content based on research findings''
            ''You are a skilled content writer who transforms complex research into\<newline>        compelling, easy-to-understand narratives. You focus on clarity, engagement,\<newline>        and logical flow in your writing.'' llm (Some False);
          editor' = demo_agent ''Content Editor''
            ''Review, refine, and polish content for accuracy, clarity, and quality''
            ''You are an experienced editor with a keen eye for detail. You ensure\<newline>        content is accurate, well-structured, grammatically correct, and engaging for\<newline>        the target audience.'' llm (Some False)
      in (researcher', writer', editor'))"

definition create_content_tasks ::
  "string \<Rightarrow> demo_agent \<Rightarrow> demo_agent \<Rightarrow> demo_agent \<Rightarrow> crew_task \<times> crew_task \<times> crew_task" where
  "create_content_tasks topic researcher' writer' editor' =
     (let research_task' = CrewTask
            (''Research the topic '' @ [CHR 0x27] @ topic @ [CHR 0x27] @ '' comprehensively. Include:\<newline>        - Key concepts and definitions\<newline>        - Current trends and developments\<newline>        - Real-world applications and examples\<newline>        - Benefits and challenges\<newline>        - Future outlook\<newline>\<newline>        Provide detailed, accurate information with sources where possible.'')
            ''A comprehensive research report with:\<newline>        - Executive summary\<newline>        - Key findings organized by category\<newline>        - Supporting evidence and examples\<newline>        - References to reliable sources''
            researcher' None;
          writing_task' = CrewTask
            (''Write a 500-word article about '' @ [CHR 0x27] @ topic @ [CHR 0x27] @ '' based on the research provided.\<newline>        The article should:\<newline>        - Have a compelling introduction\<newline>        - Cover key concepts clearly\<newline>        - Include real-world examples\<newline>        - End with future implications\<newline>        - Be written in an engaging, accessible style'')
            ''A complete article with:\<newline>        - Title\<newline>        - Introduction paragraph\<newline>        - 3-4 body paragraphs\<newline>        - Conclusion\<newline>        - Word count: approximately 500 words''
            writer' (Some [research_task']);
          editing_task' = CrewTask
            (''Review and edit the article about '' @ [CHR 0x27] @ topic @ [CHR 0x27] @ ''. Focus on:\<newline>        - Factual accuracy based on research\<newline>        - Clarity and readability\<newline>        - Grammar and style\<newline>        - Logical flow and structure\<newline>        - Engagement and appeal\<newline>\<newline>        Provide the final polished version.'')
            ''A polished article with:\<newline>        - Final title\<newline>        - Edited content\<newline>        - Brief notes on changes made\<newline>        - Quality assurance checklist confirmation''
            editor' (Some [research_task', writing_task'])
      in (research_task', writing_task', editing_task'))"

text \<open>\<open>process="sequential"\<close> is coerced to \<open>Process.sequential\<close>.\<close>

definition content_crew :: "provider_config \<Rightarrow> string \<Rightarrow> crew_config" where
  "content_crew cfg topic =
     (let (researcher', writer', editor') = create_content_creation_crew cfg topic;
          (research_task', writing_task', editing_task') = create_content_tasks topic researcher' writer' editor'
      in demo_crew [researcher', writer', editor'] [research_task', writing_task', editing_task'] Sequential)"

definition run_content_creation_workflow :: "provider_config \<Rightarrow> 'e crew_kickoff \<Rightarrow> string \<Rightarrow> 'e + string" where
  "run_content_creation_workflow cfg kickoff topic = kickoff (content_crew cfg topic)"

definition content_crew_main :: "provider_config \<Rightarrow> 'e crew_kickoff \<Rightarrow> string option \<Rightarrow> 'e demo_outcome" where
  "content_crew_main cfg kickoff inp =
     demo_run (provider_hint cfg @ [''Also ensure all required packages are installed.''])
       [run_content_creation_workflow cfg kickoff (read_input inp ''The Future of Multi-Agent AI Systems'')] []"


section \<open>Properties of the demonstrations\<close>

text \<open>C31. Every crew the session-1 and session-2 scripts build is well formed, for every
  provider configuration and every topic typed in: each task is done by a member of the
  crew, and its \<open>context\<close> names only tasks that run before it. In particular, the writer
  sees the research and the editor sees both. Every member has a task, the process is
  sequential, and \<open>max_rpm\<close> is 1.\<close>

theorem demo_crews_well_formed:
  "crew_wf (simple_crew cfg topic1) \<and> crew_wf (multi_agent_crew cfg topic2) \<and> crew_wf (business_crew cfg)
   \<and> crew_wf (food_crew cfg) \<and> crew_wf (content_crew cfg topic3)"
  by (simp add: crew_wf_def simple_crew_def multi_agent_crew_def business_crew_def food_crew_def content_crew_def
      create_content_creation_crew_def create_content_tasks_def demo_crew_def Let_def)

text \<open>C30. The scripts' copies of \<open>get_llm\<close> and of the import-time key export agree
  with those of \<open>stateful_workflow.py\<close> on every configuration \<open>config.py\<close> can
  produce. \<open>crewai_intro.py\<close> falls back to \<open>LLM_STRING\<close> and the others to
  \<open>PROVIDER/MODEL\<close>, but the import makes the two equal for every provider but Ollama.\<close>

theorem demo_get_llm_agree:
  assumes "load_provider_config env = Inr cfg"
  shows "crewai_intro_get_llm cfg = get_llm cfg \<and> agent_roles_get_llm cfg = get_llm cfg
    \<and> content_crew_get_llm cfg = get_llm cfg \<and> crewai_intro_env_setup cfg = workflow_env_setup cfg
    \<and> agent_roles_env_setup cfg = workflow_env_setup cfg \<and> content_crew_env_setup cfg = workflow_env_setup cfg"
  using load_provider_config_llm_string [OF assms]
  by (simp add: fun_eq_iff crewai_intro_get_llm_def agent_roles_get_llm_def content_crew_get_llm_def get_llm_def
      llm_string_def crewai_intro_env_setup_def agent_roles_env_setup_def content_crew_env_setup_def
      workflow_env_setup_def)

theorem demo_get_llm_agree_witness:
  "load_provider_config (Map.empty(''AI_PROVIDER'' \<mapsto> ''openai'')) = Inr (ollama_defaults\<lparr>PROVIDER := ''openai'',
      API_KEY := samba_default_key, MODEL := ''gpt-oss-120b'', API_BASE := samba_api_base,
      LLM_STRING := ''openai/gpt-oss-120b''\<rparr>)
   \<and> crewai_intro_get_llm (ollama_defaults\<lparr>PROVIDER := ''openai'', API_KEY := samba_default_key,
      MODEL := ''gpt-oss-120b'', API_BASE := samba_api_base, LLM_STRING := ''openai/gpt-oss-120b''\<rparr>)
     = get_llm (ollama_defaults\<lparr>PROVIDER := ''openai'', API_KEY := samba_default_key,
      MODEL := ''gpt-oss-120b'', API_BASE := samba_api_base, LLM_STRING := ''openai/gpt-oss-120b''\<rparr>)"
proof -
  have l: "load_provider_config (Map.empty(''AI_PROVIDER'' \<mapsto> ''openai'')) = Inr (ollama_defaults\<lparr>PROVIDER := ''openai'',
      API_KEY := samba_default_key, MODEL := ''gpt-oss-120b'', API_BASE := samba_api_base,
      LLM_STRING := ''openai/gpt-oss-120b''\<rparr>)"
    by code_simp
  from l demo_get_llm_agree [OF l] show ?thesis by simp
qed

end
