(* ===== verification/ChatModel.thy ===== *)
theory ChatModel
  imports Prelude
begin

text \<open>
  The LangChain pieces the session-3 NVIDIA scripts call. This is external library
  behaviour that the scripts rely on, not repository code:
  \<^item> the \<open>ChatOpenAI\<close> client settings;
  \<^item> a chat completion, an oracle \<open>'e chat_llm\<close> from the client and the \<open>(role, content)\<close>
    messages to the reply text or an exception;
  \<^item> the chain \<open>ChatPromptTemplate.from_messages(msgs) | llm | StrOutputParser()\<close>
    invoked with no inputs.

  \<open>ChatPromptTemplate\<close> treats every message text as an f-string template
  (Python's \<open>string.Formatter\<close> syntax). With no inputs, \<open>{{\<close> and \<open>}}\<close> render as single
  braces, and every other brace raises: a replacement field is a missing variable
  (\<open>KeyError\<close>), and a lone \<open>}\<close> or an unclosed \<open>{\<close> is malformed (\<open>ValueError\<close>).
  \<open>fstring_render\<close> is that rendering.
\<close>

text \<open>The NVIDIA API key that both NVIDIA scripts hard-code as a module constant.\<close>

definition NVIDIA_API_KEY :: string where
  "NVIDIA_API_KEY = ''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''"

record chat_openai =
  chat_temperature :: real
  chat_model :: string
  chat_api_key :: string
  chat_base_url :: string

type_synonym 'e chat_llm = "chat_openai \<Rightarrow> (string \<times> string) list \<Rightarrow> 'e + string"

fun fstring_render :: "string \<Rightarrow> string option" where
  "fstring_render [] = Some []"
| "fstring_render (c # cs) =
     (if c = CHR ''{'' then
        (case cs of d # ds \<Rightarrow> if d = CHR ''{'' then map_option (Cons c) (fstring_render ds) else None | [] \<Rightarrow> None)
      else if c = CHR ''}'' then
        (case cs of d # ds \<Rightarrow> if d = CHR ''}'' then map_option (Cons c) (fstring_render ds) else None | [] \<Rightarrow> None)
      else map_option (Cons c) (fstring_render cs))"

datatype 'e chain_error = Prompt_template_error string | Chat_raised 'e

definition render_messages :: "(string \<times> string) list \<Rightarrow> string + (string \<times> string) list" where
  "render_messages msgs =
     (case find (\<lambda>(role, t). fstring_render t = None) msgs of
        Some (role, t) \<Rightarrow> Inl t
      | None \<Rightarrow> Inr (map (\<lambda>(role, t). (role, the (fstring_render t))) msgs))"

definition prompt_chain_invoke :: "'e chat_llm \<Rightarrow> chat_openai \<Rightarrow> (string \<times> string) list \<Rightarrow> 'e chain_error + string" where
  "prompt_chain_invoke llm client msgs =
     (case render_messages msgs of
        Inl t \<Rightarrow> Inl (Prompt_template_error t)
      | Inr rendered \<Rightarrow> (case llm client rendered of Inl e \<Rightarrow> Inl (Chat_raised e) | Inr r \<Rightarrow> Inr r))"

definition brace_free :: "string \<Rightarrow> bool" where
  "brace_free s \<longleftrightarrow> CHR ''{'' \<notin> set s \<and> CHR ''}'' \<notin> set s"

section \<open>Lemmas\<close>

lemma brace_free_simps [simp]:
  "brace_free []" "brace_free (c # cs) \<longleftrightarrow> c \<noteq> CHR ''{'' \<and> c \<noteq> CHR ''}'' \<and> brace_free cs"
  "brace_free (xs @ ys) \<longleftrightarrow> brace_free xs \<and> brace_free ys"
  by (auto simp: brace_free_def)

lemma fstring_render_brace_free: "brace_free s \<Longrightarrow> fstring_render s = Some s"
  by (induction s) auto

lemma fstring_render_length: "fstring_render s = Some u \<Longrightarrow> length u \<le> length s \<and> (length u = length s \<longrightarrow> brace_free s)"
proof (induction s arbitrary: u rule: fstring_render.induct)
  case 1
  then show ?case by simp
next
  case (2 c cs)
  then show ?case
    by (fastforce split: if_splits list.splits)
qed

lemma fstring_render_literal_iff: "fstring_render s = Some s \<longleftrightarrow> brace_free s"
  using fstring_render_length [of s s] fstring_render_brace_free by blast

lemma fstring_render_append_brace_free:
  "brace_free p \<Longrightarrow> fstring_render (p @ s) = map_option ((@) p) (fstring_render s)"
  by (induction p) (auto simp: map_option_case split: option.split)

lemma render_messages_brace_free:
  "\<forall>(role, t) \<in> set msgs. brace_free t \<Longrightarrow> render_messages msgs = Inr msgs"
proof -
  assume a: "\<forall>(role, t) \<in> set msgs. brace_free t"
  then have "find (\<lambda>(role, t). fstring_render t = None) msgs = None"
    by (auto simp: find_None_iff fstring_render_brace_free)
  moreover have "map (\<lambda>(role, t). (role, the (fstring_render t))) msgs = msgs"
    using a by (induction msgs) (auto simp: fstring_render_brace_free)
  ultimately show ?thesis by (simp add: render_messages_def)
qed

lemma render_messages_Inr_iff:
  "render_messages msgs = Inr out \<longleftrightarrow>
     (\<forall>(role, t) \<in> set msgs. fstring_render t \<noteq> None) \<and> out = map (\<lambda>(role, t). (role, the (fstring_render t))) msgs"
  by (auto simp: render_messages_def find_None_iff split: option.splits prod.splits dest!: find_Some_mem)

lemma render_messages_literal_iff:
  "render_messages msgs = Inr msgs \<longleftrightarrow> (\<forall>(role, t) \<in> set msgs. brace_free t)"
proof
  assume "render_messages msgs = Inr msgs"
  then have "\<forall>(role, t) \<in> set msgs. fstring_render t \<noteq> None"
    and "map (\<lambda>(role, t). (role, the (fstring_render t))) msgs = msgs"
    unfolding render_messages_Inr_iff by auto
  then show "\<forall>(role, t) \<in> set msgs. brace_free t"
    by (induction msgs) (auto simp flip: fstring_render_literal_iff)
next
  assume "\<forall>(role, t) \<in> set msgs. brace_free t"
  then show "render_messages msgs = Inr msgs" by (rule render_messages_brace_free)
qed

text \<open>An opening brace not doubled, after brace-free text, cannot be rendered.\<close>

lemma fstring_render_lone_open:
  "brace_free a \<Longrightarrow> c \<noteq> CHR ''{'' \<Longrightarrow> fstring_render (a @ CHR ''{'' # c # b) = None"
  by (simp add: fstring_render_append_brace_free)

end
