(* ===== verification/LangChainWorkflow.thy ===== *)
theory LangChainWorkflow
  imports Workflow ChatModel
begin

text \<open>
  \<open>src/AIAgentWorkshop-New/session3/stateful_workflow_langchain_nvidia.py\<close>: the same
  three-step notebook workflow as \<open>stateful_workflow.py\<close> (the same \<open>WorkflowState\<close>,
  modelled by the record \<open>workflow_state\<close>, and the same router and graph), but each
  step runs a LangChain chain \<open>ChatPromptTemplate.from_messages([system, human]) | llm |
  StrOutputParser()\<close> on the NVIDIA endpoint instead of a CrewAI crew. The step texts are
  built with f-strings and then passed to \<open>ChatPromptTemplate\<close> as templates, so the
  question, the research notes and the draft are parsed as templates a second time
  (\<open>prompt_chain_invoke\<close> of theory \<open>ChatModel\<close>).
\<close>

definition create_llm :: chat_openai where
  "create_llm = \<lparr>chat_temperature = 0.7, chat_model = ''meta/llama3-8b-instruct'', chat_api_key = NVIDIA_API_KEY,
     chat_base_url = ''https://integrate.api.nvidia.com/v1''\<rparr>"

definition lc_research_messages :: "string \<Rightarrow> (string \<times> string) list" where
  "lc_research_messages question =
     [(''system'', ''You are a helpful research assistant. Provide comprehensive information about the given topic.''),
      (''human'', ''Research this question and find key facts: '' @ question @ ''\<newline>\<newline>Provide 3-4 important facts about the topic.'')]"

definition lc_research_step :: "'e chat_llm \<Rightarrow> workflow_state \<Rightarrow> 'e chain_error + workflow_state" where
  "lc_research_step llm state =
     (let question = user_question state in
      case prompt_chain_invoke llm create_llm (lc_research_messages question) of
        Inl e \<Rightarrow> Inl e
      | Inr research_result \<Rightarrow> Inr (state\<lparr>research_notes := Some research_result, current_step := ''researched''\<rparr>))"

definition lc_draft_messages :: "string \<Rightarrow> string option \<Rightarrow> (string \<times> string) list" where
  "lc_draft_messages question research =
     [(''system'', ''You are a skilled writer who creates clear, helpful answers based on research information.''),
      (''human'', ''Using this research information, write a draft answer to: '' @ question @ ''\<newline>\<newline>Research: '' @ py_str_opt research @ ''\<newline>\<newline>Write a clear draft answer in 2-3 sentences.'')]"

definition lc_draft_answer_step :: "'e chat_llm \<Rightarrow> workflow_state \<Rightarrow> 'e chain_error + workflow_state" where
  "lc_draft_answer_step llm state =
     (let question = user_question state; research = research_notes state in
      case prompt_chain_invoke llm create_llm (lc_draft_messages question research) of
        Inl e \<Rightarrow> Inl e
      | Inr draft_result \<Rightarrow> Inr (state\<lparr>answer_draft := Some draft_result, current_step := ''drafted''\<rparr>))"

definition lc_final_messages :: "string \<Rightarrow> string option \<Rightarrow> string option \<Rightarrow> (string \<times> string) list" where
  "lc_final_messages question research draft =
     [(''system'', ''You are an expert editor who creates polished, accurate, and helpful final answers.''),
      (''human'', ''Review and improve this draft answer. Make it perfect!\<newline>\<newline>Question: '' @ question @ ''\<newline>Research: '' @ py_str_opt research @ ''\<newline>Draft: '' @ py_str_opt draft @ ''\<newline>\<newline>Make the final answer clear, accurate, and helpful.'')]"

definition lc_final_answer_step :: "'e chat_llm \<Rightarrow> workflow_state \<Rightarrow> 'e chain_error + workflow_state" where
  "lc_final_answer_step llm state =
     (let question = user_question state; research = research_notes state; draft = answer_draft state in
      case prompt_chain_invoke llm create_llm (lc_final_messages question research draft) of
        Inl e \<Rightarrow> Inl e
      | Inr final_result \<Rightarrow> Inr (state\<lparr>final_answer := Some final_result, current_step := ''complete''\<rparr>))"

definition lc_decide_next_step :: "workflow_state \<Rightarrow> string" where
  "lc_decide_next_step state =
     (let step = current_step state in
      if step = ''start'' then ''research''
      else if step = ''researched'' then ''draft''
      else if step = ''drafted'' then ''final''
      else graph_END)"

definition lc_create_simple_workflow :: "'e chat_llm \<Rightarrow> (workflow_state, 'e chain_error) state_graph" where
  "lc_create_simple_workflow llm =
     \<lparr>entry_point = ''research'',
      graph_nodes = [(''research'', lc_research_step llm), (''draft'', lc_draft_answer_step llm),
                     (''final'', lc_final_answer_step llm)],
      graph_edges = [(''research'', Conditional lc_decide_next_step [(''draft'', ''draft''), (graph_END, graph_END)]),
                     (''draft'', Conditional lc_decide_next_step [(''final'', ''final''), (graph_END, graph_END)]),
                     (''final'', Conditional lc_decide_next_step [(graph_END, graph_END)])]\<rparr>"

definition lc_run_simple_workflow :: "'e chat_llm \<Rightarrow> 'e chain_error graph_error + workflow_state" where
  "lc_run_simple_workflow llm =
     fst (graph_invoke (lc_create_simple_workflow llm) (starting_state workshop_question))"

section \<open>Lemmas\<close>

lemma lc_research_step_Inr: "lc_research_step llm s = Inr s' \<Longrightarrow>
   s' = s\<lparr>research_notes := research_notes s', current_step := ''researched''\<rparr> \<and> research_notes s' \<noteq> None"
  by (auto simp: lc_research_step_def Let_def split: sum.splits)

lemma lc_draft_answer_step_Inr: "lc_draft_answer_step llm s = Inr s' \<Longrightarrow>
   s' = s\<lparr>answer_draft := answer_draft s', current_step := ''drafted''\<rparr> \<and> answer_draft s' \<noteq> None"
  by (auto simp: lc_draft_answer_step_def Let_def split: sum.splits)

lemma lc_final_answer_step_Inr: "lc_final_answer_step llm s = Inr s' \<Longrightarrow>
   s' = s\<lparr>final_answer := final_answer s', current_step := ''complete''\<rparr> \<and> final_answer s' \<noteq> None"
  by (auto simp: lc_final_answer_step_def Let_def split: sum.splits)

lemmas lc_step_Inr = lc_research_step_Inr lc_draft_answer_step_Inr lc_final_answer_step_Inr

lemma lc_workflow_next:
  "next_node (lc_create_simple_workflow llm) n s =
     (if n = ''research'' then (if current_step s = ''researched'' then Inr ''draft''
        else if lc_decide_next_step s = graph_END then Inr graph_END else Inl (Branch_not_in_path_map (lc_decide_next_step s)))
      else if n = ''draft'' then (if current_step s = ''drafted'' then Inr ''final''
        else if lc_decide_next_step s = graph_END then Inr graph_END else Inl (Branch_not_in_path_map (lc_decide_next_step s)))
      else if n = ''final'' then (if lc_decide_next_step s = graph_END then Inr graph_END else Inl (Branch_not_in_path_map (lc_decide_next_step s)))
      else Inl (No_outgoing_edge n))"
  by (auto simp: next_node_def lc_create_simple_workflow_def lc_decide_next_step_def Let_def)

lemma lc_workflow_nodes:
  "map_of (graph_nodes (lc_create_simple_workflow llm)) n =
     (if n = ''research'' then Some (lc_research_step llm) else if n = ''draft'' then Some (lc_draft_answer_step llm)
      else if n = ''final'' then Some (lc_final_answer_step llm) else None)"
  by (simp add: lc_create_simple_workflow_def)

lemma lc_decide_next_step_complete: "current_step s = ''complete'' \<Longrightarrow> lc_decide_next_step s = graph_END"
  by (simp add: lc_decide_next_step_def)

lemma lc_workflow_run3:
  "graph_run (Suc (Suc (Suc m))) (lc_create_simple_workflow llm) ''research'' s [] =
     (case lc_research_step llm s of
        Inl e \<Rightarrow> (Inl (Node_raised e), [''research''])
      | Inr s1 \<Rightarrow>
          (case lc_draft_answer_step llm s1 of
             Inl e \<Rightarrow> (Inl (Node_raised e), [''research'', ''draft''])
           | Inr s2 \<Rightarrow>
               (case lc_final_answer_step llm s2 of
                  Inl e \<Rightarrow> (Inl (Node_raised e), [''research'', ''draft'', ''final''])
                | Inr s3 \<Rightarrow> (Inr s3, [''research'', ''draft'', ''final'']))))"
  by (rule graph_run_pipeline3)
     (auto simp: lc_workflow_nodes lc_workflow_next lc_decide_next_step_complete dest!: lc_step_Inr)

lemma lc_workflow_invoke_eq:
  "graph_invoke (lc_create_simple_workflow llm) s = graph_run (Suc (Suc (Suc 22))) (lc_create_simple_workflow llm) ''research'' s []"
  by (rule graph_invoke_fuel) (simp add: lc_create_simple_workflow_def)

lemma lc_draft_human_brace_free:
  "brace_free (snd (lc_draft_messages q r ! 1)) \<longleftrightarrow> brace_free q \<and> brace_free (py_str_opt r)"
  by (simp add: lc_draft_messages_def)

section \<open>Properties of the LangChain workflow\<close>

text \<open>C25. Whatever the starting state, invoking the LangChain workflow runs its research,
  draft and final steps once each, in order, and stops at the first step whose chain raises,
  either in the prompt template or in the chat call.\<close>

theorem lc_workflow_sequential:
  "graph_invoke (lc_create_simple_workflow llm) s =
     (case lc_research_step llm s of
        Inl e \<Rightarrow> (Inl (Node_raised e), [''research''])
      | Inr s1 \<Rightarrow>
          (case lc_draft_answer_step llm s1 of
             Inl e \<Rightarrow> (Inl (Node_raised e), [''research'', ''draft''])
           | Inr s2 \<Rightarrow>
               (case lc_final_answer_step llm s2 of
                  Inl e \<Rightarrow> (Inl (Node_raised e), [''research'', ''draft'', ''final''])
                | Inr s3 \<Rightarrow> (Inr s3, [''research'', ''draft'', ''final'']))))"
  unfolding lc_workflow_invoke_eq by (rule lc_workflow_run3)

text \<open>The draft step's prompt reaches the model exactly as the f-string built it (both
  messages unchanged) if and only if neither the question nor the research notes contain a
  brace. Otherwise the template either raises or delivers altered text.\<close>

theorem lc_draft_prompt_literal_iff:
  "render_messages (lc_draft_messages q r) = Inr (lc_draft_messages q r) \<longleftrightarrow> brace_free q \<and> brace_free (py_str_opt r)"
  by (simp add: render_messages_literal_iff lc_draft_messages_def)

text \<open>C27. Research notes that contain an opening brace not doubled (in JSON, code or a set
  written by the model) make the draft step raise from \<open>ChatPromptTemplate\<close> before any
  chat call, for every chat model; the question is assumed brace-free.\<close>

theorem lc_brace_in_notes_breaks_draft:
  assumes "brace_free (user_question st)" "brace_free a" "c \<noteq> CHR ''{''"
    and "research_notes st = Some (a @ CHR ''{'' # c # b)"
  shows "\<exists>t. lc_draft_answer_step llm st = Inl (Prompt_template_error t)"
proof -
  let ?h = "snd (lc_draft_messages (user_question st) (research_notes st) ! 1)"
  have "fstring_render ?h = None"
    using assms by (simp add: lc_draft_messages_def py_str_opt_def fstring_render_append_brace_free
        fstring_render_lone_open [where b = "b @ _", simplified])
  then have "render_messages (lc_draft_messages (user_question st) (research_notes st)) = Inl ?h"
    by (simp add: render_messages_def lc_draft_messages_def)
  then show ?thesis
    by (simp add: lc_draft_answer_step_def prompt_chain_invoke_def Let_def)
qed

theorem lc_brace_in_notes_breaks_draft_witness:
  "\<exists>t. lc_draft_answer_step (\<lambda>_ _. Inr ''ok'' :: string + string)
      ((starting_state workshop_question)\<lparr>research_notes := Some ''Use {name} here'', current_step := ''researched''\<rparr>)
    = Inl (Prompt_template_error t)"
  by (rule lc_brace_in_notes_breaks_draft [where a = "''Use ''" and c = "CHR ''n''" and b = "''ame} here''"])
     (simp_all add: starting_state_def workshop_question_def)

end
