(* ===== verification/LangGraphBasics.thy ===== *)
theory LangGraphBasics
  imports Graph ChatModel
begin

text \<open>
  The LangGraph examples of \<open>src/AIAgentWorkshop-New/session3/langgraph_basics_nvidia.py\<close>.
  The first, \<open>create_langgraph_workflow\<close>, is a three-node research/analyse/answer
  pipeline over \<open>AgentState\<close>, routed by \<open>router_function\<close>. The second,
  \<open>demonstrate_conditional_routing\<close>, classifies a query with the LLM and routes it to
  a simple or a complex handler (\<open>route_based_on_complexity\<close>, which falls back to the
  simple handler). Both call a \<open>ChatOpenAI\<close> client with one user message
  (\<open>llm.invoke([{"role": "user", "content": prompt}])\<close>, no template), an oracle
  \<open>'e chat_llm\<close> of theory \<open>ChatModel\<close> returning \<open>response.content\<close> or raising. The console output is not modelled.
\<close>

definition nvidia_llm :: chat_openai where
  "nvidia_llm = \<lparr>chat_temperature = 0.7, chat_model = ''meta/llama3-8b-instruct'', chat_api_key = NVIDIA_API_KEY,
     chat_base_url = ''https://integrate.api.nvidia.com/v1''\<rparr>"

definition ask_user :: "'e chat_llm \<Rightarrow> string \<Rightarrow> 'e + string" where
  "ask_user llm prompt = llm nvidia_llm [(''user'', prompt)]"

record agent_state =
  user_query :: string
  research_result :: "string option"
  analysis_result :: "string option"
  agent_final_answer :: "string option"
  agent_current_step :: string

subsection \<open>The research / analyse / answer pipeline\<close>

definition research_prompt :: "string \<Rightarrow> string" where
  "research_prompt query = ''Research the following topic comprehensively: '' @ query @ ''\<newline>\<newline>        Provide:\<newline>        - Key concepts and definitions\<newline>        - Current trends and developments\<newline>        - Real-world applications\<newline>        - Important considerations\<newline>\<newline>        Be thorough but concise.''"

definition research_node :: "'e chat_llm \<Rightarrow> agent_state \<Rightarrow> 'e + agent_state" where
  "research_node llm state =
     (let query = user_query state in
      case ask_user llm (research_prompt query) of
        Inl e \<Rightarrow> Inl e
      | Inr content \<Rightarrow> Inr (state\<lparr>research_result := Some content, agent_current_step := ''research_complete''\<rparr>))"

definition analysis_prompt :: "string option \<Rightarrow> string" where
  "analysis_prompt research = ''Analyze the following research and provide insights:\<newline>\<newline>        RESEARCH:\<newline>        '' @ py_str_opt research @ ''\<newline>\<newline>        Provide:\<newline>        - Key insights and patterns\<newline>        - Strengths and limitations\<newline>        - Practical implications\<newline>        - Recommendations''"

definition analyze_node :: "'e chat_llm \<Rightarrow> agent_state \<Rightarrow> 'e + agent_state" where
  "analyze_node llm state =
     (let research = research_result state in
      case ask_user llm (analysis_prompt research) of
        Inl e \<Rightarrow> Inl e
      | Inr content \<Rightarrow> Inr (state\<lparr>analysis_result := Some content, agent_current_step := ''analysis_complete''\<rparr>))"

definition final_prompt :: "string \<Rightarrow> string option \<Rightarrow> string option \<Rightarrow> string" where
  "final_prompt query research analysis = ''Based on the research and analysis provided, give a comprehensive answer to: '' @ query @ ''\<newline>\<newline>        RESEARCH:\<newline>        '' @ py_str_opt research @ ''\<newline>\<newline>        ANALYSIS:\<newline>        '' @ py_str_opt analysis @ ''\<newline>\<newline>        Provide a clear, well-structured final answer.''"

definition answer_node :: "'e chat_llm \<Rightarrow> agent_state \<Rightarrow> 'e + agent_state" where
  "answer_node llm state =
     (let query = user_query state; research = research_result state; analysis = analysis_result state in
      case ask_user llm (final_prompt query research analysis) of
        Inl e \<Rightarrow> Inl e
      | Inr content \<Rightarrow> Inr (state\<lparr>agent_final_answer := Some content, agent_current_step := ''answer_complete''\<rparr>))"

definition router_function :: "agent_state \<Rightarrow> string" where
  "router_function state =
     (let current_step = agent_current_step state in
      if current_step = ''start'' then ''research''
      else if current_step = ''research_complete'' then ''analyze''
      else if current_step = ''analysis_complete'' then ''answer''
      else graph_END)"

definition create_langgraph_workflow :: "'e chat_llm \<Rightarrow> (agent_state, 'e) state_graph" where
  "create_langgraph_workflow llm =
     \<lparr>entry_point = ''research'',
      graph_nodes = [(''research'', research_node llm), (''analyze'', analyze_node llm), (''answer'', answer_node llm)],
      graph_edges = [(''research'', Conditional router_function [(''analyze'', ''analyze''), (''answer'', ''answer''), (graph_END, graph_END)]),
                     (''analyze'', Conditional router_function [(''answer'', ''answer''), (graph_END, graph_END)]),
                     (''answer'', Conditional router_function [(graph_END, graph_END)])]\<rparr>"

definition initial_agent_state :: agent_state where
  "initial_agent_state = \<lparr>user_query = ''What are the benefits and challenges of implementing AI agents in business processes?'',
     research_result = None, analysis_result = None, agent_final_answer = None, agent_current_step = ''start''\<rparr>"

definition run_basic_langgraph_example :: "'e chat_llm \<Rightarrow> 'e graph_error + agent_state" where
  "run_basic_langgraph_example llm = fst (graph_invoke (create_langgraph_workflow llm) initial_agent_state)"

subsection \<open>Conditional routing\<close>

record query_state =
  query :: string
  query_type :: "string option"
  response :: "string option"

definition classify_prompt :: "string \<Rightarrow> string" where
  "classify_prompt q = ''Classify this query as either 'simple' or 'complex':\<newline>\<newline>        Query: '' @ q @ ''\<newline>\<newline>        Simple queries can be answered directly with basic knowledge.\<newline>        Complex queries require research and detailed analysis.\<newline>\<newline>        Respond with only: simple or complex''"

definition classify_query :: "'e chat_llm \<Rightarrow> query_state \<Rightarrow> 'e + query_state" where
  "classify_query llm state =
     (case ask_user llm (classify_prompt (query state)) of
        Inl e \<Rightarrow> Inl e
      | Inr content \<Rightarrow> Inr (state\<lparr>query_type := Some (py_lower (py_strip content))\<rparr>))"

definition simple_response :: "'e chat_llm \<Rightarrow> query_state \<Rightarrow> 'e + query_state" where
  "simple_response llm state =
     (case ask_user llm (''Answer this simple query directly: '' @ query state) of
        Inl e \<Rightarrow> Inl e
      | Inr answer \<Rightarrow> Inr (state\<lparr>response := Some (''[SIMPLE] '' @ answer)\<rparr>))"

definition complex_response :: "'e chat_llm \<Rightarrow> query_state \<Rightarrow> 'e + query_state" where
  "complex_response llm state =
     (case ask_user llm (''Provide a detailed analysis for this complex query: '' @ query state) of
        Inl e \<Rightarrow> Inl e
      | Inr answer \<Rightarrow> Inr (state\<lparr>response := Some (''[COMPLEX] '' @ answer)\<rparr>))"

definition route_based_on_complexity :: "query_state \<Rightarrow> string" where
  "route_based_on_complexity state =
     (let qt = query_type state in
      if qt = Some ''simple'' then ''simple_handler''
      else if qt = Some ''complex'' then ''complex_handler''
      else ''simple_handler'')"

definition routing_workflow :: "'e chat_llm \<Rightarrow> (query_state, 'e) state_graph" where
  "routing_workflow llm =
     \<lparr>entry_point = ''classifier'',
      graph_nodes = [(''classifier'', classify_query llm), (''simple_handler'', simple_response llm),
                     (''complex_handler'', complex_response llm)],
      graph_edges = [(''classifier'', Conditional route_based_on_complexity
                        [(''simple_handler'', ''simple_handler''), (''complex_handler'', ''complex_handler'')]),
                     (''simple_handler'', Direct graph_END), (''complex_handler'', Direct graph_END)]\<rparr>"

definition test_queries :: "string list" where
  "test_queries = [''What is 2 + 2?'', ''Explain quantum computing and its business applications'']"

text \<open>The loop over the test queries: each invocation's response, or the first exception,
  which ends the loop and propagates to \<open>main\<close>.\<close>

fun routing_runs :: "'e chat_llm \<Rightarrow> string list \<Rightarrow> 'e graph_error + string option list" where
  "routing_runs llm [] = Inr []"
| "routing_runs llm (q # qs) =
     (case fst (graph_invoke (routing_workflow llm) \<lparr>query = q, query_type = None, response = None\<rparr>) of
        Inl e \<Rightarrow> Inl e
      | Inr result \<Rightarrow> map_sum id (Cons (response result)) (routing_runs llm qs))"

definition demonstrate_conditional_routing :: "'e chat_llm \<Rightarrow> 'e graph_error + string option list" where
  "demonstrate_conditional_routing llm = routing_runs llm test_queries"

section \<open>Lemmas\<close>

lemma research_node_Inr: "research_node llm s = Inr s' \<Longrightarrow>
   agent_current_step s' = ''research_complete''"
  by (auto simp: research_node_def Let_def split: sum.splits)

lemma analyze_node_Inr: "analyze_node llm s = Inr s' \<Longrightarrow>
   agent_current_step s' = ''analysis_complete''"
  by (auto simp: analyze_node_def Let_def split: sum.splits)

lemma answer_node_Inr: "answer_node llm s = Inr s' \<Longrightarrow>
   agent_current_step s' = ''answer_complete''"
  by (auto simp: answer_node_def Let_def split: sum.splits)

lemmas agent_node_Inr = research_node_Inr analyze_node_Inr answer_node_Inr

lemma langgraph_workflow_nodes:
  "map_of (graph_nodes (create_langgraph_workflow llm)) n =
     (if n = ''research'' then Some (research_node llm) else if n = ''analyze'' then Some (analyze_node llm)
      else if n = ''answer'' then Some (answer_node llm) else None)"
  by (simp add: create_langgraph_workflow_def)

lemma langgraph_workflow_next:
  "agent_current_step s = ''research_complete'' \<Longrightarrow> next_node (create_langgraph_workflow llm) ''research'' s = Inr ''analyze''"
  "agent_current_step s = ''analysis_complete'' \<Longrightarrow> next_node (create_langgraph_workflow llm) ''analyze'' s = Inr ''answer''"
  "agent_current_step s = ''answer_complete'' \<Longrightarrow> next_node (create_langgraph_workflow llm) ''answer'' s = Inr graph_END"
  by (simp_all add: next_node_def create_langgraph_workflow_def router_function_def)

lemma langgraph_workflow_run3:
  "graph_run (Suc (Suc (Suc m))) (create_langgraph_workflow llm) ''research'' s [] =
     (case research_node llm s of
        Inl e \<Rightarrow> (Inl (Node_raised e), [''research''])
      | Inr s1 \<Rightarrow>
          (case analyze_node llm s1 of
             Inl e \<Rightarrow> (Inl (Node_raised e), [''research'', ''analyze''])
           | Inr s2 \<Rightarrow>
               (case answer_node llm s2 of
                  Inl e \<Rightarrow> (Inl (Node_raised e), [''research'', ''analyze'', ''answer''])
                | Inr s3 \<Rightarrow> (Inr s3, [''research'', ''analyze'', ''answer'']))))"
  by (rule graph_run_pipeline3) (auto simp: langgraph_workflow_nodes langgraph_workflow_next dest!: agent_node_Inr)

lemma routing_workflow_run2:
  "graph_run (Suc (Suc m)) (routing_workflow llm) ''classifier'' s [] =
     (case classify_query llm s of
        Inl e \<Rightarrow> (Inl (Node_raised e), [''classifier''])
      | Inr s1 \<Rightarrow>
          (let h = route_based_on_complexity s1 in
           case (if h = ''complex_handler'' then complex_response llm s1 else simple_response llm s1) of
             Inl e \<Rightarrow> (Inl (Node_raised e), [''classifier'', h])
           | Inr s2 \<Rightarrow> (Inr s2, [''classifier'', h])))"
  by (auto simp: routing_workflow_def next_node_def route_based_on_complexity_def Let_def split: sum.split)

section \<open>Properties of the LangGraph examples\<close>

text \<open>C28. Invoking the research/analyse/answer graph runs \<open>research_node\<close>,
  \<open>analyze_node\<close> and \<open>answer_node\<close> once each, in order, from any starting state;
  the router's \<open>start\<close> branch and the \<open>research \<rightarrow> answer\<close> shortcut of the path map are never taken,
  and an exception of a chat call ends the run at its node.\<close>

theorem langgraph_workflow_sequential:
  "graph_invoke (create_langgraph_workflow llm) s =
     (case research_node llm s of
        Inl e \<Rightarrow> (Inl (Node_raised e), [''research''])
      | Inr s1 \<Rightarrow>
          (case analyze_node llm s1 of
             Inl e \<Rightarrow> (Inl (Node_raised e), [''research'', ''analyze''])
           | Inr s2 \<Rightarrow>
               (case answer_node llm s2 of
                  Inl e \<Rightarrow> (Inl (Node_raised e), [''research'', ''analyze'', ''answer''])
                | Inr s3 \<Rightarrow> (Inr s3, [''research'', ''analyze'', ''answer'']))))"
proof -
  have "graph_invoke (create_langgraph_workflow llm) s = graph_run (Suc (Suc (Suc 22))) (create_langgraph_workflow llm) ''research'' s []"
    by (rule graph_invoke_fuel) (simp add: create_langgraph_workflow_def)
  then show ?thesis by (simp only: langgraph_workflow_run3)
qed

text \<open>C29. The conditional-routing graph asks the model to classify the query and stores the
  stripped, lower-cased reply. Exactly when that reply is \<open>complex\<close> it asks for a detailed
  analysis and answers with the prefix \<open>[COMPLEX] \<close>. Every other reply, including
  \<open>simple\<close> and any unexpected text, falls back to the simple handler and the prefix
  \<open>[SIMPLE] \<close>. The run never fails on routing, only on a chat exception.\<close>

theorem conditional_routing_run:
  "fst (graph_invoke (routing_workflow llm) \<lparr>query = q, query_type = None, response = None\<rparr>) =
     (case ask_user llm (classify_prompt q) of
        Inl e \<Rightarrow> Inl (Node_raised e)
      | Inr c \<Rightarrow>
          (let kind = py_lower (py_strip c) in
           if kind = ''complex'' then
             (case ask_user llm (''Provide a detailed analysis for this complex query: '' @ q) of
                Inl e \<Rightarrow> Inl (Node_raised e)
              | Inr a \<Rightarrow> Inr \<lparr>query = q, query_type = Some kind, response = Some (''[COMPLEX] '' @ a)\<rparr>)
           else
             (case ask_user llm (''Answer this simple query directly: '' @ q) of
                Inl e \<Rightarrow> Inl (Node_raised e)
              | Inr a \<Rightarrow> Inr \<lparr>query = q, query_type = Some kind, response = Some (''[SIMPLE] '' @ a)\<rparr>)))"
proof -
  have "graph_invoke (routing_workflow llm) \<lparr>query = q, query_type = None, response = None\<rparr>
      = graph_run (Suc (Suc 23)) (routing_workflow llm) ''classifier'' \<lparr>query = q, query_type = None, response = None\<rparr> []"
    by (simp add: graph_invoke_def recursion_limit_def routing_workflow_def)
  then show ?thesis
    unfolding routing_workflow_run2
    by (auto simp: classify_query_def simple_response_def complex_response_def route_based_on_complexity_def
        Let_def split: sum.split)
qed

end
