(* ===== verification/WorkflowMains.thy ===== *)
theory WorkflowMains
  imports CrewDemos LangChainWorkflow LangGraphBasics
begin

text \<open>
  The \<open>main\<close> functions of the three session-3 scripts, in the shape of the demos' \<open>main\<close>
  (theory \<open>CrewDemos\<close>): the examples run in order inside one \<open>try\<close>, each contributing the
  answer text it prints, and the first exception ends the run with the handler's hint lines.
  \<^item> \<open>session3/stateful_workflow.py\<close>: \<open>run_simple_workflow()\<close> prints the final answer; the
    handler's hint depends on the provider, as in the demos.
  \<^item> \<open>session3/stateful_workflow_langchain_nvidia.py\<close>: the same with the LangChain workflow
    and a fixed NVIDIA hint.
  \<^item> \<open>session3/langgraph_basics_nvidia.py\<close>: the research pipeline prints its final answer,
    and the routing demonstration prints the first 100 characters of each response.
  The banner and the success lines are constant text and are not modelled.
\<close>

definition answer_text :: "string option \<Rightarrow> string" where
  "answer_text a = py_str_opt a"

definition workflow_main :: "provider_config \<Rightarrow> 'e kickoff \<Rightarrow> 'e graph_error demo_outcome" where
  "workflow_main cfg kickoff =
     demo_run (provider_hint cfg @ [''Check the README.md for setup help.''])
       [map_sum id (\<lambda>s. answer_text (final_answer s)) (run_simple_workflow cfg kickoff)] []"

definition nvidia_key_hint :: string where
  "nvidia_key_hint = ''Make sure your NVIDIA_API_KEY is set correctly in the .env file.''"

definition lc_workflow_main :: "'e chat_llm \<Rightarrow> 'e chain_error graph_error demo_outcome" where
  "lc_workflow_main llm =
     demo_run [nvidia_key_hint, ''Check the README.md for setup help.'']
       [map_sum id (\<lambda>s. answer_text (final_answer s)) (lc_run_simple_workflow llm)] []"

text \<open>\<open>print(f"Response: {result['response'][:100]}...")\<close> for each test query, one line each (with its newline).
  The handlers always set \<open>response\<close> (lemma \<open>routing_runs_responses\<close>), so the
  \<open>TypeError\<close> of slicing \<open>None\<close> does not arise.\<close>

definition routing_lines :: "string option list \<Rightarrow> string" where
  "routing_lines rs = concat (map (\<lambda>r. ''Response: '' @ py_slice_to (py_str_opt r) 100 @ ''...\<newline>'') rs)"

definition langgraph_main :: "'e chat_llm \<Rightarrow> 'e graph_error demo_outcome" where
  "langgraph_main llm =
     demo_run [nvidia_key_hint, ''Also ensure langgraph is installed: uv pip install langgraph'']
       [map_sum id (\<lambda>s. answer_text (agent_final_answer s)) (run_basic_langgraph_example llm),
        map_sum id routing_lines (demonstrate_conditional_routing llm)] []"

section \<open>Lemmas\<close>

lemma routing_invoke_response:
  "fst (graph_invoke (routing_workflow llm) \<lparr>query = q, query_type = None, response = None\<rparr>) = Inr r
     \<Longrightarrow> response r \<noteq> None"
proof -
  have "graph_invoke (routing_workflow llm) \<lparr>query = q, query_type = None, response = None\<rparr>
      = graph_run (Suc (Suc 23)) (routing_workflow llm) ''classifier'' \<lparr>query = q, query_type = None, response = None\<rparr> []"
    by (simp add: graph_invoke_def recursion_limit_def routing_workflow_def)
  then show "fst (graph_invoke (routing_workflow llm) \<lparr>query = q, query_type = None, response = None\<rparr>) = Inr r
     \<Longrightarrow> response r \<noteq> None"
    unfolding routing_workflow_run2
    by (auto simp: classify_query_def simple_response_def complex_response_def Let_def split: sum.splits if_splits)
qed

lemma routing_runs_responses:
  "routing_runs llm qs = Inr rs \<Longrightarrow> None \<notin> set rs"
proof (induction qs arbitrary: rs)
  case Nil
  then show ?case by simp
next
  case (Cons q qs)
  then show ?case
    by (cases "routing_runs llm qs") (auto dest: routing_invoke_response split: sum.splits)
qed

text \<open>When the crews always answer, the CrewAI script's \<open>main\<close> completes and prints the
  editor's answer; when they always raise, it fails at the research step with the
  provider's hint.\<close>

lemma workflow_main_answers:
  "workflow_main cfg (\<lambda>c. Inr (answer c)) =
     Demo_completed [answer (one_task_crew (editor (get_llm cfg))
        (editing_task (get_llm cfg) workshop_question
          (Some (answer (one_task_crew (researcher (get_llm cfg)) (research_task (get_llm cfg) workshop_question))))
          (Some (answer (one_task_crew (writer (get_llm cfg)) (writing_task (get_llm cfg) workshop_question
             (Some (answer (one_task_crew (researcher (get_llm cfg)) (research_task (get_llm cfg) workshop_question))))))))))]"
  by (simp add: workflow_main_def run_simple_workflow_answers answer_text_def py_str_opt_def Let_def)

end
