(* ===== verification/AgentRolesGui.thy ===== *)
theory AgentRolesGui
  imports CrewDemos
begin

text \<open>
  The Streamlit page \<open>src/AIAgentWorkshop-New/session2/agent_roles_gui.py\<close>. It offers the
  business team and the food team of \<open>agent_roles.py\<close> and runs them on the sales data or
  recipe request typed into a text area. It keeps the runs of the browser session in
  \<open>st.session_state.results_history\<close> and shows the last three.
  \<^item> The crews are data, as in theory \<open>CrewDemos\<close>, and \<open>kickoff\<close> is the oracle.
  \<^item> When the kickoff raises, the analysis functions return a canned demonstration answer. Its
    text is Gujarati and emoji, above code point 255, so it is not modelled. The model keeps
    which canned answer is chosen and the inputs it interpolates (\<open>gui_answer\<close>).
  \<^item> The Gujarati-script keywords of the dish tests cannot occur in an 8-bit string and are
    left out of the keyword lists.
  \<^item> Each Streamlit rerun triggered by a button is one event of \<open>gui_step\<close>, on the
    session's history; \<open>gui_rerun\<close> adds the sidebar's \<open>Runs\<close> metric, rendered before
    the button is handled.
  \<^item> The progress animation is the sequence of its hundred steps (progress, phase and
    sub-status line); the status lines (emoji) are represented by their phase.
  \<^item> Widget layout, CSS and the sleeps are not modelled.
\<close>

section \<open>LLM and agents\<close>

definition gui_env_setup :: "provider_config \<Rightarrow> environ \<Rightarrow> environ" where
  "gui_env_setup cfg env =
     (if PROVIDER cfg = ''sambanova'' then env(''SAMBANOVA_API_KEY'' \<mapsto> API_KEY cfg) else env)"

definition gui_get_llm :: "provider_config \<Rightarrow> llm_spec" where
  "gui_get_llm cfg =
     (if PROVIDER cfg = ''ollama'' then CrewLLM (''ollama/'' @ MODEL cfg) None ''http://localhost:11434''
      else if PROVIDER cfg = ''sambanova'' then CrewLLM (''sambanova/'' @ MODEL cfg) (Some (API_KEY cfg)) (API_BASE cfg)
      else LLMName (PROVIDER cfg @ ''/'' @ MODEL cfg))"

text \<open>The GUI's agents are created with \<open>verbose=False\<close>.\<close>

definition gui_agent :: "string \<Rightarrow> string \<Rightarrow> string \<Rightarrow> llm_spec \<Rightarrow> demo_agent" where
  "gui_agent r g b llm = \<lparr>role = r, goal = g, backstory = b, agent_llm = llm, agent_verbose = False,
     agent_allow_delegation = None\<rparr>"

definition create_business_team_agents :: "provider_config \<Rightarrow> demo_agent \<times> demo_agent" where
  "create_business_team_agents cfg =
     (let llm = gui_get_llm cfg;
          analyst = gui_agent ''Data Analyst'' ''Look at data and find useful patterns''
            ''I love working with numbers and finding hidden insights in data.'' llm;
          strategist = gui_agent ''Business Strategist'' ''Create plans based on data insights''
            ''I am good at making business plans and giving advice for growth.'' llm
      in (analyst, strategist))"

definition create_food_team_agents :: "provider_config \<Rightarrow> string \<Rightarrow> demo_agent \<times> demo_agent" where
  "create_food_team_agents cfg language =
     (let llm = gui_get_llm cfg;
          (chef_backstory, nutritionist_backstory) =
            (if py_contains ''Gujarati'' language then
               (''I am a master Gujarati chef specializing in traditional Gujarati cuisine, farsan, and festive dishes. I know all about Gujarati flavors, spices, and cooking techniques.'',
                ''I am a nutrition expert familiar with Gujarati dietary traditions, Ayurvedic principles, and the nutritional value of traditional Gujarati ingredients.'')
             else (''I am a creative chef who loves making delicious food.'',
                   ''I am a health expert who makes sure food is good for you.''));
          chef = gui_agent ''Chef'' ''Create and describe recipes'' chef_backstory llm;
          nutritionist = gui_agent ''Nutritionist'' ''Check if food is healthy'' nutritionist_backstory llm
      in (chef, nutritionist))"

section \<open>The two analyses\<close>

text \<open>\<open>Crew(agents, tasks, verbose=False, memory=True, cache=True, max_rpm=1)\<close>.\<close>

definition gui_crew :: "demo_agent list \<Rightarrow> crew_task list \<Rightarrow> crew_config" where
  "gui_crew agents tasks = \<lparr>cc_agents = agents, cc_tasks = tasks, cc_verbose = False, cc_memory = True,
     cc_cache = True, cc_max_rpm = Some 1, cc_process = Sequential\<rparr>"

definition business_team_crew :: "provider_config \<Rightarrow> string \<Rightarrow> crew_config" where
  "business_team_crew cfg sales_data =
     (let (analyst, strategist) = create_business_team_agents cfg;
          analysis_task = CrewTask (''Look at this simple sales data: '' @ sales_data @ ''. Find trends.'')
            ''Tell me if sales are going up or down, and by how much.'' analyst None;
          strategy_task = CrewTask ''Based on the sales analysis, suggest 2 ways to increase sales next quarter.''
            ''Two simple suggestions for growing the business.'' strategist (Some [analysis_task])
      in gui_crew [analyst, strategist] [analysis_task, strategy_task])"

definition food_team_crew :: "provider_config \<Rightarrow> string \<Rightarrow> string \<Rightarrow> crew_config" where
  "food_team_crew cfg recipe_request language =
     (let (chef, nutritionist) = create_food_team_agents cfg language;
          (recipe_description, recipe_output, health_description) =
            (if py_contains ''Gujarati'' language then
               (''Create a simple Gujarati recipe for '' @ recipe_request @ ''. Include traditional Gujarati ingredients and cooking methods. Provide the recipe in Gujarati language with English translations.'',
                ''List ingredients in Gujarati with English translations and provide cooking steps in both languages.'',
                ''Check if this Gujarati recipe is healthy according to traditional Gujarati dietary principles and suggest improvements.'')
             else (''Create a simple recipe for '' @ recipe_request @ ''.'', ''List ingredients and basic steps.'',
                   ''Check if this recipe is healthy and suggest improvements.''));
          recipe_task = CrewTask recipe_description recipe_output chef None;
          health_task = CrewTask health_description ''Say if it's healthy and give one healthy tip.'' nutritionist
            (Some [recipe_task])
      in gui_crew [chef, nutritionist] [recipe_task, health_task])"

text \<open>The canned answers of the exception handlers, by the branch that returns them.\<close>

datatype food_fallback =
    Gujarati_dhokla | Gujarati_thepla | Gujarati_khandvi | Gujarati_cookies | Gujarati_fusion
  | Gujarati_sweets | Gujarati_general | English_dessert | English_general

definition any_word_in :: "string list \<Rightarrow> string \<Rightarrow> bool" where
  "any_word_in words s \<longleftrightarrow> list_ex (\<lambda>word. py_contains word s) words"

definition food_fallback_kind :: "string \<Rightarrow> string \<Rightarrow> food_fallback" where
  "food_fallback_kind recipe_request language =
     (let recipe_lower = py_lower recipe_request in
      if py_contains ''Gujarati'' language then
        (if any_word_in [''dhokla'', ''dhoklaa''] recipe_lower then Gujarati_dhokla
         else if any_word_in [''thepla'', ''thhepla''] recipe_lower then Gujarati_thepla
         else if any_word_in [''khandoi'', ''khandvi''] recipe_lower then Gujarati_khandvi
         else if any_word_in [''chocolate'', ''chip'', ''cookie''] recipe_lower then Gujarati_cookies
         else if any_word_in [''pizza'', ''bread'', ''pasta'', ''pasta'', ''noodle''] recipe_lower then Gujarati_fusion
         else if any_word_in [''sweet'', ''mithai'', ''dessert'', ''cake''] recipe_lower then Gujarati_sweets
         else Gujarati_general)
      else if any_word_in [''sweet'', ''dessert'', ''cookie'', ''cake'', ''pie''] recipe_lower then English_dessert
      else English_general)"

text \<open>What an analysis returns: the team's answer in the success template, or a canned answer
  with the inputs it shows.\<close>

datatype gui_answer =
    Team_answer string
  | Business_demo string
  | Food_demo food_fallback string string

definition run_business_team_analysis :: "provider_config \<Rightarrow> 'e crew_kickoff \<Rightarrow> string \<Rightarrow> gui_answer" where
  "run_business_team_analysis cfg kickoff sales_data =
     (case kickoff (business_team_crew cfg sales_data) of
        Inr result \<Rightarrow> Team_answer (''Business Team Analysis Complete!\<newline>\<newline>Sales Data: '' @ sales_data
                        @ ''\<newline>\<newline>Result:\<newline>'' @ result)
      | Inl e \<Rightarrow> Business_demo sales_data)"

definition run_food_team_analysis :: "provider_config \<Rightarrow> 'e crew_kickoff \<Rightarrow> string \<Rightarrow> string \<Rightarrow> gui_answer" where
  "run_food_team_analysis cfg kickoff recipe_request language =
     (case kickoff (food_team_crew cfg recipe_request language) of
        Inr result \<Rightarrow> Team_answer (''Food Team Analysis Complete!\<newline>\<newline>Recipe Request: '' @ recipe_request
                        @ ''\<newline>Language: '' @ language @ ''\<newline>\<newline>Result:\<newline>'' @ result)
      | Inl e \<Rightarrow> Food_demo (food_fallback_kind recipe_request language) recipe_request language)"

section \<open>The session's history\<close>

record history_entry =
  entry_team :: string
  entry_input :: string
  entry_language :: "string option"
  entry_result :: gui_answer
  entry_timestamp :: real

text \<open>The buttons of a rerun: clearing the history, or analysing the text area's content
  (with the selected language for the food team) at a time stamp.\<close>

datatype gui_event =
    Clear_history
  | Analyze_business string real
  | Analyze_food string string real

definition gui_step :: "provider_config \<Rightarrow> 'e crew_kickoff \<Rightarrow> history_entry list \<Rightarrow> gui_event \<Rightarrow> history_entry list" where
  "gui_step cfg kickoff history ev =
     (case ev of
        Clear_history \<Rightarrow> []
      | Analyze_business user_input t \<Rightarrow>
          if py_strip user_input = [] then history
          else history @ [\<lparr>entry_team = ''Business Analysis'', entry_input = user_input, entry_language = None,
                           entry_result = run_business_team_analysis cfg kickoff user_input, entry_timestamp = t\<rparr>]
      | Analyze_food user_input language t \<Rightarrow>
          if py_strip user_input = [] then history
          else history @ [\<lparr>entry_team = ''Food Preparation'', entry_input = user_input, entry_language = Some language,
                           entry_result = run_food_team_analysis cfg kickoff user_input language, entry_timestamp = t\<rparr>])"

text \<open>The session starts with an empty history; each rerun applies one event.\<close>

definition gui_history :: "provider_config \<Rightarrow> 'e crew_kickoff \<Rightarrow> gui_event list \<Rightarrow> history_entry list" where
  "gui_history cfg kickoff events = foldl (gui_step cfg kickoff) [] events"

text \<open>The \<open>Recent Results\<close> section: \<open>reversed(results_history[-3:])\<close>, each under the
  expander title \<open>team - language - first 40 characters of the input...\<close>.\<close>

definition recent_results :: "history_entry list \<Rightarrow> history_entry list" where
  "recent_results history = rev (py_slice_from history (-3))"

definition expander_title :: "history_entry \<Rightarrow> string" where
  "expander_title entry =
     entry_team entry @ (case entry_language entry of Some l \<Rightarrow> '' - '' @ l | None \<Rightarrow> [])
     @ '' - '' @ take 40 (entry_input entry) @ ''...''"


text \<open>The events of a session after its last \<open>Clear History\<close>.\<close>

definition after_last_clear :: "gui_event list \<Rightarrow> gui_event list" where
  "after_last_clear events = rev (takeWhile (\<lambda>e. e \<noteq> Clear_history) (rev events))"

text \<open>The progress animation of an analysis (lines 718--741 and 801--824): one hundred
  steps, step \<open>i\<close> shows progress \<open>i + 1\<close> and the status of the first phase whose bound
  exceeds \<open>i\<close> (an \<open>if i < b1 ... elif ... else\<close> chain). The sub-status lines are modelled;
  the status lines begin with emoji and are represented by their phase.\<close>

fun status_phase :: "nat list \<Rightarrow> nat \<Rightarrow> nat" where
  "status_phase [] i = 0"
| "status_phase (b # bs) i = (if i < b then 0 else Suc (status_phase bs i))"

definition business_phase_bounds :: "nat list" where
  "business_phase_bounds = [20, 40, 60, 80, 90]"

definition business_sub_status :: "string list" where
  "business_sub_status = [''Loading sales data and preparing datasets...'', ''Calculating growth rates and identifying patterns...'', ''Analyzing sales velocity and market indicators...'', ''Evaluating data insights and market conditions...'', ''Creating actionable recommendations and growth plans...'', ''Compiling analysis results and strategic recommendations...'']"

definition food_phase_bounds :: "nat list" where
  "food_phase_bounds = [25, 45, 65, 80, 90]"

definition food_sub_status :: "string list" where
  "food_sub_status = [''Analyzing ingredients and cooking techniques...'', ''Developing cooking methods and flavor profiles...'', ''Optimizing measurements and cooking times...'', ''Evaluating calorie content and macronutrients...'', ''Checking vitamins, minerals, and dietary balance...'', ''Compiling final recipe with nutritional recommendations...'']"

definition analysis_animation :: "nat list \<Rightarrow> string list \<Rightarrow> (nat \<times> nat \<times> string) list" where
  "analysis_animation bounds subs = map (\<lambda>i. (i + 1, status_phase bounds i, subs ! status_phase bounds i)) [0..<100]"

text \<open>One rerun of the page: the sidebar renders the \<open>Runs\<close> metric from the history as it
  is at the start of the rerun, and only then the pressed button (if any) changes the
  history.\<close>

definition gui_rerun ::
  "provider_config \<Rightarrow> 'e crew_kickoff \<Rightarrow> history_entry list \<Rightarrow> gui_event option \<Rightarrow> nat \<times> history_entry list" where
  "gui_rerun cfg kickoff history ev =
     (length history, case ev of None \<Rightarrow> history | Some e \<Rightarrow> gui_step cfg kickoff history e)"

section \<open>Lemmas\<close>

text \<open>The business animation spends 20, 20, 20, 20, 10 and 10 steps in its six phases, the food
  animation 25, 20, 20, 15, 10 and 10, and both end at progress 100.\<close>

lemma analysis_animation_phases:
  "map (\<lambda>k. length (filter (\<lambda>(p, ph, t). ph = k) (analysis_animation business_phase_bounds business_sub_status))) [0..<6]
     = [20, 20, 20, 20, 10, 10]"
  "map (\<lambda>k. length (filter (\<lambda>(p, ph, t). ph = k) (analysis_animation food_phase_bounds food_sub_status))) [0..<6]
     = [25, 20, 20, 15, 10, 10]"
  "fst (last (analysis_animation bs subs)) = 100"
  by (simp_all add: analysis_animation_def business_phase_bounds_def food_phase_bounds_def upt_rec)

text \<open>The \<open>Runs\<close> metric lags: in the rerun that adds an analysis it still shows the old
  count, and after \<open>Clear History\<close> it still shows the cleared entries.\<close>

lemma gui_rerun_runs_stale:
  "py_strip u \<noteq> [] \<Longrightarrow>
     gui_rerun cfg k h (Some (Analyze_business u t)) = (n, h') \<Longrightarrow> length h' = Suc n"
  "gui_rerun cfg k h (Some Clear_history) = (length h, [])"
  by (auto simp: gui_rerun_def gui_step_def)

lemma gui_step_append: "ev \<noteq> Clear_history \<Longrightarrow> gui_step cfg k h ev = h @ gui_step cfg k [] ev"
  by (cases ev) (simp_all add: gui_step_def)

lemma gui_step_Clear: "gui_step cfg k h Clear_history = []"
  by (simp add: gui_step_def)

lemma after_last_clear_snoc:
  "after_last_clear (events @ [e]) = (if e = Clear_history then [] else after_last_clear events @ [e])"
  by (simp add: after_last_clear_def)

lemma gui_history_snoc:
  "gui_history cfg k (events @ [e]) = gui_step cfg k (gui_history cfg k events) e"
  by (simp add: gui_history_def)

section \<open>Properties of the page\<close>

text \<open>C19. The session's history is determined by the presses since the last
  \<open>Clear History\<close>, in order: an analysis of a text area that is blank after
  \<open>strip()\<close> adds nothing, a business analysis adds one entry with the team
  \<open>Business Analysis\<close>, the input, no language, the answer of
  \<open>run_business_team_analysis\<close> and its time stamp, and a food analysis one entry with
  \<open>Food Preparation\<close>, the input, the selected language, the answer of
  \<open>run_food_team_analysis\<close> and its time stamp. \<open>Recent Results\<close> shows the newest
  three entries, newest first.\<close>

theorem gui_history_refines:
  "gui_history cfg kickoff events = concat (map (\<lambda>ev. case ev of
        Clear_history \<Rightarrow> []
      | Analyze_business u t \<Rightarrow>
          if py_strip u = [] then []
          else [\<lparr>entry_team = ''Business Analysis'', entry_input = u, entry_language = None,
                 entry_result = run_business_team_analysis cfg kickoff u, entry_timestamp = t\<rparr>]
      | Analyze_food u l t \<Rightarrow>
          if py_strip u = [] then []
          else [\<lparr>entry_team = ''Food Preparation'', entry_input = u, entry_language = Some l,
                 entry_result = run_food_team_analysis cfg kickoff u l, entry_timestamp = t\<rparr>])
      (after_last_clear events))
   \<and> recent_results (gui_history cfg kickoff events) = take 3 (rev (gui_history cfg kickoff events))"
proof -
  have h: "gui_history cfg kickoff events = concat (map (gui_step cfg kickoff []) (after_last_clear events))"
  proof (induction events rule: rev_induct)
    case Nil
    then show ?case by (simp add: gui_history_def after_last_clear_def)
  next
    case (snoc e events)
    show ?case
    proof (cases "e = Clear_history")
      case True
      then show ?thesis by (simp add: gui_history_snoc after_last_clear_snoc gui_step_Clear)
    next
      case False
      have "gui_history cfg kickoff (events @ [e]) = gui_history cfg kickoff events @ gui_step cfg kickoff [] e"
        unfolding gui_history_snoc by (rule gui_step_append [OF False])
      then show ?thesis using snoc.IH False by (simp add: after_last_clear_snoc)
    qed
  qed
  have step: "gui_step cfg kickoff [] = (\<lambda>ev. case ev of
        Clear_history \<Rightarrow> []
      | Analyze_business u t \<Rightarrow>
          if py_strip u = [] then []
          else [\<lparr>entry_team = ''Business Analysis'', entry_input = u, entry_language = None,
                 entry_result = run_business_team_analysis cfg kickoff u, entry_timestamp = t\<rparr>]
      | Analyze_food u l t \<Rightarrow>
          if py_strip u = [] then []
          else [\<lparr>entry_team = ''Food Preparation'', entry_input = u, entry_language = Some l,
                 entry_result = run_food_team_analysis cfg kickoff u l, entry_timestamp = t\<rparr>])"
    by (rule ext) (simp add: gui_step_def split: gui_event.split)
  have recent: "recent_results xs = take 3 (rev xs)" for xs :: "history_entry list"
  proof (cases "3 \<le> length xs")
    case True
    then have "nat (int (length xs) - 3) = length xs - 3" by simp
    with True show ?thesis by (simp add: recent_results_def py_slice_from_def rev_drop)
  next
    case False
    then show ?thesis by (simp add: recent_results_def py_slice_from_def)
  qed
  show ?thesis unfolding h step recent by (rule conjI refl)+
qed

end
