(* ===== verification/SmokeTests.thy ===== *)
theory SmokeTests
  imports CrewDemos
begin

text \<open>
  The provider smoke tests of \<open>src/AIAgentWorkshop-New/testing\<close>: each script builds one client
  with fixed settings and sends one request. \<open>test_langchain.py\<close> and
  \<open>test_nvidia_langchain.py\<close> use LangChain's \<open>ChatOpenAI\<close> (the oracle \<open>'e openai_invoke\<close> of
  theory \<open>CrewDemos\<close>); \<open>test_ollama.py\<close> and \<open>test_sambanova.py\<close> use the \<open>openai\<close>
  package's \<open>OpenAI\<close> client, whose \<open>chat.completions.create\<close> is the oracle
  \<open>'e chat_completions\<close> from the client, the model and the messages to the content of the
  first choice. The API keys the scripts hard-code are parameters here rather than copies of
  the literals. The result of a script is what it prints (only lines within the 8-bit
  strings of the model) or the exception it does not catch.
\<close>

record api_client =
  api_key :: string
  api_base_url :: string

type_synonym 'e chat_completions = "api_client \<Rightarrow> string \<Rightarrow> (string \<times> string) list \<Rightarrow> 'e + string"

section \<open>\<open>test_langchain.py\<close>\<close>

definition test_langchain_client :: "string \<Rightarrow> openai_client" where
  "test_langchain_client key = \<lparr>client_temperature = Finite False 7 (-1), client_model = ''gpt-oss-120b'',
     client_api_key = key, client_base_url = ''https://api.sambanova.ai/v1''\<rparr>"

definition test_langchain :: "string \<Rightarrow> 'e openai_invoke \<Rightarrow> 'e + string" where
  "test_langchain key llm =
     llm (test_langchain_client key)
       [(''system'', ''You are a helpful AI assistant.''), (''user'', ''Explain the importance of fast language models.'')]"

section \<open>\<open>test_nvidia_langchain.py\<close>\<close>

definition nvidia_test_client :: "string \<Rightarrow> openai_client" where
  "nvidia_test_client key = \<lparr>client_temperature = Finite False 7 (-1), client_model = ''meta/llama3-8b-instruct'',
     client_api_key = key, client_base_url = ''https://integrate.api.nvidia.com/v1''\<rparr>"

text \<open>The return value and the response line; the success and failure banners begin with
  emoji and are not modelled.\<close>

definition test_nvidia_langchain :: "string \<Rightarrow> 'e openai_invoke \<Rightarrow> bool \<times> string list" where
  "test_nvidia_langchain key llm =
     (case llm (nvidia_test_client key)
             [(''system'', ''You are a helpful AI assistant.''),
              (''user'', ''Explain what artificial intelligence is in simple terms.'')] of
        Inr content \<Rightarrow> (True, [''Response: '' @ content])
      | Inl e \<Rightarrow> (False, []))"

section \<open>\<open>test_ollama.py\<close>\<close>

definition ollama_client :: api_client where
  "ollama_client = \<lparr>api_key = ''ollama'', api_base_url = ''http://localhost:11434/v1''\<rparr>"

definition ollama_test_model :: string where
  "ollama_test_model = ''gemma3:4b''"

definition test_ollama :: "'e chat_completions \<Rightarrow> ('e \<Rightarrow> string) \<Rightarrow> string list" where
  "test_ollama create str_of =
     (case create ollama_client ollama_test_model [(''user'', ''Say hello in one word'')] of
        Inr content \<Rightarrow> [''Ollama is working!'', ''Response: '' @ content]
      | Inl e \<Rightarrow> [''Ollama connection failed: '' @ str_of e, ''Make sure Ollama is running: ollama serve'',
                  ''And the model is pulled: ollama pull llama3.2:3b''])"

section \<open>\<open>test_sambanova.py\<close>\<close>

definition sambanova_test_client :: "string \<Rightarrow> api_client" where
  "sambanova_test_client key = \<lparr>api_key = key, api_base_url = ''https://api.sambanova.ai/v1''\<rparr>"

definition test_sambanova :: "string \<Rightarrow> 'e chat_completions \<Rightarrow> 'e + string" where
  "test_sambanova key create =
     create (sambanova_test_client key) ''gpt-oss-120b''
       [(''user'', ''Explain the importance of fast language models'')]"

section \<open>Lemmas\<close>

text \<open>\<open>test_ollama.py\<close> requests \<open>gemma3:4b\<close>, but on failure it tells the user to pull
  \<open>llama3.2:3b\<close>, which does not make the test pass.\<close>

lemma test_ollama_hint_other_model:
  "create ollama_client ollama_test_model [(''user'', ''Say hello in one word'')] = Inl e \<Longrightarrow>
     last (test_ollama create str_of) = ''And the model is pulled: ollama pull llama3.2:3b''
     \<and> ollama_test_model \<noteq> ''llama3.2:3b''"
  by (simp add: test_ollama_def ollama_test_model_def)

end
