(* ===== verification/Spec2Isabelle.thy ===== *)
theory Spec2Isabelle
  imports RateLimitedLLM ConfigSetup WorkflowMains AgentRolesGui SmokeTests
begin

text \<open>
  \<^bold>\<open>A verification library for the AI Agent Workshop\<close> (\<open>src/AIAgentWorkshop-New\<close>).

  \<^bold>\<open>The program.\<close> The workshop is a set of Python scripts around remote LLM services.
  \<^item> \<open>config.py\<close> reads the environment once, at import. It picks the provider, key,
    model and endpoint, and parses \<open>MAX_TOKENS\<close> and \<open>TEMPERATURE\<close>.
  \<^item> \<open>utils/rate_limiter.py\<close> wraps every LLM call in a retry executor, \<open>RateLimiter\<close>.
    The executor paces requests, recognises rate-limit errors, backs off exponentially with
    jitter (or until a reset time the server announces), and re-raises everything else.
  \<^item> Three session-3 scripts build LangGraph state machines whose nodes call the LLM:
    \<^item> \<open>stateful_workflow.py\<close> with CrewAI crews;
    \<^item> \<open>stateful_workflow_langchain_nvidia.py\<close> with LangChain prompt chains;
    \<^item> \<open>langgraph_basics_nvidia.py\<close>, a research pipeline plus a conditional router.
  \<^item> \<open>utils/helpers.py\<close> holds the helpers the workflows share: environment loading, API key
    validation, nested lookup, truncation, summaries, state validation and context merging.
  \<^item> \<open>utils/config.py\<close> holds \<open>WorkshopConfig\<close>. It is built from
    \<open>load_environment_variables\<close> and defaults, validated with \<open>validate_api_key\<close>, and
    saved to and read back from a \<open>.env\<close> file. A module-level singleton holds the instance.

  \<^item> The session-1 and session-2 scripts (\<open>basics.py\<close>, \<open>crewai_intro.py\<close>,
    \<open>agent_roles.py\<close>, \<open>content_crew.py\<close>) call the chat API directly or build CrewAI
    crews of agents and tasks. Each task may read the output of earlier tasks through
    \<open>context\<close>. Each script's \<open>main\<close> runs its examples inside one \<open>try\<close>.
  \<^item> The Streamlit GUI (\<open>agent_roles_gui.py\<close>) wraps the agent-roles crews in a web page.
  \<^item> \<open>testing/\<close> holds four smoke tests that send one request each to SambaNova, NVIDIA or
    a local Ollama server.

  \<^bold>\<open>Theories.\<close>
  \<^item> \<open>Prelude\<close> holds the Python built-ins on strings (\<open>lower\<close>, \<open>strip\<close>, \<open>isspace\<close>,
    \<open>in\<close>), \<open>int(float)\<close>, and the int-to-float overflow threshold. The collection
    \<open>py_defs\<close> gathers their unfolding rules.
  \<^item> \<open>PyInt\<close> holds \<open>int(str)\<close> (with the 4300-digit limit), \<open>str(int)\<close> and their round
    trip, and \<open>float(str)\<close>.
  \<^item> \<open>RateLimiter\<close> models \<open>utils/rate_limiter.py\<close>:
    \<^item> the record \<open>rate_limiter\<close> is the object's fields;
    \<^item> \<open>world\<close> is the clock, the random stream, the sleeps, the log and the invocations of the
      wrapped operation;
    \<^item> \<open>calculate_delay\<close>, \<open>extract_retry_after\<close> and \<open>is_rate_limit_error\<close> are the private
      methods;
    \<^item> \<open>attempt_step\<close> is one iteration of the loop of \<open>call_with_retry\<close>, and \<open>retry_loop\<close>
      recurses on the remaining budget.

    Exceptions are values:
    \<^item> the type \<open>'e exc\<close> distinguishes the operation's own error (\<open>Raised\<close>) from errors
      the executor itself raises (\<open>Runtime\<close>);
    \<^item> \<open>retry_spec\<close> is the abstract retry automaton the executor refines.
  \<^item> \<open>RateLimitedLLM\<close> models the factory \<open>create_rate_limited_llm\<close> of
    \<open>utils/rate_limiter.py\<close> over Python dicts, composed with \<open>get_agent_config\<close>. The
    \<open>ChatOpenAI\<close> constructor it calls (\<open>chat_openai\<close>) is modelled by the API key the
    client ends up with: the key passed, or \<open>OPENAI_API_KEY\<close> from the environment for
    \<open>api_key=None\<close>, or \<open>OpenAIError\<close> when that is unset.
  \<^item> \<open>ProviderConfig\<close> models the import of \<open>config.py\<close> as a function of the environment.
  \<^item> \<open>Graph\<close> is the execution model of a compiled LangGraph \<open>StateGraph\<close>, the library
    the workflows use. A run executes nodes and follows direct or conditional edges to \<open>END\<close>,
    with the recursion limit (25) as fuel. Nodes may raise. \<open>graph_step\<close> and
    \<open>graph_reach\<close> give the same transitions as an inductive relation. The lemma
    \<open>graph_run_pipeline3\<close> shows that a three-node pipeline runs as the composition of its nodes.
  \<^item> \<open>PyValue\<close> models the Python values the helpers handle:
    \<^item> \<open>None\<close>, \<open>bool\<close>, \<open>int\<close>, \<open>str\<close>, \<open>list\<close> and \<open>dict\<close>;
    \<^item> floats as exact decimals, with infinities and NaN;
    \<^item> Python's key equality (\<open>1 == True == 1.0\<close>), \<open>dict\<close> assignment, \<open>update\<close> and
      \<open>get\<close>;
    \<^item> subscription with its exceptions, truthiness, \<open>len\<close> and \<open>repr\<close>.
  \<^item> \<open>Binary64\<close> models Python's \<open>float\<close> as IEEE binary64 where a result depends on its
    rounding: \<open>int / int\<close>, \<open>float * int\<close> and \<open>int(float)\<close>. Each operation rounds its
    exact rational result to nearest-even with 53 bits (\<open>b64_round\<close>), with subnormals and
    overflow. The lemmas bound the error by \<open>2^-53\<close> relatively in the normal range and keep
    exact results exact.
  \<^item> \<open>Helpers\<close> models \<open>utils/helpers.py\<close>, one definition per function. Loops are
    structural recursions or folds, and each exception is a value of \<open>pyerr\<close>.
    \<open>create_progress_indicator\<close> uses \<open>Binary64\<close>.
  \<^item> \<open>WorkshopConfig\<close> models \<open>utils/config.py\<close>:
    \<^item> the instance is its \<open>_config\<close> dict, and the methods are functions of it;
    \<^item> \<open>save_to_env_file\<close> maps the file's old text to the new one;
    \<^item> \<open>parse_env_file\<close> is the reading half of that method;
    \<^item> the singleton is the record \<open>config_module\<close>.
  \<^item> \<open>ConfigSetup\<close> models the console dialogue \<open>setup_config_interactive\<close> of
    \<open>utils/config.py\<close>: standard input is a list of lines (\<open>EOFError\<close> at its end), the state
    is the module singleton and the \<open>.env\<close> file, and each phase (key, model, validate and
    save) is a definition; the mutations of the global instance persist on every exit.
  \<^item> \<open>ChatModel\<close> models the LangChain client, the chat call as an oracle, and
    \<open>ChatPromptTemplate\<close>'s rendering of message texts as f-string templates.
  \<^item> \<open>Workflow\<close>, \<open>LangChainWorkflow\<close> and \<open>LangGraphBasics\<close> model the three session-3
    scripts, one definition per function of the source:
    \<^item> the node functions return the updated copy of the state, or the exception of their LLM
      call;
    \<^item> routers and graph wiring are data of \<open>Graph\<close>;
    \<^item> the LLM (CrewAI \<open>kickoff\<close>, \<open>ChatOpenAI.invoke\<close>) is a parameter, so every theorem
      holds for every behaviour of the service.
  \<^item> \<open>WorkflowMains\<close> models the \<open>main\<close> of each session-3 script as the demos' \<open>try\<close>:
    the examples' printed answers, or the first exception with the handler's hint lines.
  \<^item> \<open>CrewDemos\<close> models the session-1/2 scripts, one definition per function:
    \<^item> crews, tasks and agents are data, with CrewAI's options;
    \<^item> the crew each example passes to \<open>kickoff\<close> is a definition of its own;
    \<^item> \<open>kickoff\<close> is an oracle over the whole crew;
    \<^item> \<open>demo_run\<close> is the \<open>try\<close> of every \<open>main\<close>, with the provider hint of its handler.
  \<^item> \<open>AgentRolesGui\<close> models the Streamlit page:
    \<^item> the crews of both teams;
    \<^item> on an exception, which canned answer is chosen (its text is not modelled);
    \<^item> the session's \<open>results_history\<close> as a step function \<open>gui_step\<close> over the button
      events of a rerun.
    \<^item> one rerun with its \<open>Runs\<close> metric (\<open>gui_rerun\<close>), and the phases of the progress
      animation.
  \<^item> \<open>SmokeTests\<close> models the four provider tests under \<open>testing/\<close>: one client with fixed
    settings and one request each, the chat call as an oracle, the hard-coded keys as
    parameters.
  \<^item> \<open>Graph\<close> also holds the generic arguments: termination by a ranking of the nodes
    (\<open>graph_run_ranked\<close>), and progress to \<open>END\<close> (\<open>graph_progress\<close>).

  \<^bold>\<open>What is proved.\<close>
  \<^item> Rate limiter (C1--C13, C15--C17):
    \<^item> refinement of the retry automaton;
    \<^item> the attempt bound, fast failure, success, and exhaustion;
    \<^item> delay bounds (with the floor above a cap below 0.1 s), the exponential formula and
      precedence of the reset hint;
    \<^item> pacing, positive sleeps and accounting;
    \<^item> the hint round trip;
    \<^item> the error paths: \<open>TypeError\<close> of \<open>raise None\<close> for a negative budget (C15), and
      never otherwise, every re-raise being logged by the loop's own handlers (C16);
      \<open>OverflowError\<close> from a reset timestamp beyond the float range (C17) and from the
      backoff factor \<open>2 ** attempt\<close> at attempt 1024, for budgets above 1024 retries (C12).
  \<^item> Workflows (C18, C20--C22, C25--C29):
    \<^item> each graph run is exactly the sequential composition of its node functions from any
      state, stops at the first exception, and never hits a routing or recursion-limit error;
    \<^item> state flows forward (results of earlier steps are in later prompts);
    \<^item> an invariant of all reachable configurations, by rule induction;
    \<^item> termination of all four graphs within three super-steps, by a ranking (C22);
    \<^item> liveness: \<open>END\<close> stays reachable from every reachable configuration when the service
      answers (C26);
    \<^item> the complexity router and its fallback;
    \<^item> the crash of the LangChain workflow on research notes that contain a brace.
  \<^item> Configuration (C23, C24): the consistency of the provider settings, and exactly when the
    import raises.
  \<^item> GUI (C19): the session history is, press by press since the last clear, the entry
    each non-blank analysis adds (team, input, language, answer, time stamp), and the page
    shows the newest three.
  \<^item> Demos (C30, C31):
    \<^item> the scripts' copies of \<open>get_llm\<close> agree on every configuration the import produces;
    \<^item> every crew the scripts build is well formed: contexts read earlier tasks only, every
      agent is a member with a task, and the process is sequential at one request per minute.
  \<^item> Helpers (C32--C34):
    \<^item> the length bound of \<open>truncate_text\<close>;
    \<^item> the progress indicator never raises, draws exactly \<open>20 * current // total\<close> cells, and
      shows \<open>100 * current // total\<close> or one less, the double rounding of
      \<open>(current / total) * 100\<close> (29 of 100 shows 28%) (C33);
    \<^item> \<open>merge_agent_contexts\<close> refines last-wins map merging;
  \<^item> Setup dialogue (C14, C38): run on a fresh module it writes the \<open>.env\<close> file only when it
    returns \<open>True\<close>, which needs a Groq-format key, so a SambaNova key typed in is never
    saved; the model chosen in it never reaches the file.
  \<^item> Workshop configuration (C35--C37, C39, C40):
    \<^item> no loaded configuration ever validates, because \<open>SAMBA_API_KEY\<close> is never loaded;
    \<^item> the constructor never raises and yields the promised types (C35);
    \<^item> a missing \<open>GROQ_API_KEY\<close> discards every environment override;
    \<^item> the \<open>.env\<close> save/load round trip;
    \<^item> the client \<open>create_rate_limited_llm\<close> builds from the agent configuration is
      passed no API key: it raises \<open>OpenAIError\<close> without \<open>OPENAI_API_KEY\<close>, and
      otherwise sends that key, never the SambaNova key, to the SambaNova endpoint (C36).

  \<^bold>\<open>Bounds and fuel.\<close>
  \<^item> The retry loop recurses on \<open>max_retries + 1\<close> and needs no fuel.
  \<^item> Delays overflow only from attempt 1024 on, or for reset timestamps beyond the double
    range; both are proved as error behaviour (C12, C17). The theorems on successful and
    exhausted runs (C4, C5) therefore assume at most 1024 retries.
  \<^item> \<open>int(str)\<close> is bounded by CPython's 4300 digits.
  \<^item> The helpers' loops are folds over finite lists and need no fuel.
  \<^item> The development imports \<open>Code_Target_Numeral\<close>, so that \<open>code_simp\<close> evaluates the
    decimal arithmetic of \<open>repr\<close> and \<open>float\<close> on machine integers.
  \<^item> The progress indicator is proved for \<open>0 < total \<le> 2^44\<close>: the two roundings of the
    percentage err by at most \<open>300 * 2^-53\<close>, which stays below the gap \<open>1 / total\<close> between
    the exact ratio and the next integer only for such totals.
  \<^item> Graph runs use LangGraph's default recursion limit of 25 super-steps. Every workflow of the
    repository finishes within 3, proved for any fuel of at least 3. The ranking gives the
    same bound for every state and service behaviour.

  \<^bold>\<open>Not modelled.\<close>
  \<^item> Console output (\<open>print\<close>, \<open>logging\<close> formats). The exceptions are the answers the
    demos print and the hint lines of their handlers.
  \<^item> CrewAI's scheduling inside \<open>kickoff\<close> (\<open>memory\<close>, \<open>cache\<close> and the \<open>max_rpm\<close> pacing
    are options of the crew handed to the oracle). The spec calls it opaque.
  \<^item> \<open>load_dotenv\<close>'s reading of the \<open>.env\<close> file into the environment. The file format
    \<open>save_to_env_file\<close> reads and writes is modelled.
  \<^item> Float rounding outside \<open>Binary64\<close>: the rate limiter's reals are exact, and
    \<open>float(str)\<close> keeps the exact decimal. Infinities and NaN are values of \<open>py_float\<close>. A float's \<open>repr\<close> is modelled
    only for at most 15 significant digits; any other repr is the value \<open>None\<close>.
  \<^item> Characters above code point 255 (the progress bar's glyphs are parameters).
  \<^item> The external libraries beyond the behaviour stated in \<open>Graph\<close> and \<open>ChatModel\<close>.
  \<^item> In the Streamlit GUI: the text of the canned answers and the Gujarati-script dish
    keywords and the animation's status lines (above code point 255), the CSS and the static
    widget layout.
\<close>


section \<open>Properties across the workflows\<close>

text \<open>C22. Termination: every graph the session-3 scripts compile finishes before LangGraph's
  recursion limit, whatever the LLM answers or raises and whatever the starting state. The
  three pipelines run at most three nodes and the routing graph at most two. The proof is
  by a ranking of the nodes that every edge of each graph decreases.\<close>

theorem workflows_terminate:
  "fst (graph_invoke (create_simple_workflow cfg kickoff) s1) \<noteq> Inl Recursion_limit_reached
     \<and> length (snd (graph_invoke (create_simple_workflow cfg kickoff) s1)) \<le> 3
   \<and> fst (graph_invoke (lc_create_simple_workflow llm1) s2) \<noteq> Inl Recursion_limit_reached
     \<and> length (snd (graph_invoke (lc_create_simple_workflow llm1) s2)) \<le> 3
   \<and> fst (graph_invoke (create_langgraph_workflow llm2) s3) \<noteq> Inl Recursion_limit_reached
     \<and> length (snd (graph_invoke (create_langgraph_workflow llm2) s3)) \<le> 3
   \<and> fst (graph_invoke (routing_workflow llm3) s4) \<noteq> Inl Recursion_limit_reached
     \<and> length (snd (graph_invoke (routing_workflow llm3) s4)) \<le> 2"
proof -
  let ?r3 = "\<lambda>n. if n = ''research'' then 2 else if n = ''draft'' \<or> n = ''analyze'' then 1 else (0::nat)"
  let ?r2 = "\<lambda>n. if n = ''classifier'' then 1 else (0::nat)"
  have "rank_decreasing (create_simple_workflow cfg kickoff) ?r3"
    by (simp add: rank_decreasing_def create_simple_workflow_def)
  from graph_invoke_ranked [OF this, of s1] have 1:
    "fst (graph_invoke (create_simple_workflow cfg kickoff) s1) \<noteq> Inl Recursion_limit_reached
     \<and> length (snd (graph_invoke (create_simple_workflow cfg kickoff) s1)) \<le> 3"
    by (simp add: recursion_limit_def, simp add: create_simple_workflow_def)
  have "rank_decreasing (lc_create_simple_workflow llm1) ?r3"
    by (simp add: rank_decreasing_def lc_create_simple_workflow_def)
  from graph_invoke_ranked [OF this, of s2] have 2:
    "fst (graph_invoke (lc_create_simple_workflow llm1) s2) \<noteq> Inl Recursion_limit_reached
     \<and> length (snd (graph_invoke (lc_create_simple_workflow llm1) s2)) \<le> 3"
    by (simp add: recursion_limit_def, simp add: lc_create_simple_workflow_def)
  have "rank_decreasing (create_langgraph_workflow llm2) ?r3"
    by (simp add: rank_decreasing_def create_langgraph_workflow_def)
  from graph_invoke_ranked [OF this, of s3] have 3:
    "fst (graph_invoke (create_langgraph_workflow llm2) s3) \<noteq> Inl Recursion_limit_reached
     \<and> length (snd (graph_invoke (create_langgraph_workflow llm2) s3)) \<le> 3"
    by (simp add: recursion_limit_def, simp add: create_langgraph_workflow_def)
  have "rank_decreasing (routing_workflow llm3) ?r2"
    by (simp add: rank_decreasing_def routing_workflow_def)
  from graph_invoke_ranked [OF this, of s4] have 4:
    "fst (graph_invoke (routing_workflow llm3) s4) \<noteq> Inl Recursion_limit_reached
     \<and> length (snd (graph_invoke (routing_workflow llm3) s4)) \<le> 2"
    by (simp add: recursion_limit_def, simp add: routing_workflow_def)
  from 1 2 3 4 show ?thesis by blast
qed

end
